(* ===== verification/Prelude.thy ===== *)
theory Prelude
  imports Complex_Main "HOL-Library.AList" "HOL-Library.Char_ord" "HOL-Library.List_Lexorder"
    "HOL-Library.Sublist" "HOL-Library.Multiset" "HOL-Library.Code_Target_Nat"
begin

text \<open>
  The part of Python the components share: exceptions as values, floats with their non-finite
  values, strings and their methods, dictionaries as insertion-ordered association lists.

  A Python string is a \<^typ>\<open>string\<close>, one \<^typ>\<open>char\<close> per code point; the model covers the
  code points below 256, and the character classes (white space, case) are Python's on that range.
  Floats are exact: a finite float is a rational number, rounding is not modelled.
\<close>

named_theorems py_simps \<open>unfolding rules for the Python primitives\<close>
named_theorems py_string \<open>facts about the Python string methods\<close>

section \<open>Exceptions\<close>

text \<open>
  The exception classes of the modelled sources.  A result is \<open>Inl\<close> the raised exception or
  \<open>Inr\<close> the returned value.
\<close>

datatype exn_class =
    ValueError | TypeErrorC | KeyErrorC | OverflowErrorC | AttributeErrorC | PermissionErrorC | RuntimeErrorC | NotImplementedErrorC
  | BeliefValidationError | ColumnCapabilityError | AssemblyDefinitionAdmissionError
  | CommitmentValidationError | ColumnRuntimeGateError
  | PolicyEngineConfigError | GrantError | GrantKeyError | LoopBusy | UnsafePath
  | ComputerUseCancelled | DesktopUnavailable

datatype pyexn = Exn (exn_cls: exn_class) (exn_msg: string)

type_synonym 'a res = "pyexn + 'a"

definition raise :: "exn_class \<Rightarrow> string \<Rightarrow> 'a res" where
  "raise c m = Inl (Exn c m)"

definition bindE :: "'a res \<Rightarrow> ('a \<Rightarrow> 'b res) \<Rightarrow> 'b res" where
  "bindE m f = (case m of Inl e \<Rightarrow> Inl e | Inr x \<Rightarrow> f x)"

definition guardE :: "bool \<Rightarrow> exn_class \<Rightarrow> string \<Rightarrow> 'a res \<Rightarrow> 'a res" where
  \<comment> \<open>\<open>if not b: raise c(m)\<close>, then the rest of the block\<close>
  "guardE b c m k = (if b then k else raise c m)"

text \<open>Evaluation inlines both, so that a branch not taken is not evaluated.\<close>

declare bindE_def [code_unfold] guardE_def [code_unfold]

lemma bindE_simps [simp]:
  "bindE (Inl e) f = Inl e"
  "bindE (Inr x) f = f x"
  by (simp_all add: bindE_def)

lemma raise_bind [simp]: "bindE (raise c m) f = raise c m"
  by (simp add: raise_def)

lemma raise_not_Inr [simp]: "raise c m \<noteq> Inr x" "Inr x \<noteq> raise c m"
  by (simp_all add: raise_def)

lemma raise_eq_iff [simp]: "raise c m = raise c' m' \<longleftrightarrow> c = c' \<and> m = m'"
  by (simp add: raise_def)

lemma raise_eq_Inl_iff [simp]: "raise c m = Inl e \<longleftrightarrow> e = Exn c m"
  by (auto simp: raise_def)

lemma bindE_eq_Inr_iff: "bindE m f = Inr y \<longleftrightarrow> (\<exists>x. m = Inr x \<and> f x = Inr y)"
  by (cases m) auto

lemma bindE_eq_Inl_iff:
  "bindE m f = Inl e \<longleftrightarrow> m = Inl e \<or> (\<exists>x. m = Inr x \<and> f x = Inl e)"
  by (cases m) auto

lemma guardE_True [simp]: "guardE True c m k = k"
  by (simp add: guardE_def)

lemma guardE_False [simp]: "guardE False c m k = raise c m"
  by (simp add: guardE_def)

lemma guardE_eq_Inr_iff: "guardE b c m k = Inr y \<longleftrightarrow> b \<and> k = Inr y"
  by (auto simp: guardE_def)

lemma guardE_eq_Inl_iff:
  "guardE b c m k = Inl e \<longleftrightarrow> (\<not> b \<and> e = Exn c m) \<or> (b \<and> k = Inl e)"
  by (auto simp: guardE_def)

lemmas resE = bindE_eq_Inr_iff guardE_eq_Inr_iff

text \<open>A loop over a list that stops at the first exception.\<close>

fun mapE :: "('a \<Rightarrow> 'b res) \<Rightarrow> 'a list \<Rightarrow> 'b list res" where
  "mapE f [] = Inr []"
| "mapE f (x # xs) = bindE (f x) (\<lambda>y. bindE (mapE f xs) (\<lambda>ys. Inr (y # ys)))"

fun foldE :: "('s \<Rightarrow> 'a \<Rightarrow> 's res) \<Rightarrow> 's \<Rightarrow> 'a list \<Rightarrow> 's res" where
  "foldE f s [] = Inr s"
| "foldE f s (x # xs) = bindE (f s x) (\<lambda>s'. foldE f s' xs)"

lemma mapE_Inr_length: "mapE f xs = Inr ys \<Longrightarrow> length ys = length xs"
  by (induction xs arbitrary: ys) (auto simp: bindE_eq_Inr_iff)

lemma mapE_Inr_set: "mapE f xs = Inr ys \<Longrightarrow> set ys = {y. \<exists>x \<in> set xs. f x = Inr y}"
  by (induction xs arbitrary: ys) (auto simp: bindE_eq_Inr_iff)

lemma mapE_Inr_member: "mapE f xs = Inr ys \<Longrightarrow> x \<in> set xs \<Longrightarrow> \<exists>y \<in> set ys. f x = Inr y"
  by (induction xs arbitrary: ys) (auto simp: bindE_eq_Inr_iff)

lemma mapE_Inr_iff:
  "mapE f xs = Inr ys \<longleftrightarrow> list_all2 (\<lambda>x y. f x = Inr y) xs ys"
  by (induction xs arbitrary: ys) (auto simp: bindE_eq_Inr_iff list_all2_Cons1)

lemma mapE_total: "(\<And>x. x \<in> set xs \<Longrightarrow> f x = Inr (g x)) \<Longrightarrow> mapE f xs = Inr (map g xs)"
  by (induction xs) auto

text \<open>An invariant of the loop body is an invariant of the loop.\<close>

lemma foldE_invariant:
  assumes "foldE f s xs = Inr s'" and "P s"
    and "\<And>s x s'. x \<in> set xs \<Longrightarrow> P s \<Longrightarrow> f s x = Inr s' \<Longrightarrow> P s'"
  shows "P s'"
  using assms by (induction xs arbitrary: s) (auto simp: bindE_eq_Inr_iff)

section \<open>Floats\<close>

datatype pyfloat = Fin rat | PosInf | NegInf | NaN

fun float_lt :: "pyfloat \<Rightarrow> pyfloat \<Rightarrow> bool" where
  "float_lt (Fin a) (Fin b) = (a < b)"
| "float_lt (Fin a) PosInf = True"
| "float_lt NegInf (Fin b) = True"
| "float_lt NegInf PosInf = True"
| "float_lt _ _ = False"

fun float_le :: "pyfloat \<Rightarrow> pyfloat \<Rightarrow> bool" where
  "float_le NaN _ = False"
| "float_le _ NaN = False"
| "float_le (Fin a) (Fin b) = (a \<le> b)"
| "float_le NegInf _ = True"
| "float_le _ PosInf = True"
| "float_le _ _ = False"

abbreviation float_ge :: "pyfloat \<Rightarrow> pyfloat \<Rightarrow> bool" where
  "float_ge a b \<equiv> float_le b a"

fun isfinite :: "pyfloat \<Rightarrow> bool" where
  "isfinite (Fin _) = True"
| "isfinite _ = False"

lemma isfinite_iff: "isfinite x \<longleftrightarrow> (\<exists>r. x = Fin r)"
  by (cases x) auto

section \<open>Strings\<close>

abbreviation ord_of :: "char \<Rightarrow> nat" where
  "ord_of c \<equiv> of_char c"

definition py_isspace :: "char \<Rightarrow> bool" where
  "py_isspace c = (let n = ord_of c in
     (9 \<le> n \<and> n \<le> 13) \<or> (28 \<le> n \<and> n \<le> 32) \<or> n = 133 \<or> n = 160)"

definition py_lower_char :: "char \<Rightarrow> char" where
  "py_lower_char c = (let n = ord_of c in
     if (65 \<le> n \<and> n \<le> 90) \<or> (192 \<le> n \<and> n \<le> 222 \<and> n \<noteq> 215) then char_of (n + 32) else c)"

definition py_lower :: "string \<Rightarrow> string" where
  "py_lower s = map py_lower_char s"

text \<open>
  ASCII upper-casing, used only on HTTP method names.
\<close>

definition py_upper_char :: "char \<Rightarrow> char" where
  "py_upper_char c = (let n = ord_of c in if 97 \<le> n \<and> n \<le> 122 then char_of (n - 32) else c)"

definition py_upper :: "string \<Rightarrow> string" where
  "py_upper s = map py_upper_char s"

definition lstrip :: "(char \<Rightarrow> bool) \<Rightarrow> string \<Rightarrow> string" where
  "lstrip p s = dropWhile p s"

definition rstrip :: "(char \<Rightarrow> bool) \<Rightarrow> string \<Rightarrow> string" where
  "rstrip p s = rev (dropWhile p (rev s))"

definition py_strip :: "string \<Rightarrow> string" where
  "py_strip s = rstrip py_isspace (lstrip py_isspace s)"

text \<open>\<open>s.split(sep)\<close> for a one-character separator: always at least one piece.\<close>

fun py_split :: "char \<Rightarrow> string \<Rightarrow> string list" where
  "py_split sep [] = [[]]"
| "py_split sep (c # s) =
     (if c = sep then [] # py_split sep s
      else (case py_split sep s of [] \<Rightarrow> [[c]] | p # ps \<Rightarrow> (c # p) # ps))"

text \<open>Maximal runs of characters outside \<open>p\<close>: \<open>s.split()\<close> for white space.\<close>

fun split_runs :: "(char \<Rightarrow> bool) \<Rightarrow> string \<Rightarrow> string \<Rightarrow> string list" where
  "split_runs p acc [] = (if acc = [] then [] else [rev acc])"
| "split_runs p acc (c # s) =
     (if p c then (if acc = [] then split_runs p [] s else rev acc # split_runs p [] s)
      else split_runs p (c # acc) s)"

definition py_words :: "string \<Rightarrow> string list" where
  "py_words s = split_runs py_isspace [] s"

fun py_contains :: "string \<Rightarrow> string \<Rightarrow> bool" where
  "py_contains needle [] = (needle = [])"
| "py_contains needle (c # s) = (prefix needle (c # s) \<or> py_contains needle s)"

abbreviation startswith :: "string \<Rightarrow> string \<Rightarrow> bool" where
  "startswith s p \<equiv> prefix p s"

abbreviation endswith :: "string \<Rightarrow> string \<Rightarrow> bool" where
  "endswith s p \<equiv> suffix p s"

fun py_join :: "string \<Rightarrow> string list \<Rightarrow> string" where
  "py_join sep [] = []"
| "py_join sep [x] = x"
| "py_join sep (x # xs) = x @ sep @ py_join sep xs"

definition py_replace_char :: "char \<Rightarrow> char \<Rightarrow> string \<Rightarrow> string" where
  "py_replace_char a b s = map (\<lambda>c. if c = a then b else c) s"

text \<open>Decimal rendering of a natural number, \<open>str(n)\<close>.\<close>

fun nat_digits :: "nat \<Rightarrow> string" where
  "nat_digits n = (if n < 10 then [char_of (48 + n)]
     else nat_digits (n div 10) @ [char_of (48 + n mod 10)])"

declare nat_digits.simps [simp del]

definition py_str_int :: "int \<Rightarrow> string" where
  "py_str_int i = (if i < 0 then CHR ''-'' # nat_digits (nat (- i)) else nat_digits (nat i))"

section \<open>Ordered dictionaries and unique lists\<close>

text \<open>
  A dictionary is an association list in insertion order.  \<^const>\<open>AList.update\<close> keeps the place
  of a present key and appends a new one, as a Python dictionary does; \<^const>\<open>map_of\<close> is \<open>get\<close>,
  \<^const>\<open>AList.delete\<close> is \<open>pop\<close>.
\<close>

type_synonym ('k, 'v) dict = "('k \<times> 'v) list"

definition dict_get :: "('k, 'v) dict \<Rightarrow> 'k \<Rightarrow> 'v \<Rightarrow> 'v" where
  "dict_get d k dflt = (case map_of d k of None \<Rightarrow> dflt | Some v \<Rightarrow> v)"

definition append_unique :: "'a list \<Rightarrow> 'a \<Rightarrow> 'a list" where
  "append_unique xs x = (if x \<in> set xs then xs else xs @ [x])"

definition dict_fromkeys :: "'a list \<Rightarrow> 'a list" where
  \<comment> \<open>\<open>list(dict.fromkeys(xs))\<close>: first occurrences, in order\<close>
  "dict_fromkeys xs = foldl append_unique [] xs"

definition sorted_set :: "string list \<Rightarrow> string list" where
  \<comment> \<open>\<open>sorted({...})\<close>\<close>
  "sorted_set xs = sort (remdups xs)"

section \<open>Shared facts\<close>

lemma set_append_unique [simp]: "set (append_unique xs x) = insert x (set xs)"
  by (auto simp: append_unique_def)

lemma distinct_append_unique [simp]: "distinct (append_unique xs x) = distinct xs"
  by (auto simp: append_unique_def)

lemma prefix_append_unique [simp]: "prefix xs (append_unique xs x)"
  by (simp add: append_unique_def)

lemma append_unique_not_Nil [simp]: "append_unique xs x \<noteq> []"
  by (auto simp: append_unique_def)

lemma set_foldl_append_unique: "set (foldl append_unique acc xs) = set acc \<union> set xs"
  by (induction xs arbitrary: acc) auto

lemma distinct_foldl_append_unique: "distinct (foldl append_unique acc xs) = distinct acc"
  by (induction xs arbitrary: acc) auto

lemma prefix_foldl_append_unique: "prefix acc (foldl append_unique acc xs)"
proof (induction xs arbitrary: acc)
  case Nil
  then show ?case by simp
next
  case (Cons x xs)
  have "prefix acc (append_unique acc x)" by simp
  also have "prefix \<dots> (foldl append_unique (append_unique acc x) xs)" by (rule Cons.IH)
  finally show ?case by simp
qed

lemma set_dict_fromkeys [simp]: "set (dict_fromkeys xs) = set xs"
  by (simp add: dict_fromkeys_def set_foldl_append_unique)

lemma distinct_dict_fromkeys [simp]: "distinct (dict_fromkeys xs)"
  by (simp add: dict_fromkeys_def distinct_foldl_append_unique)

lemma dict_fromkeys_Nil_iff [simp]: "dict_fromkeys xs = [] \<longleftrightarrow> xs = []"
  using set_dict_fromkeys [of xs] by (metis set_empty)

lemma set_sorted_set [simp]: "set (sorted_set xs) = set xs"
  by (simp add: sorted_set_def)

lemma sorted_sorted_set [simp]: "sorted (sorted_set xs)"
  by (simp add: sorted_set_def)

lemma distinct_sorted_set [simp]: "distinct (sorted_set xs)"
  by (simp add: sorted_set_def)

lemma sorted_set_Nil_iff [simp]: "sorted_set xs = [] \<longleftrightarrow> xs = []"
  using set_sorted_set [of xs] by (metis set_empty)

text \<open>Two lists with the same elements have the same sorted set: order and copies do not matter.\<close>

lemma sorted_set_cong: "set xs = set ys \<Longrightarrow> sorted_set xs = sorted_set ys"
  by (intro sorted_distinct_set_unique) auto

text \<open>Stripping.\<close>

lemma dropWhile_idem [simp]: "dropWhile p (dropWhile p s) = dropWhile p s"
  by (induction s) auto

lemma rstrip_idem [simp]: "rstrip p (rstrip p s) = rstrip p s"
  by (simp add: rstrip_def)

lemma hd_dropWhile_strip:
  "dropWhile p s = s \<Longrightarrow> dropWhile p (rstrip p s) = rstrip p s"
proof (cases s)
  case (Cons c t)
  moreover assume *: "dropWhile p s = s"
  ultimately have np: "\<not> p c"
    by (metis append_self_conv dropWhile.simps(2) list.distinct(1) list.inject
        self_append_conv2 takeWhile_dropWhile_id takeWhile_eq_Nil_iff list.sel(1))
  have "rev s = rev t @ [c]" using Cons by simp
  then have "rstrip p s = rev (dropWhile p (rev t @ [c]))"
    by (simp add: rstrip_def)
  also have "\<exists>u. \<dots> = c # u"
    using np by (auto simp: dropWhile_append intro: exI [of _ "rev (dropWhile p (rev t))"])
  finally obtain u where "rstrip p s = c # u" by blast
  then show ?thesis using np by simp
qed (simp add: rstrip_def)

lemma py_strip_idem [simp]: "py_strip (py_strip s) = py_strip s"
  by (simp add: py_strip_def lstrip_def hd_dropWhile_strip)

lemma py_strip_Nil [simp]: "py_strip [] = []"
  by (simp add: py_strip_def lstrip_def rstrip_def)

lemma length_lower [simp]: "length (py_lower s) = length s"
  by (simp add: py_lower_def)

lemma py_split_not_Nil [simp]: "py_split sep s \<noteq> []"
  by (induction s) (auto split: list.splits)

lemma py_join_split: "py_join [sep] (py_split sep s) = s"
proof (induction s)
  case Nil
  then show ?case by simp
next
  case (Cons c s)
  obtain p ps where eq: "py_split sep s = p # ps"
    by (cases "py_split sep s") auto
  with Cons show ?case by (cases ps) auto
qed

lemma py_split_no_sep: "p \<in> set (py_split sep s) \<Longrightarrow> sep \<notin> set p"
  by (induction s arbitrary: p) (auto split: list.splits if_splits)

lemma py_contains_iff: "py_contains needle s \<longleftrightarrow> (\<exists>u v. s = u @ needle @ v)"
proof (induction s)
  case Nil
  then show ?case by simp
next
  case (Cons c s)
  show ?case
  proof
    assume "py_contains needle (c # s)"
    then consider "prefix needle (c # s)" | "py_contains needle s" by auto
    then show "\<exists>u v. c # s = u @ needle @ v"
    proof cases
      case 1
      then show ?thesis by (metis append_Nil prefixE)
    next
      case 2
      with Cons show ?thesis by (metis append_Cons)
    qed
  next
    assume "\<exists>u v. c # s = u @ needle @ v"
    then obtain u v where eq: "c # s = u @ needle @ v" by blast
    show "py_contains needle (c # s)"
    proof (cases u)
      case Nil
      with eq have "prefix needle (c # s)" by (simp add: prefix_def)
      then show ?thesis by simp
    next
      case (Cons d w)
      with eq have "s = w @ needle @ v" by simp
      with Cons.IH show ?thesis by auto
    qed
  qed
qed

lemma those_Some_map: "those ts = Some us \<Longrightarrow> ts = map Some us"
  by (induction ts arbitrary: us) (auto split: option.splits)

lemma those_Some_set: "those ts = Some us \<Longrightarrow> Some ` set us = set ts"
  by (drule those_Some_map) simp

lemma dropWhile_none: "list_all (\<lambda>c. \<not> P c) s \<Longrightarrow> dropWhile P s = s"
  by (cases s) auto

lemma py_strip_no_space:
  "list_all (\<lambda>c. \<not> py_isspace c) s \<Longrightarrow> py_strip s = s"
  by (simp add: py_strip_def lstrip_def rstrip_def dropWhile_none)

lemma py_split_plain: "sep \<notin> set x \<Longrightarrow> py_split sep x = [x]"
  by (induction x) auto

lemma py_split_append: "sep \<notin> set x \<Longrightarrow> py_split sep (x @ sep # s) = x # py_split sep s"
  by (induction x) auto

lemma py_split_join:
  "\<forall>x \<in> set xs. sep \<notin> set x \<Longrightarrow> xs \<noteq> [] \<Longrightarrow> py_split sep (py_join [sep] xs) = xs"
  by (induction xs rule: induct_list012) (simp_all add: py_split_plain py_split_append)

lemma py_join_inj:
  assumes eq: "py_join [sep] xs = py_join [sep] ys"
    and ok: "\<forall>x \<in> set xs \<union> set ys. sep \<notin> set x \<and> x \<noteq> []"
  shows "xs = ys"
proof (cases "xs = [] \<or> ys = []")
  case True
  have "py_join [sep] zs \<noteq> []" if "zs \<noteq> []" "\<forall>z \<in> set zs. z \<noteq> []" for zs
    using that by (induction zs rule: induct_list012) simp_all
  with True eq ok show ?thesis by (metis UnCI py_join.simps(1))
next
  case False
  then have ne: "xs \<noteq> []" "ys \<noteq> []" by simp_all
  from ok have no: "\<forall>x \<in> set xs. sep \<notin> set x" "\<forall>x \<in> set ys. sep \<notin> set x" by blast+
  have "xs = py_split sep (py_join [sep] xs)" by (rule py_split_join [OF no(1) ne(1), symmetric])
  also have "\<dots> = py_split sep (py_join [sep] ys)" by (simp only: eq)
  also have "\<dots> = ys" by (rule py_split_join [OF no(2) ne(2)])
  finally show ?thesis .
qed

lemma sort_eq_iff_mset: "sort xs = sort ys \<longleftrightarrow> mset xs = mset ys"
proof
  assume "sort xs = sort ys"
  then have "mset (sort xs) = mset (sort ys)" by simp
  then show "mset xs = mset ys" by simp
next
  assume "mset xs = mset ys"
  then show "sort xs = sort ys" by (intro properties_for_sort) simp_all
qed

lemma py_join_nonempty_inj:
  "py_join [sep] xs = py_join [sep] ys \<longleftrightarrow> xs = ys"
  if "\<forall>x \<in> set xs \<union> set ys. sep \<notin> set x \<and> x \<noteq> []"
  using py_join_inj [OF _ that] by blast

lemma set_update_subset: "set (AList.update k v d) \<subseteq> insert (k, v) (set d)"
  by (induction d) auto

lemma set_delete_subset: "set (AList.delete k d) \<subseteq> set d"
  by (auto simp: AList.delete_eq)

lemma dict_get_update [simp]:
  "dict_get (AList.update k v d) k' x = (if k' = k then v else dict_get d k' x)"
  by (simp add: dict_get_def update_conv')

lemma ord_lower: "ord_of (py_lower_char c) = (if (65 \<le> ord_of c \<and> ord_of c \<le> 90) \<or>
    (192 \<le> ord_of c \<and> ord_of c \<le> 222 \<and> ord_of c \<noteq> 215) then ord_of c + 32 else (ord_of c :: nat))"
  by (auto simp: py_lower_char_def Let_def of_char_of take_bit_eq_mod)

lemma lower_char_eq: "py_lower_char c = CHR ''/'' \<longleftrightarrow> c = CHR ''/''" "py_lower_char c = CHR ''.'' \<longleftrightarrow> c = CHR ''.''"
proof -
  have eq: "x = y \<longleftrightarrow> ord_of x = (ord_of y :: nat)" for x y by simp
  show "py_lower_char c = CHR ''/'' \<longleftrightarrow> c = CHR ''/''" "py_lower_char c = CHR ''.'' \<longleftrightarrow> c = CHR ''.''"
    unfolding eq ord_lower by auto
qed

lemma py_lower_append: "py_lower (s @ t) = py_lower s @ py_lower t"
  by (simp add: py_lower_def)

lemma py_lower_join: "py_lower (py_join ''/'' xs) = py_join ''/'' (map py_lower xs)"
proof (induction xs rule: induct_list012)
  case (3 x y ys)
  have "py_lower (CHR ''/'' # s) = CHR ''/'' # py_lower s" for s by (simp add: py_lower_def lower_char_eq)
  then show ?case using 3 by (simp add: py_lower_append)
qed (simp_all add: py_lower_def)

lemma py_lower_idem: "py_lower (py_lower s) = py_lower s"
proof -
  have "ord_of (py_lower_char (py_lower_char c)) = (ord_of (py_lower_char c) :: nat)" for c
    unfolding ord_lower by auto
  then have "py_lower_char (py_lower_char c) = py_lower_char c" for c by (metis of_char_eq_iff)
  then show ?thesis by (simp add: py_lower_def)
qed

lemma split_runs_not_Nil: "acc \<noteq> [] \<or> (\<exists>c \<in> set s. \<not> p c) \<Longrightarrow> split_runs p acc s \<noteq> []"
  by (induction p acc s rule: split_runs.induct) auto

lemma py_strip_nonspace: "py_strip line \<noteq> [] \<Longrightarrow> \<exists>c \<in> set (py_strip line). \<not> py_isspace c"
proof -
  let ?s = "lstrip py_isspace line"
  assume "py_strip line \<noteq> []"
  then have "dropWhile py_isspace (rev ?s) \<noteq> []" by (simp add: py_strip_def rstrip_def)
  then have "\<not> py_isspace (hd (dropWhile py_isspace (rev ?s)))" by (rule hd_dropWhile)
  moreover have "hd (dropWhile py_isspace (rev ?s)) \<in> set (py_strip line)"
    using \<open>dropWhile py_isspace (rev ?s) \<noteq> []\<close> by (simp add: py_strip_def rstrip_def)
  ultimately show ?thesis by blast
qed

lemma py_words_nonempty: "w \<in> set (py_words line) \<Longrightarrow> w \<noteq> []"
proof -
  have "w \<in> set (split_runs p acc s) \<Longrightarrow> w \<noteq> []" for p acc s
    by (induction p acc s rule: split_runs.induct) (auto split: if_splits)
  then show "w \<in> set (py_words line) \<Longrightarrow> w \<noteq> []" by (auto simp: py_words_def)
qed

lemma concat_map_Nil: "concat (map f xs) = [] \<longleftrightarrow> (\<forall>x \<in> set xs. f x = [])"
  by auto

lemma guard_Nil: "(if b then [x] else []) = [] \<longleftrightarrow> \<not> b"
  by simp

lemma guard_Nil2: "(if a then [x] else if b then [y] else []) = [] \<longleftrightarrow> \<not> a \<and> \<not> b"
  by simp

end
