(* ===== verification/Json.thy ===== *)
theory Json
  imports Prelude
begin

text \<open>
  The JSON-shaped values the sources pass around as \<open>Any\<close>, and \<open>json.dumps\<close> on them with
  \<open>sort_keys=True, allow_nan=False\<close> and the default \<open>ensure_ascii=True\<close>.

  A number is kept as the text that \<open>json.dumps\<close> prints for it; \<open>JNonFinite\<close> is a NaN or an
  infinity (\<open>ValueError\<close> when dumped) and \<open>JOpaque\<close> an object that is not serialisable
  (\<open>TypeError\<close>).  Dictionary keys are strings, as in every dictionary the sources dump.
\<close>

datatype jval =
    JNull | JBool bool | JNum string | JNonFinite | JStr string
  | JList "jval list" | JDict "(string \<times> jval) list" | JOpaque

fun is_jdict :: "jval \<Rightarrow> bool" where
  "is_jdict (JDict _) = True"
| "is_jdict _ = False"

fun jget :: "jval \<Rightarrow> string \<Rightarrow> jval" where
  \<comment> \<open>\<open>d.get(k)\<close>, \<open>None\<close> when absent\<close>
  "jget (JDict kvs) k = (case map_of kvs k of None \<Rightarrow> JNull | Some v \<Rightarrow> v)"
| "jget _ k = JNull"

definition hex_digit :: "nat \<Rightarrow> char" where
  "hex_digit n = (if n < 10 then char_of (48 + n) else char_of (87 + n))"

definition json_escape_char :: "char \<Rightarrow> string" where
  "json_escape_char c = (let n = ord_of c in
     if n = 34 then [CHR 0x5C, CHR 0x22]
     else if n = 92 then [CHR 0x5C, CHR 0x5C]
     else if n = 10 then [CHR 0x5C, CHR ''n'']
     else if n = 13 then [CHR 0x5C, CHR ''r'']
     else if n = 9 then [CHR 0x5C, CHR ''t'']
     else if n = 12 then [CHR 0x5C, CHR ''f'']
     else if n = 8 then [CHR 0x5C, CHR ''b'']
     else if 32 \<le> n \<and> n \<le> 126 then [c]
     else [CHR 0x5C, CHR ''u'', CHR ''0'', CHR ''0'', hex_digit (n div 16), hex_digit (n mod 16)])"

definition json_string :: "string \<Rightarrow> string" where
  "json_string s = CHR 0x22 # concat (map json_escape_char s) @ [CHR 0x22]"

text \<open>\<open>None\<close> is the \<open>TypeError\<close> or \<open>ValueError\<close> of the encoder.\<close>

fun json_dumps :: "string \<Rightarrow> string \<Rightarrow> jval \<Rightarrow> string option" where
  "json_dumps isep ksep JNull = Some ''null''"
| "json_dumps isep ksep (JBool b) = Some (if b then ''true'' else ''false'')"
| "json_dumps isep ksep (JNum t) = Some t"
| "json_dumps isep ksep JNonFinite = None"
| "json_dumps isep ksep (JStr s) = Some (json_string s)"
| "json_dumps isep ksep (JList xs) =
     (case those (map (json_dumps isep ksep) xs) of
        None \<Rightarrow> None
      | Some ts \<Rightarrow> Some (CHR ''['' # py_join isep ts @ '']''))"
| "json_dumps isep ksep (JDict kvs) =
     (case those (map (\<lambda>(k, t). map_option (\<lambda>t. json_string k @ ksep @ t) t)
              (sort_key fst (map (\<lambda>(k, v). (k, json_dumps isep ksep v)) kvs))) of
        None \<Rightarrow> None
      | Some ts \<Rightarrow> Some (CHR ''{'' # py_join isep ts @ ''}''))"
| "json_dumps isep ksep JOpaque = None"

text \<open>\<open>json.dumps(v, allow_nan=False)\<close> with the default separators and the keys in their order.\<close>

fun json_text :: "jval \<Rightarrow> string option" where
  "json_text JNull = Some ''null''"
| "json_text (JBool b) = Some (if b then ''true'' else ''false'')"
| "json_text (JNum t) = Some t"
| "json_text JNonFinite = None"
| "json_text (JStr s) = Some (json_string s)"
| "json_text (JList xs) =
     map_option (\<lambda>ts. CHR ''['' # py_join '', '' ts @ '']'') (those (map json_text xs))"
| "json_text (JDict kvs) =
     map_option (\<lambda>ts. CHR ''{'' # py_join '', '' ts @ ''}'')
       (those (map (\<lambda>(k, v). map_option (\<lambda>t. json_string k @ '': '' @ t) (json_text v)) kvs))"
| "json_text JOpaque = None"

text \<open>Every printed character is printable ASCII, so the UTF-8 size is the number of characters.\<close>

fun num_texts_ascii :: "jval \<Rightarrow> bool" where
  "num_texts_ascii (JNum t) = (\<forall>c \<in> set t. ord_of c < (128::nat))"
| "num_texts_ascii (JList xs) = (\<forall>x \<in> set xs. num_texts_ascii x)"
| "num_texts_ascii (JDict kvs) = (\<forall>kv \<in> set kvs. num_texts_ascii (snd kv))"
| "num_texts_ascii _ = True"

lemma ord_char_of_small [simp]: "n < 256 \<Longrightarrow> ord_of (char_of (n::nat)) = n"
  by (simp add: of_char_of)

lemma hex_digit_ascii: "n < 16 \<Longrightarrow> ord_of (hex_digit n) < (128::nat)"
  by (simp add: hex_digit_def)

lemma json_escape_char_ascii: "d \<in> set (json_escape_char c) \<Longrightarrow> ord_of d < (128::nat)"
proof -
  assume d: "d \<in> set (json_escape_char c)"
  have n: "ord_of c < (256::nat)" by simp
  then have "ord_of c div 16 < (16::nat)" by (simp add: less_mult_imp_div_less)
  then show ?thesis using d n
    by (auto simp: json_escape_char_def Let_def hex_digit_ascii split: if_splits)
qed

lemma json_string_ascii: "d \<in> set (json_string s) \<Longrightarrow> ord_of d < (128::nat)"
  by (auto simp: json_string_def json_escape_char_ascii)

lemma set_py_join: "set (py_join sep ts) \<subseteq> set sep \<union> \<Union> (set ` set ts)"
  by (induction sep ts rule: py_join.induct) auto

lemma json_dumps_ascii:
  assumes "\<forall>c \<in> set isep \<union> set ksep. ord_of c < (128::nat)"
    and "num_texts_ascii v" and "json_dumps isep ksep v = Some t" and "c \<in> set t"
  shows "ord_of c < (128::nat)"
  using assms
proof (induction isep ksep v arbitrary: t c rule: json_dumps.induct)
  case (6 isep ksep xs)
  then obtain ts where ts: "those (map (json_dumps isep ksep) xs) = Some ts"
    and t: "t = CHR ''['' # py_join isep ts @ '']''"
    by (auto split: option.splits)
  have "\<forall>u \<in> set ts. \<forall>c \<in> set u. ord_of c < (128::nat)"
  proof (intro ballI)
    fix u c assume u: "u \<in> set ts" and c: "c \<in> set u"
    then obtain x where "x \<in> set xs" "json_dumps isep ksep x = Some u"
      using those_Some_set [OF ts] by (metis (no_types, lifting) image_eqI image_iff list.set_map)
    then show "ord_of c < (128::nat)" using 6 c by auto
  qed
  then show ?case using t 6 set_py_join [of isep ts] by fastforce
next
  case (7 isep ksep kvs)
  let ?ls = "map (\<lambda>(k, t). map_option (\<lambda>t. json_string k @ ksep @ t) t)
              (sort_key fst (map (\<lambda>(k, v). (k, json_dumps isep ksep v)) kvs))"
  from 7 obtain ts where ts: "those ?ls = Some ts"
    and t: "t = CHR ''{'' # py_join isep ts @ ''}''"
    by (auto split: option.splits)
  have "\<forall>u \<in> set ts. \<forall>c \<in> set u. ord_of c < (128::nat)"
  proof (intro ballI)
    fix u c assume u: "u \<in> set ts" and c: "c \<in> set u"
    then have "Some u \<in> set ?ls" using those_Some_set [OF ts] by blast
    then obtain k x w where "(k, x) \<in> set kvs" "json_dumps isep ksep x = Some w"
      and "u = json_string k @ ksep @ w" by (auto simp: map_option_case split: option.splits)
    then show "ord_of c < (128::nat)" using 7 c by (auto dest: json_string_ascii)
  qed
  then show ?case using t 7 set_py_join [of isep ts] by fastforce
qed (auto dest: json_string_ascii split: if_splits)

end
