(* ===== verification/Interfaces.thy ===== *)
theory Interfaces
  imports Prelude
begin

text \<open>
  The contracts between the components, as locales.  Each is interpreted on the definitions of the
  component that provides it: \<open>write_once_registry\<close> by the column registry; \<open>bounded_table\<close>
  by the bounded ordered tables (the approval ledger and the session table of the gateway).
\<close>

section \<open>Write-once registries\<close>

locale write_once_registry =
  fixes add :: "'s \<Rightarrow> 'v \<Rightarrow> 's res"
    and find :: "'s \<Rightarrow> 'k \<Rightarrow> 'v option"
    and key :: "'v \<Rightarrow> 'k"
  assumes add_fresh: "find s (key v) = None \<Longrightarrow> \<exists>s'. add s v = Inr s' \<and> find s' = (find s)(key v \<mapsto> v)"
    and add_taken: "find s (key v) \<noteq> None \<Longrightarrow> \<exists>e. add s v = Inl e"
begin

lemma add_Inr_iff:
  "(\<exists>s'. add s v = Inr s') \<longleftrightarrow> find s (key v) = None"
  using add_fresh [of s v] add_taken [of s v] by (cases "find s (key v)") auto

lemma add_InrD: "add s v = Inr s' \<Longrightarrow> find s (key v) = None \<and> find s' = (find s)(key v \<mapsto> v)"
  using add_fresh [of s v] add_taken [of s v] by (cases "find s (key v)") auto

text \<open>An entry never changes: what is found once is found after every later registration.\<close>

lemma add_all_keeps:
  "foldE add s vs = Inr s' \<Longrightarrow> find s k = Some v \<Longrightarrow> find s' k = Some v"
proof (induction vs arbitrary: s)
  case (Cons x xs)
  then obtain t where t: "add s x = Inr t" "foldE add t xs = Inr s'"
    by (auto simp: bindE_eq_Inr_iff)
  with Cons.prems(2) have "find t k = Some v" by (auto dest!: add_InrD)
  with t(2) show ?case by (rule Cons.IH)
qed simp

lemma add_all_Inr_iff:
  "(\<exists>s'. foldE add s vs = Inr s') \<longleftrightarrow>
     distinct (map key vs) \<and> (\<forall>v \<in> set vs. find s (key v) = None)"
proof (induction vs arbitrary: s)
  case (Cons v vs)
  show ?case
  proof (cases "find s (key v)")
    case None
    then obtain t where t: "add s v = Inr t" "find t = (find s)(key v \<mapsto> v)"
      using add_fresh by blast
    then have "(\<exists>s'. foldE add s (v # vs) = Inr s') \<longleftrightarrow> (\<exists>s'. foldE add t vs = Inr s')"
      by simp
    also have "\<dots> \<longleftrightarrow> distinct (map key vs) \<and> (\<forall>x \<in> set vs. find t (key x) = None)"
      by (rule Cons.IH)
    also have "\<dots> \<longleftrightarrow> distinct (map key vs) \<and> key v \<notin> key ` set vs \<and>
        (\<forall>x \<in> set vs. find s (key x) = None)"
      unfolding t(2) by (auto simp: image_iff)
    finally show ?thesis using None by auto
  next
    case (Some w)
    then obtain e where "add s v = Inl e" using add_taken [of s v] by auto
    with Some show ?thesis by simp
  qed
qed simp

lemma add_all_find:
  "foldE add s vs = Inr s' \<Longrightarrow> v \<in> set vs \<Longrightarrow> find s' (key v) = Some v"
proof (induction vs arbitrary: s)
  case (Cons x xs)
  then obtain t where t: "add s x = Inr t" "foldE add t xs = Inr s'"
    by (auto simp: bindE_eq_Inr_iff)
  show ?case
  proof (cases "v \<in> set xs")
    case True
    with t(2) show ?thesis by (rule Cons.IH)
  next
    case False
    with Cons.prems have "v = x" by simp
    with t(1) have "find t (key v) = Some v" by (auto dest: add_InrD)
    with t(2) show ?thesis by (rule add_all_keeps)
  qed
qed simp

end

section \<open>Bounded tables\<close>

text \<open>
  An ordered dictionary that drops its oldest entries when it grows beyond its capacity:
  \<open>d[k] = v\<close>, then \<open>while len(d) > capacity: d.popitem(last=False)\<close>.
\<close>

definition put_bounded :: "nat \<Rightarrow> 'k \<Rightarrow> 'v \<Rightarrow> ('k, 'v) dict \<Rightarrow> ('k, 'v) dict" where
  "put_bounded capacity k v d =
     (let d' = AList.update k v d in drop (length d' - capacity) d')"

locale bounded_table =
  fixes put :: "'k \<Rightarrow> 'v \<Rightarrow> 's \<Rightarrow> 's"
    and del :: "'k \<Rightarrow> 's \<Rightarrow> 's"
    and find :: "'s \<Rightarrow> 'k \<Rightarrow> 'v option"
    and used :: "'s \<Rightarrow> nat"
    and capacity :: nat
    and inv :: "'s \<Rightarrow> bool"
  assumes inv_put: "inv s \<Longrightarrow> inv (put k v s)"
    and inv_del: "inv s \<Longrightarrow> inv (del k s)"
    and find_put: "inv s \<Longrightarrow> find (put k v s) k = Some v"
    and find_put_other: "inv s \<Longrightarrow> k' \<noteq> k \<Longrightarrow> find (put k v s) k' = Some w \<Longrightarrow> find s k' = Some w"
    and put_keeps: "inv s \<Longrightarrow> used s < capacity \<Longrightarrow> k' \<noteq> k \<Longrightarrow> find (put k v s) k' = find s k'"
    and used_put: "inv s \<Longrightarrow> used (put k v s) \<le> capacity"
    and used_del: "inv s \<Longrightarrow> used (del k s) \<le> used s"
    and find_del: "inv s \<Longrightarrow> find (del k s) k' = (if k' = k then None else find s k')"
begin

lemma fold_inv: "inv s \<Longrightarrow> inv (fold (\<lambda>(k, v). put k v) kvs s)"
  by (induction kvs arbitrary: s) (auto intro: inv_put)

text \<open>What is not there is found only after it was put.\<close>

lemma absent_until_put:
  assumes "inv s" and "find s k = None" and "k \<notin> fst ` set kvs"
  shows "find (fold (\<lambda>(k, v). put k v) kvs s) k = None"
  using assms
proof (induction kvs arbitrary: s)
  case (Cons kv kvs)
  obtain k' v where kv: "kv = (k', v)" by (cases kv)
  with Cons.prems have "find (put k' v s) k = None"
    using find_put_other [of s k k' v] by (cases "find (put k' v s) k") auto
  then show ?case using Cons inv_put by (simp add: kv)
qed simp

text \<open>A table that is used again and again stays within its capacity.\<close>

lemma used_fold:
  "inv s \<Longrightarrow> used s \<le> capacity \<Longrightarrow> used (fold (\<lambda>(k, v). put k v) kvs s) \<le> capacity"
  by (induction kvs arbitrary: s) (auto simp: inv_put used_put)

text \<open>With room for all of them, a batch of entries with distinct new keys is found completely.\<close>

lemma fold_find:
  assumes "inv s" and "distinct (map fst kvs)" and "(k, v) \<in> set kvs"
    and room: "\<And>s k v. inv s \<Longrightarrow> used (put k v s) \<le> Suc (used s)"
    and "used s + length kvs \<le> capacity"
  shows "find (fold (\<lambda>(k, v). put k v) kvs s) k = Some v"
proof -
  have keep: "find (fold (\<lambda>(k, v). put k v) xs t) k = Some v"
    if "inv t" "find t k = Some v" "k \<notin> fst ` set xs" "used t + length xs \<le> capacity" for xs t
    using that
  proof (induction xs arbitrary: t)
    case (Cons x xs)
    obtain a b where x: "x = (a, b)" by (cases x)
    have "find (put a b t) k = Some v" using Cons.prems x by (auto simp: put_keeps)
    moreover have "used (put a b t) + length xs \<le> capacity"
      using room [OF Cons.prems(1), of a b] Cons.prems(4) by simp
    ultimately show ?case using Cons x by (auto simp: inv_put)
  qed simp
  show ?thesis using assms(1-3,5)
  proof (induction kvs arbitrary: s)
    case (Cons x kvs)
    obtain a b where x: "x = (a, b)" by (cases x)
    have i: "inv (put a b s)" using Cons.prems(1) by (rule inv_put)
    have u: "used (put a b s) + length kvs \<le> capacity"
      using room [OF Cons.prems(1), of a b] Cons.prems(4) by simp
    show ?case
    proof (cases "(k, v) = x")
      case True
      then have "k \<notin> fst ` set kvs" using Cons.prems(2) by force
      then show ?thesis using keep [OF i _ _ u] True x find_put [OF Cons.prems(1)] by simp
    next
      case False
      then show ?thesis using Cons.IH [OF i _ _ u] Cons.prems x by auto
    qed
  qed simp
qed

end

subsection \<open>The dictionary is a bounded table\<close>

lemma length_update: "length (AList.update k v d) = (if k \<in> fst ` set d then length d else Suc (length d))"
  by (induction d) auto

lemma update_last: "k \<notin> fst ` set d \<Longrightarrow> AList.update k v d = d @ [(k, v)]"
  by (induction d) auto

lemma map_of_drop:
  assumes "distinct (map fst d)" and "map_of (drop n d) k = Some v"
  shows "map_of d k = Some v"
proof -
  have "(k, v) \<in> set d" using assms(2) by (metis in_set_dropD map_of_SomeD)
  then show ?thesis using assms(1) by simp
qed

lemma put_bounded_find:
  assumes "0 < capacity" and "distinct (map fst d)" and "length d \<le> capacity"
  shows "map_of (put_bounded capacity k v d) k = Some v"
proof (cases "k \<in> fst ` set d")
  case True
  then have "length (AList.update k v d) - capacity = 0" using assms(3) by (simp add: length_update)
  then show ?thesis by (simp add: put_bounded_def update_conv')
next
  case False
  then have eq: "AList.update k v d = d @ [(k, v)]" by (rule update_last)
  have "length (d @ [(k, v)]) - capacity \<le> length d" using assms by simp
  then have "put_bounded capacity k v d = drop (length (d @ [(k, v)]) - capacity) d @ [(k, v)]"
    unfolding put_bounded_def eq Let_def by (simp del: length_append)
  moreover have "k \<notin> fst ` set (drop n d)" for n
    using False by (auto dest: in_set_dropD simp: image_iff)
  then have "map_of (drop n d) k = None" for n by (simp add: map_of_eq_None_iff)
  ultimately show ?thesis by (simp add: map_add_def)
qed

definition table_inv :: "nat \<Rightarrow> ('k, 'v) dict \<Rightarrow> bool" where
  "table_inv capacity d = (distinct (map fst d) \<and> length d \<le> capacity)"

lemma table_inv_put: "table_inv capacity d \<Longrightarrow> table_inv capacity (put_bounded capacity k v d)"
  by (auto simp: table_inv_def put_bounded_def Let_def distinct_update drop_map [symmetric]
      intro: distinct_drop)

lemma table_inv_delete: "table_inv capacity d \<Longrightarrow> table_inv capacity (AList.delete k d)"
  by (auto simp: table_inv_def distinct_delete intro: order_trans [OF length_delete_le])

interpretation dict_table: bounded_table "put_bounded (Suc n)" AList.delete map_of length "Suc n"
  "table_inv (Suc n)" for n
proof (unfold_locales, goal_cases)
  case (4 s k' k v w)
  then have "distinct (map fst (AList.update k v s))" by (simp add: table_inv_def distinct_update)
  from map_of_drop [OF this, of _ k' w] 4 show ?case
    by (auto simp: put_bounded_def Let_def update_conv')
next
  case (5 s k' k v)
  then show ?case by (simp add: put_bounded_def Let_def update_conv' length_update)
next
  case (6 s k v)
  then show ?case using table_inv_put [of "Suc n" s k v] by (simp add: table_inv_def)
qed (auto simp: table_inv_put table_inv_delete length_delete_le delete_conv',
     auto simp: table_inv_def put_bounded_find)

end
