(* ===== verification/Cognition.thy ===== *)
theory Cognition
  imports Json Interfaces
begin

text \<open>
  \<open>locus_runtime/cognition.py\<close>: belief records and their validation, cognitive columns and their
  capabilities, the admission of assembly definitions, votes, consensus and the commitment gate.

  Times (\<open>time.time()\<close>) are arguments.  A field typed \<open>ColumnKind | str\<close> is a \<open>kind_ref\<close>, one
  typed \<open>ColumnCapability | str\<close> a \<open>cap_ref\<close>.
\<close>

section \<open>Belief records\<close>

definition BELIEF_VALUE_MAX_BYTES :: nat where "BELIEF_VALUE_MAX_BYTES = 16384"
definition BELIEF_METADATA_MAX_BYTES :: nat where "BELIEF_METADATA_MAX_BYTES = 8192"
definition BELIEF_RATIONALE_MAX_LENGTH :: nat where "BELIEF_RATIONALE_MAX_LENGTH = 2048"
definition BELIEF_EVIDENCE_REF_MAX_COUNT :: nat where "BELIEF_EVIDENCE_REF_MAX_COUNT = 32"
definition BELIEF_EVIDENCE_REF_MAX_LENGTH :: nat where "BELIEF_EVIDENCE_REF_MAX_LENGTH = 256"

definition SENSITIVE_METADATA_TOKENS :: "string list" where
  "SENSITIVE_METADATA_TOKENS =
     [''api_key'', ''authorization'', ''auth_header'', ''bearer'', ''client_secret'',
      ''credential'', ''password'', ''refresh_token'', ''secret'', ''session_id'', ''token'']"

definition clamp01 :: "rat \<Rightarrow> rat" where
  "clamp01 r = max 0 (min 1 r)"

definition clamp_confidence :: "pyfloat \<Rightarrow> rat res" where
  "clamp_confidence v = (case v of Fin r \<Rightarrow> Inr (clamp01 r)
     | _ \<Rightarrow> raise ValueError ''confidence must be finite'')"

definition json_size_bytes :: "jval \<Rightarrow> string \<Rightarrow> nat res" where
  "json_size_bytes v field_name =
     (case json_dumps '', '' '': '' v of
        None \<Rightarrow> raise BeliefValidationError (field_name @ '' must be JSON safe'')
      | Some t \<Rightarrow> Inr (length t))"

definition key_first_char :: "char \<Rightarrow> bool" where
  "key_first_char c = (let n = ord_of c in
     (48 \<le> n \<and> n \<le> 57) \<or> (65 \<le> n \<and> n \<le> 90) \<or> (97 \<le> n \<and> n \<le> (122::nat)))"

definition key_char :: "char \<Rightarrow> bool" where
  "key_char c = (key_first_char c \<or> c \<in> set ''_.:-'')"

definition belief_key_pattern :: "string \<Rightarrow> bool" where
  \<comment> \<open>\<open>BELIEF_KEY_PATTERN.fullmatch\<close>\<close>
  "belief_key_pattern s = (case s of [] \<Rightarrow> False
     | c # cs \<Rightarrow> key_first_char c \<and> length cs \<le> 127 \<and> list_all key_char cs)"

definition normalize_belief_key :: "jval \<Rightarrow> string res" where
  "normalize_belief_key v =
     (case v of
        JStr s \<Rightarrow>
          (let key = py_strip s in
           guardE (key \<noteq> '''') BeliefValidationError ''belief key is required''
          (guardE (belief_key_pattern key) BeliefValidationError
                  ''belief key contains invalid characters''
          (Inr key)))
      | _ \<Rightarrow> raise BeliefValidationError ''belief key must be a string'')"

text \<open>The loop over the references, with the index the error message prints.\<close>

fun evidence_refs_loop :: "nat \<Rightarrow> string list \<Rightarrow> jval list \<Rightarrow> string list res" where
  "evidence_refs_loop index refs [] = Inr refs"
| "evidence_refs_loop index refs (v # vs) =
     (case v of
        JStr s \<Rightarrow>
          (let ref = py_strip s in
           if ref = '''' then evidence_refs_loop (Suc index) refs vs
           else if length ref > BELIEF_EVIDENCE_REF_MAX_LENGTH
           then raise BeliefValidationError ''evidence ref exceeds max length''
           else evidence_refs_loop (Suc index) (append_unique refs ref) vs)
      | _ \<Rightarrow> raise BeliefValidationError
               (''evidence_refs['' @ nat_digits index @ ''] must be a string''))"

definition normalize_evidence_refs :: "jval list \<Rightarrow> string list res" where
  "normalize_evidence_refs values =
     bindE (evidence_refs_loop 0 [] values) (\<lambda>refs.
     guardE (length refs \<le> BELIEF_EVIDENCE_REF_MAX_COUNT) BeliefValidationError
            ''too many evidence refs'' (Inr refs))"

definition metadata_key_is_sensitive :: "string \<Rightarrow> bool" where
  "metadata_key_is_sensitive key =
     (\<exists>token \<in> set SENSITIVE_METADATA_TOKENS. py_contains token (py_lower (py_strip key)))"

definition redacted_text :: string where
  "redacted_text = ''[redacted]''"

text \<open>
  \<open>_redact_sensitive_metadata\<close>.  The keys of a dictionary are distinct, so the loop that builds
  \<open>redacted\<close> is a map over the items; \<open>flagged\<close> is what sets \<open>redacted_any\<close>.
\<close>

definition flagged :: "string \<times> jval \<Rightarrow> bool" where
  "flagged kv = (metadata_key_is_sensitive (fst kv) \<or>
     (is_jdict (snd kv) \<and> jget (snd kv) ''redacted'' = JBool True))"

fun redact_sensitive_metadata :: "string \<Rightarrow> jval \<Rightarrow> jval" where
  "redact_sensitive_metadata parent_key (JDict kvs) =
     (let items = map (\<lambda>(k, v). (k, if metadata_key_is_sensitive k then JStr redacted_text
                                    else redact_sensitive_metadata k v)) kvs
      in JDict (if list_ex flagged items
                then AList.update ''redacted'' (JBool True) items else items))"
| "redact_sensitive_metadata parent_key (JList xs) =
     JList (map (redact_sensitive_metadata parent_key) xs)"
| "redact_sensitive_metadata parent_key v =
     (if parent_key \<noteq> '''' \<and> metadata_key_is_sensitive parent_key
      then JStr redacted_text else v)"

definition normalize_belief_metadata :: "jval \<Rightarrow> jval res" where
  "normalize_belief_metadata v =
     guardE (is_jdict v) BeliefValidationError ''belief metadata must be an object''
    (let redacted = redact_sensitive_metadata '''' v in
     guardE (is_jdict redacted) BeliefValidationError ''belief metadata must be an object''
    (bindE (json_size_bytes redacted ''belief metadata'') (\<lambda>n.
     guardE (n \<le> BELIEF_METADATA_MAX_BYTES) BeliefValidationError
            ''belief metadata exceeds max size''
    (Inr redacted))))"

text \<open>The arguments of \<open>BeliefRecord(...)\<close> and the record \<open>__post_init__\<close> leaves behind.\<close>

record belief_args =
  ba_key :: jval
  ba_value :: jval
  ba_confidence :: pyfloat
  ba_evidence_refs :: "jval list"
  ba_rationale :: string
  ba_metadata :: jval

record belief_record =
  br_key :: string
  br_value :: jval
  br_confidence :: rat
  br_evidence_refs :: "string list"
  br_rationale :: string
  br_metadata :: jval

definition validate_belief_record :: "belief_args \<Rightarrow> belief_record res" where
  "validate_belief_record b =
     bindE (normalize_belief_key (ba_key b)) (\<lambda>key.
     bindE (clamp_confidence (ba_confidence b)) (\<lambda>confidence.
     bindE (normalize_evidence_refs (ba_evidence_refs b)) (\<lambda>refs.
     guardE (length (ba_rationale b) \<le> BELIEF_RATIONALE_MAX_LENGTH) BeliefValidationError
            ''belief rationale exceeds max length''
    (bindE (json_size_bytes (ba_value b) ''belief value'') (\<lambda>n.
     guardE (n \<le> BELIEF_VALUE_MAX_BYTES) BeliefValidationError ''belief value exceeds max size''
    (bindE (normalize_belief_metadata (ba_metadata b)) (\<lambda>metadata.
     Inr \<lparr>br_key = key, br_value = ba_value b, br_confidence = confidence,
          br_evidence_refs = refs, br_rationale = ba_rationale b,
          br_metadata = metadata\<rparr>)))))))"

definition belief_defaults :: belief_args where
  \<comment> \<open>the defaults of the dataclass fields\<close>
  "belief_defaults = \<lparr>ba_key = JNull, ba_value = JNull, ba_confidence = Fin 0,
     ba_evidence_refs = [], ba_rationale = '''', ba_metadata = JDict []\<rparr>"

section \<open>Columns and capabilities\<close>

datatype column_kind =
    Kind_GOAL | Kind_STATE | Kind_DECOMPOSITION | Kind_EVIDENCE | Kind_PREDICTION
  | Kind_EVALUATION | Kind_UNCERTAINTY | Kind_SYNTHESIS

datatype column_capability =
    Cap_READ_INPUT | Cap_EMIT_GOAL_BELIEF | Cap_RETRIEVE | Cap_SCORE | Cap_VETO
  | Cap_EMIT_BLOCKER | Cap_PROPOSE_COMMITMENT | Cap_PUBLISH_COMMITMENT | Cap_MODEL_CALL
  | Cap_TOOL_CALL | Cap_MEMORY_WRITE

datatype inference_mode = Mode_SINGLE_PASS | Mode_ITERATIVE | Mode_PREDICTIVE_EVALUATIVE

datatype consensus_policy = Pol_WEIGHTED | Pol_CONFIDENCE_THRESHOLD | Pol_UNANIMOUS | Pol_VETO

datatype message_type =
    Msg_BELIEF_UPDATE | Msg_EVIDENCE_CLAIM | Msg_PREDICTION_BRANCH | Msg_EVALUATION_SCORE
  | Msg_UNCERTAINTY_SIGNAL | Msg_SYNTHESIS_PROPOSAL | Msg_DISSENT | Msg_COMMITMENT

fun kind_value :: "column_kind \<Rightarrow> string" where
  "kind_value Kind_GOAL = ''goal''"
| "kind_value Kind_STATE = ''state''"
| "kind_value Kind_DECOMPOSITION = ''decomposition''"
| "kind_value Kind_EVIDENCE = ''evidence''"
| "kind_value Kind_PREDICTION = ''prediction''"
| "kind_value Kind_EVALUATION = ''evaluation''"
| "kind_value Kind_UNCERTAINTY = ''uncertainty''"
| "kind_value Kind_SYNTHESIS = ''synthesis''"

fun cap_value :: "column_capability \<Rightarrow> string" where
  "cap_value Cap_READ_INPUT = ''read_input''"
| "cap_value Cap_EMIT_GOAL_BELIEF = ''emit_goal_belief''"
| "cap_value Cap_RETRIEVE = ''retrieve''"
| "cap_value Cap_SCORE = ''score''"
| "cap_value Cap_VETO = ''veto''"
| "cap_value Cap_EMIT_BLOCKER = ''emit_blocker''"
| "cap_value Cap_PROPOSE_COMMITMENT = ''propose_commitment''"
| "cap_value Cap_PUBLISH_COMMITMENT = ''publish_commitment''"
| "cap_value Cap_MODEL_CALL = ''model_call''"
| "cap_value Cap_TOOL_CALL = ''tool_call''"
| "cap_value Cap_MEMORY_WRITE = ''memory_write''"

definition all_kinds :: "column_kind list" where
  "all_kinds = [Kind_GOAL, Kind_STATE, Kind_DECOMPOSITION, Kind_EVIDENCE, Kind_PREDICTION,
     Kind_EVALUATION, Kind_UNCERTAINTY, Kind_SYNTHESIS]"

definition all_caps :: "column_capability list" where
  "all_caps = [Cap_READ_INPUT, Cap_EMIT_GOAL_BELIEF, Cap_RETRIEVE, Cap_SCORE, Cap_VETO,
     Cap_EMIT_BLOCKER, Cap_PROPOSE_COMMITMENT, Cap_PUBLISH_COMMITMENT, Cap_MODEL_CALL,
     Cap_TOOL_CALL, Cap_MEMORY_WRITE]"

text \<open>\<open>ColumnKind(text)\<close> and \<open>ColumnCapability(text)\<close>; \<open>None\<close> is the \<open>ValueError\<close>.\<close>

definition parse_kind :: "string \<Rightarrow> column_kind option" where
  "parse_kind t = find (\<lambda>k. kind_value k = t) all_kinds"

definition parse_cap :: "string \<Rightarrow> column_capability option" where
  "parse_cap t = find (\<lambda>c. cap_value c = t) all_caps"

datatype kind_ref = KindEnum column_kind | KindStr string
datatype cap_ref = CapEnum column_capability | CapStr string

fun column_kind_value :: "kind_ref \<Rightarrow> string" where
  "column_kind_value (KindEnum k) = kind_value k"
| "column_kind_value (KindStr s) = py_strip s"

fun column_capability_value :: "cap_ref \<Rightarrow> string" where
  "column_capability_value (CapEnum c) = cap_value c"
| "column_capability_value (CapStr s) = py_strip s"

definition or_unknown :: "string \<Rightarrow> string" where
  "or_unknown s = (if s = '''' then ''unknown'' else s)"

definition column_capability_error :: "string \<Rightarrow> string \<Rightarrow> string \<Rightarrow> 'a res" where
  "column_capability_error column_id kind capability =
     raise ColumnCapabilityError
       (''Column '' @ [CHR 39] @ or_unknown (py_strip column_id) @ [CHR 39] @
        '' of kind '' @ [CHR 39] @ or_unknown (py_strip kind) @ [CHR 39] @
        '' is not permitted to use capability '' @ [CHR 39] @ or_unknown (py_strip capability) @
        [CHR 39])"

fun DEFAULT_COLUMN_CAPABILITIES :: "column_kind \<Rightarrow> column_capability set" where
  "DEFAULT_COLUMN_CAPABILITIES Kind_GOAL = {Cap_READ_INPUT, Cap_EMIT_GOAL_BELIEF}"
| "DEFAULT_COLUMN_CAPABILITIES Kind_EVIDENCE = {Cap_RETRIEVE}"
| "DEFAULT_COLUMN_CAPABILITIES Kind_EVALUATION = {Cap_SCORE, Cap_VETO}"
| "DEFAULT_COLUMN_CAPABILITIES Kind_UNCERTAINTY = {Cap_EMIT_BLOCKER}"
| "DEFAULT_COLUMN_CAPABILITIES Kind_SYNTHESIS = {Cap_PROPOSE_COMMITMENT}"
| "DEFAULT_COLUMN_CAPABILITIES Kind_STATE = {}"
| "DEFAULT_COLUMN_CAPABILITIES Kind_DECOMPOSITION = {}"
| "DEFAULT_COLUMN_CAPABILITIES Kind_PREDICTION = {}"

fun add_grants :: "column_capability set \<Rightarrow> cap_ref list \<Rightarrow> column_capability set" where
  "add_grants grants [] = grants"
| "add_grants grants (g # gs) =
     (case parse_cap (column_capability_value g) of
        None \<Rightarrow> add_grants grants gs
      | Some c \<Rightarrow> add_grants (insert c grants) gs)"

definition column_capabilities_for :: "kind_ref \<Rightarrow> cap_ref list \<Rightarrow> column_capability set" where
  "column_capabilities_for kind explicit_grants =
     (case parse_kind (column_kind_value kind) of
        None \<Rightarrow> {}
      | Some k \<Rightarrow> add_grants (DEFAULT_COLUMN_CAPABILITIES k) explicit_grants)"

definition require_column_capability ::
    "string \<Rightarrow> kind_ref \<Rightarrow> cap_ref \<Rightarrow> cap_ref list \<Rightarrow> unit res" where
  "require_column_capability column_id kind capability explicit_grants =
     (case (parse_cap (column_capability_value capability), parse_kind (column_kind_value kind)) of
        (Some cap, Some k) \<Rightarrow>
          if cap \<in> column_capabilities_for (KindEnum k) explicit_grants then Inr ()
          else column_capability_error column_id (kind_value k) (cap_value cap)
      | _ \<Rightarrow> column_capability_error column_id (column_kind_value kind)
               (column_capability_value capability))"

record column_state =
  cs_column_id :: string
  cs_assembly_id :: string
  cs_kind :: column_kind
  cs_belief_set :: "belief_record list"
  cs_evidence_refs :: "string list"
  cs_confidence :: rat
  cs_last_updated :: rat
  cs_adaptation_metrics :: "(string, rat) dict"

definition new_column_state :: "string \<Rightarrow> string \<Rightarrow> column_kind \<Rightarrow> rat \<Rightarrow> column_state" where
  \<comment> \<open>\<open>ColumnState(column_id=..., assembly_id=..., kind=...)\<close> with the field defaults\<close>
  "new_column_state column_id assembly_id kind now =
     \<lparr>cs_column_id = column_id, cs_assembly_id = assembly_id, cs_kind = kind, cs_belief_set = [],
      cs_evidence_refs = [], cs_confidence = clamp01 0, cs_last_updated = now,
      cs_adaptation_metrics = []\<rparr>"

definition average_confidence :: "belief_record list \<Rightarrow> rat" where
  "average_confidence beliefs =
     (if beliefs \<noteq> [] then sum_list (map br_confidence beliefs) / of_nat (length beliefs) else 0)"

definition with_beliefs :: "column_state \<Rightarrow> belief_record list \<Rightarrow> rat \<Rightarrow> column_state" where
  "with_beliefs s beliefs now =
     s\<lparr>cs_belief_set := beliefs,
       cs_evidence_refs :=
         dict_fromkeys (filter (\<lambda>r. r \<noteq> '''') (concat (map br_evidence_refs beliefs))),
       cs_confidence := clamp01 (average_confidence beliefs),
       cs_last_updated := now\<rparr>"

definition update_confidence ::
    "column_state \<Rightarrow> pyfloat \<Rightarrow> string option \<Rightarrow> rat \<Rightarrow> column_state res" where
  "update_confidence s confidence metric_key now =
     bindE (clamp_confidence confidence) (\<lambda>c.
     Inr (s\<lparr>cs_confidence := c,
            cs_adaptation_metrics :=
              (case metric_key of
                 Some (k # ks) \<Rightarrow> AList.update (k # ks) c (cs_adaptation_metrics s)
               | _ \<Rightarrow> cs_adaptation_metrics s),
            cs_last_updated := now\<rparr>))"

section \<open>Assembly definitions and their admission\<close>

record assembly_budget =
  max_iterations :: int
  max_messages :: int
  max_columns :: int

definition default_budget :: assembly_budget where
  "default_budget = \<lparr>max_iterations = 3, max_messages = 32, max_columns = 8\<rparr>"

record admission_policy =
  ap_max_columns :: int
  ap_max_iterations :: int
  ap_max_messages :: int
  ap_allowed_column_kinds :: "kind_ref list"
  ap_required_column_kinds :: "kind_ref list"
  ap_allowed_tenant_ids :: "string list"
  ap_allowed_providers :: "string list"
  ap_allowed_models :: "string list"
  ap_allowed_tools :: "string list"
  ap_allowed_retrieval_sources :: "string list"
  ap_allowed_network_hosts :: "string list"
  ap_high_risk_commitment_decisions :: "string list"
  ap_require_human_approval_for_high_risk :: bool

definition core_kinds :: "kind_ref list" where
  "core_kinds = map KindEnum [Kind_GOAL, Kind_EVIDENCE, Kind_EVALUATION, Kind_SYNTHESIS]"

definition default_admission_policy :: admission_policy where
  "default_admission_policy =
     \<lparr>ap_max_columns = 8, ap_max_iterations = 3, ap_max_messages = 32,
      ap_allowed_column_kinds = map KindEnum all_kinds,
      ap_required_column_kinds = core_kinds,
      ap_allowed_tenant_ids = [], ap_allowed_providers = [], ap_allowed_models = [],
      ap_allowed_tools = [], ap_allowed_retrieval_sources = [], ap_allowed_network_hosts = [],
      ap_high_risk_commitment_decisions = [],
      ap_require_human_approval_for_high_risk = True\<rparr>"

record assembly_definition =
  ad_assembly_id :: string
  ad_columns :: "string list"
  ad_column_kinds :: "(string, kind_ref) dict"
  ad_overlays :: "string list"
  ad_column_capability_overrides :: "(string, cap_ref list) dict"
  ad_consensus_policy :: consensus_policy
  ad_inference_mode :: inference_mode
  ad_budget_constraints :: assembly_budget
  ad_escalation_policy :: string

definition bounded_positive_int :: "int \<Rightarrow> string \<Rightarrow> int \<Rightarrow> int res" where
  "bounded_positive_int value field_name maximum =
     guardE (\<not> value < 1) AssemblyDefinitionAdmissionError (field_name @ '' must be at least 1'')
    (guardE (\<not> value > maximum) AssemblyDefinitionAdmissionError
            (field_name @ '' exceeds maximum '' @ py_str_int maximum)
    (Inr value))"

definition normalize_column_kind_or_raise :: "kind_ref \<Rightarrow> string \<Rightarrow> column_kind res" where
  "normalize_column_kind_or_raise v column_id =
     (case parse_kind (column_kind_value v) of
        Some k \<Rightarrow> Inr k
      | None \<Rightarrow> raise AssemblyDefinitionAdmissionError
                  (''Unsupported column kind for column '' @ [CHR 39] @ column_id @ [CHR 39]))"

definition infer_column_kind :: "assembly_definition \<Rightarrow> string \<Rightarrow> column_kind res" where
  "infer_column_kind d column_id =
     (case map_of (ad_column_kinds d) column_id of
        Some v \<Rightarrow> normalize_column_kind_or_raise v column_id
      | None \<Rightarrow>
          let pre = py_replace_char (CHR ''_'') (CHR ''-'') (py_lower (py_strip column_id));
              pre = takeWhile (\<lambda>c. c \<noteq> CHR ''-'') (takeWhile (\<lambda>c. c \<noteq> CHR '':'') pre)
          in normalize_column_kind_or_raise (KindStr pre) column_id)"

definition normalized_text_tuple :: "string list \<Rightarrow> string list" where
  "normalized_text_tuple values = filter (\<lambda>t. t \<noteq> '''') (map py_strip values)"

text \<open>The loop over the columns: the kinds in column order, stopping at the first refusal.\<close>

fun column_kinds_loop ::
    "assembly_definition \<Rightarrow> column_kind set \<Rightarrow> string list \<Rightarrow> (string, kind_ref) dict
     \<Rightarrow> (string, kind_ref) dict res" where
  "column_kinds_loop d allowed [] acc = Inr acc"
| "column_kinds_loop d allowed (c # cs) acc =
     bindE (infer_column_kind d c) (\<lambda>k.
     guardE (k \<in> allowed) AssemblyDefinitionAdmissionError
            (''Column kind '' @ [CHR 39] @ kind_value k @ [CHR 39] @ '' is not allowed'')
    (column_kinds_loop d allowed cs (AList.update c (KindEnum k) acc)))"

definition missing_kind_values :: "column_kind list \<Rightarrow> (string, kind_ref) dict \<Rightarrow> string list" where
  "missing_kind_values required acc =
     sorted_set (map kind_value (filter (\<lambda>k. KindEnum k \<notin> snd ` set acc) required))"

definition clean_columns :: "string list \<Rightarrow> string list" where
  "clean_columns columns = filter (\<lambda>c. c \<noteq> []) (map py_strip columns)"

definition validate_assembly_definition ::
    "assembly_definition \<Rightarrow> admission_policy \<Rightarrow> string \<Rightarrow> string \<Rightarrow> string \<Rightarrow> string list
     \<Rightarrow> assembly_definition res" where
  "validate_assembly_definition d policy tenant_id provider model tool_ids =
    (let assembly_id = py_strip (ad_assembly_id d);
         columns = clean_columns (ad_columns d);
         budget = ad_budget_constraints d;
         allowed_kind_values = (if ap_allowed_column_kinds policy \<noteq> []
           then ap_allowed_column_kinds policy else map KindEnum all_kinds);
         required_kind_values = (if ap_required_column_kinds policy \<noteq> []
           then ap_required_column_kinds policy else core_kinds);
         allowed_tenants = normalized_text_tuple (ap_allowed_tenant_ids policy);
         allowed_providers = normalized_text_tuple (ap_allowed_providers policy);
         allowed_models = normalized_text_tuple (ap_allowed_models policy);
         allowed_tools = normalized_text_tuple (ap_allowed_tools policy)
     in
     guardE (assembly_id \<noteq> '''') AssemblyDefinitionAdmissionError ''assembly_id is required''
    (guardE (columns \<noteq> []) AssemblyDefinitionAdmissionError
            ''assembly definition must include columns''
    (guardE (distinct columns) AssemblyDefinitionAdmissionError
            ''assembly definition contains duplicate columns''
    (bindE (bounded_positive_int (ap_max_columns policy) ''policy.max_columns'' 128) (\<lambda>_.
     bindE (bounded_positive_int (ap_max_iterations policy) ''policy.max_iterations'' 128) (\<lambda>_.
     bindE (bounded_positive_int (ap_max_messages policy) ''policy.max_messages'' 10000) (\<lambda>_.
     bindE (bounded_positive_int (max_columns budget) ''budget.max_columns'' 128) (\<lambda>bc.
     bindE (bounded_positive_int (max_iterations budget) ''budget.max_iterations''
              (ap_max_iterations policy)) (\<lambda>_.
     bindE (bounded_positive_int (max_messages budget) ''budget.max_messages''
              (ap_max_messages policy)) (\<lambda>_.
     guardE (int (length columns) \<le> min (ap_max_columns policy) bc)
            AssemblyDefinitionAdmissionError ''assembly definition has too many columns''
    (bindE (mapE (\<lambda>k. normalize_column_kind_or_raise k ''policy.allowed_column_kinds'')
              allowed_kind_values) (\<lambda>allowed_kinds.
     bindE (mapE (\<lambda>k. normalize_column_kind_or_raise k ''policy.required_column_kinds'')
              required_kind_values) (\<lambda>required_kinds.
     bindE (column_kinds_loop d (set allowed_kinds) columns []) (\<lambda>normalized.
     guardE (missing_kind_values required_kinds normalized = []) AssemblyDefinitionAdmissionError
            (''assembly definition missing required column kinds: '' @
             py_join '', '' (missing_kind_values required_kinds normalized))
    (guardE (allowed_tenants = [] \<or> py_strip tenant_id \<in> set allowed_tenants)
            AssemblyDefinitionAdmissionError ''tenant is not allowed for assembly definition''
    (guardE (allowed_providers = [] \<or> py_strip provider \<in> set allowed_providers)
            AssemblyDefinitionAdmissionError ''provider is not allowed for assembly definition''
    (guardE (allowed_models = [] \<or> py_strip model \<in> set allowed_models)
            AssemblyDefinitionAdmissionError ''model is not allowed for assembly definition''
    (guardE (allowed_tools = [] \<or>
             filter (\<lambda>t. t \<notin> set allowed_tools) (normalized_text_tuple tool_ids) = [])
            AssemblyDefinitionAdmissionError ''tool is not allowed for assembly definition''
    (Inr (d\<lparr>ad_assembly_id := assembly_id, ad_columns := columns,
            ad_column_kinds := normalized\<rparr>))))))))))))))))))))"

section \<open>Messages, the column registry, votes and commitments\<close>

record column_message =
  cm_message_type :: message_type
  cm_assembly_id :: string
  cm_source_column :: string
  cm_payload_ref :: string
  cm_target_column :: "string option"
  cm_confidence :: rat
  cm_metadata :: "(string, jval) dict"
  cm_created_at :: rat

text \<open>The registry stores columns of any implementation; only their id and kind are read.\<close>

record cognitive_column =
  col_column_id :: string
  col_kind :: column_kind

type_synonym column_registry = "(string, cognitive_column) dict"

definition registry_init :: column_registry where
  "registry_init = []"

definition register :: "column_registry \<Rightarrow> cognitive_column \<Rightarrow> column_registry res" where
  "register r column =
     (if col_column_id column \<in> fst ` set r
      then raise ValueError (''Column '' @ [CHR 39] @ col_column_id column @ [CHR 39] @
                             '' is already registered'')
      else Inr (AList.update (col_column_id column) column r))"

definition registry_get :: "column_registry \<Rightarrow> string \<Rightarrow> cognitive_column res" where
  "registry_get r column_id =
     (case map_of r column_id of None \<Rightarrow> raise KeyErrorC column_id | Some c \<Rightarrow> Inr c)"

definition list_columns :: "column_registry \<Rightarrow> cognitive_column list" where
  "list_columns r = map snd r"

definition list_by_kind :: "column_registry \<Rightarrow> column_kind \<Rightarrow> cognitive_column list" where
  "list_by_kind r kind = filter (\<lambda>c. col_kind c = kind) (map snd r)"

record column_vote =
  cv_column_id :: string
  cv_decision :: string
  cv_confidence :: rat
  cv_supports_commitment :: bool
  cv_veto :: bool
  cv_blockers :: "string list"
  cv_next_actions :: "string list"

definition new_column_vote ::
    "string \<Rightarrow> string \<Rightarrow> pyfloat \<Rightarrow> bool \<Rightarrow> bool \<Rightarrow> string list \<Rightarrow> string list
     \<Rightarrow> column_vote res" where
  "new_column_vote column_id decision confidence supports veto blockers next_actions =
     bindE (clamp_confidence confidence) (\<lambda>c.
     Inr \<lparr>cv_column_id = column_id, cv_decision = decision, cv_confidence = c,
          cv_supports_commitment = supports, cv_veto = veto, cv_blockers = blockers,
          cv_next_actions = next_actions\<rparr>)"

record commitment =
  co_decision :: string
  co_confidence :: rat
  co_supporting_columns :: "string list"
  co_dissenting_columns :: "string list"
  co_blockers :: "string list"
  co_next_actions :: "string list"

definition is_ready :: "commitment \<Rightarrow> bool" where
  "is_ready c = (co_decision c \<noteq> '''' \<and> co_blockers c = [])"

definition append_unique_text :: "string list \<Rightarrow> string \<Rightarrow> string list" where
  \<comment> \<open>\<open>_append_unique\<close>\<close>
  "append_unique_text values v = (if v \<noteq> '''' \<and> v \<notin> set values then values @ [v] else values)"

section \<open>Consensus\<close>

definition decision_weights :: "column_vote list \<Rightarrow> (string, rat) dict" where
  "decision_weights votes =
     foldl (\<lambda>w v. AList.update (cv_decision v) (dict_get w (cv_decision v) 0 + cv_confidence v) w)
       [] votes"

text \<open>\<open>max(items, key=...)\<close> keeps the first item with the largest weight.\<close>

fun max_item :: "string \<times> rat \<Rightarrow> (string \<times> rat) list \<Rightarrow> string \<times> rat" where
  "max_item best [] = best"
| "max_item best (x # xs) = max_item (if snd x > snd best then x else best) xs"

definition winning_decision :: "column_vote list \<Rightarrow> string" where
  "winning_decision votes =
     (case decision_weights votes of [] \<Rightarrow> '''' | x # xs \<Rightarrow> fst (max_item x xs))"

definition supports_winner :: "string \<Rightarrow> column_vote \<Rightarrow> bool" where
  "supports_winner winner v =
     (cv_decision v = winner \<and> cv_supports_commitment v \<and> \<not> cv_veto v)"

definition veto_blockers :: "column_vote list \<Rightarrow> string list" where
  "veto_blockers votes =
     foldl append_unique_text [] (concat (map cv_blockers (filter cv_veto votes)))"

text \<open>The loop over the dissenting votes, on the pair of next actions and blockers.\<close>

definition dissent_step ::
    "consensus_policy \<Rightarrow> string list \<times> string list \<Rightarrow> column_vote \<Rightarrow> string list \<times> string list"
  where
  "dissent_step policy st v =
     (foldl append_unique_text (fst st) (cv_next_actions v),
      foldl (\<lambda>bs b. if cv_veto v \<or> policy = Pol_UNANIMOUS then append_unique_text bs b else bs)
        (snd st) (cv_blockers v))"

text \<open>The blockers set before that loop, in the order the code appends them.\<close>

definition policy_blockers ::
    "consensus_policy \<Rightarrow> column_vote list \<Rightarrow> column_vote list \<Rightarrow> bool \<Rightarrow> string list" where
  "policy_blockers policy votes dissenting below =
     (if policy = Pol_VETO \<and> filter cv_veto votes \<noteq> []
      then (if veto_blockers votes = [] then [''veto_invoked''] else veto_blockers votes)
      else []) @
     (if policy = Pol_UNANIMOUS \<and> dissenting \<noteq> [] then [''consensus_not_unanimous''] else []) @
     (if policy = Pol_CONFIDENCE_THRESHOLD \<and> below then [''confidence_below_threshold''] else [])"

definition vote_share :: "column_vote list \<Rightarrow> rat" where
  \<comment> \<open>\<open>confidence\<close>: the weight of the winning decision over the total weight\<close>
  "vote_share votes =
     (let total_weight = sum_list (map cv_confidence votes) in
      if total_weight \<le> 0 then 0
      else dict_get (decision_weights votes) (winning_decision votes) 0 / total_weight)"

definition build_commitment ::
    "column_vote list \<Rightarrow> consensus_policy \<Rightarrow> pyfloat \<Rightarrow> string \<Rightarrow> commitment res" where
  "build_commitment votes policy confidence_threshold escalation_action =
    (if votes = [] then
       Inr \<lparr>co_decision = [], co_confidence = 0, co_supporting_columns = [],
            co_dissenting_columns = [], co_blockers = [''no_votes''],
            co_next_actions = [''gather_more_evidence'', escalation_action]\<rparr>
     else bindE (clamp_confidence confidence_threshold) (\<lambda>threshold.
       let winner = winning_decision votes;
           supporting = filter (supports_winner winner) votes;
           dissenting = filter (\<lambda>v. v \<notin> set supporting) votes;
           confidence = vote_share votes;
           actions0 = (if confidence < threshold
                       then append_unique [''gather_more_evidence''] escalation_action else []);
           final = foldl (dissent_step policy)
             (actions0, policy_blockers policy votes dissenting (confidence < threshold)) dissenting
       in Inr \<lparr>co_decision = winner, co_confidence = confidence,
               co_supporting_columns = map cv_column_id supporting,
               co_dissenting_columns = map cv_column_id dissenting,
               co_blockers = snd final, co_next_actions = fst final\<rparr>))"

section \<open>The commitment gate and the assembly state\<close>

record assembly_state =
  as_definition :: assembly_definition
  as_column_states :: "(string, column_state) dict"
  as_iteration :: int
  as_messages_emitted :: int
  as_commitment :: "commitment option"

record commitment_validation_context =
  vc_commitment :: commitment
  vc_votes :: "column_vote list"
  vc_confidence_threshold :: pyfloat
  vc_decision_trail :: "string list"
  vc_human_approval_granted :: bool
  vc_high_risk_decisions :: "string list"
  vc_require_human_approval_for_high_risk :: bool

definition new_assembly_state :: "assembly_definition \<Rightarrow> assembly_state" where
  "new_assembly_state d = \<lparr>as_definition = d, as_column_states = [], as_iteration = 0,
     as_messages_emitted = 0, as_commitment = None\<rparr>"

definition register_column_state :: "assembly_state \<Rightarrow> column_state \<Rightarrow> assembly_state" where
  "register_column_state a s =
     a\<lparr>as_column_states := AList.update (cs_column_id s) s (as_column_states a)\<rparr>"

definition register_message :: "assembly_state \<Rightarrow> int \<Rightarrow> assembly_state" where
  "register_message a n =
     a\<lparr>as_messages_emitted := as_messages_emitted a + max 0 n\<rparr>"

definition next_iteration :: "assembly_state \<Rightarrow> assembly_state" where
  "next_iteration a = a\<lparr>as_iteration := as_iteration a + 1\<rparr>"

definition column_ids_by_kind :: "assembly_state \<Rightarrow> column_kind \<Rightarrow> string set" where
  "column_ids_by_kind a kind =
     fst ` set (filter (\<lambda>p. cs_kind (snd p) = kind) (as_column_states a))"

definition require_commitment_participation ::
    "assembly_state \<Rightarrow> column_vote list \<Rightarrow> string list \<Rightarrow> unit res" where
  "require_commitment_participation a votes supporting_columns =
    (let evidence_ids = column_ids_by_kind a Kind_EVIDENCE;
         evaluation_ids = column_ids_by_kind a Kind_EVALUATION;
         participant_ids = (if votes \<noteq> [] then set (map cv_column_id votes)
                            else set supporting_columns)
     in
     guardE (evidence_ids \<noteq> {}) CommitmentValidationError
            ''evidence column participation is required''
    (guardE (evaluation_ids \<noteq> {}) CommitmentValidationError
            ''evaluation column participation is required''
    (if participant_ids \<noteq> {} then
       guardE (evidence_ids \<inter> participant_ids \<noteq> {}) CommitmentValidationError
              ''evidence column vote is required''
      (guardE (evaluation_ids \<inter> participant_ids \<noteq> {}) CommitmentValidationError
              ''evaluation column vote is required''
      (Inr ()))
     else Inr ())))"

text \<open>One vote of the veto loop, on the pair of blockers and next actions.\<close>

definition veto_step ::
    "string list \<times> string list \<Rightarrow> column_vote \<Rightarrow> string list \<times> string list" where
  "veto_step st v =
     (if cv_veto v then
        ((if cv_blockers v \<noteq> [] then foldl append_unique_text (fst st) (cv_blockers v)
          else append_unique_text (fst st) ''veto_invoked''),
         foldl append_unique_text (snd st) (cv_next_actions v))
      else st)"

definition needs_human_approval :: "commitment_validation_context \<Rightarrow> bool" where
  "needs_human_approval vc =
     (vc_require_human_approval_for_high_risk vc \<and>
      py_lower (py_strip (co_decision (vc_commitment vc)))
        \<in> set (map (\<lambda>d. py_lower (py_strip d))
                 (filter (\<lambda>d. py_strip d \<noteq> '''') (vc_high_risk_decisions vc))) \<and>
      \<not> vc_human_approval_granted vc)"

definition validate_commitment_gate ::
    "assembly_state \<Rightarrow> commitment_validation_context \<Rightarrow> commitment res" where
  "validate_commitment_gate a vc =
    (let commitment = vc_commitment vc in
     bindE (require_commitment_participation a (vc_votes vc) []) (\<lambda>_.
     guardE (vc_decision_trail vc \<noteq> []) CommitmentValidationError
            ''signed audited decision trail is required''
    (let st1 = foldl veto_step (co_blockers commitment, co_next_actions commitment) (vc_votes vc)
     in
     bindE (clamp_confidence (vc_confidence_threshold vc)) (\<lambda>threshold.
     let low = co_confidence commitment < threshold;
         blockers2 = (if low then append_unique_text (fst st1) ''confidence_below_threshold''
                      else fst st1);
         actions2 = (if low
                     then append_unique_text
                            (append_unique_text (snd st1) ''gather_more_evidence'')
                            ''escalate_to_human_review''
                     else snd st1);
         blockers3 = (if needs_human_approval vc
                      then append_unique_text blockers2 ''human_approval_required''
                      else blockers2);
         actions3 = (if needs_human_approval vc
                     then append_unique_text actions2 ''request_human_approval''
                     else actions2)
     in Inr (if blockers3 \<noteq> [] \<or> actions3 \<noteq> []
             then commitment\<lparr>co_blockers := blockers3, co_next_actions := actions3\<rparr>
             else commitment)))))"

definition with_commitment ::
    "assembly_state \<Rightarrow> commitment \<Rightarrow> commitment_validation_context option \<Rightarrow> assembly_state res"
  where
  "with_commitment a c vc =
     (case vc of
        Some ctx \<Rightarrow> bindE (validate_commitment_gate a ctx) (\<lambda>c'. Inr (a\<lparr>as_commitment := Some c'\<rparr>))
      | None \<Rightarrow>
          if is_ready c
          then bindE (require_commitment_participation a [] (co_supporting_columns c))
                 (\<lambda>_. Inr (a\<lparr>as_commitment := Some c\<rparr>))
          else Inr (a\<lparr>as_commitment := Some c\<rparr>))"

definition can_continue :: "assembly_state \<Rightarrow> bool" where
  "can_continue a =
     (let budget = ad_budget_constraints (as_definition a) in
      \<not> (int (length (as_column_states a)) > max_columns budget) \<and>
      \<not> (as_iteration a \<ge> max_iterations budget) \<and>
      \<not> (as_messages_emitted a \<ge> max_messages budget) \<and>
      \<not> (case as_commitment a of None \<Rightarrow> False | Some c \<Rightarrow> is_ready c))"

section \<open>Specification predicates\<close>

definition evidence_ref_ok :: "string \<Rightarrow> bool" where
  "evidence_ref_ok r = (r \<noteq> '''' \<and> py_strip r = r \<and> length r \<le> BELIEF_EVIDENCE_REF_MAX_LENGTH)"

fun leak_free :: "jval \<Rightarrow> bool" where
  "leak_free (JDict kvs) = (\<forall>kv \<in> set kvs.
     (metadata_key_is_sensitive (fst kv) \<longrightarrow> snd kv = JStr redacted_text) \<and> leak_free (snd kv))"
| "leak_free (JList xs) = (\<forall>x \<in> set xs. leak_free x)"
| "leak_free _ = True"

definition belief_record_ok :: "belief_record \<Rightarrow> bool" where
  "belief_record_ok r =
     (belief_key_pattern (br_key r) \<and> py_strip (br_key r) = br_key r \<and>
      0 \<le> br_confidence r \<and> br_confidence r \<le> 1 \<and>
      distinct (br_evidence_refs r) \<and> list_all evidence_ref_ok (br_evidence_refs r) \<and>
      length (br_evidence_refs r) \<le> BELIEF_EVIDENCE_REF_MAX_COUNT \<and>
      length (br_rationale r) \<le> BELIEF_RATIONALE_MAX_LENGTH \<and>
      is_jdict (br_metadata r) \<and> leak_free (br_metadata r))"

definition belief_args_of :: "belief_record \<Rightarrow> belief_args" where
  "belief_args_of r = \<lparr>ba_key = JStr (br_key r), ba_value = br_value r,
     ba_confidence = Fin (br_confidence r), ba_evidence_refs = map JStr (br_evidence_refs r),
     ba_rationale = br_rationale r, ba_metadata = br_metadata r\<rparr>"

definition admitted_definition :: "admission_policy \<Rightarrow> assembly_definition \<Rightarrow> bool" where
  "admitted_definition policy d =
     (ad_assembly_id d \<noteq> '''' \<and> py_strip (ad_assembly_id d) = ad_assembly_id d \<and>
      ad_columns d \<noteq> [] \<and> distinct (ad_columns d) \<and>
      (\<forall>c \<in> set (ad_columns d). c \<noteq> '''' \<and> py_strip c = c) \<and>
      int (length (ad_columns d)) \<le> min (ap_max_columns policy) (max_columns (ad_budget_constraints d)) \<and>
      ap_max_columns policy \<le> 128 \<and>
      1 \<le> max_iterations (ad_budget_constraints d) \<and>
      max_iterations (ad_budget_constraints d) \<le> ap_max_iterations policy \<and>
      1 \<le> max_messages (ad_budget_constraints d) \<and>
      max_messages (ad_budget_constraints d) \<le> ap_max_messages policy \<and>
      map fst (ad_column_kinds d) = ad_columns d \<and>
      (\<forall>v \<in> snd ` set (ad_column_kinds d). \<exists>k. v = KindEnum k))"

definition required_kinds :: "admission_policy \<Rightarrow> kind_ref list" where
  "required_kinds policy = (if ap_required_column_kinds policy \<noteq> []
     then ap_required_column_kinds policy else core_kinds)"

definition allowed_kinds :: "admission_policy \<Rightarrow> kind_ref list" where
  "allowed_kinds policy = (if ap_allowed_column_kinds policy \<noteq> []
     then ap_allowed_column_kinds policy else map KindEnum all_kinds)"

text \<open>What a request must satisfy besides the shape of the definition.\<close>

definition permitted :: "string list \<Rightarrow> string list \<Rightarrow> bool" where
  "permitted allowed requested =
     (normalized_text_tuple allowed = [] \<or> set requested \<subseteq> set (normalized_text_tuple allowed))"

definition weight :: "column_vote list \<Rightarrow> string \<Rightarrow> rat" where
  "weight votes d = sum_list (map cv_confidence (filter (\<lambda>v. cv_decision v = d) votes))"

section \<open>Concrete instances\<close>

definition sample_belief :: belief_args where
  "sample_belief = \<lparr>ba_key = JStr '' k1 '', ba_value = JNum ''7'', ba_confidence = Fin 2,
    ba_evidence_refs = [JStr ''a'', JStr ''a''], ba_rationale = ''r'',
    ba_metadata = JDict [(''x'', JDict [(''api_key'', JStr ''z'')])]\<rparr>"

definition sample_record :: belief_record where
  "sample_record = \<lparr>br_key = ''k1'', br_value = JNum ''7'', br_confidence = 1,
    br_evidence_refs = [''a''], br_rationale = ''r'',
    br_metadata = JDict [(''x'', JDict [(''api_key'', JStr ''[redacted]''), (''redacted'', JBool True)]),
      (''redacted'', JBool True)]\<rparr>"

definition sample_definition :: assembly_definition where
  "sample_definition = \<lparr>ad_assembly_id = '' a1 '',
     ad_columns = [''goal'', ''evidence:x'', '' '', ''evaluation_1'', ''syn''],
     ad_column_kinds = [(''syn'', KindStr ''synthesis'')], ad_overlays = [],
     ad_column_capability_overrides = [], ad_consensus_policy = Pol_WEIGHTED,
     ad_inference_mode = Mode_SINGLE_PASS, ad_budget_constraints = default_budget,
     ad_escalation_policy = ''escalate_to_human_review''\<rparr>"

definition sample_admitted :: assembly_definition where
  "sample_admitted = sample_definition\<lparr>ad_assembly_id := ''a1'',
     ad_columns := [''goal'', ''evidence:x'', ''evaluation_1'', ''syn''],
     ad_column_kinds := [(''goal'', KindEnum Kind_GOAL), (''evidence:x'', KindEnum Kind_EVIDENCE),
       (''evaluation_1'', KindEnum Kind_EVALUATION), (''syn'', KindEnum Kind_SYNTHESIS)]\<rparr>"

definition sample_vote :: "string \<Rightarrow> string \<Rightarrow> rat \<Rightarrow> column_vote" where
  "sample_vote i d c = \<lparr>cv_column_id = i, cv_decision = d, cv_confidence = c,
     cv_supports_commitment = True, cv_veto = False, cv_blockers = [], cv_next_actions = []\<rparr>"

definition sample_votes :: "column_vote list" where
  "sample_votes = [sample_vote ''e'' ''go'' (1/2), sample_vote ''v'' ''go'' (1/2),
     sample_vote ''w'' ''stop'' (1/4)]"

definition sample_commitment :: commitment where
  "sample_commitment = \<lparr>co_decision = ''go'', co_confidence = 4/5,
     co_supporting_columns = [''e'', ''v''], co_dissenting_columns = [''w''],
     co_blockers = [], co_next_actions = []\<rparr>"

definition sample_state :: assembly_state where
  "sample_state = register_column_state
     (register_column_state (new_assembly_state sample_definition)
        (new_column_state ''e'' ''a1'' Kind_EVIDENCE 0))
     (new_column_state ''v'' ''a1'' Kind_EVALUATION 0)"

definition sample_context :: "column_vote list \<Rightarrow> commitment_validation_context" where
  "sample_context votes = \<lparr>vc_commitment = sample_commitment, vc_votes = votes,
     vc_confidence_threshold = Fin (1/2), vc_decision_trail = [''t''],
     vc_human_approval_granted = False, vc_high_risk_decisions = [''deploy''],
     vc_require_human_approval_for_high_risk = True\<rparr>"

definition blank_veto :: "string list \<Rightarrow> column_vote" where
  "blank_veto bs = (sample_vote ''x'' ''stop'' 1)\<lparr>cv_veto := True, cv_blockers := bs\<rparr>"

section \<open>Lemmas\<close>

lemma clamp01_range: "0 \<le> clamp01 r \<and> clamp01 r \<le> 1"
  by (simp add: clamp01_def)

lemma clamp01_id: "0 \<le> r \<Longrightarrow> r \<le> 1 \<Longrightarrow> clamp01 r = r"
  by (simp add: clamp01_def)

lemma clamp_confidence_Inr_iff: "clamp_confidence v = Inr c \<longleftrightarrow> (\<exists>r. v = Fin r \<and> c = clamp01 r)"
  by (cases v) (auto simp: clamp_confidence_def)

lemma evidence_refs_loop_ok:
  assumes "evidence_refs_loop i refs vs = Inr refs'" and "distinct refs" and "list_all evidence_ref_ok refs"
  shows "distinct refs' \<and> list_all evidence_ref_ok refs'"
  using assms
proof (induction i refs vs rule: evidence_refs_loop.induct)
  case (2 i refs v vs)
  then show ?case
    by (auto simp: Let_def evidence_ref_ok_def append_unique_def split: jval.splits if_splits)
qed simp

lemma evidence_refs_loop_fixpoint:
  assumes "list_all evidence_ref_ok (refs @ xs)" and "distinct (refs @ xs)"
  shows "evidence_refs_loop i refs (map JStr xs) = Inr (refs @ xs)"
  using assms
proof (induction xs arbitrary: i refs)
  case (Cons x xs)
  then have "append_unique refs x = refs @ [x]" by (auto simp: append_unique_def)
  with Cons show ?case by (auto simp: Let_def evidence_ref_ok_def)
qed simp

lemma not_sensitive_redacted: "\<not> metadata_key_is_sensitive ''redacted''"
  by code_simp

lemma leak_free_JDictI:
  assumes "\<And>k v. (k, v) \<in> set kvs \<Longrightarrow> (metadata_key_is_sensitive k \<longrightarrow> v = JStr redacted_text) \<and> leak_free v"
  shows "leak_free (JDict (AList.update ''redacted'' (JBool True) kvs)) \<and> leak_free (JDict kvs)"
  using assms set_update_subset [of "''redacted''" "JBool True" kvs] not_sensitive_redacted
  by fastforce

lemma redact_leak_free: "leak_free (redact_sensitive_metadata p v)"
proof (induction p v rule: redact_sensitive_metadata.induct)
  case (1 p kvs)
  let ?items = "map (\<lambda>(k, v). (k, if metadata_key_is_sensitive k then JStr redacted_text
                                    else redact_sensitive_metadata k v)) kvs"
  have "leak_free (JDict (AList.update ''redacted'' (JBool True) ?items)) \<and> leak_free (JDict ?items)"
    using 1 by (intro leak_free_JDictI) auto
  then show ?case by (simp add: Let_def)
qed auto

lemma map_fixed_update:
  assumes "\<And>x. x \<in> set kvs \<Longrightarrow> f x = x" and "f (k, v) = (k, v)"
  shows "map f (AList.update k v kvs) = AList.update k v kvs"
proof (rule map_idI)
  fix x assume "x \<in> set (AList.update k v kvs)"
  then have "x = (k, v) \<or> x \<in> set kvs" using set_update_subset by fastforce
  then show "f x = x" using assms by (cases x) auto
qed

lemma redact_idem:
  "redact_sensitive_metadata p (redact_sensitive_metadata p v) = redact_sensitive_metadata p v"
proof (induction p v rule: redact_sensitive_metadata.induct)
  case (1 p kvs)
  let ?R = "\<lambda>(k, v). (k, if metadata_key_is_sensitive k then JStr redacted_text
                         else redact_sensitive_metadata k v)"
  let ?items = "map ?R kvs"
  let ?out = "if list_ex flagged ?items then AList.update ''redacted'' (JBool True) ?items
              else ?items"
  have fixed: "?R x = x" if "x \<in> set ?items" for x
    using that 1 by auto
  have "map ?R (AList.update ''redacted'' (JBool True) ?items)
      = AList.update ''redacted'' (JBool True) ?items"
    by (rule map_fixed_update [OF fixed]) (auto simp: not_sensitive_redacted)
  moreover have "map ?R ?items = ?items"
    by (rule map_idI) (rule fixed)
  ultimately have "map ?R ?out = ?out" by simp
  then have "redact_sensitive_metadata p (JDict ?out) = JDict ?out"
    by (simp add: Let_def split: if_split del: map_map)
  then show ?case by (simp add: Let_def)
qed auto

lemma is_jdict_redact: "is_jdict (redact_sensitive_metadata p v) \<longleftrightarrow> is_jdict v"
  by (cases v) (auto simp: Let_def)

lemma normalize_belief_key_Inr_iff:
  "normalize_belief_key v = Inr k \<longleftrightarrow>
     (\<exists>s. v = JStr s \<and> k = py_strip s \<and> k \<noteq> '''' \<and> belief_key_pattern k)"
  by (cases v) (auto simp: normalize_belief_key_def Let_def guardE_eq_Inr_iff)

lemma normalize_evidence_refs_ok:
  "normalize_evidence_refs vs = Inr refs \<Longrightarrow>
     distinct refs \<and> list_all evidence_ref_ok refs \<and> length refs \<le> BELIEF_EVIDENCE_REF_MAX_COUNT"
  using evidence_refs_loop_ok [of 0 "[]" vs]
  by (auto simp: normalize_evidence_refs_def resE)

lemma normalize_evidence_refs_fixpoint:
  "list_all evidence_ref_ok refs \<Longrightarrow> distinct refs \<Longrightarrow>
     length refs \<le> BELIEF_EVIDENCE_REF_MAX_COUNT \<Longrightarrow>
     normalize_evidence_refs (map JStr refs) = Inr refs"
  using evidence_refs_loop_fixpoint [of "[]" refs 0] by (simp add: normalize_evidence_refs_def)

lemma normalize_belief_metadata_Inr_iff:
  "normalize_belief_metadata v = Inr m \<longleftrightarrow>
     is_jdict v \<and> m = redact_sensitive_metadata '''' v \<and>
     (\<exists>n. json_size_bytes m ''belief metadata'' = Inr n \<and> n \<le> BELIEF_METADATA_MAX_BYTES)"
  by (auto simp: normalize_belief_metadata_def Let_def resE is_jdict_redact)

lemma validate_belief_record_Inr_iff:
  "validate_belief_record b = Inr r \<longleftrightarrow>
     (normalize_belief_key (ba_key b) = Inr (br_key r) \<and> br_value r = ba_value b \<and>
      clamp_confidence (ba_confidence b) = Inr (br_confidence r) \<and>
      normalize_evidence_refs (ba_evidence_refs b) = Inr (br_evidence_refs r) \<and>
      br_rationale r = ba_rationale b \<and> length (ba_rationale b) \<le> BELIEF_RATIONALE_MAX_LENGTH \<and>
      (\<exists>n. json_size_bytes (ba_value b) ''belief value'' = Inr n \<and> n \<le> BELIEF_VALUE_MAX_BYTES) \<and>
      normalize_belief_metadata (ba_metadata b) = Inr (br_metadata r))"
  by (cases r) (auto simp: validate_belief_record_def resE)

lemma parse_kind_value [simp]: "parse_kind (kind_value k) = Some k"
  by (cases k) (simp_all add: parse_kind_def all_kinds_def)

lemma parse_kind_Some_iff: "parse_kind t = Some k \<longleftrightarrow> t = kind_value k"
  by (auto simp: parse_kind_def find_Some_iff)
     (metis parse_kind_def parse_kind_value find_Some_iff)

lemma parse_cap_value [simp]: "parse_cap (cap_value c) = Some c"
  by (cases c) (simp_all add: parse_cap_def all_caps_def)

lemma add_grants_iff:
  "c \<in> add_grants S gs \<longleftrightarrow> c \<in> S \<or> (\<exists>g \<in> set gs. parse_cap (column_capability_value g) = Some c)"
  by (induction gs arbitrary: S) (auto split: option.splits)

lemma bounded_positive_int_Inr_iff:
  "bounded_positive_int v f m = Inr n \<longleftrightarrow> n = v \<and> 1 \<le> v \<and> v \<le> m"
  by (auto simp: bounded_positive_int_def guardE_eq_Inr_iff)

lemma normalize_kind_Inr_iff:
  "normalize_column_kind_or_raise v c = Inr k \<longleftrightarrow> parse_kind (column_kind_value v) = Some k"
  by (auto simp: normalize_column_kind_or_raise_def split: option.splits)

lemma update_new_key: "k \<notin> fst ` set d \<Longrightarrow> AList.update k v d = d @ [(k, v)]"
  by (induction d) auto

lemma column_kinds_loop_Inr:
  assumes "column_kinds_loop d allowed cs acc = Inr r" and "distinct (map fst acc @ cs)"
  shows "\<exists>ks. r = acc @ map (\<lambda>(c, k). (c, KindEnum k)) (zip cs ks) \<and> length ks = length cs \<and>
          set ks \<subseteq> allowed \<and> list_all2 (\<lambda>c k. infer_column_kind d c = Inr k) cs ks"
  using assms
proof (induction d allowed cs acc rule: column_kinds_loop.induct)
  case (2 d allowed c cs acc)
  then obtain k where k: "infer_column_kind d c = Inr k" "k \<in> allowed"
    and r: "column_kinds_loop d allowed cs (AList.update c (KindEnum k) acc) = Inr r"
    by (auto simp: resE)
  have upd: "AList.update c (KindEnum k) acc = acc @ [(c, KindEnum k)]"
    using 2 by (intro update_new_key) auto
  have "distinct (map fst (AList.update c (KindEnum k) acc) @ cs)"
    using 2 upd by auto
  from "2.IH" [OF r this] obtain ks where
    "r = AList.update c (KindEnum k) acc @ map (\<lambda>(c, k). (c, KindEnum k)) (zip cs ks)"
    "length ks = length cs" "set ks \<subseteq> allowed"
    "list_all2 (\<lambda>c k. infer_column_kind d c = Inr k) cs ks" by blast
  then show ?case using k upd by (intro exI [of _ "k # ks"]) auto
qed simp

lemma validate_assembly_definition_Inr_iff:
  "validate_assembly_definition d policy tenant_id provider model tool_ids = Inr d' \<longleftrightarrow>
    (\<exists>allowed required.
      mapE (\<lambda>k. normalize_column_kind_or_raise k ''policy.allowed_column_kinds'')
        (allowed_kinds policy) = Inr allowed \<and>
      mapE (\<lambda>k. normalize_column_kind_or_raise k ''policy.required_column_kinds'')
        (required_kinds policy) = Inr required \<and>
      column_kinds_loop d (set allowed) (clean_columns (ad_columns d)) [] = Inr (ad_column_kinds d') \<and>
      missing_kind_values required (ad_column_kinds d') = [] \<and>
      d' = d\<lparr>ad_assembly_id := py_strip (ad_assembly_id d),
             ad_columns := clean_columns (ad_columns d),
             ad_column_kinds := ad_column_kinds d'\<rparr> \<and>
      py_strip (ad_assembly_id d) \<noteq> [] \<and> clean_columns (ad_columns d) \<noteq> [] \<and>
      distinct (clean_columns (ad_columns d)) \<and>
      int (length (clean_columns (ad_columns d))) \<le>
        min (ap_max_columns policy) (max_columns (ad_budget_constraints d)) \<and>
      1 \<le> ap_max_columns policy \<and> ap_max_columns policy \<le> 128 \<and>
      1 \<le> ap_max_iterations policy \<and> ap_max_iterations policy \<le> 128 \<and>
      1 \<le> ap_max_messages policy \<and> ap_max_messages policy \<le> 10000 \<and>
      1 \<le> max_columns (ad_budget_constraints d) \<and> max_columns (ad_budget_constraints d) \<le> 128 \<and>
      1 \<le> max_iterations (ad_budget_constraints d) \<and>
      max_iterations (ad_budget_constraints d) \<le> ap_max_iterations policy \<and>
      1 \<le> max_messages (ad_budget_constraints d) \<and>
      max_messages (ad_budget_constraints d) \<le> ap_max_messages policy \<and>
      permitted (ap_allowed_tenant_ids policy) [py_strip tenant_id] \<and>
      permitted (ap_allowed_providers policy) [py_strip provider] \<and>
      permitted (ap_allowed_models policy) [py_strip model] \<and>
      permitted (ap_allowed_tools policy) (normalized_text_tuple tool_ids))"
  unfolding validate_assembly_definition_def Let_def allowed_kinds_def [symmetric]
    required_kinds_def [symmetric] bindE_eq_Inr_iff guardE_eq_Inr_iff bounded_positive_int_Inr_iff
    permitted_def
  by (auto simp: filter_empty_conv subset_iff)

lemma missing_kind_values_Nil_iff:
  "missing_kind_values required acc = [] \<longleftrightarrow> (\<forall>k \<in> set required. KindEnum k \<in> snd ` set acc)"
  by (auto simp: missing_kind_values_def filter_empty_conv)

lemma zip_column_kinds:
  assumes "length ks = length cs"
  shows "map fst (map (\<lambda>(c, k). (c, KindEnum k)) (zip cs ks)) = cs"
    and "snd ` set (map (\<lambda>(c, k). (c, KindEnum k)) (zip cs ks)) = KindEnum ` set ks"
  using assms by (induction cs ks rule: list_induct2') auto

lemma clean_columns_idem [simp]: "clean_columns (clean_columns cs) = clean_columns cs"
  by (simp add: clean_columns_def filter_map o_def cong: filter_cong map_cong)

lemma clean_columns_stripped: "c \<in> set (clean_columns cs) \<Longrightarrow> c \<noteq> [] \<and> py_strip c = c"
  by (auto simp: clean_columns_def)

lemma validated_definition:
  assumes ok: "validate_assembly_definition d policy tenant_id provider model tool_ids = Inr d'"
  obtains allowed ks where
    "mapE (\<lambda>k. normalize_column_kind_or_raise k ''policy.allowed_column_kinds'')
       (allowed_kinds policy) = Inr allowed"
    "map fst (ad_column_kinds d') = ad_columns d'"
    "snd ` set (ad_column_kinds d') = KindEnum ` set ks" "set ks \<subseteq> set allowed"
    "ad_assembly_id d' = py_strip (ad_assembly_id d)"
    "ad_columns d' = clean_columns (ad_columns d)"
    "ad_budget_constraints d' = ad_budget_constraints d" "distinct (ad_columns d')"
proof -
  let ?cs = "clean_columns (ad_columns d)"
  from ok obtain allowed where
    allowed: "mapE (\<lambda>k. normalize_column_kind_or_raise k ''policy.allowed_column_kinds'')
       (allowed_kinds policy) = Inr allowed" and
    loop: "column_kinds_loop d (set allowed) ?cs [] = Inr (ad_column_kinds d')" and
    d': "d' = d\<lparr>ad_assembly_id := py_strip (ad_assembly_id d), ad_columns := ?cs,
            ad_column_kinds := ad_column_kinds d'\<rparr>" and dist: "distinct ?cs"
    unfolding validate_assembly_definition_Inr_iff by blast
  have flds: "ad_assembly_id d' = py_strip (ad_assembly_id d)" "ad_columns d' = ?cs"
    "ad_budget_constraints d' = ad_budget_constraints d"
    by (subst d', simp)+
  from column_kinds_loop_Inr [OF loop] dist obtain ks where
    ks: "ad_column_kinds d' = map (\<lambda>(c, k). (c, KindEnum k)) (zip ?cs ks)"
    "length ks = length ?cs" "set ks \<subseteq> set allowed" by auto
  show ?thesis
    by (rule that [OF allowed _ _ ks(3)])
       (use zip_column_kinds [OF ks(2)] ks(1) flds dist in simp_all)
qed

lemma validated_kinds_required:
  assumes ok: "validate_assembly_definition d policy tenant_id provider model tool_ids = Inr d'"
    and r: "r \<in> set (required_kinds policy)"
  shows "\<exists>c k. parse_kind (column_kind_value r) = Some k \<and> (c, KindEnum k) \<in> set (ad_column_kinds d')"
proof -
  from ok obtain required where
    required: "mapE (\<lambda>k. normalize_column_kind_or_raise k ''policy.required_column_kinds'')
       (required_kinds policy) = Inr required" and
    missing: "missing_kind_values required (ad_column_kinds d') = []"
    unfolding validate_assembly_definition_Inr_iff by blast
  obtain k where k: "k \<in> set required" "parse_kind (column_kind_value r) = Some k"
    using mapE_Inr_member [OF required r] by (auto simp: normalize_kind_Inr_iff)
  with missing show ?thesis by (fastforce simp: missing_kind_values_Nil_iff)
qed

lemma validated_kinds_allowed:
  assumes ok: "validate_assembly_definition d policy tenant_id provider model tool_ids = Inr d'"
    and mem: "(c, KindEnum k) \<in> set (ad_column_kinds d')"
  shows "\<exists>r \<in> set (allowed_kinds policy). parse_kind (column_kind_value r) = Some k"
proof (rule validated_definition [OF ok])
  fix allowed ks
  assume allowed: "mapE (\<lambda>k. normalize_column_kind_or_raise k ''policy.allowed_column_kinds'')
       (allowed_kinds policy) = Inr allowed"
    and ks: "snd ` set (ad_column_kinds d') = KindEnum ` set ks" "set ks \<subseteq> set allowed"
  from mem have "KindEnum k \<in> snd ` set (ad_column_kinds d')" by force
  then have "k \<in> set allowed" using ks by auto
  then show ?thesis using mapE_Inr_set [OF allowed] by (auto simp: normalize_kind_Inr_iff)
qed

lemma validated_admitted:
  assumes ok: "validate_assembly_definition d policy tenant_id provider model tool_ids = Inr d'"
  shows "admitted_definition policy d'"
proof (rule validated_definition [OF ok])
  fix ks
  assume flds: "ad_assembly_id d' = py_strip (ad_assembly_id d)"
    "ad_columns d' = clean_columns (ad_columns d)"
    "ad_budget_constraints d' = ad_budget_constraints d"
    and cols: "map fst (ad_column_kinds d') = ad_columns d'"
    "snd ` set (ad_column_kinds d') = KindEnum ` set ks"
  from ok have "clean_columns (ad_columns d) \<noteq> [] \<and> distinct (clean_columns (ad_columns d)) \<and>
    py_strip (ad_assembly_id d) \<noteq> [] \<and> int (length (clean_columns (ad_columns d)))
      \<le> min (ap_max_columns policy) (max_columns (ad_budget_constraints d)) \<and>
    ap_max_columns policy \<le> 128 \<and> 1 \<le> max_iterations (ad_budget_constraints d) \<and>
    max_iterations (ad_budget_constraints d) \<le> ap_max_iterations policy \<and>
    1 \<le> max_messages (ad_budget_constraints d) \<and>
    max_messages (ad_budget_constraints d) \<le> ap_max_messages policy"
    unfolding validate_assembly_definition_Inr_iff by blast
  then show ?thesis using cols
    by (auto simp: admitted_definition_def flds dest: clean_columns_stripped)
qed

lemma column_kinds_loop_recorded:
  assumes "\<And>c. c \<in> set cs \<Longrightarrow> \<exists>k. map_of (ad_column_kinds d) c = Some (KindEnum k) \<and> k \<in> allowed"
    and "distinct (map fst acc @ cs)"
  shows "column_kinds_loop d allowed cs acc
     = Inr (acc @ map (\<lambda>c. (c, the (map_of (ad_column_kinds d) c))) cs)"
  using assms
proof (induction cs arbitrary: acc)
  case (Cons c cs)
  obtain k where k: "map_of (ad_column_kinds d) c = Some (KindEnum k)" "k \<in> allowed"
    using Cons.prems(1) [of c] by auto
  have upd: "AList.update c (KindEnum k) acc = acc @ [(c, KindEnum k)]"
    using Cons.prems by (intro update_new_key) auto
  have "column_kinds_loop d allowed cs (acc @ [(c, KindEnum k)])
     = Inr ((acc @ [(c, KindEnum k)]) @ map (\<lambda>c. (c, the (map_of (ad_column_kinds d) c))) cs)"
    by (rule Cons.IH) (use Cons.prems in auto)
  then show ?case using k upd
    by (simp add: infer_column_kind_def normalize_column_kind_or_raise_def)
qed simp

lemma map_lookup_self:
  "distinct (map fst d) \<Longrightarrow> map (\<lambda>c. (c, the (map_of d c))) (map fst d) = d"
  unfolding map_map by (rule map_idI) (auto simp: map_of_is_SomeI)

lemma validated_loop_again:
  assumes "map fst (ad_column_kinds d') = ad_columns d'" and "distinct (ad_columns d')"
    and "snd ` set (ad_column_kinds d') = KindEnum ` set ks" and "set ks \<subseteq> set allowed"
  shows "column_kinds_loop d' (set allowed) (ad_columns d') [] = Inr (ad_column_kinds d')"
proof -
  have "\<exists>k. map_of (ad_column_kinds d') c = Some (KindEnum k) \<and> k \<in> set allowed"
    if c: "c \<in> set (ad_columns d')" for c
  proof -
    obtain v where v: "map_of (ad_column_kinds d') c = Some v" using c assms(1)
      by (metis (no_types, lifting) list.set_map map_of_eq_None_iff option.exhaust)
    then have "v \<in> snd ` set (ad_column_kinds d')" by (force dest: map_of_SomeD)
    then show ?thesis using v assms by auto
  qed
  then show ?thesis
    using column_kinds_loop_recorded [of "ad_columns d'" d' "set allowed" "[]"] assms
      map_lookup_self [of "ad_column_kinds d'"] by simp
qed

lemma append_unique_text_Nil_iff [simp]: "append_unique_text xs v = [] \<longleftrightarrow> xs = [] \<and> v = []"
  by (auto simp: append_unique_text_def)

lemma append_unique_text_mono: "set xs \<subseteq> set (append_unique_text xs v)"
  by (auto simp: append_unique_text_def)

lemma set_append_unique_text: "v \<noteq> [] \<Longrightarrow> set (append_unique_text xs v) = insert v (set xs)"
  by (auto simp: append_unique_text_def)

lemma foldl_append_unique_text_Nil_iff:
  "foldl append_unique_text xs vs = [] \<longleftrightarrow> xs = [] \<and> (\<forall>v \<in> set vs. v = [])"
  by (induction vs arbitrary: xs) auto

lemma foldl_append_unique_text_mono: "set xs \<subseteq> set (foldl append_unique_text xs vs)"
  by (induction vs arbitrary: xs) (use append_unique_text_mono in fastforce)+

lemma decision_weights_snoc:
  "decision_weights (vs @ [v]) = AList.update (cv_decision v)
     (dict_get (decision_weights vs) (cv_decision v) 0 + cv_confidence v) (decision_weights vs)"
  by (simp add: decision_weights_def)

lemma dict_get_decision_weights: "dict_get (decision_weights votes) d 0 = weight votes d"
proof (induction votes rule: rev_induct)
  case Nil
  then show ?case by (simp add: decision_weights_def weight_def dict_get_def)
next
  case (snoc v vs)
  then show ?case by (auto simp: decision_weights_snoc weight_def)
qed

lemma keys_decision_weights: "fst ` set (decision_weights votes) = cv_decision ` set votes"
proof (induction votes rule: rev_induct)
  case Nil
  then show ?case by (simp add: decision_weights_def)
next
  case (snoc v vs)
  then show ?case by (simp add: decision_weights_snoc dom_update)
qed

lemma distinct_decision_weights: "distinct (map fst (decision_weights votes))"
  by (induction votes rule: rev_induct)
     (simp_all add: decision_weights_def distinct_update)

lemma max_item_mem: "max_item b xs \<in> insert b (set xs)"
  by (induction b xs rule: max_item.induct) auto

lemma max_item_ge: "x \<in> insert b (set xs) \<Longrightarrow> snd x \<le> snd (max_item b xs)"
proof (induction xs arbitrary: b x)
  case (Cons y ys)
  let ?b = "if snd y > snd b then y else b"
  have top: "snd ?b \<le> snd (max_item ?b ys)" by (rule Cons.IH) simp
  show ?case
  proof (cases "x \<in> set ys")
    case True
    then have "snd x \<le> snd (max_item ?b ys)" by (intro Cons.IH) simp
    then show ?thesis by simp
  next
    case False
    with Cons.prems have "snd x \<le> snd ?b" by (auto split: if_splits)
    with top show ?thesis by simp
  qed
qed simp

lemma winning_decision_max:
  assumes "votes \<noteq> []"
  shows "winning_decision votes \<in> cv_decision ` set votes"
    and "d \<in> cv_decision ` set votes \<Longrightarrow> weight votes d \<le> weight votes (winning_decision votes)"
proof -
  obtain x xs where ws: "decision_weights votes = x # xs"
    using assms keys_decision_weights [of votes] by (cases "decision_weights votes") auto
  let ?m = "max_item x xs"
  have mem: "?m \<in> set (decision_weights votes)" using max_item_mem [of x xs] ws by simp
  have win: "winning_decision votes = fst ?m" by (simp add: winning_decision_def ws)
  have wt: "snd y = weight votes (fst y)" if "y \<in> set (decision_weights votes)" for y
  proof -
    have "map_of (decision_weights votes) (fst y) = Some (snd y)"
      using that distinct_decision_weights [of votes] by (simp add: map_of_is_SomeI)
    then show ?thesis using dict_get_decision_weights [of votes "fst y"] by (simp add: dict_get_def)
  qed
  show "winning_decision votes \<in> cv_decision ` set votes"
    using mem win keys_decision_weights [of votes] by (metis image_eqI)
  show "weight votes d \<le> weight votes (winning_decision votes)" if d: "d \<in> cv_decision ` set votes"
  proof -
    from d obtain y where y: "y \<in> set (decision_weights votes)" "fst y = d"
      using keys_decision_weights [of votes] by (metis imageE)
    then have "snd y \<le> snd ?m" using max_item_ge [of y x xs] ws by simp
    then show ?thesis using wt [OF y(1)] wt [OF mem] y(2) win by simp
  qed
qed

lemma weight_bounds:
  assumes "\<forall>v \<in> set votes. 0 \<le> cv_confidence v"
  shows "0 \<le> weight votes d" and "weight votes d \<le> sum_list (map cv_confidence votes)"
  using assms by (induction votes) (auto simp: weight_def intro: add_mono order_trans)

lemma dissenting_eq:
  "filter (\<lambda>v. v \<notin> set (filter P votes)) votes = filter (\<lambda>v. \<not> P v) votes"
  by (rule filter_cong) auto

lemma build_commitment_Inr:
  assumes "build_commitment votes policy threshold escalation = Inr c" and "votes \<noteq> []"
  obtains t as where "clamp_confidence threshold = Inr t"
    "co_decision c = winning_decision votes" "co_confidence c = vote_share votes"
    "co_supporting_columns c = map cv_column_id (filter (supports_winner (winning_decision votes)) votes)"
    "co_dissenting_columns c =
       map cv_column_id (filter (\<lambda>v. \<not> supports_winner (winning_decision votes) v) votes)"
    "co_blockers c = snd (foldl (dissent_step policy)
       (as, policy_blockers policy votes
              (filter (\<lambda>v. \<not> supports_winner (winning_decision votes) v) votes) (vote_share votes < t))
       (filter (\<lambda>v. \<not> supports_winner (winning_decision votes) v) votes))"
  using assms unfolding build_commitment_def Let_def dissenting_eq
  by (auto simp: bindE_eq_Inr_iff)

lemma vote_share_weight:
  assumes "votes \<noteq> []" and nonneg: "\<forall>v \<in> set votes. 0 \<le> cv_confidence v"
  shows "vote_share votes * sum_list (map cv_confidence votes) = weight votes (winning_decision votes)"
    and "0 \<le> vote_share votes" and "vote_share votes \<le> 1"
  using weight_bounds [OF nonneg, of "winning_decision votes"]
  by (auto simp: vote_share_def Let_def dict_get_decision_weights divide_le_eq_1)

lemma dissent_step_blockers_mono: "set (snd st) \<subseteq> set (snd (dissent_step policy st v))"
proof -
  have "set bs \<subseteq> set (foldl (\<lambda>bs b. if P then append_unique_text bs b else bs) bs xs)" for P bs xs
    by (induction xs arbitrary: bs) (use append_unique_text_mono in fastforce)+
  then show ?thesis by (simp add: dissent_step_def)
qed

lemma dissent_loop_blockers_mono: "set (snd st) \<subseteq> set (snd (foldl (dissent_step policy) st vs))"
  by (induction vs arbitrary: st) (use dissent_step_blockers_mono in fastforce)+

lemma veto_step_Nil:
  "fst (veto_step st v) = [] \<longleftrightarrow>
     fst st = [] \<and> (cv_veto v \<longrightarrow> cv_blockers v \<noteq> [] \<and> (\<forall>b \<in> set (cv_blockers v). b = []))"
  by (auto simp: veto_step_def foldl_append_unique_text_Nil_iff)

lemma veto_loop_Nil:
  "fst (foldl veto_step st votes) = [] \<longleftrightarrow>
     fst st = [] \<and> (\<forall>v \<in> set votes. cv_veto v \<longrightarrow>
       cv_blockers v \<noteq> [] \<and> (\<forall>b \<in> set (cv_blockers v). b = []))"
  by (induction votes arbitrary: st) (auto simp: veto_step_Nil)

lemma participation_Inr:
  assumes "require_commitment_participation a votes cols = Inr ()"
  shows "column_ids_by_kind a Kind_EVIDENCE \<noteq> {} \<and> column_ids_by_kind a Kind_EVALUATION \<noteq> {} \<and>
    (votes \<noteq> [] \<longrightarrow>
      column_ids_by_kind a Kind_EVIDENCE \<inter> cv_column_id ` set votes \<noteq> {} \<and>
      column_ids_by_kind a Kind_EVALUATION \<inter> cv_column_id ` set votes \<noteq> {})"
  using assms by (auto simp: require_commitment_participation_def Let_def guardE_eq_Inr_iff split: if_splits)

subsection \<open>The registry provides the write-once contract\<close>

lemma register_Inr_iff:
  "register r c = Inr r' \<longleftrightarrow> col_column_id c \<notin> fst ` set r \<and> r' = r @ [(col_column_id c, c)]"
  by (auto simp: register_def update_new_key)

interpretation registry: write_once_registry register map_of col_column_id
  by unfold_locales
     (auto simp: register_Inr_iff map_of_eq_None_iff register_def raise_def update_conv'
       fun_eq_iff)

lemma register_all_list: "foldE register r cols = Inr r' \<Longrightarrow> map snd r' = map snd r @ cols"
  by (induction cols arbitrary: r) (auto simp: bindE_eq_Inr_iff register_Inr_iff)

subsection \<open>The concrete instances run\<close>

lemma validate_sample_belief: "validate_belief_record sample_belief = Inr sample_record"
  by code_simp

lemma validate_sample_definition:
  "validate_assembly_definition sample_definition default_admission_policy [] [] [] []
     = Inr sample_admitted"
  by code_simp

lemma build_sample_commitment:
  "build_commitment sample_votes Pol_CONFIDENCE_THRESHOLD (Fin (1/2)) ''escalate''
     = Inr sample_commitment"
  by code_simp

lemma sample_gate:
  "validate_commitment_gate sample_state (sample_context sample_votes) = Inr sample_commitment"
  by code_simp

lemma sample_commitment_ready: "is_ready sample_commitment"
  by (simp add: is_ready_def sample_commitment_def)

section \<open>Properties\<close>

text \<open>
  A belief record that passes validation is well formed: its key matches the key pattern and
  carries no surrounding white space, its confidence lies in [0,1], its evidence references are
  distinct, stripped, non-empty, at most 32 and at most 256 characters each, its rationale is
  bounded, no sensitive key at any depth of its metadata keeps its value, and the JSON sizes of
  its value and metadata stay under the byte limits.
\<close>

theorem validated_belief_is_well_formed:
  assumes "validate_belief_record b = Inr r"
  shows "belief_record_ok r \<and>
    (\<exists>n. json_size_bytes (br_value r) ''belief value'' = Inr n \<and> n \<le> BELIEF_VALUE_MAX_BYTES) \<and>
    (\<exists>n. json_size_bytes (br_metadata r) ''belief metadata'' = Inr n
         \<and> n \<le> BELIEF_METADATA_MAX_BYTES)"
  using assms
  by (auto simp: validate_belief_record_Inr_iff belief_record_ok_def normalize_belief_key_Inr_iff
      clamp_confidence_Inr_iff clamp01_range normalize_belief_metadata_Inr_iff is_jdict_redact
      redact_leak_free dest: normalize_evidence_refs_ok)

theorem validated_belief_is_well_formed_witness:
  "belief_record_ok sample_record \<and>
   (\<exists>n. json_size_bytes (br_value sample_record) ''belief value'' = Inr n
        \<and> n \<le> BELIEF_VALUE_MAX_BYTES) \<and>
   (\<exists>n. json_size_bytes (br_metadata sample_record) ''belief metadata'' = Inr n
        \<and> n \<le> BELIEF_METADATA_MAX_BYTES)"
  by (rule validated_belief_is_well_formed [OF validate_sample_belief])

text \<open>
  Validation is a fixed point: building a record again from the fields of a validated record
  (what \<open>dataclasses.replace\<close> does) succeeds and changes nothing, redaction included.
\<close>

theorem belief_revalidation:
  assumes "validate_belief_record b = Inr r"
  shows "validate_belief_record (belief_args_of r) = Inr r"
  using assms normalize_evidence_refs_ok [of "ba_evidence_refs b" "br_evidence_refs r"]
  by (auto simp: validate_belief_record_Inr_iff belief_args_of_def normalize_belief_key_Inr_iff
      clamp_confidence_Inr_iff clamp01_range clamp01_id normalize_belief_metadata_Inr_iff
      is_jdict_redact redact_idem normalize_evidence_refs_fixpoint)

theorem belief_revalidation_witness:
  "validate_belief_record (belief_args_of sample_record) = Inr sample_record"
  by (rule belief_revalidation [OF validate_sample_belief])

text \<open>
  The capability check passes exactly when the column kind and the capability are known and the
  capability is a default of that kind or named by an explicit grant; in every other case it raises
  \<open>ColumnCapabilityError\<close>.
\<close>

theorem require_column_capability_iff:
  "(require_column_capability column_id kind capability grants = Inr () \<longleftrightarrow>
     (\<exists>k c. parse_kind (column_kind_value kind) = Some k \<and>
            parse_cap (column_capability_value capability) = Some c \<and>
            (c \<in> DEFAULT_COLUMN_CAPABILITIES k \<or>
             (\<exists>g \<in> set grants. parse_cap (column_capability_value g) = Some c)))) \<and>
   (require_column_capability column_id kind capability grants \<noteq> Inr () \<longrightarrow>
     (\<exists>m. require_column_capability column_id kind capability grants
            = Inl (Exn ColumnCapabilityError m)))"
  by (auto simp: require_column_capability_def column_capability_error_def
      column_capabilities_for_def add_grants_iff raise_def split: option.splits)

theorem require_column_capability_iff_witness:
  "require_column_capability ''e'' (KindEnum Kind_EVIDENCE) (CapEnum Cap_RETRIEVE) [] = Inr () \<and>
   (\<exists>m. require_column_capability ''e'' (KindEnum Kind_EVIDENCE) (CapEnum Cap_VETO) []
          = Inl (Exn ColumnCapabilityError m))"
  using require_column_capability_iff [of "''e''" "KindEnum Kind_EVIDENCE" "CapEnum Cap_RETRIEVE" "[]"]
    require_column_capability_iff [of "''e''" "KindEnum Kind_EVIDENCE" "CapEnum Cap_VETO" "[]"]
  by (auto simp: parse_kind_def parse_cap_def all_kinds_def all_caps_def)



text \<open>
  Admission is idempotent: an admitted definition is admitted again, unchanged, under the same
  policy and request.
\<close>

theorem validate_assembly_definition_idem:
  assumes ok: "validate_assembly_definition d policy tenant_id provider model tool_ids = Inr d'"
  shows "validate_assembly_definition d' policy tenant_id provider model tool_ids = Inr d'"
proof (rule validated_definition [OF ok], goal_cases)
  case (1 allowed ks)
  have "column_kinds_loop d' (set allowed) (ad_columns d') [] = Inr (ad_column_kinds d')"
    using 1 by (intro validated_loop_again) auto
  moreover have "clean_columns (ad_columns d') = ad_columns d'" using 1 by simp
  moreover have "py_strip (ad_assembly_id d') = ad_assembly_id d'" using 1 by simp
  ultimately show ?case using ok 1 unfolding validate_assembly_definition_Inr_iff by auto
qed

theorem validate_assembly_definition_idem_witness:
  "validate_assembly_definition sample_admitted default_admission_policy [] [] [] []
     = Inr sample_admitted"
  by (rule validate_assembly_definition_idem [OF validate_sample_definition])

text \<open>
  C25: The committed decision is one that was voted for and has the largest total confidence; the
  commitment's confidence is that decision's share of the total weight and lies in [0,1]; the
  supporting and the dissenting columns are the votes for and against it, each vote on one side.
\<close>

theorem build_commitment_plurality:
  assumes ok: "build_commitment votes policy threshold escalation = Inr c"
    and votes: "votes \<noteq> []" and nonneg: "\<forall>v \<in> set votes. 0 \<le> cv_confidence v"
  shows "co_decision c \<in> cv_decision ` set votes \<and>
    (\<forall>d \<in> cv_decision ` set votes. weight votes d \<le> weight votes (co_decision c)) \<and>
    co_confidence c * sum_list (map cv_confidence votes) = weight votes (co_decision c) \<and>
    0 \<le> co_confidence c \<and> co_confidence c \<le> 1 \<and>
    co_supporting_columns c = map cv_column_id (filter (supports_winner (co_decision c)) votes) \<and>
    co_dissenting_columns c =
      map cv_column_id (filter (\<lambda>v. \<not> supports_winner (co_decision c) v) votes)"
  using winning_decision_max [OF votes] vote_share_weight [OF votes nonneg]
  by (rule_tac build_commitment_Inr [OF ok votes]) simp

theorem build_commitment_plurality_witness:
  "co_decision sample_commitment \<in> cv_decision ` set sample_votes \<and>
   weight sample_votes ''stop'' \<le> weight sample_votes (co_decision sample_commitment) \<and>
   0 \<le> co_confidence sample_commitment \<and> co_confidence sample_commitment \<le> 1"
  using build_commitment_plurality [OF build_sample_commitment]
  by (simp add: sample_votes_def sample_vote_def)

text \<open>
  A ready commitment respects its consensus policy: under \<open>UNANIMOUS\<close> every vote supports the
  decision, under \<open>VETO\<close> no vote is a veto, under \<open>CONFIDENCE_THRESHOLD\<close> the confidence reaches
  the clamped threshold; and it is never built from no votes.
\<close>

theorem build_commitment_ready:
  assumes ok: "build_commitment votes policy threshold escalation = Inr c" and ready: "is_ready c"
  shows "votes \<noteq> [] \<and>
    (policy = Pol_UNANIMOUS \<longrightarrow> (\<forall>v \<in> set votes. supports_winner (co_decision c) v)) \<and>
    (policy = Pol_VETO \<longrightarrow> (\<forall>v \<in> set votes. \<not> cv_veto v)) \<and>
    (policy = Pol_CONFIDENCE_THRESHOLD \<longrightarrow>
       (\<exists>t. clamp_confidence threshold = Inr t \<and> t \<le> co_confidence c))"
proof -
  have votes: "votes \<noteq> []" using ok ready by (auto simp: build_commitment_def is_ready_def)
  let ?dis = "filter (\<lambda>v. \<not> supports_winner (winning_decision votes) v) votes"
  obtain t as where t: "clamp_confidence threshold = Inr t" and c:
    "co_decision c = winning_decision votes" "co_confidence c = vote_share votes"
    "co_blockers c = snd (foldl (dissent_step policy)
       (as, policy_blockers policy votes ?dis (vote_share votes < t)) ?dis)"
    by (rule build_commitment_Inr [OF ok votes])
  have "policy_blockers policy votes ?dis (vote_share votes < t) = []"
    using dissent_loop_blockers_mono
        [of "(as, policy_blockers policy votes ?dis (vote_share votes < t))" policy ?dis]
      c(3) ready by (simp add: is_ready_def)
  then show ?thesis using votes c t
    by (auto simp: policy_blockers_def filter_empty_conv not_less split: if_splits)
qed

theorem build_commitment_ready_witness:
  "is_ready sample_commitment \<and>
   (\<exists>t. clamp_confidence (Fin (1/2)) = Inr t \<and> t \<le> co_confidence sample_commitment)"
  using build_commitment_ready [OF build_sample_commitment sample_commitment_ready]
    sample_commitment_ready by simp

text \<open>
  C9: What the commitment gate lets through as ready: evidence and evaluation columns took part
  (and voted, when there are votes), the decision trail is not empty, the confidence reaches the
  threshold, no human approval is outstanding, the commitment had no blocker before, and the only
  veto votes it may contain are those whose blockers are all empty strings.
\<close>

theorem commitment_gate_safe:
  assumes ok: "validate_commitment_gate a vc = Inr c" and ready: "is_ready c"
  shows "column_ids_by_kind a Kind_EVIDENCE \<noteq> {} \<and> column_ids_by_kind a Kind_EVALUATION \<noteq> {} \<and>
    (vc_votes vc \<noteq> [] \<longrightarrow>
      (\<exists>v \<in> set (vc_votes vc). cv_column_id v \<in> column_ids_by_kind a Kind_EVIDENCE) \<and>
      (\<exists>v \<in> set (vc_votes vc). cv_column_id v \<in> column_ids_by_kind a Kind_EVALUATION)) \<and>
    vc_decision_trail vc \<noteq> [] \<and> co_blockers (vc_commitment vc) = [] \<and>
    (\<forall>v \<in> set (vc_votes vc). cv_veto v \<longrightarrow>
       cv_blockers v \<noteq> [] \<and> (\<forall>b \<in> set (cv_blockers v). b = [])) \<and>
    (\<exists>t. clamp_confidence (vc_confidence_threshold vc) = Inr t \<and> t \<le> co_confidence c) \<and>
    \<not> needs_human_approval vc \<and> co_decision c = co_decision (vc_commitment vc)"
proof -
  from ok obtain t where part: "require_commitment_participation a (vc_votes vc) [] = Inr ()"
    and trail: "vc_decision_trail vc \<noteq> []"
    and t: "clamp_confidence (vc_confidence_threshold vc) = Inr t"
    by (auto simp: validate_commitment_gate_def Let_def bindE_eq_Inr_iff guardE_eq_Inr_iff)
  let ?st = "foldl veto_step (co_blockers (vc_commitment vc), co_next_actions (vc_commitment vc))
               (vc_votes vc)"
  from ok ready part trail t have "fst ?st = [] \<and> t \<le> co_confidence c \<and> \<not> needs_human_approval vc
      \<and> co_decision c = co_decision (vc_commitment vc)"
    by (auto simp: validate_commitment_gate_def Let_def is_ready_def not_less split: if_splits)
  then show ?thesis using participation_Inr [OF part] trail t
    by (auto simp: veto_loop_Nil)
qed

theorem commitment_gate_safe_witness:
  "is_ready sample_commitment \<and> vc_decision_trail (sample_context sample_votes) \<noteq> [] \<and>
   \<not> needs_human_approval (sample_context sample_votes)"
  using commitment_gate_safe [OF sample_gate sample_commitment_ready] sample_commitment_ready
  by simp

text \<open>
  The gate can be passed with a veto: a veto vote whose only blocker is the empty string adds
  no blocker, because the code tests the list of blockers for emptiness and then drops the empty
  entries; the same vote with no blockers at all is stopped by \<open>veto_invoked\<close>.
\<close>

theorem blank_veto_passes_gate:
  "validate_commitment_gate sample_state (sample_context (blank_veto [[]] # sample_votes))
     = Inr sample_commitment \<and> is_ready sample_commitment \<and>
   validate_commitment_gate sample_state (sample_context (blank_veto [] # sample_votes))
     = Inr (sample_commitment\<lparr>co_blockers := [''veto_invoked'']\<rparr>)"
  by code_simp

text \<open>
  The column registry is write-once: registering columns one after the other succeeds exactly
  when their ids are distinct; it then lists them in registration order and returns each under its
  id.
\<close>

theorem registry_register_all:
  "(\<exists>r. foldE register registry_init cols = Inr r) = distinct (map col_column_id cols) \<and>
   (\<forall>r. foldE register registry_init cols = Inr r \<longrightarrow>
      list_columns r = cols \<and> (\<forall>c \<in> set cols. registry_get r (col_column_id c) = Inr c))"
  using registry.add_all_Inr_iff [of registry_init cols] registry.add_all_find [of registry_init cols]
    register_all_list [of registry_init cols]
  by (auto simp: registry_init_def registry_get_def list_columns_def)

theorem registry_register_all_witness:
  "\<exists>r. foldE register registry_init
          [\<lparr>col_column_id = ''a'', col_kind = Kind_GOAL\<rparr>, \<lparr>col_column_id = ''b'', col_kind = Kind_STATE\<rparr>]
        = Inr r \<and>
     registry_get r ''b'' = Inr \<lparr>col_column_id = ''b'', col_kind = Kind_STATE\<rparr>"
  using registry_register_all [of "[\<lparr>col_column_id = ''a'', col_kind = Kind_GOAL\<rparr>,
       \<lparr>col_column_id = ''b'', col_kind = Kind_STATE\<rparr>]"]
  by force

end
