(* ===== verification/Assembly_Runner.thy ===== *)
theory Assembly_Runner
  imports Cognition
begin

text \<open>
  \<open>locus_runtime/assembly_runner.py\<close>: the per-step runtime gate of a column and the assembly
  runner that drives the goal, evidence, evaluation and synthesis columns to a commitment.

  The mutable objects of a run (the budget counters, the decision trail and what the audit callback
  has received) are a \<open>run_state\<close> that every operation takes and returns, also when it raises: an
  audit event written before an exception stays written.  \<open>persist_assembly_state\<close> (file or
  Redis I/O) is an argument of \<open>run\<close>.
\<close>

section \<open>State and requests\<close>

datatype audit_outcome = Audit_allowed | Audit_blocked | Audit_error

record audit_entry =
  au_event :: string
  au_actor :: string
  au_outcome :: audit_outcome
  au_metadata :: "(string, jval) dict"

record run_state =
  admitted_steps :: int
  decision_trail :: "string list"
  audit_log :: "audit_entry list"

definition new_run_state :: run_state where
  "new_run_state = \<lparr>admitted_steps = 0, decision_trail = [], audit_log = []\<rparr>"

text \<open>A computation that reads and writes the run state and may raise.\<close>

type_synonym 'a run = "run_state \<Rightarrow> run_state \<times> 'a res"

definition bindR :: "'a run \<Rightarrow> ('a \<Rightarrow> 'b run) \<Rightarrow> 'b run" where
  "bindR m f s = (case m s of (s', Inl e) \<Rightarrow> (s', Inl e) | (s', Inr x) \<Rightarrow> f x s')"

definition liftR :: "'a res \<Rightarrow> 'a run" where
  "liftR r s = (s, r)"

text \<open>
  The authentication context, when it is a dictionary: its \<open>authenticated\<close> entry and the text of
  its \<open>tenant\<close> entry (empty when absent).
\<close>

record auth_ctx =
  ac_authenticated :: jval
  ac_tenant :: string

record gate_request =
  gr_assembly_id :: string
  gr_column_id :: string
  gr_column_kind :: column_kind
  gr_capability :: column_capability
  gr_actor :: string
  gr_tenant_id :: string
  gr_auth_context :: "auth_ctx option"
  gr_require_tenant_context :: bool
  gr_definition :: "assembly_definition option"
  gr_admission_policy :: admission_policy
  gr_provider :: string
  gr_model :: string
  gr_tool_ids :: "string list"
  gr_retrieval_sources :: "string list"
  gr_network_hosts :: "string list"
  gr_budget :: assembly_budget
  gr_has_audit :: bool

record run_request =
  rq_assembly_id :: string
  rq_task :: string
  rq_actor :: string
  rq_tenant_id :: string
  rq_auth_context :: "auth_ctx option"
  rq_require_tenant_context :: bool
  rq_assembly_definition :: "assembly_definition option"
  rq_admission_policy :: admission_policy
  rq_provider :: string
  rq_model :: string
  rq_tool_ids :: "string list"
  rq_retrieval_sources :: "string list"
  rq_network_hosts :: "string list"
  rq_has_audit :: bool
  rq_human_approval_granted :: bool
  rq_confidence_threshold :: pyfloat
  rq_consensus_policy :: consensus_policy
  rq_inference_mode :: inference_mode
  rq_budget :: assembly_budget
  rq_context :: "(string, jval) dict"

record run_result =
  rr_assembly_id :: string
  rr_state :: assembly_state
  rr_outcome :: string
  rr_persisted :: jval

section \<open>The column runtime gate\<close>

definition normalized_runtime_values :: "string list \<Rightarrow> string list" where
  "normalized_runtime_values values = filter (\<lambda>t. t \<noteq> []) (map py_strip values)"

definition audit_to :: "bool \<Rightarrow> audit_entry \<Rightarrow> run_state \<Rightarrow> run_state" where
  "audit_to has_audit entry s = (if has_audit then s\<lparr>audit_log := audit_log s @ [entry]\<rparr> else s)"

definition runtime_gate_audit ::
    "gate_request \<Rightarrow> audit_outcome \<Rightarrow> (string, jval) dict \<Rightarrow> run_state \<Rightarrow> run_state" where
  "runtime_gate_audit rq outcome metadata s =
     audit_to (gr_has_audit rq)
       \<lparr>au_event = ''cognition.column.runtime_gate'', au_actor = gr_actor rq, au_outcome = outcome,
        au_metadata =
          [(''assembly_id'', JStr (gr_assembly_id rq)), (''tenant_id'', JStr (gr_tenant_id rq)),
           (''column_id'', JStr (gr_column_id rq)),
           (''column_kind'', JStr (kind_value (gr_column_kind rq))),
           (''capability'', JStr (cap_value (gr_capability rq)))] @ metadata\<rparr> s"

definition deny_column_runtime :: "gate_request \<Rightarrow> string \<Rightarrow> 'a run" where
  "deny_column_runtime rq reason s =
     (runtime_gate_audit rq Audit_blocked [(''reason'', JStr reason)] s,
      raise ColumnRuntimeGateError reason)"

definition explicit_grants_of :: "gate_request \<Rightarrow> cap_ref list" where
  "explicit_grants_of rq =
     (case gr_definition rq of None \<Rightarrow> []
      | Some d \<Rightarrow> dict_get (ad_column_capability_overrides d) (gr_column_id rq) [])"

definition outside :: "string list \<Rightarrow> string list \<Rightarrow> bool" where
  \<comment> \<open>an allow list is set and one of the requested values is not on it\<close>
  "outside allowed requested =
     (normalized_runtime_values allowed \<noteq> [] \<and>
      filter (\<lambda>v. v \<notin> set (normalized_runtime_values allowed)) requested \<noteq> [])"

text \<open>The reason of the first check that fails, in the order of the code.\<close>

definition runtime_refusal :: "gate_request \<Rightarrow> int \<Rightarrow> string option" where
  "runtime_refusal rq steps =
    (let tenant_id = py_strip (gr_tenant_id rq);
         auth_tenant = (case gr_auth_context rq of None \<Rightarrow> [] | Some a \<Rightarrow> py_strip (ac_tenant a));
         capability = require_column_capability (gr_column_id rq) (KindEnum (gr_column_kind rq))
           (CapEnum (gr_capability rq)) (explicit_grants_of rq);
         policy = gr_admission_policy rq
     in
     if (case gr_auth_context rq of None \<Rightarrow> False | Some a \<Rightarrow> ac_authenticated a \<noteq> JBool True)
     then Some ''authenticated runtime context required''
     else if gr_require_tenant_context rq \<and> tenant_id = [] then Some ''tenant context required''
     else if tenant_id \<noteq> [] \<and> auth_tenant \<noteq> [] \<and> tenant_id \<noteq> auth_tenant
     then Some ''tenant ownership mismatch''
     else if isl capability then Some (exn_msg (projl capability))
     else if outside (ap_allowed_providers policy) [py_strip (gr_provider rq)]
     then Some ''provider is not allowed for column runtime''
     else if outside (ap_allowed_models policy) [py_strip (gr_model rq)]
     then Some ''model is not allowed for column runtime''
     else if outside (ap_allowed_tools policy) (normalized_runtime_values (gr_tool_ids rq))
     then Some ''tool is not allowed for column runtime''
     else if outside (ap_allowed_retrieval_sources policy)
               (normalized_runtime_values (gr_retrieval_sources rq))
     then Some ''retrieval source is not allowed for column runtime''
     else if outside (ap_allowed_network_hosts policy)
               (normalized_runtime_values (gr_network_hosts rq))
     then Some ''network host is not allowed for column runtime''
     else if steps \<ge> max_messages (gr_budget rq) then Some ''column runtime budget exceeded''
     else None)"

definition admit_column_runtime_step :: "gate_request \<Rightarrow> unit run" where
  "admit_column_runtime_step rq s =
     (case runtime_refusal rq (admitted_steps s) of
        Some reason \<Rightarrow> deny_column_runtime rq reason s
      | None \<Rightarrow>
          let s' = s\<lparr>admitted_steps := admitted_steps s + 1\<rparr> in
          (runtime_gate_audit rq Audit_allowed
             [(''admitted_steps'', JNum (py_str_int (admitted_steps s')))] s', Inr ()))"

section \<open>The runner\<close>

definition step_request ::
    "run_request \<Rightarrow> assembly_definition \<Rightarrow> string \<Rightarrow> column_kind \<Rightarrow> column_capability \<Rightarrow> gate_request"
  where
  "step_request request d column_id kind capability =
     \<lparr>gr_assembly_id = ad_assembly_id d, gr_column_id = column_id, gr_column_kind = kind,
      gr_capability = capability, gr_actor = rq_actor request, gr_tenant_id = rq_tenant_id request,
      gr_auth_context = rq_auth_context request,
      gr_require_tenant_context = rq_require_tenant_context request, gr_definition = Some d,
      gr_admission_policy = rq_admission_policy request, gr_provider = rq_provider request,
      gr_model = rq_model request, gr_tool_ids = rq_tool_ids request,
      gr_retrieval_sources = rq_retrieval_sources request,
      gr_network_hosts = rq_network_hosts request, gr_budget = ad_budget_constraints d,
      gr_has_audit = rq_has_audit request\<rparr>"

definition trail_entry :: "string \<Rightarrow> column_kind \<Rightarrow> column_capability \<Rightarrow> string" where
  "trail_entry column_id kind capability =
     column_id @ '':'' @ kind_value kind @ '':'' @ cap_value capability @ '':allowed''"

definition runner_admit ::
    "run_request \<Rightarrow> assembly_definition \<Rightarrow> string \<Rightarrow> column_kind \<Rightarrow> column_capability \<Rightarrow> unit run"
  where
  \<comment> \<open>\<open>AssemblyRunner._admit_column_runtime_step\<close>\<close>
  "runner_admit request d column_id kind capability =
     bindR (admit_column_runtime_step (step_request request d column_id kind capability)) (\<lambda>_ s.
       (s\<lparr>decision_trail := decision_trail s @ [trail_entry column_id kind capability]\<rparr>, Inr ()))"

definition runner_column_state ::
    "string \<Rightarrow> string \<Rightarrow> column_kind \<Rightarrow> belief_args \<Rightarrow> rat \<Rightarrow> column_state res" where
  \<comment> \<open>the belief record is built first, then \<open>AssemblyRunner._column_state\<close>\<close>
  "runner_column_state assembly_id column_id kind belief now =
     bindE (validate_belief_record belief) (\<lambda>b.
     Inr (with_beliefs (new_column_state column_id assembly_id kind now) [b] now))"

definition default_definition :: "run_request \<Rightarrow> assembly_definition" where
  "default_definition request =
     \<lparr>ad_assembly_id = py_strip (rq_assembly_id request),
      ad_columns = [''goal'', ''evidence'', ''evaluation'', ''synthesis''], ad_column_kinds = [],
      ad_overlays = [], ad_column_capability_overrides = [],
      ad_consensus_policy = rq_consensus_policy request,
      ad_inference_mode = rq_inference_mode request, ad_budget_constraints = rq_budget request,
      ad_escalation_policy = ''escalate_to_human_review''\<rparr>"

definition admitted_run_definition :: "run_request \<Rightarrow> assembly_definition res" where
  \<comment> \<open>the checks of \<open>run\<close> up to the column ids\<close>
  "admitted_run_definition request =
     guardE (py_strip (rq_task request) \<noteq> []) ValueError ''task is required''
    (bindE (validate_assembly_definition
              (case rq_assembly_definition request of Some d \<Rightarrow> d
               | None \<Rightarrow> default_definition request)
              (rq_admission_policy request) (rq_tenant_id request) (rq_provider request)
              (rq_model request) (rq_tool_ids request)) (\<lambda>d.
     guardE (ad_assembly_id d \<noteq> []) ValueError ''assembly_id is required''
    (guardE (\<not> (py_strip (rq_assembly_id request) \<noteq> [] \<and>
                ad_assembly_id d \<noteq> py_strip (rq_assembly_id request)))
            ValueError ''assembly_definition assembly_id must match request assembly_id''
    (Inr d))))"

text \<open>
  \<open>column_by_kind[kind]\<close>: the dictionary comprehension lets a later column of the same kind win.
\<close>

definition column_of_kind :: "assembly_definition \<Rightarrow> column_kind \<Rightarrow> string res" where
  "column_of_kind d kind =
     (case filter (\<lambda>p. snd p = KindEnum kind) (rev (ad_column_kinds d)) of
        [] \<Rightarrow> raise KeyErrorC (kind_value kind)
      | p # _ \<Rightarrow> Inr (fst p))"

definition context_keys :: "run_request \<Rightarrow> string list" where
  "context_keys request = sort (filter (\<lambda>k. py_strip k \<noteq> []) (map fst (rq_context request)))"

definition goal_belief :: "run_request \<Rightarrow> belief_args" where
  "goal_belief request = belief_defaults\<lparr>ba_key := JStr ''task_goal'',
     ba_value := JStr (py_strip (rq_task request)), ba_confidence := Fin (9 / 10),
     ba_rationale := ''Assembly objective supplied by caller.'',
     ba_metadata := JDict [(''actor'', JStr (rq_actor request)),
                           (''tenant_id'', JStr (rq_tenant_id request))]\<rparr>"

definition evidence_belief :: "string list \<Rightarrow> belief_args" where
  "evidence_belief keys = belief_defaults\<lparr>ba_key := JStr ''available_context'',
     ba_value := JDict [(''context_keys'', JList (map JStr keys)),
                        (''has_context'', JBool (keys \<noteq> []))],
     ba_confidence := Fin (if keys \<noteq> [] then 65 / 100 else 45 / 100),
     ba_evidence_refs := map (\<lambda>k. JStr (''context:'' @ k)) keys,
     ba_rationale := ''Evidence column reflects caller-provided structured context.''\<rparr>"

definition evaluation_confidence :: "string list \<Rightarrow> rat" where
  "evaluation_confidence keys = (if keys \<noteq> [] then 78 / 100 else 58 / 100)"

definition ready_for_commitment :: "run_request \<Rightarrow> bool" where
  "ready_for_commitment request =
     float_ge (Fin (evaluation_confidence (context_keys request))) (rq_confidence_threshold request)"

definition evaluation_belief :: "run_request \<Rightarrow> belief_args" where
  "evaluation_belief request = belief_defaults\<lparr>ba_key := JStr ''readiness_score'',
     ba_value := JDict [(''ready'', JBool (ready_for_commitment request))],
     ba_confidence := Fin (evaluation_confidence (context_keys request)),
     ba_rationale := ''Initial deterministic readiness score for the first execution slice.''\<rparr>"

definition synthesis_belief :: "rat \<Rightarrow> belief_args" where
  "synthesis_belief confidence = belief_defaults\<lparr>ba_key := JStr ''proposed_decision'',
     ba_value := JStr ''commit'', ba_confidence := Fin confidence,
     ba_rationale := ''Synthesis column combines the goal and evaluation signals.''\<rparr>"

definition runner_vote :: "string \<Rightarrow> rat \<Rightarrow> column_vote" where
  \<comment> \<open>\<open>ColumnVote(column_id, decision, confidence)\<close> with the field defaults\<close>
  "runner_vote column_id confidence =
     \<lparr>cv_column_id = column_id, cv_decision = ''commit'', cv_confidence = clamp01 confidence,
      cv_supports_commitment = True, cv_veto = False, cv_blockers = [], cv_next_actions = []\<rparr>"

definition evaluation_vote :: "string \<Rightarrow> rat \<Rightarrow> bool \<Rightarrow> column_vote" where
  "evaluation_vote column_id confidence ready =
     \<lparr>cv_column_id = column_id, cv_decision = (if ready then ''commit'' else ''escalate''),
      cv_confidence = clamp01 confidence, cv_supports_commitment = ready, cv_veto = False,
      cv_blockers = (if ready then [] else [''insufficient_context'']),
      cv_next_actions = (if ready then [] else [''gather_more_evidence''])\<rparr>"

definition runner_votes ::
    "bool \<Rightarrow> column_state \<Rightarrow> column_state \<Rightarrow> column_state \<Rightarrow> column_state \<Rightarrow> column_vote list" where
  "runner_votes ready goal evidence evaluation synthesis =
     [runner_vote (cs_column_id goal) (cs_confidence goal),
      runner_vote (cs_column_id evidence) (cs_confidence evidence),
      evaluation_vote (cs_column_id evaluation) (cs_confidence evaluation) ready,
      runner_vote (cs_column_id synthesis) (cs_confidence synthesis)]"

definition runner_context ::
    "run_request \<Rightarrow> commitment \<Rightarrow> column_vote list \<Rightarrow> string list \<Rightarrow> commitment_validation_context"
  where
  "runner_context request c votes trail =
     \<lparr>vc_commitment = c, vc_votes = votes,
      vc_confidence_threshold = rq_confidence_threshold request, vc_decision_trail = trail,
      vc_human_approval_granted = rq_human_approval_granted request,
      vc_high_risk_decisions = ap_high_risk_commitment_decisions (rq_admission_policy request),
      vc_require_human_approval_for_high_risk =
        ap_require_human_approval_for_high_risk (rq_admission_policy request)\<rparr>"

definition gate_audit_entry ::
    "run_request \<Rightarrow> audit_outcome \<Rightarrow> (string, jval) dict \<Rightarrow> audit_entry" where
  "gate_audit_entry request outcome metadata =
     \<lparr>au_event = ''cognition.commitment.gate'', au_actor = rq_actor request, au_outcome = outcome,
      au_metadata = [(''assembly_id'', JStr (rq_assembly_id request)),
                     (''tenant_id'', JStr (rq_tenant_id request))] @ metadata\<rparr>"

definition commit_ready :: "assembly_state \<Rightarrow> bool" where
  "commit_ready a = (case as_commitment a of None \<Rightarrow> False | Some c \<Rightarrow> is_ready c)"

text \<open>
  The votes, the commitment and its gate: the part of \<open>run\<close> after the four column states.
  \<open>num_text\<close> prints a confidence for the audit record.
\<close>

definition run_commitment ::
    "(rat \<Rightarrow> string) \<Rightarrow> run_request \<Rightarrow> assembly_definition \<Rightarrow> column_state list \<Rightarrow> column_vote list
     \<Rightarrow> assembly_state run" where
  "run_commitment num_text request d states votes =
     bindR (liftR (build_commitment votes Pol_CONFIDENCE_THRESHOLD
              (rq_confidence_threshold request) ''escalate_to_human_review'')) (\<lambda>c s.
     let a = foldl register_column_state (new_assembly_state d) states;
         gated = with_commitment (register_message a (int (length votes))) c
                   (Some (runner_context request c votes (decision_trail s)))
     in (case gated of
           Inl e \<Rightarrow>
             (if exn_cls e = CommitmentValidationError
              then audit_to (rq_has_audit request)
                     (gate_audit_entry request Audit_blocked [(''reason'', JStr (exn_msg e))]) s
              else s, Inl e)
         | Inr a' \<Rightarrow>
             (audit_to (rq_has_audit request)
                (gate_audit_entry request (if commit_ready a' then Audit_allowed else Audit_blocked)
                   (case as_commitment a' of
                      None \<Rightarrow> [(''blockers'', JList []), (''confidence'', JNum (num_text 0))]
                    | Some g \<Rightarrow> [(''blockers'', JList (map JStr (co_blockers g))),
                                (''confidence'', JNum (num_text (co_confidence g)))])) s,
              Inr a')))"

definition run_columns ::
    "run_request \<Rightarrow> assembly_definition \<Rightarrow> rat \<Rightarrow> column_state list run" where
  \<comment> \<open>the four columns, each admitted step by step before its state is built\<close>
  "run_columns request d now =
     bindR (liftR (column_of_kind d Kind_GOAL)) (\<lambda>goal_id.
     bindR (liftR (column_of_kind d Kind_EVIDENCE)) (\<lambda>evidence_id.
     bindR (liftR (column_of_kind d Kind_EVALUATION)) (\<lambda>evaluation_id.
     bindR (liftR (column_of_kind d Kind_SYNTHESIS)) (\<lambda>synthesis_id.
     bindR (runner_admit request d goal_id Kind_GOAL Cap_READ_INPUT) (\<lambda>_.
     bindR (runner_admit request d goal_id Kind_GOAL Cap_EMIT_GOAL_BELIEF) (\<lambda>_.
     bindR (liftR (runner_column_state (ad_assembly_id d) goal_id Kind_GOAL
              (goal_belief request) now)) (\<lambda>goal.
     bindR (runner_admit request d evidence_id Kind_EVIDENCE Cap_RETRIEVE) (\<lambda>_.
     bindR (liftR (runner_column_state (ad_assembly_id d) evidence_id Kind_EVIDENCE
              (evidence_belief (context_keys request)) now)) (\<lambda>evidence.
     bindR (runner_admit request d evaluation_id Kind_EVALUATION Cap_SCORE) (\<lambda>_.
     bindR (if float_lt (Fin (evaluation_confidence (context_keys request)))
                 (rq_confidence_threshold request)
            then runner_admit request d evaluation_id Kind_EVALUATION Cap_VETO
            else liftR (Inr ())) (\<lambda>_.
     bindR (liftR (runner_column_state (ad_assembly_id d) evaluation_id Kind_EVALUATION
              (evaluation_belief request) now)) (\<lambda>evaluation.
     bindR (runner_admit request d synthesis_id Kind_SYNTHESIS Cap_PROPOSE_COMMITMENT) (\<lambda>_.
     bindR (liftR (runner_column_state (ad_assembly_id d) synthesis_id Kind_SYNTHESIS
              (synthesis_belief (max (cs_confidence goal) (cs_confidence evaluation))) now))
           (\<lambda>synthesis.
     liftR (Inr [goal, evidence, evaluation, synthesis])))))))))))))))"

definition run_outcome :: "assembly_state \<Rightarrow> string" where
  "run_outcome a = (if commit_ready a then ''committed'' else ''escalated'')"

definition votes_of_states :: "run_request \<Rightarrow> column_state list \<Rightarrow> column_vote list" where
  "votes_of_states request states =
     (case states of
        [goal, evidence, evaluation, synthesis] \<Rightarrow>
          runner_votes (ready_for_commitment request) goal evidence evaluation synthesis
      | _ \<Rightarrow> [])"

definition assembly_run ::
    "(rat \<Rightarrow> string) \<Rightarrow> (assembly_state \<Rightarrow> string \<Rightarrow> jval res) \<Rightarrow> run_request \<Rightarrow> rat
     \<Rightarrow> run_state \<times> run_result res" where
  \<comment> \<open>\<open>AssemblyRunner.run\<close>\<close>
  "assembly_run num_text persist request now =
     bindR (liftR (admitted_run_definition request)) (\<lambda>d.
     bindR (run_columns request d now) (\<lambda>states.
     bindR (run_commitment num_text request d states (votes_of_states request states)) (\<lambda>a.
     bindR (liftR (persist a (run_outcome a))) (\<lambda>persisted.
     liftR (Inr \<lparr>rr_assembly_id = ad_assembly_id d, rr_state = a, rr_outcome = run_outcome a,
                 rr_persisted = persisted\<rparr>))))) new_run_state"

section \<open>Specification predicates\<close>

definition permits :: "string list \<Rightarrow> string list \<Rightarrow> bool" where
  "permits allowed requested =
     (normalized_runtime_values allowed = [] \<or> set requested \<subseteq> set (normalized_runtime_values allowed))"

definition tenant_consistent :: "gate_request \<Rightarrow> bool" where
  "tenant_consistent rq =
     (case gr_auth_context rq of
        None \<Rightarrow> True
      | Some a \<Rightarrow> ac_authenticated a = JBool True \<and>
          (py_strip (gr_tenant_id rq) = [] \<or> py_strip (ac_tenant a) = [] \<or>
           py_strip (gr_tenant_id rq) = py_strip (ac_tenant a)))"

definition gate_conditions :: "gate_request \<Rightarrow> int \<Rightarrow> bool" where
  "gate_conditions rq steps =
    (let policy = gr_admission_policy rq in
     tenant_consistent rq \<and> (gr_require_tenant_context rq \<longrightarrow> py_strip (gr_tenant_id rq) \<noteq> []) \<and>
     require_column_capability (gr_column_id rq) (KindEnum (gr_column_kind rq))
       (CapEnum (gr_capability rq)) (explicit_grants_of rq) = Inr () \<and>
     permits (ap_allowed_providers policy) [py_strip (gr_provider rq)] \<and>
     permits (ap_allowed_models policy) [py_strip (gr_model rq)] \<and>
     permits (ap_allowed_tools policy) (normalized_runtime_values (gr_tool_ids rq)) \<and>
     permits (ap_allowed_retrieval_sources policy)
       (normalized_runtime_values (gr_retrieval_sources rq)) \<and>
     permits (ap_allowed_network_hosts policy) (normalized_runtime_values (gr_network_hosts rq)) \<and>
     steps < max_messages (gr_budget rq))"

definition run_trail :: "run_request \<Rightarrow> string \<Rightarrow> string \<Rightarrow> string \<Rightarrow> string \<Rightarrow> string list" where
  "run_trail request g e v y =
     [trail_entry g Kind_GOAL Cap_READ_INPUT, trail_entry g Kind_GOAL Cap_EMIT_GOAL_BELIEF,
      trail_entry e Kind_EVIDENCE Cap_RETRIEVE, trail_entry v Kind_EVALUATION Cap_SCORE] @
     (if float_lt (Fin (evaluation_confidence (context_keys request))) (rq_confidence_threshold request)
      then [trail_entry v Kind_EVALUATION Cap_VETO] else []) @
     [trail_entry y Kind_SYNTHESIS Cap_PROPOSE_COMMITMENT]"

definition run_share :: "run_request \<Rightarrow> rat" where
  "run_share request = (if ready_for_commitment request then 1
     else if context_keys request \<noteq> [] then 245 / 323 else 225 / 283)"

definition approval_pending :: "run_request \<Rightarrow> bool" where
  "approval_pending request =
    (let policy = rq_admission_policy request in
     ap_require_human_approval_for_high_risk policy \<and>
     ''commit'' \<in> set (map (\<lambda>d. py_lower (py_strip d))
        (filter (\<lambda>d. py_strip d \<noteq> []) (ap_high_risk_commitment_decisions policy))) \<and>
     \<not> rq_human_approval_granted request)"

section \<open>A concrete instance\<close>

definition sample_request :: run_request where
  "sample_request = \<lparr>rq_assembly_id = ''a1'', rq_task = ''ship'', rq_actor = ''u'', rq_tenant_id = ''t'',
     rq_auth_context = None, rq_require_tenant_context = False, rq_assembly_definition = None,
     rq_admission_policy = default_admission_policy, rq_provider = [], rq_model = [], rq_tool_ids = [],
     rq_retrieval_sources = [], rq_network_hosts = [], rq_has_audit = True,
     rq_human_approval_granted = False, rq_confidence_threshold = Fin (6 / 10),
     rq_consensus_policy = Pol_WEIGHTED, rq_inference_mode = Mode_SINGLE_PASS,
     rq_budget = default_budget, rq_context = []\<rparr>"

definition sample_run :: "run_state \<times> run_result res" where
  "sample_run = assembly_run (\<lambda>_. ''n'') (\<lambda>_ _. Inr JNull) sample_request 0"

definition run_summary :: "run_state \<times> run_result res \<Rightarrow> (int \<times> (string \<times> string list) option)" where
  "run_summary r = (admitted_steps (fst r), case snd r of Inl _ \<Rightarrow> None
     | Inr res \<Rightarrow> Some (rr_outcome res, case as_commitment (rr_state res) of None \<Rightarrow> [] | Some c \<Rightarrow> co_dissenting_columns c))"

section \<open>Lemmas\<close>

lemma bindR_Inr_iff:
  "bindR m f s = (s'', Inr y) \<longleftrightarrow> (\<exists>s' x. m s = (s', Inr x) \<and> f x s' = (s'', Inr y))"
  by (auto simp: bindR_def split: prod.splits sum.splits)

lemma bindR_InrE:
  assumes "bindR m f s = (s'', Inr y)"
  obtains s' x where "m s = (s', Inr x)" "f x s' = (s'', Inr y)"
  using assms unfolding bindR_Inr_iff by blast

lemma liftR_eq [simp]: "liftR r s = (s', r') \<longleftrightarrow> s' = s \<and> r = r'"
  by (auto simp: liftR_def)

lemma audit_to_simps [simp]:
  "admitted_steps (audit_to b e s) = admitted_steps s"
  "decision_trail (audit_to b e s) = decision_trail s"
  "audit_log (audit_to b e s) = audit_log s @ (if b then [e] else [])"
  by (simp_all add: audit_to_def)

lemma runtime_gate_audit_simps [simp]:
  "admitted_steps (runtime_gate_audit rq o' m s) = admitted_steps s"
  "decision_trail (runtime_gate_audit rq o' m s) = decision_trail s"
  by (simp_all add: runtime_gate_audit_def)

lemma outside_iff: "outside allowed requested \<longleftrightarrow> \<not> permits allowed requested"
  by (auto simp: outside_def permits_def filter_empty_conv)

lemma isl_unit_iff: "\<not> isl (r :: unit res) \<longleftrightarrow> r = Inr ()"
  by (cases r) auto

lemma runtime_refusal_None_iff: "runtime_refusal rq steps = None \<longleftrightarrow> gate_conditions rq steps"
  unfolding runtime_refusal_def gate_conditions_def Let_def outside_iff tenant_consistent_def
  by (auto simp: isl_unit_iff not_le split: option.splits if_splits)

lemma admit_InrD:
  "admit_column_runtime_step rq s = (s', Inr ()) \<Longrightarrow>
     gate_conditions rq (admitted_steps s) \<and> admitted_steps s' = admitted_steps s + 1 \<and>
     decision_trail s' = decision_trail s"
  by (auto simp: admit_column_runtime_step_def deny_column_runtime_def Let_def
      runtime_refusal_None_iff [symmetric] split: option.splits)

lemma runner_admit_InrD:
  assumes "runner_admit request d cid kind cap s = (s', Inr ())"
  shows "gate_conditions (step_request request d cid kind cap) (admitted_steps s) \<and>
    admitted_steps s' = admitted_steps s + 1 \<and>
    decision_trail s' = decision_trail s @ [trail_entry cid kind cap]"
  using assms by (auto simp: runner_admit_def bindR_Inr_iff dest!: admit_InrD)

lemma runner_column_state_InrD:
  assumes "runner_column_state aid cid kind b now = Inr st" and "ba_confidence b = Fin c"
  shows "cs_column_id st = cid \<and> cs_kind st = kind \<and> cs_confidence st = clamp01 c"
  using assms
  by (auto simp: runner_column_state_def bindE_eq_Inr_iff with_beliefs_def new_column_state_def
      average_confidence_def validate_belief_record_Inr_iff clamp_confidence_Inr_iff clamp01_range clamp01_id)

lemma veto_admit_InrD:
  assumes "(if b then runner_admit request d v Kind_EVALUATION Cap_VETO else liftR (Inr ())) s
     = (s', Inr ())"
  shows "admitted_steps s' = admitted_steps s + (if b then 1 else 0) \<and>
    decision_trail s' = decision_trail s @
      (if b then [trail_entry v Kind_EVALUATION Cap_VETO] else [])"
  using assms by (auto dest: runner_admit_InrD split: if_splits)

lemma run_columns_InrD:
  assumes run: "run_columns request d now s0 = (s, Inr states)" and s0: "s0 = new_run_state"
  obtains goal evidence evaluation synthesis g e v y where
    "states = [goal, evidence, evaluation, synthesis]"
    "column_of_kind d Kind_GOAL = Inr g" "column_of_kind d Kind_EVIDENCE = Inr e"
    "column_of_kind d Kind_EVALUATION = Inr v" "column_of_kind d Kind_SYNTHESIS = Inr y"
    "decision_trail s = run_trail request g e v y"
    "admitted_steps s = int (length (decision_trail s))"
    "admitted_steps s \<le> max_messages (ad_budget_constraints d)"
    "cs_column_id goal = g" "cs_column_id evidence = e" "cs_column_id evaluation = v"
    "cs_column_id synthesis = y"
    "cs_confidence goal = 9 / 10"
    "cs_confidence evidence = (if context_keys request \<noteq> [] then 65 / 100 else 45 / 100)"
    "cs_confidence evaluation = evaluation_confidence (context_keys request)"
    "cs_confidence synthesis = 9 / 10"
proof -
  let ?low = "float_lt (Fin (evaluation_confidence (context_keys request))) (rq_confidence_threshold request)"
  from run obtain g e v y goal evidence evaluation synthesis s1 s2 s3 s4 s5 where ids:
    "column_of_kind d Kind_GOAL = Inr g" "column_of_kind d Kind_EVIDENCE = Inr e"
    "column_of_kind d Kind_EVALUATION = Inr v" "column_of_kind d Kind_SYNTHESIS = Inr y"
    and steps: "runner_admit request d g Kind_GOAL Cap_READ_INPUT s0 = (s1, Inr ())"
    "runner_admit request d g Kind_GOAL Cap_EMIT_GOAL_BELIEF s1 = (s2, Inr ())"
    "runner_admit request d e Kind_EVIDENCE Cap_RETRIEVE s2 = (s3, Inr ())"
    "runner_admit request d v Kind_EVALUATION Cap_SCORE s3 = (s4, Inr ())"
    "(if ?low then runner_admit request d v Kind_EVALUATION Cap_VETO else liftR (Inr ())) s4 = (s5, Inr ())"
    "runner_admit request d y Kind_SYNTHESIS Cap_PROPOSE_COMMITMENT s5 = (s, Inr ())"
    and sts: "runner_column_state (ad_assembly_id d) g Kind_GOAL (goal_belief request) now = Inr goal"
    "runner_column_state (ad_assembly_id d) e Kind_EVIDENCE (evidence_belief (context_keys request)) now
       = Inr evidence"
    "runner_column_state (ad_assembly_id d) v Kind_EVALUATION (evaluation_belief request) now
       = Inr evaluation"
    "runner_column_state (ad_assembly_id d) y Kind_SYNTHESIS
       (synthesis_belief (max (cs_confidence goal) (cs_confidence evaluation))) now = Inr synthesis"
    and states: "states = [goal, evidence, evaluation, synthesis]"
    unfolding run_columns_def by (elim bindR_InrE) simp
  note facts = steps(1-4,6) [THEN runner_admit_InrD] veto_admit_InrD [OF steps(5)]
  have trail: "decision_trail s = run_trail request g e v y"
    "admitted_steps s = int (length (decision_trail s))"
    using facts s0 by (auto simp: new_run_state_def run_trail_def)
  have bound: "admitted_steps s \<le> max_messages (ad_budget_constraints d)"
    using facts by (auto simp: gate_conditions_def step_request_def Let_def)
  have ev: "0 \<le> evaluation_confidence k \<and> evaluation_confidence k \<le> 9/10" for k
    by (simp add: evaluation_confidence_def)
  have goal: "cs_column_id goal = g \<and> cs_confidence goal = 9 / 10"
    using runner_column_state_InrD [OF sts(1), of "9 / 10"] by (simp add: goal_belief_def clamp01_def)
  have evidence: "cs_column_id evidence = e \<and>
      cs_confidence evidence = (if context_keys request \<noteq> [] then 65 / 100 else 45 / 100)"
    using runner_column_state_InrD [OF sts(2), of "if context_keys request \<noteq> [] then 65 / 100 else 45 / 100"]
    by (simp add: evidence_belief_def clamp01_def)
  have evaluation: "cs_column_id evaluation = v \<and>
      cs_confidence evaluation = evaluation_confidence (context_keys request)"
    using runner_column_state_InrD [OF sts(3), of "evaluation_confidence (context_keys request)"]
      ev [of "context_keys request"] by (simp add: evaluation_belief_def clamp01_id)
  have "max (cs_confidence goal) (cs_confidence evaluation) = 9 / 10"
    using goal evaluation ev [of "context_keys request"] by (simp add: max_def)
  then have synthesis: "cs_column_id synthesis = y \<and> cs_confidence synthesis = 9 / 10"
    using runner_column_state_InrD [OF sts(4), of "9 / 10"] by (simp add: synthesis_belief_def clamp01_def)
  show ?thesis
    by (rule that [OF states ids trail bound]) (use goal evidence evaluation synthesis in simp_all)
qed

lemma four_votes:
  fixes a b c d :: rat
  assumes "votes = [runner_vote g a, runner_vote e b, evaluation_vote v c ready, runner_vote y d]"
    and r: "0 < a" "a \<le> 1" "0 < b" "b \<le> 1" "0 < c" "c \<le> 1" "0 < d" "d \<le> 1" "c \<le> a + b + d"
  shows "winning_decision votes = ''commit''"
    and "vote_share votes = (if ready then 1 else (a + b + d) / (a + b + c + d))"
proof -
  have cl: "clamp01 a = a" "clamp01 b = b" "clamp01 c = c" "clamp01 d = d"
    using r by (simp_all add: clamp01_id)
  have w: "decision_weights votes =
      (if ready then [(''commit'', a + b + c + d)] else [(''commit'', a + b + d), (''escalate'', c)])"
    using assms(1) by (simp add: decision_weights_def runner_vote_def evaluation_vote_def dict_get_def cl)
  have tot: "sum_list (map cv_confidence votes) = a + b + c + d"
    using assms(1) by (simp add: runner_vote_def evaluation_vote_def cl)
  show win: "winning_decision votes = ''commit''"
    using r by (simp add: winning_decision_def w)
  show "vote_share votes = (if ready then 1 else (a + b + d) / (a + b + c + d))"
    using r unfolding vote_share_def Let_def tot win w by (simp add: dict_get_def)
qed

lemma no_veto_dissent_blockers:
  assumes "\<forall>v \<in> set vs. \<not> cv_veto v" and "policy \<noteq> Pol_UNANIMOUS"
  shows "snd (foldl (dissent_step policy) st vs) = snd st"
proof -
  have "foldl (\<lambda>bs b. bs) bs xs = bs" for bs :: "string list" and xs :: "string list"
    by (induction xs arbitrary: bs) auto
  with assms show ?thesis
    by (induction vs arbitrary: st) (auto simp: dissent_step_def)
qed

lemma no_veto_loop: "\<forall>v \<in> set vs. \<not> cv_veto v \<Longrightarrow> foldl veto_step st vs = st"
  by (induction vs arbitrary: st) (auto simp: veto_step_def)

text \<open>With no veto among the votes, the gate leaves a threshold commitment ready exactly when ...\<close>

lemma threshold_gate_ready:
  assumes nv: "\<forall>v \<in> set votes. \<not> cv_veto v" and ne: "votes \<noteq> []"
    and bc: "build_commitment votes Pol_CONFIDENCE_THRESHOLD th esc = Inr c"
    and gate: "validate_commitment_gate a (runner_context request c votes trail) = Inr c'"
    and th: "th = rq_confidence_threshold request" and win: "winning_decision votes = ''commit''"
  shows "\<exists>t. clamp_confidence th = Inr t \<and>
           (is_ready c' \<longleftrightarrow> t \<le> vote_share votes \<and> \<not> approval_pending request)"
proof (rule build_commitment_Inr [OF bc ne], goal_cases)
  case (1 t as)
  have bl: "co_blockers c = (if vote_share votes < t then [''confidence_below_threshold''] else [])"
    using 1 nv by (subst 1(6), subst no_veto_dissent_blockers) (auto simp: policy_blockers_def)
  have na: "needs_human_approval (runner_context request c votes trail) = approval_pending request"
    using 1 win by (simp add: needs_human_approval_def approval_pending_def runner_context_def Let_def
        py_strip_def lstrip_def rstrip_def py_isspace_def py_lower_def py_lower_char_def)
  from gate 1 th have "is_ready c' \<longleftrightarrow> t \<le> vote_share votes \<and> \<not> approval_pending request"
    unfolding validate_commitment_gate_def Let_def na
    by (auto simp: bindE_eq_Inr_iff guardE_eq_Inr_iff runner_context_def no_veto_loop [OF nv] bl win
        is_ready_def not_less split: if_splits)
  then show ?case using 1 by blast
qed

lemma run_votes:
  assumes "states = [goal, evidence, evaluation, synthesis]"
    "cs_confidence goal = 9 / 10"
    "cs_confidence evidence = (if context_keys request \<noteq> [] then 65 / 100 else 45 / 100)"
    "cs_confidence evaluation = evaluation_confidence (context_keys request)"
    "cs_confidence synthesis = 9 / 10"
  shows "winning_decision (votes_of_states request states) = ''commit''"
    and "vote_share (votes_of_states request states) = run_share request"
    and "\<forall>v \<in> set (votes_of_states request states). \<not> cv_veto v"
    and "votes_of_states request states \<noteq> []"
proof -
  let ?k = "context_keys request"
  have votes: "votes_of_states request states =
     [runner_vote (cs_column_id goal) (9 / 10),
      runner_vote (cs_column_id evidence) (if ?k \<noteq> [] then 65 / 100 else 45 / 100),
      evaluation_vote (cs_column_id evaluation) (evaluation_confidence ?k) (ready_for_commitment request),
      runner_vote (cs_column_id synthesis) (9 / 10)]"
    by (simp only: assms votes_of_states_def runner_votes_def list.case)
  note four = four_votes [OF votes]
  show "winning_decision (votes_of_states request states) = ''commit''"
    by (rule four(1)) (simp_all add: evaluation_confidence_def)
  have "vote_share (votes_of_states request states) = (if ready_for_commitment request then 1
     else (9/10 + (if ?k \<noteq> [] then 65 / 100 else 45 / 100) + 9/10) /
          (9/10 + (if ?k \<noteq> [] then 65 / 100 else 45 / 100) + evaluation_confidence ?k + 9/10))"
    by (rule four(2)) (simp_all add: evaluation_confidence_def)
  then show "vote_share (votes_of_states request states) = run_share request"
    by (simp add: run_share_def evaluation_confidence_def)
  show "\<forall>v \<in> set (votes_of_states request states). \<not> cv_veto v"
    unfolding votes by (simp add: runner_vote_def evaluation_vote_def)
  show "votes_of_states request states \<noteq> []" unfolding votes by simp
qed

lemma run_commitment_InrD:
  assumes "run_commitment num_text request d states votes s = (s', Inr a)"
  shows "decision_trail s' = decision_trail s \<and> admitted_steps s' = admitted_steps s \<and>
    (\<exists>c b c'. build_commitment votes Pol_CONFIDENCE_THRESHOLD (rq_confidence_threshold request)
         ''escalate_to_human_review'' = Inr c \<and>
       validate_commitment_gate b (runner_context request c votes (decision_trail s)) = Inr c' \<and>
       as_commitment a = Some c')"
proof -
  let ?b = "register_message (foldl register_column_state (new_assembly_state d) states)
              (int (length votes))"
  from assms obtain c where c: "build_commitment votes Pol_CONFIDENCE_THRESHOLD
      (rq_confidence_threshold request) ''escalate_to_human_review'' = Inr c"
    by (auto simp: run_commitment_def bindR_Inr_iff)
  let ?g = "validate_commitment_gate ?b (runner_context request c votes (decision_trail s))"
  show ?thesis
  proof (cases ?g)
    case (Inl e)
    with assms c show ?thesis
      by (simp add: run_commitment_def bindR_def liftR_def Let_def with_commitment_def)
  next
    case (Inr c')
    with assms c show ?thesis
      by (auto simp: run_commitment_def bindR_def liftR_def Let_def with_commitment_def)
  qed
qed

lemma assembly_run_InrE:
  assumes "assembly_run num_text persist request now = (s, Inr res)"
  obtains d states s1 a where "admitted_run_definition request = Inr d"
    "run_columns request d now new_run_state = (s1, Inr states)"
    "run_commitment num_text request d states (votes_of_states request states) s1 = (s, Inr a)"
    "rr_state res = a" "rr_outcome res = run_outcome a" "rr_assembly_id res = ad_assembly_id d"
  using assms unfolding assembly_run_def by (elim bindR_InrE) auto

subsection \<open>A concrete run\<close>

lemma sample_run_summary: "run_summary sample_run = (6, Some (''committed'', [''evaluation'']))"
  by code_simp

lemma sample_run_returns:
  obtains s res where "sample_run = (s, Inr res)" "admitted_steps s = 6"
    "rr_outcome res = ''committed''"
proof -
  obtain s r where run: "sample_run = (s, r)" by (cases sample_run)
  from sample_run_summary [unfolded run run_summary_def] that run show thesis
    by (cases r) auto
qed

lemma sample_step_refused:
  "runtime_refusal (step_request sample_request (default_definition sample_request) ''goal''
     Kind_GOAL Cap_VETO) 0 \<noteq> None"
  by code_simp

lemma sample_request_no_context: "context_keys sample_request = []"
  by (simp add: context_keys_def sample_request_def)

lemma sample_request_not_ready: "\<not> ready_for_commitment sample_request"
  by (simp add: ready_for_commitment_def sample_request_no_context evaluation_confidence_def)
     (simp add: sample_request_def)

section \<open>Properties\<close>

text \<open>
  C16: The runtime gate is exact and accounts for every attempt.  A step is admitted precisely when
  the caller is authenticated for the tenant, the tenant context is present if required, the column
  holds the capability, every allow list permits what is requested and the message budget is not
  used up; then the counter grows by one and stays within the budget.  Otherwise the gate raises,
  leaves the counter alone, and the audit callback has received the reason as a blocked event.
\<close>

theorem runtime_gate_exact:
  assumes "admit_column_runtime_step rq s = (s', r)"
  shows "if gate_conditions rq (admitted_steps s)
    then r = Inr () \<and> admitted_steps s' = admitted_steps s + 1 \<and>
         admitted_steps s' \<le> max_messages (gr_budget rq) \<and>
         (gr_has_audit rq \<longrightarrow>
            (\<exists>e. audit_log s' = audit_log s @ [e] \<and> au_outcome e = Audit_allowed))
    else (\<exists>reason. r = Inl (Exn ColumnRuntimeGateError reason) \<and>
           admitted_steps s' = admitted_steps s \<and>
           (gr_has_audit rq \<longrightarrow>
              (\<exists>e. audit_log s' = audit_log s @ [e] \<and> au_outcome e = Audit_blocked \<and>
                   map_of (au_metadata e) ''reason'' = Some (JStr reason))))"
proof (cases "runtime_refusal rq (admitted_steps s)")
  case None
  then have c: "gate_conditions rq (admitted_steps s)" by (simp add: runtime_refusal_None_iff)
  then have "admitted_steps s < max_messages (gr_budget rq)"
    by (simp add: gate_conditions_def Let_def)
  with None c assms show ?thesis
    by (auto simp: admit_column_runtime_step_def Let_def runtime_gate_audit_def)
next
  case (Some reason)
  then have "\<not> gate_conditions rq (admitted_steps s)"
    by (metis option.distinct(1) runtime_refusal_None_iff)
  with Some assms show ?thesis
    by (auto simp: admit_column_runtime_step_def deny_column_runtime_def runtime_gate_audit_def
        raise_def)
qed

theorem runtime_gate_exact_witness:
  "\<exists>s' reason. admit_column_runtime_step
      (step_request sample_request (default_definition sample_request) ''goal'' Kind_GOAL Cap_VETO)
      new_run_state = (s', Inl (Exn ColumnRuntimeGateError reason)) \<and>
     admitted_steps s' = 0 \<and> length (audit_log s') = 1"
proof -
  let ?rq = "step_request sample_request (default_definition sample_request) ''goal'' Kind_GOAL Cap_VETO"
  obtain s' r where run: "admit_column_runtime_step ?rq new_run_state = (s', r)"
    by (cases "admit_column_runtime_step ?rq new_run_state")
  have "\<not> gate_conditions ?rq (admitted_steps new_run_state)"
    using sample_step_refused by (simp add: runtime_refusal_None_iff new_run_state_def)
  then show ?thesis using runtime_gate_exact [OF run] run
    by (auto simp: new_run_state_def step_request_def sample_request_def)
qed

text \<open>
  C17: A run that returns has walked the whole decision trail: the goal column read its input and
  emitted its belief, the evidence column retrieved, the evaluation column scored (and asked for a
  veto when its score was below the threshold), the synthesis column proposed, in this order; the
  counter equals the length of the trail and never exceeds the admitted message budget.
\<close>

theorem assembly_run_trail:
  assumes "assembly_run num_text persist request now = (s, Inr res)"
  shows "\<exists>d g e v y. admitted_run_definition request = Inr d \<and>
    rr_assembly_id res = ad_assembly_id d \<and>
    column_of_kind d Kind_GOAL = Inr g \<and> column_of_kind d Kind_EVIDENCE = Inr e \<and>
    column_of_kind d Kind_EVALUATION = Inr v \<and> column_of_kind d Kind_SYNTHESIS = Inr y \<and>
    decision_trail s = run_trail request g e v y \<and>
    admitted_steps s = int (length (decision_trail s)) \<and>
    admitted_steps s \<le> max_messages (ad_budget_constraints d)"
proof (rule assembly_run_InrE [OF assms], goal_cases)
  case (1 d states s1 a)
  note rc = run_commitment_InrD [OF 1(3)]
  from 1(2) show ?case
    by (rule run_columns_InrD [OF _ refl]) (use rc 1 in auto)
qed

theorem assembly_run_trail_witness:
  "\<exists>s res. sample_run = (s, Inr res) \<and> length (decision_trail s) = 6"
proof -
  obtain s res where run: "sample_run = (s, Inr res)" and "admitted_steps s = 6"
    by (rule sample_run_returns)
  with assembly_run_trail [OF run [unfolded sample_run_def]] show ?thesis by auto
qed

text \<open>
  The outcome of a run that returns, in closed form: it is \<open>committed\<close> exactly when the clamped
  threshold does not exceed the share of the weight voted for committing (1 when the evaluation
  column is ready, 245/323 with context and 225/283 without when it is not) and no human approval
  of a high-risk commitment is outstanding; otherwise it is \<open>escalated\<close>.
\<close>

theorem assembly_run_outcome:
  assumes "assembly_run num_text persist request now = (s, Inr res)"
  shows "\<exists>t. clamp_confidence (rq_confidence_threshold request) = Inr t \<and>
    rr_outcome res = (if t \<le> run_share request \<and> \<not> approval_pending request
      then ''committed'' else ''escalated'')"
proof (rule assembly_run_InrE [OF assms], goal_cases)
  case (1 d states s1 a)
  from 1(2) show ?case
  proof (rule run_columns_InrD [OF _ refl], goal_cases)
    case (1 goal evidence evaluation synthesis g e v y)
    note votes = run_votes [OF 1(1,13,14,15,16)]
    from run_commitment_InrD [OF \<open>run_commitment _ _ _ _ _ _ = _\<close>] obtain c b c' where
      "build_commitment (votes_of_states request states) Pol_CONFIDENCE_THRESHOLD
         (rq_confidence_threshold request) ''escalate_to_human_review'' = Inr c"
      "validate_commitment_gate b (runner_context request c (votes_of_states request states)
         (decision_trail s1)) = Inr c'" and c': "as_commitment a = Some c'" by blast
    from threshold_gate_ready [OF votes(3,4) this(1,2) refl votes(1)]
    show ?case using \<open>rr_outcome res = _\<close> c' votes(2)
      by (auto simp: run_outcome_def commit_ready_def)
  qed
qed

theorem assembly_run_outcome_witness:
  "\<exists>s res. sample_run = (s, Inr res) \<and> rr_outcome res = ''committed'' \<and>
     run_share sample_request = 225 / 283"
proof -
  obtain s res where run: "sample_run = (s, Inr res)" and "rr_outcome res = ''committed''"
    by (rule sample_run_returns)
  moreover have "run_share sample_request = 225 / 283"
    using assembly_run_outcome [OF run [unfolded sample_run_def]] sample_request_not_ready
    by (simp add: run_share_def sample_request_no_context)
  ultimately show ?thesis by blast
qed

text \<open>
  The runner can commit against its own evaluation column: with the default threshold 0.6 and
  no context, the evaluation column is not ready and votes to escalate, yet the run's outcome is
  \<open>committed\<close>, because its blocker counts only for a veto vote and the remaining votes already
  carry more than the threshold.
\<close>

theorem low_context_run_commits:
  "\<not> ready_for_commitment sample_request \<and>
   run_summary sample_run = (6, Some (''committed'', [''evaluation'']))"
  using sample_request_not_ready sample_run_summary by simp

end
