(* ===== verification/Py_Regex.thy ===== *)
theory Py_Regex
  imports Prelude
begin

text \<open>
  The regular expressions of the sources, as Python's \<open>re\<close> module reads them, for the question
  whether a pattern matches (\<open>search\<close>, \<open>match\<close>, \<open>fullmatch\<close>).  A position in the subject is the
  character before it and the rest of the string after it, which is all that \<open>^\<close>, \<open>$\<close> and \<open>\b\<close> look at.

  The meaning of a pattern is a relation between positions; the executable matcher lists the
  positions where a match can end, in the order in which Python's backtracking finds them, so the
  first is the end of the match \<open>re\<close> reports; it is proved to compute the relation, and it always
  stops.  Under \<open>re.IGNORECASE\<close> a pattern, written in lower case, reads every character lowered.
\<close>

type_synonym rpos = "char option \<times> string"

datatype rx =
    Ch "char \<Rightarrow> bool"   \<comment> \<open>one character of a class\<close>
  | Eps
  | Seq rx rx
  | Alt rx rx
  | Star rx           \<comment> \<open>\<open>*\<close>, longest first\<close>
  | LazyStar rx       \<comment> \<open>\<open>*?\<close>, shortest first\<close>
  | WordB             \<comment> \<open>\<open>\b\<close>\<close>
  | TextStart         \<comment> \<open>\<open>^\<close>\<close>
  | TextEnd           \<comment> \<open>\<open>$\<close>: the end, or before a newline at the end\<close>
  | LineStart         \<comment> \<open>\<open>^\<close> under \<open>re.MULTILINE\<close>\<close>
  | LineEnd           \<comment> \<open>\<open>$\<close> under \<open>re.MULTILINE\<close>\<close>

section \<open>Character classes\<close>

definition newline :: char where
  "newline = CHR 0x0A"

definition in_range :: "char \<Rightarrow> char \<Rightarrow> char \<Rightarrow> bool" where
  "in_range lo hi c = (ord_of lo \<le> (ord_of c :: nat) \<and> ord_of c \<le> (ord_of hi :: nat))"

definition is_digit :: "char \<Rightarrow> bool" where
  "is_digit = in_range CHR ''0'' CHR ''9''"

definition is_lower :: "char \<Rightarrow> bool" where
  "is_lower = in_range CHR ''a'' CHR ''z''"

definition is_upper :: "char \<Rightarrow> bool" where
  "is_upper = in_range CHR ''A'' CHR ''Z''"

definition is_alpha :: "char \<Rightarrow> bool" where
  "is_alpha c = (is_lower c \<or> is_upper c)"

text \<open>\<open>\w\<close>: \<open>str.isalnum\<close> or the underscore.\<close>

definition is_word :: "char \<Rightarrow> bool" where
  "is_word c = (is_alpha c \<or> is_digit c \<or> c = CHR ''_'' \<or>
     (let n = ord_of c :: nat in
        n \<in> {170, 178, 179, 181, 185, 186, 188, 189, 190} \<or>
        (192 \<le> n \<and> n \<noteq> 215 \<and> n \<noteq> 247)))"

section \<open>Building patterns\<close>

definition chr :: "char \<Rightarrow> rx" where
  "chr c = Ch (\<lambda>x. x = c)"

definition one_of :: "string \<Rightarrow> rx" where
  "one_of cs = Ch (\<lambda>x. x \<in> set cs)"

definition none_of :: "string \<Rightarrow> rx" where
  "none_of cs = Ch (\<lambda>x. x \<notin> set cs)"

primrec lit :: "string \<Rightarrow> rx" where
  "lit [] = Eps"
| "lit (c # s) = Seq (chr c) (lit s)"

primrec cat :: "rx list \<Rightarrow> rx" where
  "cat [] = Eps"
| "cat (r # rs) = Seq r (cat rs)"

fun alts :: "rx list \<Rightarrow> rx" where
  "alts [] = Ch (\<lambda>_. False)"
| "alts [r] = r"
| "alts (r # rs) = Alt r (alts rs)"

definition words :: "string list \<Rightarrow> rx" where
  "words ws = alts (map lit ws)"

definition many1 :: "rx \<Rightarrow> rx" where
  "many1 r = Seq r (Star r)"

definition opt :: "rx \<Rightarrow> rx" where
  "opt r = Alt r Eps"

definition space :: rx where
  "space = Ch py_isspace"

definition nonspace :: rx where
  "nonspace = Ch (\<lambda>c. \<not> py_isspace c)"

definition spaces :: rx where
  \<comment> \<open>\<open>\s+\<close>\<close>
  "spaces = many1 space"

definition anychar :: rx where
  \<comment> \<open>\<open>.\<close> without \<open>re.DOTALL\<close>\<close>
  "anychar = none_of [newline]"

section \<open>The matcher\<close>

definition word_before :: "rpos \<Rightarrow> bool" where
  "word_before p = (case fst p of None \<Rightarrow> False | Some c \<Rightarrow> is_word c)"

definition word_after :: "rpos \<Rightarrow> bool" where
  "word_after p = (case snd p of [] \<Rightarrow> False | c # _ \<Rightarrow> is_word c)"

fun holds_at :: "rx \<Rightarrow> rpos \<Rightarrow> bool" where
  "holds_at WordB p = (word_before p \<noteq> word_after p)"
| "holds_at TextStart p = (fst p = None)"
| "holds_at TextEnd p = (snd p = [] \<or> snd p = [newline])"
| "holds_at LineStart p = (fst p = None \<or> fst p = Some newline)"
| "holds_at LineEnd p = (case snd p of [] \<Rightarrow> True | c # _ \<Rightarrow> c = newline)"
| "holds_at _ p = False"

fun star_ends :: "bool \<Rightarrow> nat \<Rightarrow> (rpos \<Rightarrow> rpos list) \<Rightarrow> rpos \<Rightarrow> rpos list" where
  "star_ends greedy 0 f p = [p]"
| "star_ends greedy (Suc n) f p =
     (let more = concat (map (star_ends greedy n f)
            (filter (\<lambda>q. length (snd q) < length (snd p)) (f p))) in
      dict_fromkeys (if greedy then more @ [p] else p # more))"

fun ends :: "rx \<Rightarrow> rpos \<Rightarrow> rpos list" where
  "ends (Ch P) p = (case snd p of [] \<Rightarrow> [] | c # s \<Rightarrow> if P c then [(Some c, s)] else [])"
| "ends Eps p = [p]"
| "ends (Seq a b) p = dict_fromkeys (concat (map (ends b) (ends a p)))"
| "ends (Alt a b) p = dict_fromkeys (ends a p @ ends b p)"
| "ends (Star a) p = star_ends True (length (snd p)) (ends a) p"
| "ends (LazyStar a) p = star_ends False (length (snd p)) (ends a) p"
| "ends r p = (if holds_at r p then [p] else [])"

fun rx_search_from :: "rx \<Rightarrow> char option \<Rightarrow> string \<Rightarrow> bool" where
  "rx_search_from r prev [] = (ends r (prev, []) \<noteq> [])"
| "rx_search_from r prev (c # s) =
     (ends r (prev, c # s) \<noteq> [] \<or> rx_search_from r (Some c) s)"

definition rx_search :: "rx \<Rightarrow> string \<Rightarrow> bool" where
  "rx_search r s = rx_search_from r None s"

definition rx_match :: "rx \<Rightarrow> string \<Rightarrow> bool" where
  "rx_match r s = (ends r (None, s) \<noteq> [])"

definition rx_fullmatch :: "rx \<Rightarrow> string \<Rightarrow> bool" where
  "rx_fullmatch r s = list_ex (\<lambda>p. snd p = []) (ends r (None, s))"

primrec ci :: "rx \<Rightarrow> rx" where
  \<comment> \<open>\<open>re.IGNORECASE\<close>; the pattern is written in lower case\<close>
  "ci (Ch P) = Ch (\<lambda>c. P (py_lower_char c))"
| "ci Eps = Eps"
| "ci (Seq a b) = Seq (ci a) (ci b)"
| "ci (Alt a b) = Alt (ci a) (ci b)"
| "ci (Star a) = Star (ci a)"
| "ci (LazyStar a) = LazyStar (ci a)"
| "ci WordB = WordB"
| "ci TextStart = TextStart"
| "ci TextEnd = TextEnd"
| "ci LineStart = LineStart"
| "ci LineEnd = LineEnd"

section \<open>Groups\<close>

text \<open>The text of the group in the first match of \<open>pre(body)rest\<close>, at a position or searched for.\<close>

definition rx_group_at :: "rx \<Rightarrow> rx \<Rightarrow> rx \<Rightarrow> rpos \<Rightarrow> string option" where
  "rx_group_at pre body rest p =
     (case concat (map (\<lambda>p. map (\<lambda>q. take (length (snd p) - length (snd q)) (snd p)) (filter (\<lambda>q. ends rest q \<noteq> []) (ends body p)))
        (ends pre p)) of
        [] \<Rightarrow> None | t # _ \<Rightarrow> Some t)"

definition rx_group :: "rx \<Rightarrow> rx \<Rightarrow> rx \<Rightarrow> string \<Rightarrow> string option" where
  "rx_group pre body rest s = rx_group_at pre body rest (None, s)"

fun rx_search_group_from :: "rx \<Rightarrow> rx \<Rightarrow> rx \<Rightarrow> char option \<Rightarrow> string \<Rightarrow> string option" where
  "rx_search_group_from pre body rest prev [] = rx_group_at pre body rest (prev, [])"
| "rx_search_group_from pre body rest prev (c # s) =
     (case rx_group_at pre body rest (prev, c # s) of
        Some t \<Rightarrow> Some t
      | None \<Rightarrow> rx_search_group_from pre body rest (Some c) s)"

definition rx_search_group :: "rx \<Rightarrow> rx \<Rightarrow> rx \<Rightarrow> string \<Rightarrow> string option" where
  "rx_search_group pre body rest s = rx_search_group_from pre body rest None s"

section \<open>Substitution\<close>

text \<open>
  \<open>pattern.sub\<close>: a matcher gives the replacement and the position after the match.  None of the
  patterns the sources substitute matches the empty string; such a match would be passed over.
\<close>

type_synonym rx_subst = "rpos \<Rightarrow> (string \<times> rpos) option"

definition subst_all :: "rx \<Rightarrow> string \<Rightarrow> rx_subst" where
  "subst_all r new p = (case ends r p of [] \<Rightarrow> None | q # _ \<Rightarrow> Some (new, q))"

definition subst_after :: "rx \<Rightarrow> rx \<Rightarrow> string \<Rightarrow> rx_subst" where
  \<comment> \<open>the pattern \<open>(pre)post\<close>, replaced by the text of the group and \<open>new\<close>\<close>
  "subst_after pre post new p = (case filter (\<lambda>q. ends post q \<noteq> []) (ends pre p) of
     [] \<Rightarrow> None
   | q # _ \<Rightarrow> Some (take (length (snd p) - length (snd q)) (snd p) @ new, hd (ends post q)))"

function rx_sub_from :: "rx_subst \<Rightarrow> char option \<Rightarrow> string \<Rightarrow> string" where
  "rx_sub_from m prev [] = []"
| "rx_sub_from m prev (c # s) = (case m (prev, c # s) of
     None \<Rightarrow> c # rx_sub_from m (Some c) s
   | Some (new, q) \<Rightarrow>
       if length (snd q) < length (c # s) then new @ rx_sub_from m (fst q) (snd q)
       else c # rx_sub_from m (Some c) s)"
  by pat_completeness auto
termination by (relation "measure (\<lambda>(_, _, s). length s)") auto

definition rx_sub :: "rx_subst \<Rightarrow> string \<Rightarrow> string" where
  "rx_sub m s = rx_sub_from m None s"

section \<open>Meaning\<close>

fun rel :: "rx \<Rightarrow> (rpos \<times> rpos) set" where
  "rel (Ch P) = {((b, c # s), (Some c, s)) | b c s. P c}"
| "rel Eps = Id"
| "rel (Seq a b) = rel a O rel b"
| "rel (Alt a b) = rel a \<union> rel b"
| "rel (Star a) = (rel a)\<^sup>*"
| "rel (LazyStar a) = (rel a)\<^sup>*"
| "rel r = {(p, p) | p. holds_at r p}"

text \<open>A step either stays in place or consumes characters.\<close>

lemma rtrancl_shrinks:
  assumes "(p, q) \<in> R\<^sup>*"
    and "\<And>p q. (p, q) \<in> R \<Longrightarrow> p = q \<or> length (snd q) < length (snd p)"
  shows "p = q \<or> length (snd q) < length (snd p)"
  using assms(1)
proof (induction rule: rtrancl_induct)
  case (step y z)
  then show ?case using assms(2) [OF step.hyps(2)] by auto
qed simp

lemma rel_shrinks: "(p, q) \<in> rel r \<Longrightarrow> p = q \<or> length (snd q) < length (snd p)"
proof (induction r arbitrary: p q)
  case (Seq a b)
  then show ?case by (fastforce dest: order.strict_trans)
next
  case (Alt a b)
  from Alt.prems consider "(p, q) \<in> rel a" | "(p, q) \<in> rel b" by auto
  then show ?case using Alt.IH by cases blast+
next
  case (Star a)
  then show ?case using rtrancl_shrinks [of p q "rel a"] by simp
next
  case (LazyStar a)
  then show ?case using rtrancl_shrinks [of p q "rel a"] by simp
qed auto

lemma star_ends_rtrancl:
  assumes f: "\<And>p. set (f p) = R `` {p}"
    and sh: "\<And>p q. (p, q) \<in> R \<Longrightarrow> p = q \<or> length (snd q) < length (snd p)"
    and n: "length (snd p) \<le> n"
  shows "set (star_ends greedy n f p) = R\<^sup>* `` {p}"
  using n
proof (induction n arbitrary: p)
  case 0
  have "q = p" if "(p, q) \<in> R\<^sup>*" for q
    using rtrancl_shrinks [OF that sh] 0 by auto
  then show ?case by auto
next
  case (Suc n)
  let ?next = "{q \<in> R `` {p}. length (snd q) < length (snd p)}"
  have "set (star_ends greedy (Suc n) f p) = insert p (\<Union>q \<in> ?next. R\<^sup>* `` {q})"
    using Suc f by (auto simp: Let_def)
  also have "\<dots> = R\<^sup>* `` {p}"
  proof (intro equalityI subsetI)
    fix q assume "q \<in> insert p (\<Union>q \<in> ?next. R\<^sup>* `` {q})"
    then show "q \<in> R\<^sup>* `` {p}" by (auto intro: converse_rtrancl_into_rtrancl)
  next
    fix q assume "q \<in> R\<^sup>* `` {p}"
    then have "(p, q) \<in> R\<^sup>*" by simp
    then show "q \<in> insert p (\<Union>q \<in> ?next. R\<^sup>* `` {q})"
    proof (induction rule: converse_rtrancl_induct)
      case base
      then show ?case by simp
    next
      case (step y z)
      from sh [OF step.hyps(1)] show ?case
      proof
        assume "y = z"
        with step.IH show ?thesis by simp
      next
        assume "length (snd z) < length (snd y)"
        with step.hyps show ?thesis by (cases z) auto
      qed
    qed
  qed
  finally show ?case .
qed

lemma ends_correct: "set (ends r p) = rel r `` {p}"
proof (induction r arbitrary: p)
  case (Ch P)
  show ?case by (cases p) (auto split: list.splits)
next
  case (Star a)
  show ?case
    using star_ends_rtrancl [of "ends a" "rel a" p "length (snd p)" True] Star rel_shrinks [of _ _ a]
    by auto
next
  case (LazyStar a)
  show ?case
    using star_ends_rtrancl [of "ends a" "rel a" p "length (snd p)" False] LazyStar
      rel_shrinks [of _ _ a] by auto
qed auto

lemma rx_search_from_iff:
  "rx_search_from r prev s \<longleftrightarrow>
     (\<exists>u v q. s = u @ v \<and> ((if u = [] then prev else Some (last u), v), q) \<in> rel r)"
proof (induction s arbitrary: prev)
  case Nil
  have "ends r (prev, []) \<noteq> [] \<longleftrightarrow> (\<exists>q. ((prev, []), q) \<in> rel r)"
    using ends_correct [of r "(prev, [])"] by (metis Image_singleton_iff ex_in_conv set_empty)
  then show ?case by auto
next
  case (Cons c s)
  have here: "ends r (prev, c # s) \<noteq> [] \<longleftrightarrow> (\<exists>q. ((prev, c # s), q) \<in> rel r)"
    using ends_correct [of r "(prev, c # s)"] by (metis Image_singleton_iff ex_in_conv set_empty)
  have split: "(\<exists>u v q. c # s = u @ v \<and> P u v q) \<longleftrightarrow>
      (\<exists>q. P [] (c # s) q) \<or> (\<exists>u v q. s = u @ v \<and> P (c # u) v q)" for P :: "string \<Rightarrow> string \<Rightarrow> rpos \<Rightarrow> bool"
    by (auto simp: Cons_eq_append_conv)
  show ?case
    by (subst split) (auto simp: here Cons.IH)
qed

text \<open>The search finds a match exactly when there is one, starting anywhere in the subject.\<close>

lemma rx_search_iff:
  "rx_search r s \<longleftrightarrow>
     (\<exists>u v q. s = u @ v \<and> ((if u = [] then None else Some (last u), v), q) \<in> rel r)"
  by (simp add: rx_search_def rx_search_from_iff)

text \<open>A literal matches where the subject continues with it.\<close>

lemma rel_lit: "((b, s), q) \<in> rel (lit w) \<longleftrightarrow>
    (\<exists>t. s = w @ t \<and> q = (if w = [] then b else Some (last w), t))"
proof (induction w arbitrary: b s)
  case (Cons c w)
  have "((b, s), q) \<in> rel (lit (c # w)) \<longleftrightarrow>
      (\<exists>s'. s = c # s' \<and> ((Some c, s'), q) \<in> rel (lit w))"
    by (auto simp: chr_def)
  then show ?case using Cons.IH by auto
qed auto

lemma rx_search_lit: "rx_search (lit w) s \<longleftrightarrow> py_contains w s"
  by (simp add: rx_search_iff py_contains_iff rel_lit) blast

lemma rx_search_Alt: "rx_search (Alt a b) s \<longleftrightarrow> rx_search a s \<or> rx_search b s"
  by (simp add: rx_search_iff conj_disj_distribL ex_disj_distrib)

lemma rx_search_alts: "rs \<noteq> [] \<Longrightarrow> rx_search (alts rs) s \<longleftrightarrow> (\<exists>r \<in> set rs. rx_search r s)"
  by (induction rs rule: alts.induct) (auto simp: rx_search_Alt)

lemma rel_cat_append: "rel (cat (xs @ ys)) = rel (cat xs) O rel (cat ys)"
  by (induction xs) (auto simp: O_assoc)

lemma cat_chr: "cat (map chr w) = lit w"
  by (induction w) auto

lemma rel_star_any: "newline \<notin> set t \<Longrightarrow> \<exists>b'. ((b, t @ u), (b', u)) \<in> (rel anychar)\<^sup>*"
proof (induction t arbitrary: b)
  case (Cons c t)
  then obtain b' where "((Some c, t @ u), (b', u)) \<in> (rel anychar)\<^sup>*" by (metis list.set_intros(2))
  moreover have "((b, c # t @ u), (Some c, t @ u)) \<in> rel anychar"
    using Cons.prems by (auto simp: anychar_def none_of_def)
  ultimately show ?case by (metis append_Cons converse_rtrancl_into_rtrancl)
qed auto

lemma rx_match_iff: "rx_match r s \<longleftrightarrow> (\<exists>q. ((None, s), q) \<in> rel r)"
proof -
  have "ends r (None, s) \<noteq> [] \<longleftrightarrow> set (ends r (None, s)) \<noteq> {}" by simp
  then show ?thesis unfolding rx_match_def ends_correct by blast
qed

end
