(* ===== verification/Py_Url.thy ===== *)
theory Py_Url
  imports Py_Regex
begin

text \<open>
  The parts of \<open>urllib.parse\<close> and \<open>ipaddress\<close> the sources use, after CPython 3.12:
  \<open>urlparse\<close> with its \<open>username\<close>, \<open>password\<close>, \<open>hostname\<close> and \<open>port\<close> properties, and
  \<open>ip_address\<close> with \<open>is_loopback\<close>.  \<open>None\<close> is the \<open>ValueError\<close> of either module.
\<close>

section \<open>Splitting\<close>

fun py_partition :: "char \<Rightarrow> string \<Rightarrow> string \<times> bool \<times> string" where
  \<comment> \<open>before the first separator, whether there is one, after it\<close>
  "py_partition sep [] = ([], False, [])"
| "py_partition sep (c # s) =
     (if c = sep then ([], True, s)
      else (case py_partition sep s of (a, found, b) \<Rightarrow> (c # a, found, b)))"

definition py_rpartition :: "char \<Rightarrow> string \<Rightarrow> string \<times> bool \<times> string" where
  \<comment> \<open>at the last separator; without one everything is after it\<close>
  "py_rpartition sep s = (case py_partition sep (rev s) of
     (b, found, a) \<Rightarrow> if found then (rev a, True, rev b) else ([], False, s))"

definition before :: "char \<Rightarrow> string \<Rightarrow> string" where
  "before sep s = fst (py_partition sep s)"

definition after :: "char \<Rightarrow> string \<Rightarrow> string" where
  "after sep s = snd (snd (py_partition sep s))"

definition digits_value :: "nat \<Rightarrow> string \<Rightarrow> nat" where
  "digits_value base s = foldl (\<lambda>n c. base * n + (ord_of (py_lower_char c) -
      (if is_digit c then 48 else 87))) 0 s"

section \<open>IP addresses\<close>

definition parse_octet :: "string \<Rightarrow> nat option" where
  "parse_octet s = (if s = [] \<or> \<not> list_all is_digit s \<or> 3 < length s then None
     else if s \<noteq> ''0'' \<and> hd s = CHR ''0'' then None
     else if 255 < digits_value 10 s then None
     else Some (digits_value 10 s))"

definition ipv4_octets :: "string \<Rightarrow> nat list option" where
  "ipv4_octets s = (if length (py_split CHR ''.'' s) \<noteq> 4 then None
     else those (map parse_octet (py_split CHR ''.'' s)))"

definition is_hex :: "char \<Rightarrow> bool" where
  "is_hex c = (is_digit c \<or> in_range CHR ''a'' CHR ''f'' c \<or> in_range CHR ''A'' CHR ''F'' c)"

definition parse_hextet :: "string \<Rightarrow> nat option" where
  "parse_hextet s = (if s = [] \<or> \<not> list_all is_hex s \<or> 4 < length s then None
     else Some (digits_value 16 s))"

text \<open>The colon-separated parts, an IPv4 suffix rewritten as two of them.\<close>

definition v6_parts :: "string \<Rightarrow> nat option list option" where
  \<comment> \<open>a part is \<open>None\<close> when empty; the outer \<open>None\<close> is a malformed part\<close>
  "v6_parts s = (let parts = py_split CHR '':'' s;
       part = (\<lambda>p. if p = [] then Some None else map_option Some (parse_hextet p)) in
     if length parts < 3 then None
     else if CHR ''.'' \<in> set (last parts) then
       (case ipv4_octets (last parts) of
          Some [a, b, c, d] \<Rightarrow>
            map_option (\<lambda>ps. ps @ [Some (256 * a + b), Some (256 * c + d)])
              (those (map part (butlast parts)))
        | _ \<Rightarrow> None)
     else those (map part parts))"

definition inner_gaps :: "nat option list \<Rightarrow> nat list" where
  "inner_gaps ps = filter (\<lambda>i. ps ! i = None) [1..<length ps - 1]"

definition hextet_values :: "nat option list \<Rightarrow> nat list" where
  "hextet_values ps = map the (filter (\<lambda>p. p \<noteq> None) ps)"

definition ipv6_hextets :: "string \<Rightarrow> nat list option" where
  "ipv6_hextets s = (case v6_parts s of
     None \<Rightarrow> None
   | Some ps \<Rightarrow>
       if 9 < length ps then None
       else (case inner_gaps ps of
          [] \<Rightarrow> if length ps \<noteq> 8 \<or> hd ps = None \<or> last ps = None then None
                else Some (hextet_values ps)
        | [i] \<Rightarrow>
            (let hi = (if hd ps = None then i - 1 else i);
                 lo = (if last ps = None then length ps - i - 2 else length ps - i - 1) in
             if (hd ps = None \<and> hi \<noteq> 0) \<or> (last ps = None \<and> lo \<noteq> 0) \<or> 8 < hi + lo + 1 then None
             else Some (hextet_values (take hi ps) @ replicate (8 - (hi + lo)) 0 @
                        hextet_values (drop (length ps - lo) ps)))
        | _ \<Rightarrow> None))"

definition ipv6_of_text :: "string \<Rightarrow> nat list option" where
  \<comment> \<open>the address before a \<open>%\<close> zone, which must be non-empty and hold no other \<open>%\<close>\<close>
  "ipv6_of_text s = (case py_partition CHR ''%'' s of (a, found, zone) \<Rightarrow>
     if found \<and> (zone = [] \<or> CHR ''%'' \<in> set zone) then None else ipv6_hextets a)"

datatype ip_addr = IPv4 "nat list" | IPv6 "nat list"

definition ip_address :: "string \<Rightarrow> ip_addr option" where
  "ip_address s = (case ipv4_octets s of
     Some os \<Rightarrow> Some (IPv4 os)
   | None \<Rightarrow> map_option IPv6 (ipv6_of_text s))"

fun is_loopback :: "ip_addr \<Rightarrow> bool" where
  "is_loopback (IPv4 os) = (os \<noteq> [] \<and> hd os = 127)"
| "is_loopback (IPv6 hs) = (hs = [0, 0, 0, 0, 0, 0, 0, 1])"

section \<open>URLs\<close>

record parsed_url =
  pu_scheme :: string
  pu_netloc :: string
  pu_path :: string
  pu_params :: string
  pu_query :: string
  pu_fragment :: string

definition scheme_char :: "char \<Rightarrow> bool" where
  "scheme_char c = (is_alpha c \<or> is_digit c \<or> c \<in> set ''+-.'')"

definition clean_url :: "string \<Rightarrow> string" where
  "clean_url s = filter (\<lambda>c. c \<notin> {CHR 0x09, CHR 0x0A, CHR 0x0D})
     (lstrip (\<lambda>c. ord_of c \<le> (32::nat)) s)"

definition split_scheme :: "string \<Rightarrow> string \<times> string" where
  "split_scheme url = (case py_partition CHR '':'' url of (a, found, b) \<Rightarrow>
     if found \<and> a \<noteq> [] \<and> is_alpha (hd url) \<and> list_all scheme_char a then (py_lower a, b)
     else ([], url))"

definition split_netloc :: "string \<Rightarrow> string \<times> string" where
  "split_netloc url = (if startswith url ''//''
     then (takeWhile (\<lambda>c. c \<notin> set ''/?#'') (drop 2 url), dropWhile (\<lambda>c. c \<notin> set ''/?#'') (drop 2 url))
     else ([], url))"

definition bracketed_host_ok :: "string \<Rightarrow> bool" where
  "bracketed_host_ok h = (if startswith h ''v''
     then rx_fullmatch (cat [lit ''v'', many1 (Ch is_hex), lit ''.'', many1 anychar]) h
     else (case ip_address h of Some (IPv6 _) \<Rightarrow> True | _ \<Rightarrow> False))"

definition netloc_ok :: "string \<Rightarrow> bool" where
  "netloc_ok n = ((CHR ''['' \<in> set n \<longleftrightarrow> CHR '']'' \<in> set n) \<and>
     (CHR ''['' \<in> set n \<longrightarrow> bracketed_host_ok (before CHR '']'' (after CHR ''['' n))))"

definition uses_params :: "string list" where
  "uses_params = [[], ''ftp'', ''hdl'', ''prospero'', ''http'', ''imap'', ''https'', ''shttp'',
     ''rtsp'', ''rtsps'', ''rtspu'', ''sip'', ''sips'', ''mms'', ''sftp'', ''tel'']"

definition split_params :: "string \<Rightarrow> string \<Rightarrow> string \<times> string" where
  \<comment> \<open>the parameters of the last path segment\<close>
  "split_params scheme path = (case py_rpartition CHR ''/'' path of (dir, slash, seg) \<Rightarrow>
     if scheme \<in> set uses_params \<and> CHR '';'' \<in> set seg
     then (dir @ (if slash then ''/'' else []) @ before CHR '';'' seg, after CHR '';'' seg)
     else (path, []))"

definition urlparse :: "string \<Rightarrow> parsed_url option" where
  "urlparse text = (case split_scheme (clean_url text) of (scheme, rest) \<Rightarrow>
     case split_netloc rest of (netloc, rest) \<Rightarrow>
     if \<not> netloc_ok netloc then None
     else (case py_partition CHR ''#'' rest of (rest, _, fragment) \<Rightarrow>
       case py_partition CHR ''?'' rest of (path, _, query) \<Rightarrow>
       case split_params scheme path of (path, params) \<Rightarrow>
       Some \<lparr>pu_scheme = scheme, pu_netloc = netloc, pu_path = path, pu_params = params,
             pu_query = query, pu_fragment = fragment\<rparr>))"

definition userinfo :: "parsed_url \<Rightarrow> string option" where
  \<comment> \<open>what stands before the last \<open>@\<close>\<close>
  "userinfo u = (case py_rpartition CHR ''@'' (pu_netloc u) of (a, found, _) \<Rightarrow>
     if found then Some a else None)"

definition url_username :: "parsed_url \<Rightarrow> string option" where
  "url_username u = map_option (before CHR '':'') (userinfo u)"

definition url_password :: "parsed_url \<Rightarrow> string option" where
  "url_password u = (case userinfo u of None \<Rightarrow> None
     | Some a \<Rightarrow> (case py_partition CHR '':'' a of (_, found, p) \<Rightarrow> if found then Some p else None))"

definition hostinfo :: "parsed_url \<Rightarrow> string \<times> string" where
  "hostinfo u = (let h = snd (snd (py_rpartition CHR ''@'' (pu_netloc u))) in
     case py_partition CHR ''['' h of (_, bracket, b) \<Rightarrow>
     if bracket then (before CHR '']'' b, after CHR '':'' (after CHR '']'' b))
     else (before CHR '':'' h, after CHR '':'' h))"

definition url_hostname :: "parsed_url \<Rightarrow> string option" where
  "url_hostname u = (let h = fst (hostinfo u) in
     if h = [] then None
     else Some (case py_partition CHR ''%'' h of (a, found, zone) \<Rightarrow>
       py_lower a @ (if found then ''%'' else []) @ zone))"

definition url_port_ok :: "parsed_url \<Rightarrow> bool" where
  \<comment> \<open>reading \<open>port\<close> does not raise\<close>
  "url_port_ok u = (let p = snd (hostinfo u) in
     p = [] \<or> (list_all is_digit p \<and> digits_value 10 p \<le> 65535))"

section \<open>Facts\<close>

lemma py_partition_eq:
  "py_partition sep s = (a, found, b) \<Longrightarrow>
     sep \<notin> set a \<and> (if found then s = a @ sep # b else s = a \<and> b = [])"
  by (induction s arbitrary: a) (auto split: if_splits prod.splits)

lemma parse_octet_bound: "parse_octet s = Some n \<Longrightarrow> n \<le> 255"
  by (auto simp: parse_octet_def split: if_splits)

lemma ipv4_octets_shape:
  assumes "ipv4_octets s = Some os"
  shows "length os = 4 \<and> (\<forall>n \<in> set os. n \<le> 255)"
proof -
  have "map parse_octet (py_split CHR ''.'' s) = map Some os"
    using assms by (auto simp: ipv4_octets_def those_Some_map split: if_splits)
  moreover from this have "length os = length (py_split CHR ''.'' s)"
    by (metis length_map)
  moreover have "length (py_split CHR ''.'' s) = 4"
    using assms by (simp add: ipv4_octets_def split: if_splits)
  ultimately show ?thesis
    by (metis (no_types, lifting) in_set_conv_nth length_map nth_map parse_octet_bound)
qed

lemma urlparse_scheme_lower:
  "urlparse s = Some u \<Longrightarrow> pu_scheme u = fst (split_scheme (clean_url s))"
  by (auto simp: urlparse_def split: prod.splits if_splits)

end
