(* ===== verification/Py_Text.thy ===== *)
theory Py_Text
  imports Py_Url Json
begin

text \<open>
  Reading and printing numbers and values as Python does: \<open>int(text)\<close>, \<open>float(text)\<close>,
  \<open>repr(text)\<close>, and truth and \<open>str\<close> of the JSON-shaped values.  \<open>None\<close> is a \<open>ValueError\<close>.
\<close>

section \<open>Numbers\<close>

text \<open>Digits with single underscores between them, as \<open>int\<close> and \<open>float\<close> accept.\<close>

fun digit_run :: "string \<Rightarrow> string option" where
  "digit_run [] = None"
| "digit_run [c] = (if is_digit c then Some [c] else None)"
| "digit_run (c # d # s) =
     (if \<not> is_digit c then None
      else map_option ((#) c) (digit_run (if d = CHR ''_'' then s else d # s)))"

definition signed :: "string \<Rightarrow> bool \<times> string" where
  "signed s = (case s of [] \<Rightarrow> (False, [])
     | c # t \<Rightarrow> if c = CHR ''-'' then (True, t) else if c = CHR ''+'' then (False, t) else (False, s))"

definition py_int :: "string \<Rightarrow> int option" where
  "py_int s = (case signed (py_strip s) of (neg, t) \<Rightarrow>
     map_option (\<lambda>d. if neg then - int (digits_value 10 d) else int (digits_value 10 d)) (digit_run t))"

definition digits_or_empty :: "string \<Rightarrow> string option" where
  "digits_or_empty s = (if s = [] then Some [] else digit_run s)"

definition py_exponent :: "string \<Rightarrow> bool \<Rightarrow> int option" where
  "py_exponent s present = (if \<not> present then Some 0
     else (case signed s of (neg, t) \<Rightarrow>
       map_option (\<lambda>d. if neg then - int (digits_value 10 d) else int (digits_value 10 d)) (digit_run t)))"

definition split_exponent :: "string \<Rightarrow> string \<times> bool \<times> string" where
  "split_exponent s = py_partition CHR ''e'' (py_lower s)"

definition ten_power :: "int \<Rightarrow> rat" where
  "ten_power e = (if 0 \<le> e then 10 ^ nat e else 1 / 10 ^ nat (- e))"

text \<open>Values beyond the largest double round to an infinity.\<close>

definition float_overflow :: rat where
  "float_overflow = 2 ^ 1024 - 2 ^ 970"

definition decimal_value :: "string \<Rightarrow> rat option" where
  "decimal_value s = (case split_exponent s of (m, present, e) \<Rightarrow>
     case py_partition CHR ''.'' m of (w, dot, f) \<Rightarrow>
     case (digits_or_empty w, digits_or_empty f, py_exponent e present) of
       (Some w, Some f, Some e) \<Rightarrow>
         if w = [] \<and> f = [] then None
         else Some (of_nat (digits_value 10 (w @ f)) * ten_power (e - int (length f)))
     | _ \<Rightarrow> None)"

definition py_float :: "string \<Rightarrow> pyfloat option" where
  "py_float s = (case signed (py_strip s) of (neg, t) \<Rightarrow>
     if py_lower t \<in> {''inf'', ''infinity''} then Some (if neg then NegInf else PosInf)
     else if py_lower t = ''nan'' then Some NaN
     else map_option (\<lambda>v. if float_overflow \<le> v then (if neg then NegInf else PosInf)
                          else Fin (if neg then - v else v)) (decimal_value t))"

section \<open>Values\<close>

definition num_text_nonzero :: "string \<Rightarrow> bool" where
  "num_text_nonzero t = list_ex (\<lambda>c. is_digit c \<and> c \<noteq> CHR ''0'') (fst (split_exponent t))"

fun jtruthy :: "jval \<Rightarrow> bool" where
  "jtruthy JNull = False"
| "jtruthy (JBool b) = b"
| "jtruthy (JNum t) = num_text_nonzero t"
| "jtruthy (JStr s) = (s \<noteq> [])"
| "jtruthy (JList xs) = (xs \<noteq> [])"
| "jtruthy (JDict kvs) = (kvs \<noteq> [])"
| "jtruthy JNonFinite = True"
| "jtruthy JOpaque = True"

text \<open>\<open>str(v)\<close>; how containers and other objects print is an argument.\<close>

fun jstr :: "(jval \<Rightarrow> string) \<Rightarrow> jval \<Rightarrow> string" where
  "jstr show (JStr s) = s"
| "jstr show (JNum t) = t"
| "jstr show (JBool b) = (if b then ''True'' else ''False'')"
| "jstr show JNull = ''None''"
| "jstr show v = show v"

text \<open>\<open>str(v or "")\<close>.\<close>

definition jstr_or_empty :: "(jval \<Rightarrow> string) \<Rightarrow> jval \<Rightarrow> string" where
  "jstr_or_empty show v = (if jtruthy v then jstr show v else [])"

fun jfloat :: "pyfloat \<Rightarrow> jval \<Rightarrow> pyfloat res" where
  \<comment> \<open>\<open>float(v)\<close>\<close>
  "jfloat nf (JNum t) = (case py_float t of None \<Rightarrow> raise ValueError ''could not convert'' | Some x \<Rightarrow> Inr x)"
| "jfloat nf (JStr t) = (case py_float t of None \<Rightarrow> raise ValueError ''could not convert'' | Some x \<Rightarrow> Inr x)"
| "jfloat nf (JBool b) = Inr (Fin (if b then 1 else 0))"
| "jfloat nf JNonFinite = Inr nf"
| "jfloat nf _ = raise TypeErrorC ''float() argument''"

definition truncate_rat :: "rat \<Rightarrow> int" where
  "truncate_rat q = (if 0 \<le> q then floor q else - floor (- q))"

fun jint :: "pyfloat \<Rightarrow> jval \<Rightarrow> int res" where
  \<comment> \<open>\<open>int(v)\<close>; a number with a fraction is cut\<close>
  "jint nf (JNum t) = (case py_int t of Some n \<Rightarrow> Inr n
     | None \<Rightarrow> (case py_float t of
          Some (Fin q) \<Rightarrow> Inr (truncate_rat q)
        | Some NaN \<Rightarrow> raise ValueError ''cannot convert float NaN to integer''
        | Some _ \<Rightarrow> raise OverflowErrorC ''cannot convert float infinity to integer''
        | None \<Rightarrow> raise ValueError ''invalid literal''))"
| "jint nf (JStr t) = (case py_int t of Some n \<Rightarrow> Inr n | None \<Rightarrow> raise ValueError ''invalid literal'')"
| "jint nf (JBool b) = Inr (if b then 1 else 0)"
| "jint nf JNonFinite = (if nf = NaN then raise ValueError ''cannot convert float NaN to integer''
     else raise OverflowErrorC ''cannot convert float infinity to integer'')"
| "jint nf _ = raise TypeErrorC ''int() argument''"

definition or_value :: "jval \<Rightarrow> jval \<Rightarrow> jval" where
  \<comment> \<open>\<open>v or d\<close>\<close>
  "or_value v d = (if jtruthy v then v else d)"

fun jitems :: "jval \<Rightarrow> jval list res" where
  \<comment> \<open>iteration\<close>
  "jitems (JList xs) = Inr xs"
| "jitems (JDict kvs) = Inr (map (\<lambda>kv. JStr (fst kv)) kvs)"
| "jitems (JStr s) = Inr (map (\<lambda>c. JStr [c]) s)"
| "jitems _ = raise TypeErrorC ''object is not iterable''"

fun jdict :: "jval \<Rightarrow> (string, jval) dict res" where
  \<comment> \<open>\<open>dict(v)\<close>; sequences of pairs, which no stored record has, are refused\<close>
  "jdict (JDict kvs) = Inr kvs"
| "jdict (JStr s) = raise ValueError ''dictionary update sequence element''"
| "jdict (JList xs) = raise ValueError ''dictionary update sequence element''"
| "jdict _ = raise TypeErrorC ''object is not iterable''"

definition opt_float :: "pyfloat \<Rightarrow> jval \<Rightarrow> pyfloat option res" where
  "opt_float nf v = (if v = JNull then Inr None else bindE (jfloat nf v) (\<lambda>x. Inr (Some x)))"

definition repr_char :: "char \<Rightarrow> char \<Rightarrow> string" where
  "repr_char q c = (let n = ord_of c :: nat in
     if c = q \<or> n = 92 then [CHR 0x5C, c]
     else if n = 9 then [CHR 0x5C, CHR ''t'']
     else if n = 10 then [CHR 0x5C, CHR ''n'']
     else if n = 13 then [CHR 0x5C, CHR ''r'']
     else if n < 32 \<or> (127 \<le> n \<and> n \<le> 160) \<or> n = 173
       then [CHR 0x5C, CHR ''x'', hex_digit (n div 16), hex_digit (n mod 16)]
     else [c])"

definition py_repr :: "string \<Rightarrow> string" where
  "py_repr s = (let q = (if CHR 0x27 \<in> set s \<and> CHR 0x22 \<notin> set s then CHR 0x22 else CHR 0x27) in
     q # concat (map (repr_char q) s) @ [q])"

text \<open>\<open>str.splitlines\<close>.\<close>

definition line_break :: "char \<Rightarrow> bool" where
  "line_break c = (let n = ord_of c :: nat in (10 \<le> n \<and> n \<le> 13) \<or> (28 \<le> n \<and> n \<le> 30) \<or> n = 133)"

definition skip_newline :: "string \<Rightarrow> string" where
  "skip_newline s = (case s of d # t \<Rightarrow> if d = CHR 0x0A then t else s | [] \<Rightarrow> [])"

function splitlines_from :: "string \<Rightarrow> string \<Rightarrow> string list" where
  "splitlines_from acc [] = (if acc = [] then [] else [rev acc])"
| "splitlines_from acc (c # s) =
     (if c = CHR 0x0D then rev acc # splitlines_from [] (skip_newline s)
      else if line_break c then rev acc # splitlines_from [] s
      else splitlines_from (c # acc) s)"
  by pat_completeness auto
termination by (relation "measure (\<lambda>(_, s). length s)") (auto simp: skip_newline_def split: list.splits)

definition splitlines :: "string \<Rightarrow> string list" where
  "splitlines s = splitlines_from [] s"

section \<open>Facts\<close>

lemma digit_run_digits: "digit_run s = Some d \<Longrightarrow> d \<noteq> [] \<and> list_all is_digit d"
  by (induction s arbitrary: d rule: digit_run.induct) (auto split: if_splits)

text \<open>Integers survive printing and reading.\<close>

lemma decimal_char:
  assumes "k < (10::nat)"
  shows "is_digit (char_of (48 + k))" "ord_of (py_lower_char (char_of (48 + k))) = 48 + k"
    "\<not> py_isspace (char_of (48 + k))"
  using assms by (simp_all add: is_digit_def in_range_def of_char_of py_lower_char_def py_isspace_def Let_def)

lemma is_digit_plain: "is_digit c \<Longrightarrow> c \<noteq> CHR ''_'' \<and> c \<noteq> CHR ''-'' \<and> c \<noteq> CHR ''+'' \<and> \<not> py_isspace c"
  by (auto simp: is_digit_def in_range_def py_isspace_def Let_def)

lemma nat_digits_digits: "nat_digits n \<noteq> [] \<and> list_all is_digit (nat_digits n)"
proof (induction n rule: nat_digits.induct)
  case (1 n)
  show ?case
  proof (cases "n < 10")
    case True
    then show ?thesis using decimal_char(1) [OF True] by (subst (1 2) nat_digits.simps) simp
  next
    case False
    then show ?thesis using 1 decimal_char(1) [of "n mod 10"] by (subst (1 2) nat_digits.simps) simp
  qed
qed

lemma digits_value_append:
  "digits_value b (s @ [c]) = b * digits_value b s + (ord_of (py_lower_char c) - (if is_digit c then 48 else 87))"
  by (simp add: digits_value_def)

lemma digits_value_nat_digits: "digits_value 10 (nat_digits n) = n"
proof (induction n rule: nat_digits.induct)
  case (1 n)
  show ?case
  proof (cases "n < 10")
    case True
    then show ?thesis using decimal_char [OF True] by (subst nat_digits.simps) (simp add: digits_value_def)
  next
    case False
    then show ?thesis using 1 decimal_char [of "n mod 10"]
      by (subst nat_digits.simps) (simp add: digits_value_append)
  qed
qed

lemma digit_run_all: "s \<noteq> [] \<Longrightarrow> list_all is_digit s \<Longrightarrow> digit_run s = Some s"
  by (induction s rule: digit_run.induct) (auto dest: is_digit_plain)

lemma py_int_str_int: "py_int (py_str_int i) = Some i"
proof -
  let ?d = "nat_digits (nat (abs i))"
  have d: "?d \<noteq> []" "list_all is_digit ?d" using nat_digits_digits by blast+
  then obtain c s where cs: "?d = c # s" by (cases ?d) auto
  have plain: "c \<noteq> CHR ''-''" "c \<noteq> CHR ''+''" using d cs is_digit_plain by auto
  have sp: "list_all (\<lambda>c. \<not> py_isspace c) ?d" using d(2) is_digit_plain by (auto simp: list_all_iff)
  have m: "\<not> py_isspace CHR ''-''" by (simp add: py_isspace_def Let_def)
  have run: "digit_run ?d = Some ?d" "digits_value 10 ?d = nat (abs i)"
    using digit_run_all [OF d] digits_value_nat_digits by auto
  show ?thesis
  proof (cases "i < 0")
    case True
    then have eq: "py_str_int i = CHR ''-'' # ?d" by (simp add: py_str_int_def)
    have "py_strip (CHR ''-'' # ?d) = CHR ''-'' # ?d" by (rule py_strip_no_space) (use sp m in simp)
    then show ?thesis using run True by (simp add: py_int_def eq signed_def)
  next
    case False
    then have eq: "py_str_int i = ?d" by (simp add: py_str_int_def)
    have "py_strip ?d = ?d" by (rule py_strip_no_space) (rule sp)
    moreover have "signed ?d = (False, ?d)" using plain by (simp add: signed_def cs)
    ultimately show ?thesis using run False by (simp add: py_int_def eq)
  qed
qed

lemma partition_absent: "c \<notin> set s \<Longrightarrow> fst (py_partition c s) = s"
  by (induction s) (auto split: prod.splits)

lemma digits_value_zero: "list_all (\<lambda>c. c = CHR ''0'') s \<Longrightarrow> digits_value 10 s = 0"
proof -
  have "foldl (\<lambda>n c. 10 * n + (ord_of (py_lower_char c) - (if is_digit c then 48 else 87))) 0 s = 0"
    if "list_all (\<lambda>c. c = CHR ''0'') s" for s
    using that by (induction s) (auto simp: is_digit_def in_range_def py_lower_char_def Let_def)
  then show "list_all (\<lambda>c. c = CHR ''0'') s \<Longrightarrow> ?thesis" by (simp add: digits_value_def)
qed

lemma num_text_zero: "\<not> num_text_nonzero (py_str_int n) \<Longrightarrow> n = 0"
proof -
  assume z: "\<not> num_text_nonzero (py_str_int n)"
  let ?d = "nat_digits (nat (abs n))"
  have d: "list_all is_digit ?d" using nat_digits_digits by blast
  have low: "py_lower_char c = c \<and> c \<noteq> CHR ''e''" if "is_digit c" for c
    using that by (auto simp: is_digit_def in_range_def py_lower_char_def Let_def)
  have s: "set (py_str_int n) \<subseteq> insert CHR ''-'' (set ?d)" "set ?d \<subseteq> set (py_str_int n)"
    by (auto simp: py_str_int_def)
  have "py_lower (py_str_int n) = py_str_int n"
    unfolding py_lower_def by (rule map_idI) (use s(1) d low in \<open>auto simp: list_all_iff py_lower_char_def\<close>)
  moreover have "CHR ''e'' \<notin> set (py_str_int n)" using s(1) d low by (auto simp: list_all_iff)
  ultimately have "fst (split_exponent (py_str_int n)) = py_str_int n"
    by (simp add: split_exponent_def partition_absent)
  then have "list_all (\<lambda>c. c = CHR ''0'') ?d"
    using z s(2) d by (auto simp: num_text_nonzero_def list_ex_iff list_all_iff)
  from digits_value_zero [OF this] show "n = 0" by (simp add: digits_value_nat_digits)
qed

lemma partition_none: "c \<notin> set s \<Longrightarrow> py_partition c s = (s, False, [])"
  by (induction s) auto

lemma num_text_nonzero_int: "num_text_nonzero (py_str_int n) \<longleftrightarrow> n \<noteq> 0"
proof -
  have "\<not> num_text_nonzero (py_str_int 0)" by code_simp
  then show ?thesis using num_text_zero by blast
qed

lemma decimal_value_digits: "decimal_value (nat_digits n) = Some (of_nat n)"
proof -
  let ?d = "nat_digits n"
  have d: "?d \<noteq> []" "list_all is_digit ?d" using nat_digits_digits by blast+
  have c: "py_lower_char c = c \<and> c \<noteq> CHR ''e'' \<and> c \<noteq> CHR ''.''" if "is_digit c" for c
    using that by (auto simp: is_digit_def in_range_def py_lower_char_def Let_def)
  have "py_lower ?d = ?d" unfolding py_lower_def by (rule map_idI) (use d c in \<open>auto simp: list_all_iff\<close>)
  moreover have "CHR ''e'' \<notin> set ?d" "CHR ''.'' \<notin> set ?d" using d c by (auto simp: list_all_iff)
  ultimately show ?thesis using d
    by (simp add: decimal_value_def split_exponent_def partition_none digits_or_empty_def digit_run_all py_exponent_def digits_value_nat_digits ten_power_def)
qed

lemma float_overflow_large: "2 ^ 970 < float_overflow"
proof -
  have "(2::rat) ^ 1024 = 2 ^ 54 * 2 ^ 970" by (simp flip: power_add)
  then have "float_overflow = (2 ^ 54 - 1) * 2 ^ 970" by (simp add: float_overflow_def algebra_simps)
  then show ?thesis by simp
qed

lemma py_float_small:
  assumes "signed (py_strip s) = (False, t)" "py_lower t \<notin> {''inf'', ''infinity'', ''nan''}" "decimal_value t = Some v" "v \<le> 2 ^ 970"
  shows "py_float s = Some (Fin v)"
  using assms float_overflow_large by (auto simp: py_float_def)

text \<open>A printed integer within the range of doubles is read as its value.\<close>

lemma py_float_int:
  assumes "abs i \<le> 2 ^ 970"
  shows "py_float (py_str_int i) = Some (Fin (of_int i))"
proof -
  let ?d = "nat_digits (nat (abs i))"
  have d: "?d \<noteq> []" "list_all is_digit ?d" using nat_digits_digits by blast+
  then obtain c s where cs: "?d = c # s" by (cases ?d) auto
  have plain: "c \<noteq> CHR ''-''" "c \<noteq> CHR ''+''" using d cs is_digit_plain by auto
  have lower: "\<not> is_digit CHR ''i''" "\<not> is_digit CHR ''n''" "\<not> is_digit CHR ''I''" "\<not> is_digit CHR ''N''" by code_simp+
  have sp: "list_all (\<lambda>c. \<not> py_isspace c) ?d" using d(2) is_digit_plain by (auto simp: list_all_iff)
  have m: "\<not> py_isspace CHR ''-''" by (simp add: py_isspace_def Let_def)
  have strip: "py_strip (CHR ''-'' # ?d) = CHR ''-'' # ?d" "py_strip ?d = ?d"
    by (rule py_strip_no_space; use sp m in simp)+
  have sign: "signed (py_strip (py_str_int i)) = (i < 0, ?d)"
    using strip plain cs by (auto simp: py_str_int_def signed_def)
  have "py_lower_char c = c" "is_digit c" using d cs by (auto simp: is_digit_def in_range_def py_lower_char_def Let_def)
  then have words: "py_lower ?d \<notin> {''inf'', ''infinity''}" "py_lower ?d \<noteq> ''nan''" using lower cs by (auto simp: py_lower_def)
  have "(of_int (abs i) :: rat) \<le> of_int (2 ^ 970)" using assms by (simp only: of_int_le_iff)
  then have "\<not> float_overflow \<le> of_nat (nat (abs i))" using float_overflow_large by simp
  then show ?thesis using words by (simp add: py_float_def sign decimal_value_digits)
qed

end
