(* ===== verification/Grant_Keys.thy ===== *)
theory Grant_Keys
  imports Py_Text
begin

unbundle bit_operations_syntax

text \<open>
  Key material of the grant authority in \<open>locus_runtime/grants.py\<close>: decoding of a stored key (hex
  or url-safe base64), key identifiers, the set of accepted keys and how it is loaded.  Bytes are
  natural numbers below 256.  The Ed25519 operations of the Biscuit library are fields of a record.
\<close>

section \<open>Bytes, hex and base64\<close>

type_synonym bytes = "nat list"

definition ascii_space :: "char \<Rightarrow> bool" where
  "ascii_space c = (let n = ord_of c in (9 \<le> n \<and> n \<le> 13) \<or> n = 32)"

fun fromhex :: "string \<Rightarrow> bytes option" where
  \<comment> \<open>\<open>bytes.fromhex\<close>: white space between the pairs is skipped\<close>
  "fromhex [] = Some []"
| "fromhex [c] = (if ascii_space c then Some [] else None)"
| "fromhex (c # d # s) = (if ascii_space c then fromhex (d # s)
     else if is_hex c \<and> is_hex d then map_option ((#) (digits_value 16 [c, d])) (fromhex s)
     else None)"

definition b64_char :: "nat \<Rightarrow> char" where
  \<comment> \<open>the url-safe alphabet\<close>
  "b64_char n = (if n < 26 then char_of (65 + n) else if n < 52 then char_of (71 + n)
     else if n < 62 then char_of (n - 4) else if n = 62 then CHR ''-'' else CHR ''_'')"

definition b64_value :: "char \<Rightarrow> nat option" where
  \<comment> \<open>after the translation of the url-safe characters to the standard ones\<close>
  "b64_value c = (let n = ord_of c in
     if 65 \<le> n \<and> n \<le> 90 then Some (n - 65)
     else if 97 \<le> n \<and> n \<le> 122 then Some (n - 71)
     else if 48 \<le> n \<and> n \<le> 57 then Some (n + 4)
     else if c = CHR ''-'' \<or> c = CHR ''+'' then Some 62
     else if c = CHR ''_'' \<or> c = CHR ''/'' then Some 63
     else None)"

fun urlsafe_b64encode :: "bytes \<Rightarrow> string" where
  "urlsafe_b64encode [] = []"
| "urlsafe_b64encode [a] = [b64_char (a div 4), b64_char (16 * (a mod 4)), CHR ''='', CHR ''='']"
| "urlsafe_b64encode [a, b] = [b64_char (a div 4), b64_char (16 * (a mod 4) + b div 16),
     b64_char (4 * (b mod 16)), CHR ''='']"
| "urlsafe_b64encode (a # b # c # s) = b64_char (a div 4) # b64_char (16 * (a mod 4) + b div 16) #
     b64_char (4 * (b mod 16) + c div 64) # b64_char (c mod 64) # urlsafe_b64encode s"

fun a2b :: "nat \<Rightarrow> nat \<Rightarrow> nat \<Rightarrow> string \<Rightarrow> bytes option" where
  \<comment> \<open>\<open>binascii.a2b_base64\<close>, not strict: place in the quad, pads seen, bits left over, and the input;
      characters outside the alphabet are skipped\<close>
  "a2b q pads left [] = (if q = 0 then Some [] else None)"
| "a2b q pads left (c # s) =
     (if c = CHR ''='' then
        (if 2 \<le> q \<and> 4 \<le> q + Suc pads then Some []
         else a2b q (if 2 \<le> q then Suc pads else pads) left s)
      else (case b64_value c of
          None \<Rightarrow> a2b q pads left s
        | Some v \<Rightarrow>
            if q = 0 then a2b 1 0 v s
            else if q = 1 then map_option ((#) (4 * left + v div 16)) (a2b 2 0 (v mod 16) s)
            else if q = 2 then map_option ((#) (16 * left + v div 4)) (a2b 3 0 (v mod 4) s)
            else map_option ((#) (64 * left + v)) (a2b 0 0 0 s)))"

definition urlsafe_b64decode :: "string \<Rightarrow> bytes option" where
  \<comment> \<open>a text with a character outside ASCII is a \<open>ValueError\<close>\<close>
  "urlsafe_b64decode s = (if list_all (\<lambda>c. ord_of c < 128) s then a2b 0 0 0 s else None)"

section \<open>Keys\<close>

definition padding :: "nat \<Rightarrow> string" where
  \<comment> \<open>\<open>"=" * (-n % 4)\<close>\<close>
  "padding n = replicate ((4 - n mod 4) mod 4) CHR ''=''"

definition decode_base64_key :: "string \<Rightarrow> bytes res" where
  "decode_base64_key value = (case urlsafe_b64decode (value @ padding (length value)) of
     None \<Rightarrow> raise GrantKeyError ''grant key is neither hex nor url-safe base64''
   | Some raw \<Rightarrow> guardE (length raw = 32) GrantKeyError ''grant key must be 32 bytes'' (Inr raw))"

definition decode_key_bytes :: "string \<Rightarrow> bytes res" where
  "decode_key_bytes text =
     (let value = py_strip text in
      if length value = 64 then
        (case fromhex value of Some raw \<Rightarrow> Inr raw | None \<Rightarrow> decode_base64_key value)
      else decode_base64_key value)"

definition authority_secret :: "bytes \<Rightarrow> string" where
  \<comment> \<open>\<open>generate_authority_secret\<close>, from the bytes of the fresh private key\<close>
  "authority_secret raw = rstrip (\<lambda>c. c = CHR ''='') (urlsafe_b64encode raw)"

definition from_bytes_big :: "bytes \<Rightarrow> nat" where
  "from_bytes_big bs = foldl (\<lambda>n b. 256 * n + b) 0 bs"

record ('k, 'p) key_lib =
  kl_private :: "bytes \<Rightarrow> 'k option"     \<comment> \<open>\<open>PrivateKey.from_bytes\<close>\<close>
  kl_public :: "bytes \<Rightarrow> 'p option"      \<comment> \<open>\<open>PublicKey.from_bytes\<close>\<close>
  kl_public_of :: "'k \<Rightarrow> 'p"            \<comment> \<open>the public key of the pair\<close>
  kl_bytes :: "'p \<Rightarrow> bytes"
  kl_sha256 :: "bytes \<Rightarrow> bytes"

definition key_id_for :: "('k, 'p) key_lib \<Rightarrow> 'p \<Rightarrow> nat" where
  "key_id_for lib p = from_bytes_big (take 4 (kl_sha256 lib (kl_bytes lib p))) AND 0x7FFFFFFF"

record ('k, 'p) authority =
  au_signing :: "'k option"
  au_accepted :: "(nat, 'p) dict"

definition set_default :: "'a \<Rightarrow> 'b \<Rightarrow> ('a, 'b) dict \<Rightarrow> ('a, 'b) dict" where
  "set_default k v d = (case map_of d k of None \<Rightarrow> d @ [(k, v)] | Some _ \<Rightarrow> d)"

definition make_authority :: "('k, 'p) key_lib \<Rightarrow> 'k option \<Rightarrow> 'p list \<Rightarrow> ('k, 'p) authority" where
  "make_authority lib signing publics =
     (let own = (case signing of None \<Rightarrow> []
                 | Some k \<Rightarrow> [(key_id_for lib (kl_public_of lib k), kl_public_of lib k)]) in
      \<lparr>au_signing = signing,
       au_accepted = foldl (\<lambda>d p. set_default (key_id_for lib p) p d) own publics\<rparr>)"

definition parse_public :: "('k, 'p) key_lib \<Rightarrow> string \<Rightarrow> 'p res" where
  "parse_public lib item = (case decode_key_bytes item of
     Inl _ \<Rightarrow> raise GrantKeyError ''an accepted public key is malformed''
   | Inr raw \<Rightarrow> (case kl_public lib raw of
        None \<Rightarrow> raise GrantKeyError ''an accepted public key is malformed''
      | Some p \<Rightarrow> Inr p))"

definition from_secret :: "('k, 'p) key_lib \<Rightarrow> string \<Rightarrow> string \<Rightarrow> ('k, 'p) authority res" where
  "from_secret lib secret accepted_public_keys =
     bindE (decode_key_bytes secret) (\<lambda>raw.
     case kl_private lib raw of
       None \<Rightarrow> raise GrantKeyError ''grant key is not a valid Ed25519 private key''
     | Some private \<Rightarrow>
         bindE (mapE (parse_public lib)
            (filter (\<lambda>i. i \<noteq> []) (map py_strip (py_split CHR '','' accepted_public_keys)))) (\<lambda>publics.
         Inr (make_authority lib (Some private) publics)))"

definition can_mint :: "('k, 'p) authority \<Rightarrow> bool" where
  "can_mint au = (au_signing au \<noteq> None)"

definition authority_key_id :: "('k, 'p) key_lib \<Rightarrow> ('k, 'p) authority \<Rightarrow> nat res" where
  "authority_key_id lib au = (case au_signing au of
     None \<Rightarrow> raise GrantKeyError ''no signing key''
   | Some k \<Rightarrow> Inr (key_id_for lib (kl_public_of lib k)))"

definition public_key_hex :: "('k, 'p) key_lib \<Rightarrow> ('k, 'p) authority \<Rightarrow> string res" where
  "public_key_hex lib au = (case au_signing au of
     None \<Rightarrow> raise GrantKeyError ''no signing key''
   | Some k \<Rightarrow> Inr (concat (map (\<lambda>b. [hex_digit (b div 16), hex_digit (b mod 16)])
                     (kl_bytes lib (kl_public_of lib k)))))"

definition accepted_key_ids :: "('k, 'p) authority \<Rightarrow> nat list" where
  "accepted_key_ids au = sort (map fst (au_accepted au))"

definition root_key :: "('k, 'p) authority \<Rightarrow> nat option \<Rightarrow> 'p option" where
  \<comment> \<open>\<open>_root\<close>; \<open>None\<close> is the \<open>GrantError\<close>\<close>
  "root_key au key_id = (case key_id of None \<Rightarrow> None | Some i \<Rightarrow> map_of (au_accepted au) i)"

definition load_grant_authority ::
  "('k, 'p) key_lib \<Rightarrow> string option res \<Rightarrow> string option \<Rightarrow> ('k, 'p) authority option" where
  \<comment> \<open>what resolving the secret gave, and \<open>LOCUS_GRANT_ACCEPTED_PUBLIC_KEYS\<close>\<close>
  "load_grant_authority lib resolved accepted = (case resolved of
     Inl _ \<Rightarrow> None
   | Inr None \<Rightarrow> None
   | Inr (Some secret) \<Rightarrow>
       if secret = [] then None
       else (case from_secret lib secret (case accepted of None \<Rightarrow> [] | Some s \<Rightarrow> s) of
           Inl _ \<Rightarrow> None
         | Inr au \<Rightarrow> Some au))"

section \<open>Lemmas\<close>

lemma b64_value_char: "n < 64 \<Longrightarrow> b64_value (b64_char n) = Some n"
  by (auto simp: b64_value_def b64_char_def Let_def of_char_of)

lemma b64_char_not_pad: "n < 64 \<Longrightarrow> b64_char n \<noteq> CHR ''=''"
  using b64_value_char [of n] by (auto simp: b64_value_def)

lemma b64_char_ascii: "n < 64 \<Longrightarrow> ord_of (b64_char n) < (128::nat) \<and> \<not> py_isspace (b64_char n)"
  by (auto simp: b64_char_def py_isspace_def Let_def of_char_of)

text \<open>The characters of an encoding, without the padding.\<close>

fun b64_body :: "bytes \<Rightarrow> nat list" where
  "b64_body [] = []"
| "b64_body [a] = [a div 4, 16 * (a mod 4)]"
| "b64_body [a, b] = [a div 4, 16 * (a mod 4) + b div 16, 4 * (b mod 16)]"
| "b64_body (a # b # c # s) = a div 4 # (16 * (a mod 4) + b div 16) # (4 * (b mod 16) + c div 64) #
     c mod 64 # b64_body s"

lemma sextets:
  assumes "a < (256::nat)" and "b < 256" and "c < 256"
  shows "a div 4 < 64" "16 * (a mod 4) < 64" "16 * (a mod 4) + b div 16 < 64" "4 * (b mod 16) < 64"
    "4 * (b mod 16) + c div 64 < 64" "c mod 64 < 64" "b div 16 < 16" "c div 64 < 4"
proof -
  have "a mod 4 < 4" "b mod 16 < 16" "b div 16 < 16" "c div 64 < 4"
    using assms by (simp_all add: less_mult_imp_div_less)
  then show "a div 4 < 64" "16 * (a mod 4) < 64" "16 * (a mod 4) + b div 16 < 64" "4 * (b mod 16) < 64"
    "4 * (b mod 16) + c div 64 < 64" "c mod 64 < 64" "b div 16 < 16" "c div 64 < 4"
    using assms by linarith+
qed

lemma octets:
  assumes "b div 16 < (16::nat)" and "c div 64 < (4::nat)"
  shows "(16 * (a mod 4) + b div 16) div 16 = a mod 4" "(16 * (a mod 4) + b div 16) mod 16 = b div 16"
    "(4 * (b mod 16) + c div 64) div 4 = b mod 16" "(4 * (b mod 16) + c div 64) mod 4 = c div 64"
  using assms by simp_all

lemma b64_body_small:
  "list_all (\<lambda>b. b < 256) bs \<Longrightarrow> list_all (\<lambda>n. n < 64) (b64_body bs)"
  by (induction bs rule: b64_body.induct) (auto simp: sextets)

lemma padding_step: "padding (Suc (Suc (Suc (Suc n)))) = padding n"
proof -
  have "Suc (Suc (Suc (Suc n))) mod 4 = n mod 4" by presburger
  then show ?thesis by (simp add: padding_def)
qed

lemma encode_body:
  "urlsafe_b64encode bs = map b64_char (b64_body bs) @ padding (length (b64_body bs))"
proof -
  have p: "padding 0 = []" "padding (Suc (Suc 0)) = ''==''" "padding (Suc (Suc (Suc 0))) = ''=''" by code_simp+
  show ?thesis by (induction bs rule: urlsafe_b64encode.induct) (simp_all add: padding_step p)
qed

lemma decode_encode:
  "list_all (\<lambda>b. b < 256) bs \<Longrightarrow> a2b 0 p 0 (urlsafe_b64encode bs) = Some bs"
proof (induction bs arbitrary: p rule: urlsafe_b64encode.induct)
  case (2 a p)
  then have "a < 256" by simp
  then show ?case using sextets [of a 0 0] by (simp add: b64_value_char b64_char_not_pad)
next
  case (3 a b p)
  then have "a < 256" "b < 256" by simp_all
  then show ?case using sextets [of a b 0] by (simp add: b64_value_char b64_char_not_pad octets)
next
  case (4 a b c s p)
  then have lt: "a < 256" "b < 256" "c < 256" "list_all (\<lambda>b. b < 256) s" by simp_all
  note x = sextets [OF lt(1-3)]
  then show ?case using 4(1) [OF lt(4), of 0] by (simp add: b64_value_char b64_char_not_pad octets)
qed simp

lemma length_b64_body: "length (b64_body bs) = (4 * length bs + 2) div 3"
  by (induction bs rule: b64_body.induct) auto

lemma b64_body_chars:
  assumes "list_all (\<lambda>b. b < 256) bs"
  shows "list_all (\<lambda>c. c \<noteq> CHR ''='' \<and> ord_of c < (128::nat) \<and> \<not> py_isspace c) (map b64_char (b64_body bs))"
  using b64_body_small [OF assms] b64_char_not_pad b64_char_ascii by (auto simp: list_all_iff)

lemma rstrip_replicate:
  assumes "list_all (\<lambda>c. c \<noteq> x) s"
  shows "rstrip (\<lambda>c. c = x) (s @ replicate n x) = s"
proof -
  have "dropWhile (\<lambda>c. c = x) (rev s) = rev s"
    using assms by (cases "rev s") (auto simp: list_all_iff dest: arg_cong [where f = set])
  then show ?thesis unfolding rstrip_def by (simp add: dropWhile_append)
qed

lemma authority_secret_body:
  "list_all (\<lambda>b. b < 256) bs \<Longrightarrow> authority_secret bs = map b64_char (b64_body bs)"
  unfolding authority_secret_def encode_body padding_def
  by (rule rstrip_replicate) (use b64_body_chars in \<open>auto simp: list_all_iff\<close>)

lemma key_id_bound: "key_id_for lib p < 2 ^ 31"
proof -
  have "key_id_for lib p = take_bit 31 (from_bytes_big (take 4 (kl_sha256 lib (kl_bytes lib p))))"
    unfolding key_id_for_def take_bit_eq_mask by (simp add: mask_eq_exp_minus_1)
  then show ?thesis by (simp add: take_bit_eq_mod)
qed

lemma map_of_set_default: "map_of (set_default k v d) i = (if i = k \<and> map_of d k = None then Some v else map_of d i)"
  by (auto simp: set_default_def map_add_def split: option.splits)

lemma accepted_fold:
  "map_of (foldl (\<lambda>d p. set_default (key_id_for lib p) p d) own ps) i =
     (case map_of own i of Some p \<Rightarrow> Some p | None \<Rightarrow> find (\<lambda>p. key_id_for lib p = i) ps)"
  by (induction ps arbitrary: own) (auto simp: map_of_set_default split: option.splits)

lemma find_SomeD: "find P xs = Some x \<Longrightarrow> x \<in> set xs \<and> P x"
  by (auto simp: find_Some_iff)

section \<open>A concrete key library\<close>

definition sample_keys :: "(bytes, bytes) key_lib" where
  "sample_keys = \<lparr>kl_private = Some, kl_public = Some, kl_public_of = (\<lambda>k. map (\<lambda>b. 255 - b) k),
     kl_bytes = (\<lambda>p. p), kl_sha256 = (\<lambda>p. p)\<rparr>"

section \<open>Properties\<close>

text \<open>
  A freshly generated authority secret (url-safe base64 without padding) decodes to the 32 bytes
  of the key it was made from.
\<close>

theorem authority_secret_roundtrip:
  assumes "length raw = 32" and "list_all (\<lambda>b. b < 256) raw"
  shows "decode_key_bytes (authority_secret raw) = Inr raw"
proof -
  let ?s = "map b64_char (b64_body raw)"
  note c = b64_body_chars [OF assms(2)]
  have s: "authority_secret raw = ?s" by (rule authority_secret_body [OF assms(2)])
  have st: "py_strip ?s = ?s" by (rule py_strip_no_space) (use c in \<open>auto simp: list_all_iff\<close>)
  have len: "length ?s = 43" using assms(1) by (simp add: length_b64_body)
  have dec: "urlsafe_b64decode (?s @ padding (length ?s)) = Some raw"
    using c decode_encode [OF assms(2)] unfolding urlsafe_b64decode_def encode_body
    by (auto simp: list_all_iff padding_def)
  show ?thesis unfolding decode_key_bytes_def Let_def s st
    using len dec assms(1) by (simp add: decode_base64_key_def)
qed

theorem authority_secret_roundtrip_witness:
  "decode_key_bytes (authority_secret (map (\<lambda>i. (i * 7) mod 256) [0..<32])) =
     Inr (map (\<lambda>i. (i * 7) mod 256) [0..<32])"
  by (rule authority_secret_roundtrip) code_simp+

text \<open>
  Only configured keys verify.  An authority loaded from its secret accepts, under the 31-bit
  identifier derived from it, the key of the secret and the public keys of the rotation list and no
  other: every accepted identifier is that of the key it selects, the own key is selected by its own
  identifier, and the identifier of every listed key is accepted.
\<close>

theorem accepted_keys_configured:
  assumes "from_secret lib secret listed = Inr au"
  shows "\<exists>signing publics. au_signing au = Some signing \<and>
    kl_private lib (projr (decode_key_bytes secret)) = Some signing \<and>
    mapE (parse_public lib) (filter (\<lambda>i. i \<noteq> []) (map py_strip (py_split CHR '','' listed))) = Inr publics \<and>
    root_key au (Some (key_id_for lib (kl_public_of lib signing))) = Some (kl_public_of lib signing) \<and>
    (\<forall>p \<in> set publics. root_key au (Some (key_id_for lib p)) \<noteq> None) \<and>
    (\<forall>i p. root_key au (Some i) = Some p \<longrightarrow>
       i = key_id_for lib p \<and> i < 2 ^ 31 \<and> p \<in> insert (kl_public_of lib signing) (set publics))"
proof -
  from assms obtain raw signing publics where *: "decode_key_bytes secret = Inr raw"
    "kl_private lib raw = Some signing"
    "mapE (parse_public lib) (filter (\<lambda>i. i \<noteq> []) (map py_strip (py_split CHR '','' listed))) = Inr publics"
    "au = make_authority lib (Some signing) publics"
    by (auto simp: from_secret_def bindE_eq_Inr_iff split: option.splits)
  have r: "root_key au (Some i) = (if i = key_id_for lib (kl_public_of lib signing)
      then Some (kl_public_of lib signing) else find (\<lambda>p. key_id_for lib p = i) publics)" for i
    by (simp add: root_key_def *(4) make_authority_def accepted_fold)
  have "au_signing au = Some signing" by (simp add: *(4) make_authority_def)
  moreover have "\<forall>p \<in> set publics. root_key au (Some (key_id_for lib p)) \<noteq> None"
    using find_None_iff [of "\<lambda>pa. key_id_for lib pa = key_id_for lib p" publics for p] by (auto simp: r simp del: not_None_eq)
  moreover have "\<forall>i p. root_key au (Some i) = Some p \<longrightarrow>
       i = key_id_for lib p \<and> i < 2 ^ 31 \<and> p \<in> insert (kl_public_of lib signing) (set publics)"
    using key_id_bound by (auto simp: r split: if_splits dest!: find_SomeD)
  moreover have "root_key au (Some (key_id_for lib (kl_public_of lib signing))) = Some (kl_public_of lib signing)"
    by (simp add: r)
  moreover have "kl_private lib (projr (decode_key_bytes secret)) = Some signing" using *(1,2) by simp
  ultimately show ?thesis using *(3) by blast
qed

theorem accepted_keys_configured_witness:
  "\<exists>signing. au_signing (projr (from_secret sample_keys (authority_secret (replicate 32 1)) [])) = Some signing \<and>
     signing = replicate 32 1"
proof -
  have d: "decode_key_bytes (authority_secret (replicate 32 1)) = Inr (replicate 32 1)" by code_simp
  have "\<exists>au. from_secret sample_keys (authority_secret (replicate 32 1)) [] = Inr au"
    unfolding from_secret_def d by (simp add: sample_keys_def)
  then obtain au where au: "from_secret sample_keys (authority_secret (replicate 32 1)) [] = Inr au" ..
  from accepted_keys_configured [OF au] show ?thesis unfolding au d by (auto simp: sample_keys_def)
qed

end
