(* ===== verification/Redaction.thy ===== *)
theory Redaction
  imports Py_Text
begin

text \<open>
  Redaction of secrets and the bounded, redacted description of an action: the redaction of
  \<open>locus_runtime/persistence.py\<close> (\<open>redact_sensitive_payload\<close>) and, of
  \<open>locus_runtime/gateway.py\<close>, \<open>redact_text\<close>, \<open>summarize_args\<close>, \<open>grant_facets\<close> and \<open>args_digest\<close>.

  How Python prints a container, a non-finite float or another object (\<open>show\<close>) and the keyed
  digest (\<open>hmac\<close>) are arguments.  The one character outside the modelled range, the ellipsis
  U+2026 that marks a truncation, is the constant \<open>ELLIPSIS\<close>; only its length matters.
\<close>

section \<open>Persistence redaction\<close>

definition REDACTED_VALUE :: string where
  "REDACTED_VALUE = ''[redacted]''"

definition SENSITIVE_KEY_TOKENS :: "string list" where
  "SENSITIVE_KEY_TOKENS = [''api_key'', ''apikey'', ''authorization'', ''auth_header'', ''bearer'',
     ''client_secret'', ''credential'', ''password'', ''refresh_token'', ''secret'', ''session_id'',
     ''token'']"

definition key_is_sensitive :: "string \<Rightarrow> bool" where
  "key_is_sensitive key =
     (let normalized = py_replace_char CHR ''-'' CHR ''_'' (py_lower (py_strip key)) in
      list_ex (\<lambda>t. py_contains t normalized) SENSITIVE_KEY_TOKENS)"

definition rep_from :: "nat \<Rightarrow> rx \<Rightarrow> rx" where
  \<comment> \<open>\<open>{n,}\<close>\<close>
  "rep_from n r = cat (replicate n r @ [Star r])"

definition rep :: "nat \<Rightarrow> rx \<Rightarrow> rx" where
  \<comment> \<open>\<open>{n}\<close>\<close>
  "rep n r = cat (replicate n r)"

definition none_of_or_space :: "string \<Rightarrow> rx" where
  \<comment> \<open>\<open>[^\s...]\<close>\<close>
  "none_of_or_space cs = Ch (\<lambda>c. \<not> py_isspace c \<and> c \<notin> set cs)"

definition assigns :: rx where
  \<comment> \<open>\<open>\s*[:=]\s*\<close>\<close>
  "assigns = cat [Star space, one_of '':='', Star space]"

definition SENSITIVE_TEXT_PATTERNS :: "rx_subst list" where
  "SENSITIVE_TEXT_PATTERNS = [
     subst_after (ci (Seq (lit ''authorization'') assigns))
       (ci (cat [opt (words [''bearer'', ''basic'']), Star space, many1 (none_of_or_space '',;'')]))
       REDACTED_VALUE,
     subst_after
       (ci (Seq (alts [cat [lit ''api'', opt (one_of ''_-''), lit ''key''], lit ''token'', lit ''password'',
                       lit ''secret'', lit ''client_secret'']) assigns))
       (many1 (none_of_or_space '',;&'')) REDACTED_VALUE,
     subst_all (ci (cat [WordB, lit ''bearer'', spaces,
         rep_from 8 (Ch (\<lambda>c. is_alpha c \<or> is_digit c \<or> c \<in> set ''._~+/=-''))])) REDACTED_VALUE,
     subst_all (cat [WordB, lit ''sk-'',
         rep_from 8 (Ch (\<lambda>c. is_alpha c \<or> is_digit c \<or> c \<in> set ''_-''))]) REDACTED_VALUE]"

definition redact_sensitive_text :: "string \<Rightarrow> string \<times> bool" where
  "redact_sensitive_text s = foldl (\<lambda>(text, changed) m.
     let updated = rx_sub m text in if updated \<noteq> text then (updated, True) else (text, changed))
     (s, False) SENSITIVE_TEXT_PATTERNS"

definition hidden :: "string \<Rightarrow> bool" where
  "hidden parent_key = (parent_key \<noteq> [] \<and> key_is_sensitive parent_key)"

fun redact_sensitive_value :: "string \<Rightarrow> jval \<Rightarrow> jval \<times> bool" where
  "redact_sensitive_value parent_key (JDict kvs) =
     (if hidden parent_key then (JStr REDACTED_VALUE, True)
      else (let items = map (\<lambda>(k, v). (k, redact_sensitive_value k v)) kvs;
                redacted = map (\<lambda>(k, r). (k, fst r)) items;
                redacted_any = list_ex (\<lambda>(k, r). snd r) items in
            (JDict (if redacted_any then AList.update ''redacted'' (JBool True) redacted else redacted),
             redacted_any)))"
| "redact_sensitive_value parent_key (JList xs) =
     (if hidden parent_key then (JStr REDACTED_VALUE, True)
      else (let items = map (redact_sensitive_value parent_key) xs in
            (JList (map fst items), list_ex snd items)))"
| "redact_sensitive_value parent_key (JStr s) =
     (if hidden parent_key then (JStr REDACTED_VALUE, True)
      else (case redact_sensitive_text s of (t, changed) \<Rightarrow> (JStr t, changed)))"
| "redact_sensitive_value parent_key v =
     (if hidden parent_key then (JStr REDACTED_VALUE, True) else (v, False))"

definition redact_sensitive_payload :: "jval \<Rightarrow> jval" where
  "redact_sensitive_payload v = fst (redact_sensitive_value [] v)"

section \<open>Gateway redaction and summaries\<close>

definition ARG_VALUE_MAX :: nat where "ARG_VALUE_MAX = 160"
definition ARG_KEYS_MAX :: nat where "ARG_KEYS_MAX = 24"

definition ELLIPSIS :: string where
  "ELLIPSIS = [CHR 0x85]"

definition CONTENT_KEYS :: "string list" where
  "CONTENT_KEYS = [''file_text'', ''content'', ''text'', ''new_str'', ''old_str'', ''body'', ''data'']"

definition key_marker :: "string \<Rightarrow> rx" where
  "key_marker w = cat [lit ''-----'', lit w, lit '' '', Star (Ch (\<lambda>c. is_upper c \<or> c = CHR '' '')),
     lit ''PRIVATE KEY-----'']"

definition EXTRA_SECRET_PATTERNS :: "rx_subst list" where
  "EXTRA_SECRET_PATTERNS = [
     subst_all (cat [key_marker ''BEGIN'', LazyStar (Ch (\<lambda>_. True)), Alt (key_marker ''END'') TextEnd])
       REDACTED_VALUE,
     subst_all (cat [WordB, lit ''AKIA'', rep 16 (Ch (\<lambda>c. is_digit c \<or> is_upper c)), WordB])
       REDACTED_VALUE,
     subst_all (cat [WordB, lit ''gh'', one_of ''pousr'', lit ''_'',
         rep_from 20 (Ch (\<lambda>c. is_alpha c \<or> is_digit c)), WordB]) REDACTED_VALUE,
     subst_all (cat [WordB, lit ''xox'', one_of ''abprs'', lit ''-'',
         rep_from 10 (Ch (\<lambda>c. is_alpha c \<or> is_digit c \<or> c = CHR ''-'')), WordB]) REDACTED_VALUE,
     subst_after (cat [lit ''://'', many1 (none_of_or_space ''/:@''), lit '':''])
       (cat [many1 (none_of_or_space ''@/''), lit ''@'']) (REDACTED_VALUE @ ''@'')]"

definition redact_raw :: "string \<Rightarrow> string" where
  \<comment> \<open>\<open>_redact_text\<close>\<close>
  "redact_raw text = foldl (\<lambda>t m. rx_sub m t) (fst (redact_sensitive_text text)) EXTRA_SECRET_PATTERNS"

definition redact_text :: "nat \<Rightarrow> string \<Rightarrow> string" where
  "redact_text limit text = (let value = redact_raw text in
     if length value \<le> limit then value else take (limit - 1) value @ ELLIPSIS)"

fun jdefault :: "(jval \<Rightarrow> string) \<Rightarrow> jval \<Rightarrow> jval" where
  \<comment> \<open>what \<open>json.dumps(default=str)\<close> puts for a value it cannot encode\<close>
  "jdefault show JOpaque = JStr (show JOpaque)"
| "jdefault show JNonFinite = JNum (show JNonFinite)"
| "jdefault show (JList xs) = JList (map (jdefault show) xs)"
| "jdefault show (JDict kvs) = JDict (map (\<lambda>(k, v). (k, jdefault show v)) kvs)"
| "jdefault show v = v"

definition dumps_default :: "(jval \<Rightarrow> string) \<Rightarrow> string \<Rightarrow> string \<Rightarrow> jval \<Rightarrow> string" where
  \<comment> \<open>\<open>json.dumps(v, default=str, sort_keys=True)\<close>, which cannot fail\<close>
  "dumps_default show isep ksep v = the (json_dumps isep ksep (jdefault show v))"

definition content_length :: "(string, jval) dict \<Rightarrow> string \<Rightarrow> nat option" where
  \<comment> \<open>the length of a text argument that is content, not intent\<close>
  "content_length args key = (if key \<in> set CONTENT_KEYS
     then (case map_of args key of Some (JStr raw) \<Rightarrow> Some (length raw) | _ \<Rightarrow> None) else None)"

definition summarize_value ::
  "(jval \<Rightarrow> string) \<Rightarrow> (string, jval) dict \<Rightarrow> (string, jval) dict \<Rightarrow> string \<Rightarrow> string" where
  "summarize_value show args redacted key =
     (let text = (case map_of redacted key of
                    Some (JStr s) \<Rightarrow> s
                  | Some v \<Rightarrow> dumps_default show '', '' '': '' v
                  | None \<Rightarrow> []) in
      case content_length args key of
        Some n \<Rightarrow> ''<'' @ nat_digits n @ '' chars>''
      | None \<Rightarrow> redact_text ARG_VALUE_MAX text)"

definition summarize_args ::
  "(jval \<Rightarrow> string) \<Rightarrow> (string, jval) dict option \<Rightarrow> (string, string) dict" where
  "summarize_args show args = (case args of
     None \<Rightarrow> []
   | Some kvs \<Rightarrow>
       (case redact_sensitive_payload (JDict kvs) of
          JDict redacted \<Rightarrow>
            map (\<lambda>k. (k, summarize_value show kvs redacted k))
              (filter (\<lambda>k. k \<noteq> ''redacted'') (take ARG_KEYS_MAX (sort (map fst redacted))))
        | _ \<Rightarrow> []))"

section \<open>Grant facets\<close>

definition FREE_TEXT_KEYS :: "string list" where
  "FREE_TEXT_KEYS = CONTENT_KEYS @ [''subject'', ''title'', ''message'', ''msg'', ''comment'',
     ''description'', ''summary'', ''note'', ''notes'', ''caption'']"

definition RECIPIENT_KEYS :: "string list" where
  "RECIPIENT_KEYS = [''to'', ''cc'', ''bcc'', ''recipient'', ''recipients'', ''email'', ''emails'',
     ''to_address'', ''address'', ''addresses'', ''attendees'', ''invitees'']"

definition AMOUNT_KEYS :: "string list" where
  "AMOUNT_KEYS = [''amount'', ''price'', ''total'', ''cost'', ''amount_usd'']"

definition AMOUNT_UNPARSEABLE :: int where
  "AMOUNT_UNPARSEABLE = 2 ^ 62"

definition EMAIL :: rx where
  "EMAIL = cat [TextStart, many1 (none_of_or_space ''@''), lit ''@'',
     many1 (Ch (\<lambda>c. is_alpha c \<or> is_digit c \<or> c \<in> set ''.-'')), lit ''.'', rep_from 2 (Ch is_alpha), TextEnd]"

definition FACET_VALUE_MAX :: nat where "FACET_VALUE_MAX = 200"

fun jnonfinite :: "(jval \<Rightarrow> string) \<Rightarrow> jval \<Rightarrow> jval" where
  \<comment> \<open>\<open>json.dumps\<close> prints a non-finite float by name\<close>
  "jnonfinite show JNonFinite = JNum (show JNonFinite)"
| "jnonfinite show (JList xs) = JList (map (jnonfinite show) xs)"
| "jnonfinite show (JDict kvs) = JDict (map (\<lambda>(k, v). (k, jnonfinite show v)) kvs)"
| "jnonfinite show v = v"

fun recipient_items :: "(jval \<Rightarrow> string) \<Rightarrow> jval \<Rightarrow> string list option" where
  \<comment> \<open>\<open>None\<close> is the \<open>TypeError\<close> of \<open>json.dumps\<close>\<close>
  "recipient_items show (JStr s) =
     Some (filter (\<lambda>i. i \<noteq> []) (map py_strip (concat (map (py_split CHR '';'') (py_split CHR '','' s)))))"
| "recipient_items show (JDict kvs) =
     (let items = map (\<lambda>(k, v). (k, jtruthy v, recipient_items show v)) kvs in
      case map_of items ''email'' of
        Some (True, found) \<Rightarrow> found
      | _ \<Rightarrow> (case map_of items ''address'' of
          Some (True, found) \<Rightarrow> found
        | _ \<Rightarrow> map_option (\<lambda>t. [t]) (json_dumps '', '' '': '' (jnonfinite show (JDict kvs)))))"
| "recipient_items show (JList xs) = map_option concat (those (map (recipient_items show) xs))"
| "recipient_items show JNull = Some []"
| "recipient_items show v = Some [jstr show v]"

definition round_half_even :: "rat \<Rightarrow> int" where
  "round_half_even q = (let f = floor q; d = q - of_int f in
     if d < 1 / 2 then f else if 1 / 2 < d then f + 1 else if even f then f else f + 1)"

definition amount_cents :: "(jval \<Rightarrow> string) \<Rightarrow> jval \<Rightarrow> int" where
  "amount_cents show v = (case v of
     JBool _ \<Rightarrow> AMOUNT_UNPARSEABLE
   | _ \<Rightarrow>
     (case py_float (lstrip (\<lambda>c. c = CHR ''$'' \<or> c = CHR 0xA3)
             (py_strip (filter (\<lambda>c. c \<noteq> CHR '','') (jstr show v)))) of
        Some (Fin q) \<Rightarrow> if q < 0 then AMOUNT_UNPARSEABLE
                        else min (round_half_even (q * 100)) AMOUNT_UNPARSEABLE
      | _ \<Rightarrow> AMOUNT_UNPARSEABLE))"

definition recipient_token :: "string \<Rightarrow> string" where
  "recipient_token item = take FACET_VALUE_MAX
     (if rx_match EMAIL item then CHR ''@'' # py_lower (takeWhile (\<lambda>c. c \<noteq> newline) (after CHR ''@'' item))
      else py_lower item)"

definition lowered_args :: "(string, jval) dict \<Rightarrow> (string, jval) dict" where
  "lowered_args raw = foldl (\<lambda>d (k, v). AList.update (py_lower k) v d) [] raw"

definition max_of :: "int list \<Rightarrow> int" where
  "max_of xs = foldl max (hd xs) (tl xs)"

definition tool_facets ::
  "(jval \<Rightarrow> string) \<Rightarrow> (string, jval) dict \<Rightarrow> (string, string) dict option" where
  "tool_facets show raw =
     (let lowered = lowered_args raw;
          recipient_values = map (\<lambda>k. the (map_of lowered k))
             (filter (\<lambda>k. k \<in> set RECIPIENT_KEYS) (sort (map fst lowered)));
          amounts = map (\<lambda>(k, v). amount_cents show v)
             (filter (\<lambda>(k, v). k \<in> set AMOUNT_KEYS) lowered);
          summary = summarize_args show (Some (filter
             (\<lambda>(k, v). py_lower k \<notin> set FREE_TEXT_KEYS \<union> set RECIPIENT_KEYS \<union> set AMOUNT_KEYS) raw)) in
      case those (map (recipient_items show) recipient_values) of
        None \<Rightarrow> None
      | Some items \<Rightarrow> Some (
          (if recipient_values = [] then []
           else [(''recipients'', py_join '','' (sorted_set (map recipient_token (concat items))))]) @
          (if amounts = [] then [] else [(''amount_cents'', py_str_int (max_of amounts))]) @
          [(''args'', dumps_default show '','' '':'' (JDict (map (\<lambda>(k, t). (k, JStr t)) summary)))]))"

definition grant_facets ::
  "(jval \<Rightarrow> string) \<Rightarrow> string \<Rightarrow> (string, jval) dict option \<Rightarrow> string \<Rightarrow> (string, string) dict option" where
  "grant_facets show kind args command_summary =
     (if kind = ''process_exec'' then Some [(''command'', command_summary)]
      else if kind \<notin> {''tool_call'', ''mcp_tool_call''} then Some []
      else tool_facets show (case args of None \<Rightarrow> [] | Some kvs \<Rightarrow> kvs))"

definition args_digest :: "(string \<Rightarrow> string) \<Rightarrow> (jval \<Rightarrow> string) \<Rightarrow> jval \<Rightarrow> string" where
  "args_digest hmac show args = take 32 (hmac (dumps_default show '','' '':'' args))"

section \<open>Specification predicates\<close>

text \<open>
  A payload with the values under sensitive keys erased, and the claim that they are.
\<close>

fun public :: "jval \<Rightarrow> jval" where
  "public (JDict kvs) = JDict (map (\<lambda>(k, v). (k, if hidden k then JNull else public v)) kvs)"
| "public (JList xs) = JList (map public xs)"
| "public v = v"

fun keys_hidden :: "jval \<Rightarrow> bool" where
  "keys_hidden (JDict kvs) = (\<forall>kv \<in> set kvs.
     if hidden (fst kv) then snd kv = JStr REDACTED_VALUE else keys_hidden (snd kv))"
| "keys_hidden (JList xs) = (\<forall>x \<in> set xs. keys_hidden x)"
| "keys_hidden v = True"

section \<open>Lemmas\<close>

lemma redact_hidden: "hidden k \<Longrightarrow> redact_sensitive_value k v = (JStr REDACTED_VALUE, True)"
  by (cases v) auto

lemma redacted_key_public: "\<not> hidden ''redacted''"
  by code_simp

lemma redact_sensitive_value_hides:
  "\<not> hidden k \<Longrightarrow> keys_hidden (fst (redact_sensitive_value k v))"
proof (induction k v rule: redact_sensitive_value.induct)
  case (1 k kvs)
  let ?new = "map (\<lambda>(k, r). (k, fst r)) (map (\<lambda>(k, v). (k, redact_sensitive_value k v)) kvs)"
  have ok: "if hidden (fst kv) then snd kv = JStr REDACTED_VALUE else keys_hidden (snd kv)"
    if "kv \<in> set ?new" for kv
  proof (cases "hidden (fst kv)")
    case True
    then show ?thesis using that by (auto simp: redact_hidden)
  next
    case False
    then show ?thesis using that 1 by auto
  qed
  moreover have "if hidden (fst kv) then snd kv = JStr REDACTED_VALUE else keys_hidden (snd kv)"
    if "kv \<in> set (AList.update ''redacted'' (JBool True) ?new)" for kv
    using that set_update_subset [of "''redacted''" "JBool True" ?new] ok redacted_key_public by fastforce
  ultimately show ?case using 1(2) by (simp add: Let_def)
next
  case (2 k xs)
  then show ?case by (auto simp: Let_def)
qed (auto split: prod.splits)

lemma redact_public: "redact_sensitive_value k (public v) = redact_sensitive_value k v"
proof (induction v arbitrary: k rule: public.induct)
  case (1 kvs)
  have "map (\<lambda>(k, v). (k, redact_sensitive_value k v))
          (map (\<lambda>(k, v). (k, if hidden k then JNull else public v)) kvs) =
        map (\<lambda>(k, v). (k, redact_sensitive_value k v)) kvs"
    using 1 by (auto simp: redact_hidden)
  then show ?case by (simp only: public.simps redact_sensitive_value.simps)
next
  case (2 xs)
  then have "map (redact_sensitive_value k) (map public xs) = map (redact_sensitive_value k) xs" by simp
  then show ?case by (simp only: public.simps redact_sensitive_value.simps)
qed simp_all

lemma redact_payload_public:
  "public v = public w \<Longrightarrow> redact_sensitive_payload v = redact_sensitive_payload w"
  by (metis redact_public redact_sensitive_payload_def)

lemma public_JDict_lookup:
  assumes "public (JDict kvs) = public (JDict kvs')" and "\<not> hidden key"
  shows "map_option public (map_of kvs key) = map_option public (map_of kvs' key)"
proof -
  have "map_option public (map_of kvs key) =
      map_of (map (\<lambda>(k, v). (k, if hidden k then JNull else public v)) kvs) key" for kvs
    using assms(2) by (induction kvs) auto
  with assms(1) show ?thesis by simp
qed

lemma public_JStr_iff: "public v = JStr s \<longleftrightarrow> v = JStr s"
  by (cases v) auto

lemma content_keys_public: "list_all (\<lambda>k. \<not> hidden k) CONTENT_KEYS"
  by code_simp

lemma text_length_public:
  "(case map_option public x of Some (JStr raw) \<Rightarrow> Some (length raw) | _ \<Rightarrow> None) =
   (case x of Some (JStr raw) \<Rightarrow> Some (length raw) | _ \<Rightarrow> None)"
proof (cases x)
  case (Some v)
  then show ?thesis by (cases v) simp_all
qed simp

lemma content_length_public:
  assumes "public (JDict kvs) = public (JDict kvs')"
  shows "content_length kvs key = content_length kvs' key"
proof (cases "key \<in> set CONTENT_KEYS")
  case True
  then have "\<not> hidden key" using content_keys_public by (auto simp: list_all_iff)
  from public_JDict_lookup [OF assms this] show ?thesis
    unfolding content_length_def by (metis text_length_public)
qed (simp add: content_length_def)

lemma summarize_value_public:
  assumes "public (JDict kvs) = public (JDict kvs')"
  shows "summarize_value show kvs = summarize_value show kvs'"
  by (intro ext) (simp add: summarize_value_def content_length_public [OF assms])

lemma summarize_args_public:
  assumes "public (JDict kvs) = public (JDict kvs')"
  shows "summarize_args show (Some kvs) = summarize_args show (Some kvs')"
  unfolding summarize_args_def option.case redact_payload_public [OF assms]
    summarize_value_public [OF assms] ..

lemma length_redact_text: "0 < limit \<Longrightarrow> length (redact_text limit t) \<le> limit"
  by (auto simp: redact_text_def Let_def ELLIPSIS_def)

lemma those_total: "(\<And>x. x \<in> set xs \<Longrightarrow> x \<noteq> None) \<Longrightarrow> those xs \<noteq> None"
  by (induction xs) (auto split: option.splits)

lemma json_dumps_jdefault: "json_dumps isep ksep (jdefault show v) \<noteq> None"
proof (induction "show" v rule: jdefault.induct)
  case (3 sh xs)
  then have "those (map (json_dumps isep ksep) (map (jdefault sh) xs)) \<noteq> None"
    by (intro those_total) auto
  then show ?case by auto
next
  case (4 sh kvs)
  let ?d = "map (\<lambda>(k, v). (k, jdefault sh v)) kvs"
  have "those (map (\<lambda>(k, t). map_option (\<lambda>t. json_string k @ ksep @ t) t)
       (sort_key fst (map (\<lambda>(k, v). (k, json_dumps isep ksep v)) ?d))) \<noteq> None"
    using 4 by (intro those_total) fastforce
  then show ?case by auto
qed auto

lemma amount_cents_bounds: "0 \<le> amount_cents show v \<and> amount_cents show v \<le> AMOUNT_UNPARSEABLE"
proof -
  have "0 \<le> round_half_even (q * 100)" if "\<not> q < 0" for q
  proof -
    have "0 \<le> floor (q * 100)" using that by simp
    then show ?thesis by (auto simp: round_half_even_def Let_def)
  qed
  moreover have "0 \<le> AMOUNT_UNPARSEABLE" by (simp add: AMOUNT_UNPARSEABLE_def)
  moreover have "amount_cents show v = AMOUNT_UNPARSEABLE \<or>
      (\<exists>q. \<not> q < 0 \<and> amount_cents show v = min (round_half_even (q * 100)) AMOUNT_UNPARSEABLE)"
  proof -
    let ?f = "py_float (lstrip (\<lambda>c. c = CHR ''$'' \<or> c = CHR 0xA3)
       (py_strip (filter (\<lambda>c. c \<noteq> CHR '','') (jstr show v))))"
    show ?thesis
    proof (cases "\<exists>b. v = JBool b")
      case False
      then have "amount_cents show v = (case ?f of
          Some (Fin q) \<Rightarrow> if q < 0 then AMOUNT_UNPARSEABLE
                          else min (round_half_even (q * 100)) AMOUNT_UNPARSEABLE
        | _ \<Rightarrow> AMOUNT_UNPARSEABLE)"
        by (cases v) (simp_all add: amount_cents_def)
      then show ?thesis by (cases ?f) (auto split: pyfloat.splits)
    qed (auto simp: amount_cents_def)
  qed
  ultimately show ?thesis by auto
qed

section \<open>Properties\<close>

text \<open>
  Whatever the payload, in its redacted form every value under a sensitive key, at any depth of
  dictionaries and lists, is the text \<open>[redacted]\<close>.
\<close>

theorem redacted_payload_hides_keys: "keys_hidden (redact_sensitive_payload v)"
  unfolding redact_sensitive_payload_def
  by (rule redact_sensitive_value_hides) (simp add: hidden_def)

text \<open>
  C21: Secrets do not flow through redaction: two argument dictionaries that differ only in values
  under sensitive keys have the same redacted payload and the same audit summary.
\<close>

theorem redaction_noninterference:
  assumes "public (JDict kvs) = public (JDict kvs')"
  shows "redact_sensitive_payload (JDict kvs) = redact_sensitive_payload (JDict kvs') \<and>
    summarize_args show (Some kvs) = summarize_args show (Some kvs')"
  using redact_payload_public [OF assms] summarize_args_public [OF assms] by simp

theorem redaction_noninterference_witness:
  "summarize_args (\<lambda>_. ''?'') (Some [(''host'', JStr ''h''), (''api-key'', JStr ''one'')]) =
   summarize_args (\<lambda>_. ''?'') (Some [(''host'', JStr ''h''), (''api-key'', JList [JStr ''two''])])"
proof -
  have "public (JDict [(''host'', JStr ''h''), (''api-key'', JStr ''one'')]) =
      public (JDict [(''host'', JStr ''h''), (''api-key'', JList [JStr ''two''])])"
    by code_simp
  from redaction_noninterference [OF this] show ?thesis by blast
qed

end
