(* ===== verification/Gateway_Risk.thy ===== *)
theory Gateway_Risk
  imports Redaction
begin

text \<open>
  The risk classification of \<open>locus_runtime/gateway.py\<close>: tool names, command lines, paths, hosts
  and perceived UI facts are mapped to a class R0 to R4.  The patterns are those of the source,
  over the regular expressions of \<open>Py_Regex\<close>.  The policy directory that \<open>classify_risk\<close> reads
  from the configuration is its argument \<open>policy_root\<close>.
\<close>

section \<open>Risk classes\<close>

datatype risk_class = R0 | R1 | R2 | R3 | R4

fun risk_level :: "risk_class \<Rightarrow> nat" where
  "risk_level R0 = 0"
| "risk_level R1 = 1"
| "risk_level R2 = 2"
| "risk_level R3 = 3"
| "risk_level R4 = 4"

lemma risk_level_inj: "risk_level a = risk_level b \<Longrightarrow> a = b"
  by (cases a; cases b) simp_all

instantiation risk_class :: linorder
begin

definition less_eq_risk_class :: "risk_class \<Rightarrow> risk_class \<Rightarrow> bool" where
  "less_eq_risk_class a b = (risk_level a \<le> risk_level b)"

definition less_risk_class :: "risk_class \<Rightarrow> risk_class \<Rightarrow> bool" where
  "less_risk_class a b = (risk_level a < risk_level b)"

instance
  by standard (auto simp: less_eq_risk_class_def less_risk_class_def intro: risk_level_inj)

end

definition risk_label :: "risk_class \<Rightarrow> string" where
  "risk_label r = ''R'' @ nat_digits (risk_level r)"

section \<open>Kinds of actions\<close>

definition COMPUTER_USE_KINDS :: "string list" where
  "COMPUTER_USE_KINDS = [''ui_observe'', ''ui_click'', ''ui_type'', ''ui_key'', ''browser_navigate'',
     ''browser_read'', ''browser_act'']"

definition ACTION_KINDS :: "string list" where
  "ACTION_KINDS = [''tool_call'', ''file_write'', ''file_read'', ''network_egress'', ''process_exec'',
     ''mcp_tool_call'', ''model_call''] @ COMPUTER_USE_KINDS"

definition LOOPBACK_HOSTS :: "string list" where
  "LOOPBACK_HOSTS = [''localhost'', ''127.0.0.1'', ''::1'', ''[::1]'', ''0:0:0:0:0:0:0:1'']"

section \<open>Names\<close>

definition EXPORT_VERBS :: "string list" where
  "EXPORT_VERBS = [''export'', ''dump'', ''reveal'', ''exfiltrate'', ''print'', ''show'', ''copy'', ''get'',
     ''read'']"

definition CREDENTIAL_NOUNS :: "string list" where
  "CREDENTIAL_NOUNS = [''credential'', ''credentials'', ''password'', ''passwords'', ''secret'', ''secrets'',
     ''privatekey'', ''keychain'', ''apikey'', ''apikeys'', ''vault'']"

definition MUTATE_VERBS :: "string list" where
  "MUTATE_VERBS = [''disable'', ''delete'', ''remove'', ''modify'', ''change'', ''update'', ''set'',
     ''widen'', ''grant'', ''edit'', ''write'', ''turn'', ''stop'', ''clear'', ''purge'']"

definition CONTROL_NOUNS :: "string list" where
  "CONTROL_NOUNS = [''policy'', ''policies'', ''audit'', ''grant'', ''grants'', ''permission'',
     ''permissions'', ''rego'']"

definition R3_VERBS :: "string list" where
  "R3_VERBS = [''send'', ''post'', ''publish'', ''pay'', ''payment'', ''purchase'', ''buy'', ''order'',
     ''transfer'', ''refund'', ''charge'', ''wire'', ''delete'', ''remove'', ''destroy'', ''drop'', ''purge'',
     ''truncate'', ''push'', ''merge'', ''deploy'', ''release'', ''install'', ''uninstall'', ''share'',
     ''invite'', ''accept'', ''approve'', ''email'', ''sms'', ''tweet'', ''reply'', ''forward'', ''book'',
     ''cancel'', ''submit'', ''execute'', ''exec'', ''run'', ''kill'', ''terminate'', ''revoke'', ''upload'']"

definition R0_VERBS :: "string list" where
  "R0_VERBS = [''get'', ''list'', ''read'', ''search'', ''fetch'', ''query'', ''describe'', ''view'', ''show'',
     ''find'', ''lookup'', ''count'', ''status'', ''inspect'', ''check'', ''head'', ''browse'', ''retrieve'',
     ''ls'']"

definition PAYMENT_ARG_KEYS :: "string list" where
  "PAYMENT_ARG_KEYS = [''amount'', ''price'', ''payment'', ''card_number'', ''iban'', ''account_number'']"

text \<open>\<open>_CAMEL.sub\<close>: the separator between a lower-case letter or digit and an upper-case letter.\<close>

fun camel_sub :: "string \<Rightarrow> string \<Rightarrow> string" where
  "camel_sub sep (c # d # s) =
     (if (is_lower c \<or> is_digit c) \<and> is_upper d then c # sep @ camel_sub sep (d # s)
      else c # camel_sub sep (d # s))"
| "camel_sub sep s = s"

definition plain_tokens :: "string \<Rightarrow> string list" where
  \<comment> \<open>the non-empty pieces of \<open>_TOKEN_SPLIT.split(text.lower())\<close>\<close>
  "plain_tokens text = split_runs (\<lambda>c. \<not> (is_lower c \<or> is_digit c)) [] (py_lower text)"

definition name_tokens :: "string \<Rightarrow> string list" where
  "name_tokens name = plain_tokens (camel_sub ''_'' name)"

definition meets :: "string list \<Rightarrow> string list \<Rightarrow> bool" where
  \<comment> \<open>the intersection is not empty\<close>
  "meets tokens vocabulary = list_ex (\<lambda>t. t \<in> set vocabulary) tokens"

definition tool_risk :: "string \<Rightarrow> string list \<Rightarrow> string \<Rightarrow> risk_class" where
  \<comment> \<open>tool name, argument keys, upper-cased HTTP method\<close>
  "tool_risk tool arg_keys method =
     (let tokens = name_tokens tool in
      if (meets tokens CREDENTIAL_NOUNS \<and> meets tokens EXPORT_VERBS) \<or>
         (meets tokens CONTROL_NOUNS \<and> meets tokens MUTATE_VERBS) then R4
      else if meets tokens R3_VERBS \<or> method = ''DELETE'' \<or> meets (map py_lower arg_keys) PAYMENT_ARG_KEYS
        then R3
      else if method \<in> {''GET'', ''HEAD''} \<or> (meets tokens R0_VERBS \<and> \<not> meets tokens MUTATE_VERBS)
        then R0
      else R2)"

section \<open>Paths and hosts\<close>

definition posix_parts :: "string \<Rightarrow> string list" where
  \<comment> \<open>\<open>PurePosixPath(text).parts\<close>; exactly two leading slashes are a root of their own\<close>
  "posix_parts text =
     (if startswith text ''//'' \<and> \<not> startswith text ''///'' then [''//'']
      else if startswith text ''/'' then [''/''] else []) @
     filter (\<lambda>p. p \<noteq> [] \<and> p \<noteq> ''.'') (py_split CHR ''/'' text)"

definition is_windows_path :: "string \<Rightarrow> bool" where
  "is_windows_path text = (case text of c # d # e # _ \<Rightarrow> is_alpha c \<and> d = CHR '':'' \<and> e = CHR ''/'' | _ \<Rightarrow> False)"

definition windows_parts :: "string \<Rightarrow> string list" where
  \<comment> \<open>\<open>PureWindowsPath(text).parts\<close> for a path with a drive and a root\<close>
  "windows_parts text = (take 2 text @ [CHR 0x5C]) #
     filter (\<lambda>p. p \<noteq> [] \<and> p \<noteq> ''.'') (py_split CHR ''/'' (drop 3 text))"

fun walk :: "string list \<Rightarrow> string list \<Rightarrow> string list" where
  \<comment> \<open>the loop of \<open>_norm_path\<close>: the parts kept so far, in order\<close>
  "walk out [] = out"
| "walk out (p # ps) =
     (if p = [] \<or> p = ''.'' then walk out ps
      else if p = ''..'' then walk (butlast out) ps
      else walk (out @ [p]) ps)"

definition trim_part :: "string \<Rightarrow> string" where
  "trim_part p = (let q = rstrip (\<lambda>c. c = CHR 0x5C \<or> c = CHR ''/'') p in if q = [] then p else q)"

definition norm_path :: "string \<Rightarrow> string list" where
  "norm_path path =
     (let text = py_replace_char (CHR 0x5C) CHR ''/'' path in
      map trim_part (if is_windows_path text then map py_lower (walk [] (windows_parts text))
                     else walk [] (posix_parts text)))"

definition path_within :: "string \<Rightarrow> string \<Rightarrow> bool" where
  "path_within path base_path =
     (let candidate = norm_path path; base = norm_path base_path in
      base \<noteq> [] \<and> take (length base) candidate = base)"

definition is_loopback_host :: "string \<Rightarrow> bool" where
  "is_loopback_host host = (let value = py_lower (py_strip host) in
     value \<in> set LOOPBACK_HOSTS \<or> startswith value ''127.'')"

definition path_sep :: rx where
  \<comment> \<open>\<open>[/\\]\<close>\<close>
  "path_sep = one_of [CHR ''/'', CHR 0x5C]"

definition CRED_PATH :: rx where
  "CRED_PATH = Alt
     (cat [Alt TextStart path_sep, words [''.ssh'', ''.gnupg'', ''.aws'', ''.kube'', ''.docker''],
           Alt path_sep TextEnd])
     (cat [Alt TextStart path_sep,
           words [''id_rsa'', ''id_dsa'', ''id_ecdsa'', ''id_ed25519'', ''authorized_keys'', ''.netrc'',
                  ''.pypirc'', ''.npmrc'', ''.git-credentials''], TextEnd])"

section \<open>Command lines\<close>

definition CMD_R4 :: rx where
  "CMD_R4 = alts [lit ''.ssh/'', lit ''id_rsa'', lit ''id_ed25519'', lit ''.aws/credentials'',
     lit ''.git-credentials'', Seq (lit ''.netrc'') WordB, Seq (lit ''.pypirc'') WordB,
     cat [lit ''security'', spaces, lit ''find-'', words [''generic'', ''internet''], lit ''-password''],
     cat [lit ''gpg'', spaces, Star anychar, lit ''--export-secret''], lit ''keychain'',
     cat [lit ''cmdkey'', spaces, lit ''/list''], lit ''vaultcmd'']"

definition until_separator :: rx where
  \<comment> \<open>\<open>[^|;&]*\<close>\<close>
  "until_separator = Star (none_of ''|;&'')"

definition CMD_R3 :: "rx list" where
  "CMD_R3 = [
     cat [WordB, lit ''git'', spaces, Star (cat [lit ''-c'', spaces, many1 nonspace, spaces]), lit ''push'', WordB],
     cat [WordB, lit ''gh'', spaces,
          alts [cat [lit ''pr'', spaces, words [''merge'', ''create'']],
                cat [lit ''release'', spaces, lit ''create''],
                cat [lit ''repo'', spaces, words [''delete'', ''create'']],
                Seq (lit ''api'') WordB]],
     alts [cat [WordB, words [''npm'', ''pnpm'', ''yarn'', ''cargo'', ''gem''], spaces, lit ''publish'', WordB],
           cat [WordB, lit ''twine'', spaces, lit ''upload'', WordB],
           cat [WordB, lit ''poetry'', spaces, lit ''publish'', WordB]],
     cat [WordB,
          alts [Seq (lit ''pip'') (opt (lit ''3'')), cat [lit ''uv'', spaces, lit ''pip''], lit ''npm'', lit ''pnpm'',
                lit ''yarn'', Seq (lit ''apt'') (opt (lit ''-get'')), lit ''brew'', lit ''choco'', lit ''winget'',
                lit ''cargo'', lit ''gem'', lit ''go'', lit ''conda'', lit ''dnf'', lit ''yum'', lit ''apk''],
          spaces, words [''install'', ''add'', ''i''], WordB],
     alts [cat [WordB, lit ''docker'', spaces, words [''push'', ''login''], WordB],
           cat [WordB, lit ''kubectl'', spaces, words [''apply'', ''delete'', ''create'', ''patch''], WordB],
           cat [WordB, lit ''terraform'', spaces, words [''apply'', ''destroy''], WordB]],
     ci (cat [WordB, words [''curl'', ''wget'', ''http'', ''httpie''], WordB, until_separator,
          Alt (cat [space, lit ''-x'', Star space, words [''post'', ''put'', ''patch'', ''delete'']])
              (cat [space,
                 alts [lit ''-d'', Seq (lit ''--data'') (Star nonspace), lit ''-f'', lit ''--form'', lit ''-t'',
                       lit ''--upload-file'', lit ''--post-data'', lit ''--post-file''],
                 WordB])]),
     Alt (cat [WordB, words [''ssh'', ''scp'', ''sftp''], spaces, nonspace])
         (cat [WordB, lit ''rsync'', WordB, until_separator, many1 nonspace, lit '':'', Star nonspace]),
     cat [WordB, alts [lit ''sendmail'', Seq (lit ''mail'') (opt (lit ''x'')), lit ''mutt''], WordB],
     cat [WordB, lit ''rm'', spaces,
          Alt (cat [lit ''-'', Star (Ch is_lower), lit ''r'', Star (Ch is_lower)]) (lit ''--recursive''),
          WordB, until_separator, space, words [''/'', ''~'', ''..'']],
     cat [WordB, alts [lit ''shutdown'', lit ''reboot'', Seq (lit ''mkfs'') (Star nonspace),
                       cat [lit ''dd'', spaces, lit ''if='']], WordB]]"

definition CMD_R2 :: rx where
  "CMD_R2 = Alt (cat [WordB, words [''curl'', ''wget'', ''nc'', ''ncat'', ''telnet'', ''ftp''], WordB])
     (cat [lit ''http'', opt (lit ''s''), lit ''://''])"

definition classify_command :: "string \<Rightarrow> risk_class" where
  "classify_command command =
     (if rx_search (ci CMD_R4) command then R4
      else if list_ex (\<lambda>r. rx_search r command) CMD_R3 then R3
      else if rx_search (ci CMD_R2) command then R2
      else R1)"

section \<open>Computer use\<close>

definition UI_ENTRY_CONTROLS :: "string list" where
  "UI_ENTRY_CONTROLS = [''fill'', ''type'', ''press'', ''key'', ''select'']"

definition UI_CONTROLS :: "string list" where
  "UI_CONTROLS = [''observe'', ''read'', ''screenshot'', ''navigate'', ''click'', ''fill'', ''type'', ''press'',
     ''select'', ''key'']"

definition SECRET_AUTOCOMPLETE :: "string list" where
  "SECRET_AUTOCOMPLETE = [''current-password'', ''new-password'', ''one-time-code'', ''cc-number'', ''cc-csc'',
     ''cc-exp'', ''cc-exp-month'', ''cc-exp-year'']"

definition SECRET_FIELD_TEXT :: rx where
  "SECRET_FIELD_TEXT = cat [WordB,
     alts [lit ''password'', lit ''passwd'', lit ''passcode'', lit ''passphrase'', lit ''pwd'', lit ''pin'',
       Seq (lit ''cvv'') (opt (lit ''2'')), Seq (lit ''cvc'') (opt (lit ''2'')), lit ''csc'',
       lit ''security code'', lit ''card number'', lit ''credit card'', lit ''debit card'', lit ''ccnum'',
       Seq (lit ''cc num'') (opt (lit ''ber'')), lit ''cc csc'', lit ''cc cvv'', lit ''ssn'',
       lit ''social security'', lit ''otp'',
       Seq (lit ''one time '') (words [''password'', ''passcode'', ''code'']), lit ''verification code'',
       lit ''2fa'', lit ''mfa'', lit ''totp'', cat [lit ''auth'', opt (lit ''entication''), lit '' code'']],
     WordB]"

definition UI_R3_WORDS :: "string list" where
  "UI_R3_WORDS = R3_VERBS @ [''confirm'', ''checkout'', ''withdraw'', ''donate'', ''subscribe'',
     ''unsubscribe'', ''erase'', ''trash'', ''empty'', ''reset'', ''format'', ''download'', ''authorize'',
     ''authorise'', ''allow'', ''grant'']"

definition OS_LEVEL_KEYS :: "string list" where
  "OS_LEVEL_KEYS = [''win'', ''windows'', ''meta'', ''cmd'', ''command'', ''super'', ''os'']"

definition ENTER_KEYS :: "string list" where
  "ENTER_KEYS = [''enter'', ''return'', ''numpadenter'']"

definition UI_TEXT_MAX :: nat where "UI_TEXT_MAX = 300"

definition norm_ui_text :: "string list \<Rightarrow> string" where
  "norm_ui_text parts = py_join '' '' (plain_tokens (camel_sub '' '' (py_join '' '' parts)))"

record ui_facts =
  ui_surface :: string
  ui_control :: string
  ui_app :: string
  ui_role :: string
  ui_name :: string
  ui_lbl :: string
  ui_input_type :: string
  ui_autocomplete :: string
  ui_field_id :: string
  ui_is_password :: bool
  ui_submits_form :: bool
  ui_form_sensitive :: bool
  ui_form_text :: string
  ui_key :: string
  ui_url_scheme :: string

definition ui_text :: "string \<Rightarrow> string" where
  "ui_text v = take UI_TEXT_MAX (py_strip v)"

definition ui_create :: "ui_facts \<Rightarrow> ui_facts" where
  \<comment> \<open>\<open>UiFacts.create\<close>: every text stripped and truncated\<close>
  "ui_create u = \<lparr>ui_surface = ui_text (ui_surface u), ui_control = ui_text (ui_control u),
     ui_app = ui_text (ui_app u), ui_role = ui_text (ui_role u), ui_name = ui_text (ui_name u),
     ui_lbl = ui_text (ui_lbl u), ui_input_type = ui_text (ui_input_type u),
     ui_autocomplete = ui_text (ui_autocomplete u), ui_field_id = ui_text (ui_field_id u),
     ui_is_password = ui_is_password u, ui_submits_form = ui_submits_form u,
     ui_form_sensitive = ui_form_sensitive u, ui_form_text = ui_text (ui_form_text u),
     ui_key = ui_text (ui_key u), ui_url_scheme = ui_text (ui_url_scheme u)\<rparr>"

definition sensitive_field :: "ui_facts \<Rightarrow> bool" where
  "sensitive_field ui =
     (if ui_is_password ui \<or> py_lower (ui_input_type ui) = ''password'' then True
      else if meets (py_words (py_lower (ui_autocomplete ui))) SECRET_AUTOCOMPLETE then True
      else rx_search SECRET_FIELD_TEXT (norm_ui_text [ui_name ui, ui_lbl ui, ui_field_id ui]))"

definition ui_as_summary :: "ui_facts \<Rightarrow> (string, string) dict" where
  "ui_as_summary ui = map (\<lambda>(k, v). (k, redact_text 120 v)) (filter (\<lambda>(k, v). v \<noteq> [])
     [(''ui_surface'', ui_surface ui), (''ui_control'', ui_control ui), (''ui_app'', ui_app ui),
      (''ui_role'', ui_role ui), (''ui_name'', ui_name ui), (''ui_key'', ui_key ui)])"

definition classify_ui :: "string \<Rightarrow> ui_facts option \<Rightarrow> risk_class" where
  "classify_ui kind ui =
     (if kind \<in> {''ui_observe'', ''browser_read''} then
        (case ui of Some u \<Rightarrow> if ui_control u = ''screenshot'' then R1 else R0 | None \<Rightarrow> R0)
      else if kind = ''browser_navigate'' then R2
      else (case ui of
          None \<Rightarrow> R4
        | Some u \<Rightarrow>
            (let control = ui_control u;
                 chord = name_tokens (py_replace_char CHR ''+'' CHR '' '' (ui_key u)) in
             if control \<notin> set UI_CONTROLS then R4
             else if control \<in> {''observe'', ''read'', ''screenshot'', ''navigate''} then R4
             else if control \<in> set UI_ENTRY_CONTROLS \<and> sensitive_field u then R4
             else if meets chord OS_LEVEL_KEYS then R3
             else if (control \<in> {''click'', ''select''} \<or> meets chord ENTER_KEYS) \<and>
               (meets (name_tokens (norm_ui_text [ui_name u, ui_lbl u])) UI_R3_WORDS \<or>
                ui_submits_form u \<and>
                 (ui_form_sensitive u \<or> meets (name_tokens (norm_ui_text [ui_form_text u])) UI_R3_WORDS))
               then R3
             else R2)))"

section \<open>Classification\<close>

definition classify_risk ::
  "string \<Rightarrow> string \<Rightarrow> string \<Rightarrow> string \<Rightarrow> string \<Rightarrow> string list \<Rightarrow> string \<Rightarrow> string list
     \<Rightarrow> string \<Rightarrow> ui_facts option \<Rightarrow> risk_class" where
  \<comment> \<open>policy root, kind, tool, target, command, argument keys, method, write roots, egress host, UI facts\<close>
  "classify_risk policy_root kind tool target command arg_keys method write_roots egress_host ui =
     (if kind \<in> set COMPUTER_USE_KINDS then classify_ui kind ui
      else if kind = ''file_read'' then R0
      else if kind = ''file_write'' then
        (if rx_search (ci CRED_PATH) target \<or> (policy_root \<noteq> [] \<and> path_within target policy_root) then R4
         else if list_ex (path_within target) write_roots then R1
         else R2)
      else if kind = ''process_exec'' then classify_command (if command \<noteq> [] then command else target)
      else if kind = ''network_egress'' then R2
      else if kind = ''model_call'' then (if is_loopback_host egress_host then R1 else R2)
      else if kind \<in> {''tool_call'', ''mcp_tool_call''} then tool_risk tool arg_keys (py_upper method)
      else R4)"

section \<open>Specification predicates\<close>

text \<open>
  The directory a POSIX path names, by its components: an independent reading of \<open>..\<close> against which
  the lexical containment test is judged.
\<close>

definition components :: "string \<Rightarrow> string list" where
  "components path = filter (\<lambda>p. p \<noteq> [] \<and> p \<noteq> ''.'') (py_split CHR ''/'' path)"

definition resolve :: "string list \<Rightarrow> string list" where
  \<comment> \<open>from the root; the parent of the root is the root\<close>
  "resolve ps = foldl (\<lambda>out p. if p = ''..'' then butlast out else out @ [p]) [] ps"

definition posix_absolute :: "string \<Rightarrow> bool" where
  "posix_absolute path = (startswith path ''/'' \<and> (startswith path ''//'' \<longrightarrow> startswith path ''///'') \<and>
     CHR 0x5C \<notin> set path)"

definition separator :: "char \<Rightarrow> bool" where
  "separator c = (c = CHR ''/'' \<or> c = CHR 0x5C)"

section \<open>Lemmas\<close>

lemma components_plain:
  "p \<in> set (components path) \<Longrightarrow> p \<noteq> [] \<and> p \<noteq> ''.'' \<and> CHR ''/'' \<notin> set p"
  by (auto simp: components_def dest: py_split_no_sep)

lemma walk_foldl:
  "list_all (\<lambda>p. p \<noteq> [] \<and> p \<noteq> ''.'') ps \<Longrightarrow>
     walk out ps = foldl (\<lambda>out p. if p = ''..'' then butlast out else out @ [p]) out ps"
  by (induction ps arbitrary: out) auto

lemma components_all: "list_all (\<lambda>p. p \<noteq> [] \<and> p \<noteq> ''.'') (components path)"
  unfolding list_all_iff using components_plain by blast

lemma walk_root:
  "foldl (\<lambda>out p. if p = ''..'' then butlast out else out @ [p]) (''/'' # out) ps \<in>
     {''/'' # foldl (\<lambda>out p. if p = ''..'' then butlast out else out @ [p]) out ps,
      foldl (\<lambda>out p. if p = ''..'' then butlast out else out @ [p]) out ps}"
proof (induction ps arbitrary: out)
  case (Cons p ps)
  show ?case
  proof (cases "p = ''..'' \<and> out = []")
    case True
    then show ?thesis by simp
  next
    case False
    then have "(if p = ''..'' then butlast (''/'' # out) else (''/'' # out) @ [p]) =
        ''/'' # (if p = ''..'' then butlast out else out @ [p])" by simp
    then show ?thesis using Cons by simp
  qed
qed simp

lemma resolve_subset: "set (resolve ps) \<subseteq> set ps"
proof -
  have "set (foldl (\<lambda>out p. if p = ''..'' then butlast out else out @ [p]) out ps) \<subseteq> set out \<union> set ps" for out
  proof (induction ps arbitrary: out)
    case (Cons p ps)
    have b: "set (butlast out) \<subseteq> set out" by (auto dest: in_set_butlastD)
    show ?case
    proof (cases "p = ''..''")
      case True
      then show ?thesis using Cons [of "butlast out"] b by auto
    next
      case False
      then show ?thesis using Cons [of "out @ [p]"] by auto
    qed
  qed simp
  from this [of "[]"] show ?thesis by (simp add: resolve_def)
qed

lemma trim_part_plain: "CHR ''/'' \<notin> set p \<Longrightarrow> CHR 0x5C \<notin> set p \<Longrightarrow> trim_part p = p"
proof -
  assume "CHR ''/'' \<notin> set p" "CHR 0x5C \<notin> set p"
  then have "rstrip (\<lambda>c. c = CHR 0x5C \<or> c = CHR ''/'') p = p"
    by (simp add: rstrip_def) (subst dropWhile_none, auto simp: list_all_iff)
  then show ?thesis by (simp add: trim_part_def)
qed

lemma trim_root: "trim_part ''/'' = ''/''"
  by code_simp

lemma set_py_split: "p \<in> set (py_split sep s) \<Longrightarrow> set p \<subseteq> set s"
proof (induction s arbitrary: p)
  case (Cons c s)
  obtain q qs where q: "py_split sep s = q # qs" by (cases "py_split sep s") auto
  show ?case
  proof (cases "c = sep")
    case True
    then show ?thesis using Cons by auto
  next
    case False
    then have "p = c # q \<or> p \<in> set qs" using Cons.prems q by simp
    then show ?thesis using Cons.IH [of q] Cons.IH [of p] q by auto
  qed
qed simp

lemma slash_not_alpha: "\<not> is_alpha CHR ''/''"
  by code_simp

lemma norm_path_posix:
  assumes "posix_absolute path"
  shows "norm_path path \<in> {''/'' # resolve (components path), resolve (components path)}"
proof -
  let ?r = "resolve (components path)"
  have b: "py_replace_char (CHR 0x5C) CHR ''/'' path = path"
    using assms unfolding py_replace_char_def posix_absolute_def
    by (intro map_idI) auto
  obtain s where p: "path = CHR ''/'' # s" using assms by (auto simp: posix_absolute_def prefix_def)
  have w: "\<not> is_windows_path path"
    by (simp add: p is_windows_path_def slash_not_alpha split: list.splits)
  have "startswith path ''/''" "\<not> (startswith path ''//'' \<and> \<not> startswith path ''///'')"
    using assms unfolding posix_absolute_def by blast+
  then have parts: "posix_parts path = ''/'' # components path"
    unfolding posix_parts_def components_def by simp
  have "walk [] (posix_parts path) = walk [''/''] (components path)"
    by (simp add: parts)
  also have "\<dots> \<in> {''/'' # ?r, ?r}"
    using walk_root [of "[]" "components path"] unfolding walk_foldl [OF components_all] resolve_def .
  finally have walk: "walk [] (posix_parts path) \<in> {''/'' # ?r, ?r}" .
  have "map trim_part ?r = ?r"
  proof (rule map_idI)
    fix p assume "p \<in> set ?r"
    then have "p \<in> set (components path)" using resolve_subset by blast
    then have c: "p \<in> set (components path)" .
    have "CHR ''/'' \<notin> set p" using components_plain [OF c] by blast
    moreover have "set p \<subseteq> set path"
      using c by (intro set_py_split [of p "CHR ''/''"]) (simp add: components_def)
    then have "CHR 0x5C \<notin> set p" using assms unfolding posix_absolute_def by blast
    ultimately show "trim_part p = p" by (intro trim_part_plain)
  qed
  then show ?thesis using walk b w by (auto simp: norm_path_def trim_root)
qed

lemma acting_ui_floor:
  "kind \<notin> {''ui_observe'', ''browser_read''} \<Longrightarrow> R2 \<le> classify_ui kind ui"
  by (auto simp: classify_ui_def Let_def less_eq_risk_class_def split: option.splits)

lemma rel_ci_lit: "((b, s), q) \<in> rel (ci (lit w)) \<longleftrightarrow>
    (\<exists>u t. s = u @ t \<and> py_lower u = w \<and> q = (if u = [] then b else Some (last u), t))"
proof (induction w arbitrary: b s)
  case Nil
  then show ?case by (auto simp: py_lower_def)
next
  case (Cons c w)
  have "((b, s), q) \<in> rel (ci (lit (c # w))) \<longleftrightarrow>
      (\<exists>d s'. s = d # s' \<and> py_lower_char d = c \<and> ((Some d, s'), q) \<in> rel (ci (lit w)))"
    by (auto simp: chr_def)
  also have "\<dots> \<longleftrightarrow> (\<exists>d v t. s = d # v @ t \<and> py_lower_char d = c \<and> py_lower v = w \<and>
      q = (if v = [] then Some d else Some (last v), t))"
    unfolding Cons.IH by blast
  also have "\<dots> \<longleftrightarrow> (\<exists>u t. s = u @ t \<and> py_lower u = c # w \<and> q = (if u = [] then b else Some (last u), t))"
    (is "?l \<longleftrightarrow> ?r")
  proof
    assume ?l
    then obtain d v t where "s = d # v @ t" "py_lower_char d = c" "py_lower v = w"
      "q = (if v = [] then Some d else Some (last v), t)" by blast
    then show ?r by (intro exI [of _ "d # v"] exI [of _ t]) (simp add: py_lower_def)
  next
    assume ?r
    then obtain u t where u: "s = u @ t" "py_lower u = c # w" "q = (if u = [] then b else Some (last u), t)"
      by blast
    then obtain d v where "u = d # v" by (cases u) (auto simp: py_lower_def)
    with u show ?l by (intro exI [of _ d] exI [of _ v] exI [of _ t]) (simp add: py_lower_def)
  qed
  finally show ?case .
qed

lemma rx_search_ci_lit: "rx_search (ci (lit w)) s \<longleftrightarrow> py_contains w (py_lower s)"
proof
  assume "rx_search (ci (lit w)) s"
  then obtain u x t where "s = u @ x @ t" "py_lower x = w"
    unfolding rx_search_iff rel_ci_lit by blast
  then have "py_lower s = py_lower u @ w @ py_lower t" by (simp add: py_lower_def)
  then show "py_contains w (py_lower s)" by (auto simp: py_contains_iff)
next
  assume "py_contains w (py_lower s)"
  then obtain a b where "py_lower s = a @ w @ b" by (auto simp: py_contains_iff)
  then obtain u x t where s: "s = u @ x @ t" "map py_lower_char x = w"
    unfolding py_lower_def by (auto simp: map_eq_append_conv append_eq_map_conv)
  then show "rx_search (ci (lit w)) s"
    unfolding rx_search_iff rel_ci_lit
    by (intro exI [of _ u] exI [of _ "x @ t"]) (auto simp: py_lower_def)
qed

lemma ci_alts: "ci (alts rs) = alts (map ci rs)"
  by (induction rs rule: alts.induct) simp_all

lemma rel_alts: "r \<in> set rs \<Longrightarrow> rel r \<subseteq> rel (alts rs)"
  by (induction rs rule: alts.induct) auto

lemma rx_search_ci_alts:
  "rs \<noteq> [] \<Longrightarrow> rx_search (ci (alts rs)) s \<longleftrightarrow> (\<exists>r \<in> set rs. rx_search (ci r) s)"
  by (simp add: ci_alts rx_search_alts)

lemma rel_ci_words:
  "py_lower u \<in> set ws \<Longrightarrow> u \<noteq> [] \<Longrightarrow> ((b, u @ t), (Some (last u), t)) \<in> rel (ci (words ws))"
proof -
  assume w: "py_lower u \<in> set ws" and u: "u \<noteq> []"
  have "((b, u @ t), (Some (last u), t)) \<in> rel (ci (lit (py_lower u)))"
    using u unfolding rel_ci_lit by auto
  moreover have "rel (ci (lit (py_lower u))) \<subseteq> rel (alts (map ci (map lit ws)))"
    using w by (intro rel_alts) simp
  ultimately show ?thesis by (auto simp: words_def ci_alts)
qed

lemma lower_separator: "separator c \<Longrightarrow> py_lower_char c = c"
  by (auto simp: separator_def py_lower_char_def)

lemma rel_ci_path_sep: "separator c \<Longrightarrow> ((b, c # s), (Some c, s)) \<in> rel (ci path_sep)"
  using lower_separator [of c] by (auto simp: path_sep_def one_of_def separator_def)

lemma cred_path_directory:
  assumes "py_lower name \<in> {''.ssh'', ''.gnupg'', ''.aws'', ''.kube'', ''.docker''}"
    and "separator c" and "separator d"
  shows "rx_search (ci CRED_PATH) (pre @ c # name @ d # rest)"
proof -
  have n: "name \<noteq> []" using assms(1) by (auto simp: py_lower_def)
  let ?b = "if pre = [] then None else Some (last pre)"
  have 1: "((?b, c # name @ d # rest), (Some c, name @ d # rest)) \<in> rel (ci (Alt TextStart path_sep))"
    using rel_ci_path_sep [OF assms(2)] by simp
  have 2: "((Some c, name @ d # rest), (Some (last name), d # rest)) \<in>
      rel (ci (words [''.ssh'', ''.gnupg'', ''.aws'', ''.kube'', ''.docker'']))"
    using assms(1) n by (intro rel_ci_words) auto
  have 3: "((Some (last name), d # rest), (Some d, rest)) \<in> rel (ci (Alt path_sep TextEnd))"
    using rel_ci_path_sep [OF assms(3)] by simp
  have "((?b, c # name @ d # rest), (Some d, rest)) \<in> rel (ci CRED_PATH)"
    unfolding CRED_PATH_def ci.simps(4) rel.simps(4) cat.simps ci.simps(2,3) rel.simps(2,3)
    using 1 2 3 by (auto intro: relcompI)
  then show ?thesis unfolding rx_search_iff by blast
qed

lemma classify_unknown_kind:
  "kind \<notin> set ACTION_KINDS \<Longrightarrow>
     classify_risk policy_root kind tool target command arg_keys method write_roots egress_host ui = R4"
  by (auto simp: classify_risk_def ACTION_KINDS_def)

section \<open>Properties\<close>



text \<open>
  Writing into a credential directory is R4 whatever the run's write roots are: if some
  component of the target, between separators of either style, is \<open>.ssh\<close>, \<open>.gnupg\<close>, \<open>.aws\<close>,
  \<open>.kube\<close> or \<open>.docker\<close> in any case, the class of the write is R4.
\<close>

theorem credential_directory_write_R4:
  assumes "py_lower name \<in> {''.ssh'', ''.gnupg'', ''.aws'', ''.kube'', ''.docker''}"
    and "separator c" and "separator d"
  shows "classify_risk policy_root ''file_write'' tool (pre @ c # name @ d # rest) command arg_keys
     method write_roots egress_host ui = R4"
proof -
  have "''file_write'' \<notin> set COMPUTER_USE_KINDS" by (simp add: COMPUTER_USE_KINDS_def)
  then show ?thesis using cred_path_directory [OF assms] by (simp add: classify_risk_def)
qed

theorem credential_directory_write_R4_witness:
  "classify_risk [] ''file_write'' ''edit'' ''/ws/.SSH/config'' [] [] [] [''/ws''] [] None = R4"
proof -
  have "py_lower ''.SSH'' \<in> {''.ssh'', ''.gnupg'', ''.aws'', ''.kube'', ''.docker''}" by code_simp
  moreover have "separator CHR ''/''" by (simp add: separator_def)
  ultimately show ?thesis
    using credential_directory_write_R4 [of "''.SSH''" "CHR ''/''" "CHR ''/''" "[]" "''edit''" "''/ws''" "''config''"]
    by simp
qed



text \<open>
  The command patterns miss spellings of commands they mean to catch: \<open>rm -R /\<close> (upper-case
  flag), \<open>git -C r push\<close> (an option before the subcommand other than \<open>-c\<close>) and
  \<open>dd if=/dev/sda\<close> (no word boundary between \<open>=\<close> and \<open>/\<close>) are all classified R1.
\<close>

theorem irreversible_commands_missed:
  "classify_command ''rm -R /'' = R1 \<and> classify_command ''git -C r push'' = R1 \<and>
   classify_command ''dd if=/dev/sda'' = R1"
proof (intro conjI)
  show "classify_command ''rm -R /'' = R1" by code_simp
  show "classify_command ''git -C r push'' = R1" by code_simp
  show "classify_command ''dd if=/dev/sda'' = R1" by code_simp
qed

end
