(* ===== verification/Policy_Engine.thy ===== *)
theory Policy_Engine
  imports Py_Text Interfaces
begin

text \<open>
  \<open>locus_runtime/policy_engine.py\<close>: the policy decision point.  The engine asks an OPA sidecar on
  a loopback address and turns its answer into a decision; every failure is a deny.

  The outside world is an argument: the HTTP exchanges with the sidecar, the state of its process,
  the files of the policy directory, the environment variables, and SHA-256 (a function from text
  to its hexadecimal digest).  The waiting loop of \<open>start\<close> reads a list of observations, one for
  each round that begins before the deadline; the end of the list is the deadline.
\<close>

section \<open>Constants and decisions\<close>

definition KNOWN_POLICIES :: "string list" where
  "KNOWN_POLICIES = [''agent_policy'', ''budget_policy'', ''computer_use'', ''data_classification'',
     ''filesystem_access'', ''network_egress'', ''network_policy'', ''tool_jail'']"

definition POLICY_PACKAGE_PREFIX :: string where
  "POLICY_PACKAGE_PREFIX = ''lattix''"

definition REASON_UNAVAILABLE :: string where "REASON_UNAVAILABLE = ''policy_engine_unavailable''"
definition REASON_TIMEOUT :: string where "REASON_TIMEOUT = ''policy_engine_timeout''"
definition REASON_HTTP_ERROR :: string where "REASON_HTTP_ERROR = ''policy_engine_http_error''"
definition REASON_MALFORMED :: string where "REASON_MALFORMED = ''policy_engine_malformed_result''"
definition REASON_ERROR :: string where "REASON_ERROR = ''policy_engine_error''"
definition REASON_UNDEFINED :: string where "REASON_UNDEFINED = ''policy_undefined''"
definition REASON_UNKNOWN_POLICY :: string where "REASON_UNKNOWN_POLICY = ''unknown_policy''"
definition REASON_INVALID_INPUT :: string where "REASON_INVALID_INPUT = ''policy_input_invalid''"

definition DEFAULT_BACKEND :: string where "DEFAULT_BACKEND = ''opa-sidecar''"
definition DEFAULT_TIMEOUT_SECONDS :: pyfloat where "DEFAULT_TIMEOUT_SECONDS = Fin 1"
definition DEFAULT_STARTUP_TIMEOUT_SECONDS :: pyfloat where
  "DEFAULT_STARTUP_TIMEOUT_SECONDS = Fin 15"

record decision =
  dec_allow :: bool
  dec_reasons :: "string list"
  dec_policy_version :: string
  dec_backend :: string
  dec_outputs :: "(string, jval) dict"

section \<open>Policy bundle identity\<close>

definition TEST_PACKAGE_RE :: rx where
  "TEST_PACKAGE_RE = cat [LineStart, Star space, lit ''package'', spaces,
     many1 (Ch (\<lambda>c. is_word c \<or> c = CHR ''.'')), lit ''_test'', Star space, LineEnd]"

definition is_test_module :: "string \<Rightarrow> bool" where
  "is_test_module source = rx_search TEST_PACKAGE_RE source"

definition compute_policy_bundle_hash :: "(string \<Rightarrow> string) \<Rightarrow> string list \<Rightarrow> string" where
  "compute_policy_bundle_hash sha256 sources =
     ''sha256:'' @ sha256 (py_join [newline]
        (sort (map sha256 (filter (\<lambda>s. \<not> is_test_module s) sources))))"

text \<open>A directory entry: its name, whether it is a regular file, its decoded content.\<close>

type_synonym dir_entry = "string \<times> bool \<times> string"

definition policy_files :: "dir_entry list \<Rightarrow> dir_entry list" where
  "policy_files dir = filter (\<lambda>(_, _, text). \<not> is_test_module text)
     (sort_key fst (filter (\<lambda>(name, is_file, _). endswith name ''.rego'' \<and> is_file) dir))"

definition policy_dir_version :: "(string \<Rightarrow> string) \<Rightarrow> dir_entry list \<Rightarrow> string" where
  "policy_dir_version sha256 dir =
     compute_policy_bundle_hash sha256 (map (\<lambda>(_, _, text). text) (policy_files dir))"

definition default_policy_dir :: "(string \<Rightarrow> string) \<Rightarrow> string \<Rightarrow> string option \<Rightarrow> string" where
  \<comment> \<open>\<open>resolve\<close> is \<open>Path.resolve\<close>, the last argument \<open>LOCUS_POLICY_DIR\<close>\<close>
  "default_policy_dir resolve built_in env = (case env of
     None \<Rightarrow> built_in
   | Some v \<Rightarrow> if py_strip v \<noteq> [] then resolve (py_strip v) else built_in)"

section \<open>Binary discovery and URL validation\<close>

definition find_opa_binary ::
  "(string \<Rightarrow> bool) \<Rightarrow> string option \<Rightarrow> string list \<Rightarrow> string option \<Rightarrow> string option \<Rightarrow> string option" where
  \<comment> \<open>\<open>is_file\<close>, \<open>LOCUS_OPA_BIN\<close>, the repository's candidates, the native bin dir, \<open>shutil.which\<close>\<close>
  "find_opa_binary is_file env_bin repo_candidates bin_dir which =
     (let configured = py_strip (case env_bin of None \<Rightarrow> [] | Some v \<Rightarrow> v) in
      if configured \<noteq> [] then (if is_file configured then Some configured else None)
      else (case List.find is_file (repo_candidates @
              (case bin_dir of None \<Rightarrow> [] | Some d \<Rightarrow> [d @ ''/opa.exe'', d @ ''/opa''])) of
              Some c \<Rightarrow> Some c
            | None \<Rightarrow> which))"

definition opa_host :: "parsed_url \<Rightarrow> string" where
  \<comment> \<open>\<open>(parsed.hostname or "").strip().lower()\<close>\<close>
  "opa_host u = py_lower (py_strip (case url_hostname u of None \<Rightarrow> [] | Some h \<Rightarrow> h))"

definition loopback_host :: "string \<Rightarrow> bool" where
  "loopback_host host = (host = ''localhost'' \<or>
     (case ip_address host of None \<Rightarrow> False | Some a \<Rightarrow> is_loopback a))"

definition nonempty :: "string option \<Rightarrow> bool" where
  "nonempty s = (case s of None \<Rightarrow> False | Some t \<Rightarrow> t \<noteq> [])"

definition validate_loopback_url :: "string \<Rightarrow> string res" where
  "validate_loopback_url url = (case urlparse (py_strip url) of
     None \<Rightarrow> raise ValueError ''Invalid IPv6 URL''
   | Some p \<Rightarrow>
       guardE (pu_scheme p \<in> {''http'', ''https''}) PolicyEngineConfigError
         ''LOCUS_OPA_URL must use http or https''
       (guardE (\<not> nonempty (url_username p) \<and> \<not> nonempty (url_password p)) PolicyEngineConfigError
         ''LOCUS_OPA_URL must not carry credentials''
       (guardE (pu_path p \<in> {[], ''/''} \<and> pu_query p = [] \<and> pu_fragment p = [] \<and> pu_params p = [])
         PolicyEngineConfigError ''LOCUS_OPA_URL must be an origin with no path or query''
       (guardE (opa_host p \<noteq> []) PolicyEngineConfigError ''LOCUS_OPA_URL requires a host''
       (guardE (loopback_host (opa_host p)) PolicyEngineConfigError
         ''LOCUS_OPA_URL must point at a loopback address (127.0.0.0/8, ::1, localhost)''
       (guardE (url_port_ok p) PolicyEngineConfigError ''LOCUS_OPA_URL has an invalid port''
         (Inr (pu_scheme p @ ''://'' @ pu_netloc p))))))))"

definition timeout_from_env :: "string option \<Rightarrow> pyfloat \<Rightarrow> pyfloat" where
  "timeout_from_env env dflt = (case env of
     None \<Rightarrow> dflt
   | Some v \<Rightarrow> if v = [] then dflt
       else (case py_float v of None \<Rightarrow> dflt | Some f \<Rightarrow> if float_lt (Fin 0) f then f else dflt))"

section \<open>The sidecar engine\<close>

record opa_engine =
  oe_base_url :: "string option"
  oe_external :: bool
  oe_opa_binary :: "string option"
  oe_timeout :: pyfloat
  oe_startup_timeout :: pyfloat
  oe_process :: "nat option"       \<comment> \<open>the child, by process id\<close>
  oe_client_open :: bool           \<comment> \<open>\<open>close()\<close> closes the HTTP client\<close>
  oe_policy_version :: string

definition float_or :: "pyfloat option \<Rightarrow> pyfloat \<Rightarrow> pyfloat" where
  \<comment> \<open>\<open>x or default\<close>\<close>
  "float_or x d = (case x of None \<Rightarrow> d | Some f \<Rightarrow> if f = Fin 0 then d else f)"

definition opa_init ::
  "string option \<Rightarrow> string option \<Rightarrow> pyfloat option \<Rightarrow> pyfloat option \<Rightarrow> string option \<Rightarrow> string option
     \<Rightarrow> opa_engine res" where
  \<comment> \<open>the last argument is \<open>LOCUS_OPA_TIMEOUT_SECONDS\<close>\<close>
  "opa_init base_url opa_binary timeout_seconds startup_timeout_seconds policy_version env_timeout =
     bindE (if nonempty base_url then bindE (validate_loopback_url (the base_url)) (\<lambda>u. Inr (Some u))
            else Inr None)
       (\<lambda>u. Inr \<lparr>oe_base_url = u, oe_external = (base_url \<noteq> None), oe_opa_binary = opa_binary,
          oe_timeout = float_or timeout_seconds
             (timeout_from_env env_timeout DEFAULT_TIMEOUT_SECONDS),
          oe_startup_timeout = float_or startup_timeout_seconds DEFAULT_STARTUP_TIMEOUT_SECONDS,
          oe_process = None, oe_client_open = True,
          oe_policy_version = (case policy_version of None \<Rightarrow> [] | Some v \<Rightarrow> v)\<rparr>)"

definition opa_from_env :: "string option \<Rightarrow> string option \<Rightarrow> opa_engine res" where
  \<comment> \<open>\<open>LOCUS_OPA_URL\<close> and \<open>LOCUS_OPA_TIMEOUT_SECONDS\<close>, no keyword arguments\<close>
  "opa_from_env env_url env_timeout =
     (let url = py_strip (case env_url of None \<Rightarrow> [] | Some v \<Rightarrow> v) in
      opa_init (if url \<noteq> [] then Some url else None) None None None None env_timeout)"

definition running :: "(nat \<Rightarrow> bool) \<Rightarrow> opa_engine \<Rightarrow> bool" where
  \<comment> \<open>\<open>alive pid\<close>: \<open>poll()\<close> returns \<open>None\<close>\<close>
  "running alive e = (if oe_external e then oe_base_url e \<noteq> None
     else (case oe_process e of None \<Rightarrow> False | Some pid \<Rightarrow> alive pid))"

subsection \<open>Life cycle\<close>

text \<open>One round of the waiting loop: how the child exited, if it did, and the answer to \<open>/health\<close>.\<close>

datatype health = HealthStatus nat | HealthError string

type_synonym round = "string option \<times> health"

fun wait_healthy :: "bool \<Rightarrow> string \<Rightarrow> round list \<Rightarrow> unit res" where
  "wait_healthy external last_error [] =
     raise RuntimeErrorC (''OPA sidecar did not become healthy: '' @ last_error)"
| "wait_healthy external last_error ((exited, answer) # rounds) =
     (if \<not> external \<and> exited \<noteq> None then
        raise RuntimeErrorC (''OPA sidecar exited during startup '' @ the exited)
      else (case answer of
          HealthStatus code \<Rightarrow>
            if code = 200 then Inr ()
            else wait_healthy external (''status '' @ nat_digits code) rounds
        | HealthError name \<Rightarrow> wait_healthy external name rounds))"

definition module_text :: "(jval \<Rightarrow> string) \<Rightarrow> jval \<Rightarrow> string list" where
  "module_text show m = (if is_jdict m then [jstr_or_empty show (jget m ''raw'')] else [])"

definition remote_policy_version ::
  "(string \<Rightarrow> string) \<Rightarrow> (jval \<Rightarrow> string) \<Rightarrow> jval option \<Rightarrow> string" where
  \<comment> \<open>the body of \<open>/v1/policies\<close>, \<open>None\<close> when the request, its status or its body failed\<close>
  "remote_policy_version sha256 show body = (case body of
     Some (JDict kvs) \<Rightarrow>
       (let modules = jget (JDict kvs) ''result'' in
        if \<not> jtruthy modules then compute_policy_bundle_hash sha256 []
        else (case modules of
            JList ms \<Rightarrow> compute_policy_bundle_hash sha256 (concat (map (module_text show) ms))
          | JDict _ \<Rightarrow> compute_policy_bundle_hash sha256 []  \<comment> \<open>iterates over the keys\<close>
          | JStr _ \<Rightarrow> compute_policy_bundle_hash sha256 []
          | _ \<Rightarrow> ''unknown''))
   | _ \<Rightarrow> ''unknown'')"

definition stop_process :: "opa_engine \<Rightarrow> opa_engine" where
  "stop_process e = (if oe_process e = None then e
     else e\<lparr>oe_process := None,
            oe_base_url := (if oe_external e then oe_base_url e else None)\<rparr>)"

definition opa_close :: "opa_engine \<Rightarrow> opa_engine" where
  "opa_close e = (stop_process e)\<lparr>oe_client_open := False\<rparr>"

record opa_world =
  ow_alive :: "nat \<Rightarrow> bool"
  ow_found_binary :: "string option"
  ow_dir :: "dir_entry list"
  ow_port :: nat
  ow_popen :: "string list \<Rightarrow> nat"     \<comment> \<open>the process \<open>Popen\<close> creates for an argument vector\<close>
  ow_rounds :: "round list"
  ow_remote :: "jval option"

definition opa_argv :: "string \<Rightarrow> nat \<Rightarrow> dir_entry list \<Rightarrow> string list" where
  "opa_argv binary port files =
     [binary, ''run'', ''--server'', ''--addr=127.0.0.1:'' @ nat_digits port,
      ''--disable-telemetry'', ''--log-level=error''] @ map (\<lambda>(name, _, _). ''./'' @ name) files"

definition opa_start ::
  "(string \<Rightarrow> string) \<Rightarrow> (jval \<Rightarrow> string) \<Rightarrow> opa_world \<Rightarrow> opa_engine \<Rightarrow> opa_engine \<times> unit res" where
  "opa_start sha256 show w e =
     (if oe_external e then
        (case wait_healthy True ''not checked'' (ow_rounds w) of
           Inl x \<Rightarrow> (e, Inl x)
         | Inr _ \<Rightarrow>
             (if oe_policy_version e = []
                then e\<lparr>oe_policy_version := remote_policy_version sha256 show (ow_remote w)\<rparr> else e,
              Inr ()))
      else if running (ow_alive w) e then (e, Inr ())
      else (case (if nonempty (oe_opa_binary e) then oe_opa_binary e else ow_found_binary w) of
          None \<Rightarrow> (e, raise RuntimeErrorC
                   ''OPA binary not found (LOCUS_OPA_BIN, .tools/opa, bin dir, PATH)'')
        | Some binary \<Rightarrow>
            if policy_files (ow_dir w) = [] then (e, raise RuntimeErrorC ''no Rego policies found'')
            else
              (let started = e\<lparr>oe_policy_version := policy_dir_version sha256 (ow_dir w),
                               oe_process := Some (ow_popen w (opa_argv binary (ow_port w) (policy_files (ow_dir w)))),
                               oe_base_url := Some (''http://127.0.0.1:'' @ nat_digits (ow_port w))\<rparr> in
               case wait_healthy False ''not checked'' (ow_rounds w) of
                 Inl x \<Rightarrow> (stop_process started, Inl x)
               | Inr _ \<Rightarrow> (started, Inr ()))))"

subsection \<open>Evaluation\<close>

text \<open>What comes back from posting the body to the URL.\<close>

datatype opa_reply =
    OpaTimeout                     \<comment> \<open>\<open>httpx.TimeoutException\<close>\<close>
  | OpaTransportError              \<comment> \<open>any other \<open>httpx.TransportError\<close>\<close>
  | OpaFailure                     \<comment> \<open>any other exception\<close>
  | OpaResponse nat "jval option"  \<comment> \<open>status and decoded body, \<open>None\<close> when it is not JSON\<close>

type_synonym opa_transport = "string \<Rightarrow> string \<Rightarrow> opa_reply"

definition post :: "opa_engine \<Rightarrow> opa_transport \<Rightarrow> opa_transport" where
  \<comment> \<open>a closed client raises\<close>
  "post e transport url body = (if oe_client_open e then transport url body else OpaFailure)"

definition version_of :: "opa_engine \<Rightarrow> string" where
  "version_of e = (if oe_policy_version e \<noteq> [] then oe_policy_version e else ''unknown'')"

definition deny :: "opa_engine \<Rightarrow> string list \<Rightarrow> decision" where
  "deny e reasons = \<lparr>dec_allow = False, dec_reasons = reasons, dec_policy_version = version_of e,
     dec_backend = DEFAULT_BACKEND, dec_outputs = []\<rparr>"

definition interpret_result :: "opa_engine \<Rightarrow> string \<Rightarrow> (string, jval) dict \<Rightarrow> decision" where
  "interpret_result e policy result =
     (let allow_value = map_of result ''allow'';
          reply = (\<lambda>allow reason. \<lparr>dec_allow = allow, dec_reasons = [policy @ reason],
             dec_policy_version = version_of e, dec_backend = DEFAULT_BACKEND,
             dec_outputs = filter (\<lambda>(k, _). k \<noteq> ''allow'') result\<rparr>) in
      case allow_value of
        Some (JBool True) \<Rightarrow> reply True ''.allow''
      | Some (JBool False) \<Rightarrow>
          reply False (if map_of result ''deny'' = Some (JBool True) then ''.deny'' else ''.not_allowed'')
      | None \<Rightarrow> reply False ''.no_allow_rule''
      | Some JNull \<Rightarrow> reply False ''.no_allow_rule''
      | _ \<Rightarrow> deny e [REASON_MALFORMED])"

definition interpret_payload :: "opa_engine \<Rightarrow> string \<Rightarrow> jval \<Rightarrow> decision" where
  \<comment> \<open>\<open>_interpret\<close>\<close>
  "interpret_payload e policy payload = (case payload of
     JDict kvs \<Rightarrow>
       (case map_of kvs ''result'' of
          None \<Rightarrow> deny e [REASON_UNDEFINED]
        | Some (JDict result) \<Rightarrow> interpret_result e policy result
        | Some _ \<Rightarrow> deny e [REASON_MALFORMED])
   | _ \<Rightarrow> deny e [REASON_MALFORMED])"

definition decide ::
  "(nat \<Rightarrow> bool) \<Rightarrow> opa_transport \<Rightarrow> opa_engine \<Rightarrow> string \<Rightarrow> jval \<Rightarrow> decision" where
  "decide alive transport e policy inp =
     (if policy \<notin> set KNOWN_POLICIES then deny e [REASON_UNKNOWN_POLICY]
      else if \<not> is_jdict inp then deny e [REASON_INVALID_INPUT]
      else (case json_text (JDict [(''input'', inp)]) of
          None \<Rightarrow> deny e [REASON_INVALID_INPUT]
        | Some body \<Rightarrow>
            if \<not> nonempty (oe_base_url e) \<or> \<not> running alive e then deny e [REASON_UNAVAILABLE]
            else (case post e transport (the (oe_base_url e) @ ''/v1/data/'' @ POLICY_PACKAGE_PREFIX
                                           @ ''/'' @ policy) body of
                OpaTimeout \<Rightarrow> deny e [REASON_TIMEOUT]
              | OpaTransportError \<Rightarrow> deny e [REASON_UNAVAILABLE]
              | OpaFailure \<Rightarrow> deny e [REASON_ERROR]
              | OpaResponse status body \<Rightarrow>
                  if status \<noteq> 200 then deny e [REASON_HTTP_ERROR, ''status:'' @ nat_digits status]
                  else (case body of None \<Rightarrow> deny e [REASON_MALFORMED]
                    | Some payload \<Rightarrow> interpret_payload e policy payload))))"

section \<open>Backend registry\<close>

type_synonym engine_factory = "unit \<Rightarrow> opa_engine res"

definition regorus_reserved :: engine_factory where
  "regorus_reserved _ = raise NotImplementedErrorC
     (''the 'regorus' policy backend is reserved (13 '' @ [CHR 0xA7] @ ''5) and not implemented yet'')"

definition default_backends :: "engine_factory \<Rightarrow> (string, engine_factory) dict" where
  "default_backends opa = [(DEFAULT_BACKEND, opa), (''regorus'', regorus_reserved)]"

definition register_backend ::
  "string \<Rightarrow> 'f \<Rightarrow> (string, 'f) dict \<Rightarrow> (string, 'f) dict" where
  "register_backend name factory backends = AList.update name factory backends"

definition available_backends :: "(string, 'f) dict \<Rightarrow> string list" where
  "available_backends backends = sort (map fst backends)"

definition build_policy_engine ::
  "(string, engine_factory) dict \<Rightarrow> string option \<Rightarrow> string option \<Rightarrow> opa_engine res" where
  \<comment> \<open>the requested backend and \<open>LOCUS_POLICY_ENGINE\<close>\<close>
  "build_policy_engine backends backend env =
     (let configured = py_strip (case env of None \<Rightarrow> [] | Some v \<Rightarrow> v);
          name = (if nonempty backend then the backend
                  else if configured \<noteq> [] then configured else DEFAULT_BACKEND) in
      case map_of backends name of
        None \<Rightarrow> raise PolicyEngineConfigError (''unknown policy engine backend: '' @ py_repr name)
      | Some factory \<Rightarrow> factory ())"

definition policy_engine_available :: "string option \<Rightarrow> string option \<Rightarrow> bool res" where
  \<comment> \<open>\<open>LOCUS_OPA_URL\<close> and the located binary\<close>
  "policy_engine_available env_url found =
     (let url = py_strip (case env_url of None \<Rightarrow> [] | Some v \<Rightarrow> v) in
      if url \<noteq> [] then
        (case validate_loopback_url url of
           Inr _ \<Rightarrow> Inr True
         | Inl x \<Rightarrow> if exn_cls x = PolicyEngineConfigError then Inr False else Inl x)
      else Inr (found \<noteq> None))"

section \<open>Specification predicates\<close>

definition deployed :: "string list \<Rightarrow> string list" where
  "deployed sources = filter (\<lambda>s. \<not> is_test_module s) sources"

definition bundle_text :: "(string \<Rightarrow> string) \<Rightarrow> string list \<Rightarrow> string" where
  "bundle_text sha256 sources = py_join [newline] (sort (map sha256 (deployed sources)))"

section \<open>A concrete instance\<close>

definition sample_digest :: "string \<Rightarrow> string" where
  \<comment> \<open>a printable stand-in for SHA-256\<close>
  "sample_digest s = CHR ''x'' # map (\<lambda>c. if c = newline then CHR ''.'' else c) s"

definition sample_engine :: opa_engine where
  "sample_engine = \<lparr>oe_base_url = None, oe_external = False, oe_opa_binary = None, oe_timeout = Fin 1,
     oe_startup_timeout = Fin 15, oe_process = None, oe_client_open = True, oe_policy_version = []\<rparr>"

definition sample_world :: opa_world where
  "sample_world = \<lparr>ow_alive = (\<lambda>_. True), ow_found_binary = Some ''/usr/bin/opa'',
     ow_dir = [(''agent_policy.rego'', True, ''package lattix.agent_policy'')], ow_port = 8181,
     ow_popen = (\<lambda>_. 7), ow_rounds = [(None, HealthStatus 503)], ow_remote = None\<rparr>"

section \<open>The contract of a policy decision point\<close>

text \<open>
  What a client of the engine relies on: an allow is for a policy of the repository, and every
  decision carries a reason and a policy version.
\<close>

definition sidecar_permits ::
  "(nat \<Rightarrow> bool) \<Rightarrow> (string \<Rightarrow> string \<Rightarrow> opa_reply) \<Rightarrow> opa_engine \<Rightarrow> string \<Rightarrow> jval \<Rightarrow> bool" where
  \<comment> \<open>the sidecar is up and answers that the policy allows the input\<close>
  "sidecar_permits alive transport e policy inp \<longleftrightarrow>
     policy \<in> set KNOWN_POLICIES \<and> running alive e \<and> oe_client_open e \<and>
     (\<exists>kvs body base payload result.
        inp = JDict kvs \<and> json_text (JDict [(''input'', inp)]) = Some body \<and>
        oe_base_url e = Some base \<and> base \<noteq> [] \<and>
        transport (base @ ''/v1/data/lattix/'' @ policy) body = OpaResponse 200 (Some (JDict payload)) \<and>
        map_of payload ''result'' = Some (JDict result) \<and>
        map_of result ''allow'' = Some (JBool True))"

locale policy_decision_point =
  fixes ask :: "string \<Rightarrow> jval \<Rightarrow> decision res"
    and permits :: "string \<Rightarrow> jval \<Rightarrow> bool"
  assumes allow_permits: "ask p i = Inr d \<Longrightarrow> dec_allow d \<Longrightarrow> permits p i"
    and allow_known: "ask p i = Inr d \<Longrightarrow> dec_allow d \<Longrightarrow> p \<in> set KNOWN_POLICIES"
    and reasons_given: "ask p i = Inr d \<Longrightarrow> dec_reasons d \<noteq> []"
    and version_given: "ask p i = Inr d \<Longrightarrow> dec_policy_version d \<noteq> []"

section \<open>Lemmas\<close>

lemma deny_simps [simp]:
  "dec_allow (deny e rs) = False" "dec_reasons (deny e rs) = rs"
  "dec_policy_version (deny e rs) = version_of e" "dec_backend (deny e rs) = DEFAULT_BACKEND"
  "dec_outputs (deny e rs) = []"
  by (simp_all add: deny_def)

lemma interpret_result_allow_iff:
  "dec_allow (interpret_result e policy result) \<longleftrightarrow> map_of result ''allow'' = Some (JBool True)"
  by (auto simp: interpret_result_def Let_def split: option.splits jval.splits bool.splits)

lemma interpret_payload_allow_iff:
  "dec_allow (interpret_payload e policy payload) \<longleftrightarrow>
     (\<exists>kvs result. payload = JDict kvs \<and> map_of kvs ''result'' = Some (JDict result) \<and>
        map_of result ''allow'' = Some (JBool True))"
  by (auto simp: interpret_payload_def interpret_result_allow_iff split: jval.splits option.splits)

lemma is_jdict_iff: "is_jdict v \<longleftrightarrow> (\<exists>kvs. v = JDict kvs)"
  by (cases v) auto

lemma interpret_result_stamped:
  "dec_reasons (interpret_result e policy result) \<noteq> [] \<and>
   dec_policy_version (interpret_result e policy result) = version_of e \<and>
   dec_backend (interpret_result e policy result) = DEFAULT_BACKEND"
  by (auto simp: interpret_result_def Let_def split: option.splits jval.splits bool.splits)

lemma decide_stamped:
  "dec_reasons (decide alive transport e policy inp) \<noteq> [] \<and>
   dec_policy_version (decide alive transport e policy inp) = version_of e \<and>
   dec_backend (decide alive transport e policy inp) = DEFAULT_BACKEND"
  by (auto simp: decide_def interpret_payload_def interpret_result_stamped
      split: option.splits opa_reply.splits jval.splits)

lemma decide_down:
  assumes "\<not> running alive e"
  shows "\<not> dec_allow (decide alive transport e policy inp)"
  using assms by (auto simp: decide_def split: option.splits)

lemma stop_process_not_running:
  "\<not> oe_external e \<Longrightarrow> \<not> running alive (stop_process e)"
  by (auto simp: running_def stop_process_def)

lemma wait_healthy_Inr:
  "wait_healthy external last_error rounds = Inr () \<Longrightarrow>
     \<exists>exited. (exited, HealthStatus 200) \<in> set rounds \<and> (external \<or> exited = None)"
  by (induction external last_error rounds rule: wait_healthy.induct)
     (auto split: if_splits health.splits)

lemma py_partition_append:
  "sep \<notin> set a \<Longrightarrow> py_partition sep (a @ b) =
     (case py_partition sep b of (x, f, y) \<Rightarrow> (a @ x, f, y))"
  by (induction a) (auto split: prod.splits)

lemma control_is_space: "py_isspace CHR 0x09" "py_isspace CHR 0x0A" "py_isspace CHR 0x0D"
  by (simp_all add: py_isspace_def)

lemma http_not_space:
  assumes "scheme \<in> {''http'', ''https''}"
  shows "list_all (\<lambda>c. \<not> py_isspace c) (scheme @ ''://'')"
proof -
  have "list_all (\<lambda>c. \<not> py_isspace c) ''http://''" "list_all (\<lambda>c. \<not> py_isspace c) ''https://''"
    by code_simp+
  then show ?thesis using assms by auto
qed

lemma clean_url_http:
  assumes "scheme \<in> {''http'', ''https''}" and "list_all (\<lambda>c. \<not> py_isspace c) netloc"
  shows "clean_url (scheme @ ''://'' @ netloc) = scheme @ ''://'' @ netloc"
proof -
  have "filter (\<lambda>c. c \<notin> {CHR 0x09, CHR 0x0A, CHR 0x0D}) s = s"
    if "list_all (\<lambda>c. \<not> py_isspace c) s" for s
    using that control_is_space by (auto simp: filter_id_conv list_all_iff)
  moreover have "lstrip (\<lambda>c. ord_of c \<le> (32::nat)) (scheme @ ''://'' @ netloc) = scheme @ ''://'' @ netloc"
    using assms(1) by (auto simp: lstrip_def)
  moreover have "list_all (\<lambda>c. \<not> py_isspace c) (scheme @ ''://'' @ netloc)"
    using http_not_space [OF assms(1)] assms(2) by simp
  ultimately show ?thesis by (simp only: clean_url_def)
qed

lemma split_scheme_http:
  assumes "scheme \<in> {''http'', ''https''}"
  shows "split_scheme (scheme @ ''://'' @ netloc) = (scheme, ''//'' @ netloc)"
proof -
  have "list_all scheme_char ''http'' \<and> py_lower ''http'' = ''http'' \<and> is_alpha CHR ''h'' \<and>
      list_all scheme_char ''https'' \<and> py_lower ''https'' = ''https''"
    by code_simp
  then show ?thesis using assms by (auto simp: split_scheme_def)
qed

lemma split_netloc_all:
  assumes "list_all (\<lambda>c. c \<notin> set ''/?#'') netloc"
  shows "split_netloc (''//'' @ netloc) = (netloc, [])"
proof -
  have "takeWhile P netloc = netloc \<and> dropWhile P netloc = []" if "list_all P netloc" for P
    using that by (auto simp: takeWhile_eq_all_conv dropWhile_eq_Nil_conv list_all_iff)
  from this [OF assms] show ?thesis by (simp add: split_netloc_def)
qed

lemma urlparse_origin:
  assumes "scheme \<in> {''http'', ''https''}" and "netloc_ok netloc"
    and "list_all (\<lambda>c. c \<notin> set ''/?#'') netloc" and "list_all (\<lambda>c. \<not> py_isspace c) netloc"
  shows "urlparse (scheme @ ''://'' @ netloc) = Some \<lparr>pu_scheme = scheme, pu_netloc = netloc,
     pu_path = [], pu_params = [], pu_query = [], pu_fragment = []\<rparr>"
  unfolding urlparse_def clean_url_http [OF assms(1,4)] split_scheme_http [OF assms(1)]
    split_netloc_all [OF assms(3)] prod.case
  using assms(2) by (simp add: split_params_def py_rpartition_def)

lemma urlparse_netloc:
  assumes "urlparse s = Some p"
  shows "netloc_ok (pu_netloc p)" "\<forall>c \<in> set (pu_netloc p). c \<notin> set ''/?#'' \<and> c \<in> set s"
proof -
  let ?t = "snd (split_scheme (clean_url s))"
  have p: "pu_netloc p = fst (split_netloc ?t)" and ok: "netloc_ok (fst (split_netloc ?t))"
    using assms by (auto simp: urlparse_def split: prod.splits if_splits)
  show "netloc_ok (pu_netloc p)" using p ok by simp
  have "set ?t \<subseteq> set (clean_url s)"
    by (auto simp: split_scheme_def dest!: py_partition_eq split: prod.splits if_splits)
  also have "\<dots> \<subseteq> set s"
    by (auto simp: clean_url_def lstrip_def dest: set_dropWhileD)
  finally have "set ?t \<subseteq> set s" .
  moreover have "\<forall>c \<in> set (fst (split_netloc ?t)). c \<notin> set ''/?#'' \<and> c \<in> set ?t"
    by (auto simp: split_netloc_def dest: set_takeWhileD in_set_dropD)
  ultimately show "\<forall>c \<in> set (pu_netloc p). c \<notin> set ''/?#'' \<and> c \<in> set s" using p by auto
qed

lemma validate_loopback_urlD:
  assumes "validate_loopback_url url = Inr u"
  obtains p where "urlparse (py_strip url) = Some p" "pu_scheme p \<in> {''http'', ''https''}"
    "\<not> nonempty (url_username p)" "\<not> nonempty (url_password p)"
    "opa_host p \<noteq> []" "loopback_host (opa_host p)" "url_port_ok p"
    "u = pu_scheme p @ ''://'' @ pu_netloc p"
  using assms by (auto simp: validate_loopback_url_def guardE_eq_Inr_iff split: option.splits)

lemma version_of_not_Nil: "version_of e \<noteq> []"
  by (simp add: version_of_def)

lemma decide_allow_iff:
  "dec_allow (decide alive transport e policy inp) \<longleftrightarrow> sidecar_permits alive transport e policy inp"
  by (auto simp: decide_def post_def is_jdict_iff nonempty_def interpret_payload_allow_iff sidecar_permits_def
      POLICY_PACKAGE_PREFIX_def split: option.splits opa_reply.splits if_splits)

interpretation opa: policy_decision_point "\<lambda>p i. Inr (decide alive transport e p i)"
    "sidecar_permits alive transport e"
  for alive transport e
  by unfold_locales (auto simp: decide_stamped version_of_not_Nil decide_allow_iff sidecar_permits_def)

section \<open>Properties\<close>

text \<open>
  C2: The engine fails closed, exactly.  A decision allows if and only if the policy is one of the
  repository's, the input is a serialisable dictionary, the sidecar is running with a base URL and
  an open client, and the sidecar answered status 200 with a JSON object whose \<open>result.allow\<close> is
  the boolean \<open>true\<close>.  Every timeout, transport failure, other status or other shape denies.
\<close>

theorem decide_fail_closed:
  "dec_allow (decide alive transport e policy inp) \<longleftrightarrow>
     policy \<in> set KNOWN_POLICIES \<and> running alive e \<and> oe_client_open e \<and>
     (\<exists>kvs body base payload result.
        inp = JDict kvs \<and> json_text (JDict [(''input'', inp)]) = Some body \<and>
        oe_base_url e = Some base \<and> base \<noteq> [] \<and>
        transport (base @ ''/v1/data/lattix/'' @ policy) body = OpaResponse 200 (Some (JDict payload)) \<and>
        map_of payload ''result'' = Some (JDict result) \<and>
        map_of result ''allow'' = Some (JBool True))"
  unfolding decide_allow_iff by (rule sidecar_permits_def)

text \<open>
  Starting a managed sidecar either fails, and then the engine denies every request, or leaves
  the engine attached to the loopback address of the process it started over a non-empty set of
  deployable policies, after that process answered \<open>/health\<close> with 200 (or it was running already).
\<close>

theorem opa_start_fail_closed:
  assumes "opa_start sha256 show w e = (e', r)" and "\<not> oe_external e"
  shows "case r of
      Inl _ \<Rightarrow> \<not> dec_allow (decide (ow_alive w) transport e' policy inp)
    | Inr _ \<Rightarrow> e' = e \<and> running (ow_alive w) e \<or>
        oe_base_url e' = Some (''http://127.0.0.1:'' @ nat_digits (ow_port w)) \<and>
        (\<exists>binary. oe_process e' =
           Some (ow_popen w (opa_argv binary (ow_port w) (policy_files (ow_dir w))))) \<and>
        oe_policy_version e' = policy_dir_version sha256 (ow_dir w) \<and>
        policy_files (ow_dir w) \<noteq> [] \<and> (None, HealthStatus 200) \<in> set (ow_rounds w)"
proof (cases r)
  case (Inl x)
  have "\<not> running (ow_alive w) e'"
    using assms Inl
    by (auto simp: opa_start_def Let_def stop_process_not_running raise_def
        split: if_splits option.splits sum.splits)
  then show ?thesis using Inl by (simp add: decide_down)
next
  case (Inr u)
  show ?thesis using assms Inr
    by (auto simp: opa_start_def Let_def raise_def dest: wait_healthy_Inr
        split: if_splits option.splits sum.splits)
qed

theorem opa_start_fail_closed_witness:
  "\<exists>e' x. opa_start sample_digest (\<lambda>_. []) sample_world sample_engine = (e', Inl x) \<and>
     \<not> dec_allow (decide (ow_alive sample_world) (\<lambda>_ _. OpaTimeout) e' ''agent_policy'' (JDict []))"
proof -
  obtain e' r where run: "opa_start sample_digest (\<lambda>_. []) sample_world sample_engine = (e', r)"
    by fastforce
  have "policy_files (ow_dir sample_world) \<noteq> []" by code_simp
  with run have "\<exists>x. r = Inl x"
    by (auto simp: opa_start_def sample_engine_def sample_world_def running_def nonempty_def
        raise_def Let_def)
  with run opa_start_fail_closed [OF run, of "\<lambda>_ _. OpaTimeout" "''agent_policy''" "JDict []"]
  show ?thesis by (auto simp: sample_engine_def)
qed

text \<open>
  A validated sidecar URL (without white space in the configured text) is a stable loopback
  origin: it parses to the same scheme and host information, its host is \<open>localhost\<close> or an IP
  address of the loopback range, and validating it again returns it unchanged.
\<close>

theorem validate_loopback_url_stable:
  assumes ok: "validate_loopback_url url = Inr u" and sp: "list_all (\<lambda>c. \<not> py_isspace c) url"
  shows "validate_loopback_url u = Inr u \<and>
    (\<exists>p. urlparse u = Some p \<and> u = pu_scheme p @ ''://'' @ pu_netloc p \<and> loopback_host (opa_host p))"
proof (rule validate_loopback_urlD [OF ok])
  fix p assume p: "urlparse (py_strip url) = Some p" "pu_scheme p \<in> {''http'', ''https''}"
    "\<not> nonempty (url_username p)" "\<not> nonempty (url_password p)" "opa_host p \<noteq> []"
    "loopback_host (opa_host p)" "url_port_ok p" "u = pu_scheme p @ ''://'' @ pu_netloc p"
  let ?q = "\<lparr>pu_scheme = pu_scheme p, pu_netloc = pu_netloc p, pu_path = [], pu_params = [],
     pu_query = [], pu_fragment = []\<rparr>"
  have n: "netloc_ok (pu_netloc p)" "list_all (\<lambda>c. c \<notin> set ''/?#'') (pu_netloc p)"
      "list_all (\<lambda>c. \<not> py_isspace c) (pu_netloc p)"
    using urlparse_netloc [OF p(1)] sp unfolding list_all_iff py_strip_no_space [OF sp] by blast+
  have q: "urlparse u = Some ?q"
    unfolding p(8) by (rule urlparse_origin [OF p(2) n])
  have same: "url_username ?q = url_username p" "url_password ?q = url_password p"
    "opa_host ?q = opa_host p" "url_port_ok ?q = url_port_ok p"
    by (simp_all add: url_username_def url_password_def userinfo_def opa_host_def url_hostname_def
        hostinfo_def url_port_ok_def)
  have "list_all (\<lambda>c. \<not> py_isspace c) u"
    using http_not_space [OF p(2)] n(3) by (simp add: p(8))
  then have "py_strip u = u" by (rule py_strip_no_space)
  then have "validate_loopback_url u = Inr (pu_scheme p @ ''://'' @ pu_netloc p)"
    using p(2-7) by (simp add: validate_loopback_url_def q same)
  then have "validate_loopback_url u = Inr u" unfolding p(8) .
  then show ?thesis using q p(6,8) same(3) by auto
qed

theorem validate_loopback_url_stable_witness:
  "validate_loopback_url ''http://127.0.0.1:8181'' = Inr ''http://127.0.0.1:8181''"
proof -
  have "validate_loopback_url ''http://127.0.0.1:8181/'' = Inr ''http://127.0.0.1:8181''" by code_simp
  moreover have "list_all (\<lambda>c. \<not> py_isspace c) ''http://127.0.0.1:8181/''" by code_simp
  ultimately show ?thesis using validate_loopback_url_stable by blast
qed

text \<open>
  The bundle hash names the deployed policy set: if SHA-256 has no collision among the texts
  involved, two lists of modules have the same hash exactly when, test modules left out, they hold
  the same modules in some order.
\<close>

theorem policy_bundle_identity:
  assumes hex: "\<forall>s. sha256 s \<noteq> [] \<and> newline \<notin> set (sha256 s)"
    and free: "inj_on sha256 (set xs \<union> set ys \<union> {bundle_text sha256 xs, bundle_text sha256 ys})"
  shows "compute_policy_bundle_hash sha256 xs = compute_policy_bundle_hash sha256 ys \<longleftrightarrow>
     mset (deployed xs) = mset (deployed ys)"
proof -
  have "compute_policy_bundle_hash sha256 xs = compute_policy_bundle_hash sha256 ys \<longleftrightarrow>
      bundle_text sha256 xs = bundle_text sha256 ys"
    using inj_on_eq_iff [OF free, of "bundle_text sha256 xs" "bundle_text sha256 ys"]
    by (simp add: compute_policy_bundle_hash_def bundle_text_def deployed_def)
  also have "\<dots> \<longleftrightarrow> sort (map sha256 (deployed xs)) = sort (map sha256 (deployed ys))"
    unfolding bundle_text_def using hex by (intro py_join_nonempty_inj) auto
  also have "\<dots> \<longleftrightarrow> image_mset sha256 (mset (deployed xs)) = image_mset sha256 (mset (deployed ys))"
    by (simp add: sort_eq_iff_mset)
  also have "\<dots> \<longleftrightarrow> mset (deployed xs) = mset (deployed ys)"
  proof -
    have "inj_on sha256 (set_mset (mset (deployed xs)) \<union> set_mset (mset (deployed ys)))"
      using free by (rule inj_on_subset) (auto simp: deployed_def)
    then show ?thesis
      using image_mset_eq_image_mset_plusD [of sha256 "mset (deployed xs)" "mset (deployed ys)" "{#}"]
      by auto
  qed
  finally show ?thesis .
qed

theorem policy_bundle_identity_witness:
  "compute_policy_bundle_hash sample_digest [''package a'', ''package b'', ''package a_test''] =
   compute_policy_bundle_hash sample_digest [''package b'', ''package a'']"
proof -
  let ?xs = "[''package a'', ''package b'', ''package a_test'']" and ?ys = "[''package b'', ''package a'']"
  have "\<forall>s. sample_digest s \<noteq> [] \<and> newline \<notin> set (sample_digest s)"
    by (auto simp: sample_digest_def newline_def)
  moreover have "bundle_text sample_digest ?xs = ''xpackage a'' @ [newline] @ ''xpackage b''"
      "bundle_text sample_digest ?ys = ''xpackage a'' @ [newline] @ ''xpackage b''"
      "deployed ?xs = [''package a'', ''package b'']" "deployed ?ys = [''package b'', ''package a'']"
    by code_simp+
  moreover from this have "inj_on sample_digest (set ?xs \<union> set ?ys \<union>
      {bundle_text sample_digest ?xs, bundle_text sample_digest ?ys})"
    by (auto simp: inj_on_def sample_digest_def newline_def)
  ultimately show ?thesis
    using policy_bundle_identity [of sample_digest ?xs ?ys] by (simp add: add_mset_commute)
qed

text \<open>
  The posture probe is not total: with a malformed bracketed host in \<open>LOCUS_OPA_URL\<close>,
  \<open>urlparse\<close> raises a plain \<open>ValueError\<close>, which the probe does not catch, so instead of reporting
  that no engine is available it raises.
\<close>

theorem policy_engine_available_raises:
  "policy_engine_available (Some ''http://[::1'') None = Inl (Exn ValueError ''Invalid IPv6 URL'')"
  by code_simp

end
