(* ===== verification/Gateway.thy ===== *)
theory Gateway
  imports Gateway_Risk Policy_Engine
begin

text \<open>
  \<open>locus_runtime/gateway.py\<close>: the policy enforcement point.  A run opens a session, describes each
  side effect as an action, and the gateway answers allow, ask or deny: it authenticates the
  caller, recomputes the risk class, asks the policy engine, consults the intent gate, and decides
  by class, tier, grants and human approvals; every decision goes to the audit sink first.

  The gateway's state is a record: the session table and the approval ledger (both bounded ordered
  tables) and, as a trace of the outside effects, the records the audit sink accepted and the
  decisions passed to listeners.  What the process supplies is a second record: the policy engine,
  the audit sink, the grant verifier, the intent gate, the clock, SHA-256 and the keyed digest,
  the configured policy directory and the printing of numbers.
\<close>

section \<open>Reason codes and operations\<close>

definition REASON_UNAUTHENTICATED :: string where "REASON_UNAUTHENTICATED = ''gateway.unauthenticated_caller''"
definition REASON_NOT_INSTALLED :: string where "REASON_NOT_INSTALLED = ''gateway.not_installed''"
definition REASON_INVALID_ACTION :: string where "REASON_INVALID_ACTION = ''gateway.invalid_action''"
definition REASON_ENGINE_ERROR :: string where "REASON_ENGINE_ERROR = ''gateway.engine_error''"
definition REASON_AUDIT_UNAVAILABLE :: string where "REASON_AUDIT_UNAVAILABLE = ''gateway.audit_unavailable''"
definition REASON_R4_PROHIBITED :: string where "REASON_R4_PROHIBITED = ''gateway.risk_r4_prohibited''"
definition REASON_APPROVAL_REQUIRED :: string where "REASON_APPROVAL_REQUIRED = ''gateway.approval_required''"
definition REASON_APPROVED :: string where "REASON_APPROVED = ''gateway.approved_by_human''"
definition REASON_GRANT :: string where "REASON_GRANT = ''gateway.grant_covers_action''"
definition REASON_GRANT_ID_PREFIX :: string where "REASON_GRANT_ID_PREFIX = ''gateway.grant:''"
definition REASON_GRANT_ERROR :: string where "REASON_GRANT_ERROR = ''gateway.grant_verifier_error''"
definition REASON_TAINT_NO_GRANT :: string where
  "REASON_TAINT_NO_GRANT = ''gateway.taint_gate_grant_not_applicable''"

definition CANONICAL_OPERATION :: "(string, string) dict" where
  "CANONICAL_OPERATION = [(''file_read'', ''read_file''), (''file_write'', ''write_file''),
     (''process_exec'', ''process_exec''), (''network_egress'', ''network_egress''),
     (''model_call'', ''llm_call'')] @ map (\<lambda>k. (k, k)) COMPUTER_USE_KINDS"

section \<open>Data contracts\<close>

record gateway_caller =
  ca_run_id :: string
  ca_principal :: string
  ca_engine :: string
  ca_token :: string

record jail_facts =
  jf_strategy :: string
  jf_readonly_rootfs :: bool
  jf_run_as_user :: string
  jf_allow_network :: bool
  jf_require_egress_mediation :: bool
  jf_appcontainer :: bool
  jf_job_object :: bool
  jf_require_appcontainer :: bool
  jf_unavailable_reason :: string

definition UNJAILED :: jail_facts where
  "UNJAILED = \<lparr>jf_strategy = ''none'', jf_readonly_rootfs = False, jf_run_as_user = [],
     jf_allow_network = True, jf_require_egress_mediation = False, jf_appcontainer = False,
     jf_job_object = False, jf_require_appcontainer = False, jf_unavailable_reason = []\<rparr>"

definition EVALS_PROFILE :: string where
  "EVALS_PROFILE = ''evals''"

record budget_figures =
  bf_tokens_used :: pyfloat
  bf_max_tokens :: pyfloat
  bf_duration_used_seconds :: "pyfloat option"
  bf_max_duration_seconds :: "pyfloat option"
  bf_cost_used_usd :: "pyfloat option"
  bf_max_cost_usd :: "pyfloat option"

datatype autonomy_tier = Tier_tiered | Tier_supervised | Tier_envelope_autonomous

record capabilities =
  cap_allowed_tools :: "string list"
  cap_read_roots :: "string list"
  cap_write_roots :: "string list"
  cap_allowed_executables :: "string list"
  cap_allowed_egress_hosts :: "string list"
  cap_autonomy_tier :: autonomy_tier
  cap_max_tool_calls :: int
  cap_budget :: "budget_figures option"
  cap_runtime_profile :: string
  cap_data_classification :: string
  cap_allowed_apps :: "string list"
  cap_denied_apps :: "string list"

definition default_capabilities :: capabilities where
  "default_capabilities = \<lparr>cap_allowed_tools = [], cap_read_roots = [], cap_write_roots = [],
     cap_allowed_executables = [], cap_allowed_egress_hosts = [], cap_autonomy_tier = Tier_tiered,
     cap_max_tool_calls = 0, cap_budget = None, cap_runtime_profile = [], cap_data_classification = [],
     cap_allowed_apps = [], cap_denied_apps = []\<rparr>"

record gateway_action =
  ga_caller :: gateway_caller
  ga_kind :: string
  ga_tool :: string
  ga_target :: string
  ga_args_summary :: "(string, string) dict"
  ga_risk :: risk_class
  ga_args_digest :: string
  ga_command_summary :: string
  ga_executable :: string
  ga_jail :: "jail_facts option"
  ga_egress_host :: string
  ga_method :: string
  ga_facets :: "(string, string) dict"
  ga_ui :: "ui_facts option"
  ga_tainted :: bool

datatype outcome = Allow | Ask | Deny

fun outcome_text :: "outcome \<Rightarrow> string" where
  "outcome_text Allow = ''allow''"
| "outcome_text Ask = ''ask''"
| "outcome_text Deny = ''deny''"

record gateway_decision =
  gd_outcome :: outcome
  gd_reasons :: "string list"
  gd_audit_id :: string
  gd_policy_version :: string
  gd_risk :: risk_class
  gd_action_kind :: string
  gd_tool :: string
  gd_target :: string
  gd_fingerprint :: string
  gd_args_digest :: string
  gd_seal :: string

record gateway_audit_record =
  gr_audit_id :: string
  gr_created_at :: pyfloat
  gr_principal :: string
  gr_run_id :: string
  gr_engine :: string
  gr_action_kind :: string
  gr_tool :: string
  gr_target :: string
  gr_outcome :: outcome
  gr_reasons :: "string list"
  gr_policy_version :: string
  gr_risk_class :: string
  gr_args_summary :: "(string, string) dict"
  gr_command :: string
  gr_fingerprint :: string

definition audit_as_metadata :: "gateway_audit_record \<Rightarrow> (string, jval) dict" where
  "audit_as_metadata r = [(''audit_id'', JStr (gr_audit_id r)), (''principal'', JStr (gr_principal r)),
     (''run_id'', JStr (gr_run_id r)), (''engine'', JStr (gr_engine r)),
     (''action_kind'', JStr (gr_action_kind r)), (''tool'', JStr (gr_tool r)),
     (''target'', JStr (gr_target r)), (''gateway_outcome'', JStr (outcome_text (gr_outcome r))),
     (''reasons'', JList (map JStr (gr_reasons r))), (''policy_version'', JStr (gr_policy_version r)),
     (''risk_class'', JStr (gr_risk_class r)),
     (''args_summary'', JDict (map (\<lambda>(k, v). (k, JStr v)) (gr_args_summary r))),
     (''command'', JStr (gr_command r)), (''fingerprint'', JStr (gr_fingerprint r))]"

section \<open>The process around the gateway\<close>

datatype grant_verifier =
    Matcher "gateway_action \<Rightarrow> capabilities \<Rightarrow> string option res"  \<comment> \<open>the id of the grant found\<close>
  | Coverer "gateway_action \<Rightarrow> capabilities \<Rightarrow> bool res"           \<comment> \<open>only \<open>covers\<close>\<close>

definition NoGrants :: grant_verifier where
  "NoGrants = Coverer (\<lambda>_ _. Inr False)"

record gateway_env =
  ge_engine :: "string \<Rightarrow> jval \<Rightarrow> decision res"
  ge_sink :: "gateway_audit_record \<Rightarrow> bool"        \<comment> \<open>does the sink accept the record\<close>
  ge_grants :: grant_verifier
  ge_intent_gate :: "(gateway_action \<Rightarrow> capabilities \<Rightarrow> (outcome \<times> string list) res) option"
  ge_clock :: pyfloat
  ge_sha256 :: "string \<Rightarrow> string"
  ge_hmac :: "string \<Rightarrow> string"                    \<comment> \<open>under the process key\<close>
  ge_policy_root :: string
  ge_denied_apps :: "string option"               \<comment> \<open>\<open>LOCUS_COMPUTER_USE_DENIED_APPS\<close>\<close>
  ge_num :: "pyfloat \<Rightarrow> jval"                      \<comment> \<open>a float as a JSON value\<close>
  ge_show :: "jval \<Rightarrow> string"
  ge_show_ui :: "ui_facts \<Rightarrow> string"              \<comment> \<open>\<open>str\<close> of the facts\<close>

section \<open>Actions\<close>

definition or_default :: "'a option \<Rightarrow> 'a \<Rightarrow> 'a" where
  "or_default x d = (case x of None \<Rightarrow> d | Some v \<Rightarrow> v)"

definition digest_material ::
  "gateway_env \<Rightarrow> (string, jval) dict option \<Rightarrow> string \<Rightarrow> string \<Rightarrow> ui_facts option \<Rightarrow> jval" where
  "digest_material env args command target ui = JDict (
     [(''args'', (case args of None \<Rightarrow> JNull | Some kvs \<Rightarrow> JDict kvs)), (''command'', JStr command),
      (''target'', JStr target)] @
     (case ui of None \<Rightarrow> [] | Some u \<Rightarrow> [(''ui'', JStr (ge_show_ui env u))]))"

definition action_create ::
  "gateway_env \<Rightarrow> gateway_caller \<Rightarrow> string \<Rightarrow> string \<Rightarrow> string \<Rightarrow> (string, jval) dict option \<Rightarrow> string
     \<Rightarrow> string \<Rightarrow> jail_facts option \<Rightarrow> string \<Rightarrow> string \<Rightarrow> capabilities option \<Rightarrow> ui_facts option \<Rightarrow> bool
     \<Rightarrow> gateway_action option" where
  \<comment> \<open>\<open>None\<close> is the \<open>TypeError\<close> of a recipient argument that is not serialisable\<close>
  "action_create env caller kind tool target args command executable jail egress_host method
       capabilities ui tainted =
     (let caps = or_default capabilities default_capabilities;
          command_text = (if command \<noteq> [] then redact_text 400 command else []);
          risk = classify_risk (ge_policy_root env) kind tool target command
                   (case args of None \<Rightarrow> [] | Some kvs \<Rightarrow> map fst kvs) method (cap_write_roots caps)
                   egress_host ui;
          summary = summarize_args (ge_show env) args in
      case grant_facets (ge_show env) kind args command_text of
        None \<Rightarrow> None
      | Some facets \<Rightarrow> Some \<lparr>ga_caller = caller, ga_kind = kind, ga_tool = tool,
          ga_target = redact_text 400 target,
          ga_args_summary = (case ui of None \<Rightarrow> summary
             | Some u \<Rightarrow> foldl (\<lambda>d (k, v). AList.update k v d) summary (ui_as_summary u)),
          ga_risk = risk,
          ga_args_digest = args_digest (ge_hmac env) (ge_show env)
             (digest_material env args command target ui),
          ga_command_summary = command_text, ga_executable = executable, ga_jail = jail,
          ga_egress_host = py_lower (py_strip egress_host), ga_method = py_upper method,
          ga_facets = facets, ga_ui = ui,
          ga_tainted = (tainted \<or> kind \<in> set COMPUTER_USE_KINDS)\<rparr>)"

definition fingerprint :: "(string \<Rightarrow> string) \<Rightarrow> gateway_action \<Rightarrow> string" where
  "fingerprint hmac a = take 40 (hmac (py_join ''|''
     [ca_run_id (ga_caller a), ga_kind a, ga_tool a, ga_target a, ga_egress_host a, ga_args_digest a]))"

section \<open>Decisions and their seal\<close>

definition seal_material :: "gateway_decision \<Rightarrow> string" where
  "seal_material d = py_join ''|'' [outcome_text (gd_outcome d), gd_audit_id d, gd_action_kind d,
     gd_tool d, gd_fingerprint d, gd_args_digest d]"

definition seal_of :: "(string \<Rightarrow> string) \<Rightarrow> gateway_decision \<Rightarrow> string" where
  \<comment> \<open>\<open>_seal\<close>\<close>
  "seal_of hmac d = hmac (seal_material d)"

definition verify_decision :: "(string \<Rightarrow> string) \<Rightarrow> gateway_decision \<Rightarrow> bool" where
  "verify_decision hmac d = (gd_seal d \<noteq> [] \<and> gd_seal d = seal_of hmac d)"

definition sealed :: "(string \<Rightarrow> string) \<Rightarrow> gateway_decision \<Rightarrow> gateway_decision" where
  "sealed hmac d = d\<lparr>gd_seal := seal_of hmac d\<rparr>"

definition allowed :: "(string \<Rightarrow> string) \<Rightarrow> gateway_decision \<Rightarrow> bool" where
  "allowed hmac d = (gd_outcome d = Allow \<and> verify_decision hmac d)"

definition describe :: "gateway_decision \<Rightarrow> string" where
  "describe d = outcome_text (gd_outcome d) @ '' ('' @ risk_label (gd_risk d) @ ''; '' @
     (if py_join '', '' (gd_reasons d) \<noteq> [] then py_join '', '' (gd_reasons d) else ''no reason given'') @
     ''; audit '' @ (if gd_audit_id d \<noteq> [] then gd_audit_id d else ''n/a'') @ '')''"

section \<open>Approvals and sessions\<close>

type_synonym approval_ledger = "(string \<times> string, string) dict"

record session_record =
  se_caller :: gateway_caller
  se_capabilities :: capabilities
  se_listener :: bool
  se_tool_calls_used :: int

record gateway =
  gw_approvals :: approval_ledger
  gw_approvals_max :: nat
  gw_sessions :: "(string, session_record) dict"
  gw_max_sessions :: nat
  gw_allow_eval_sessions :: bool
  gw_audit :: "gateway_audit_record list"                       \<comment> \<open>accepted by the sink\<close>
  gw_notified :: "(gateway_action \<times> gateway_decision) list"     \<comment> \<open>passed to a listener\<close>

definition new_gateway :: "nat \<Rightarrow> nat \<Rightarrow> bool \<Rightarrow> gateway" where
  \<comment> \<open>approval capacity, session capacity, \<open>allow_eval_sessions\<close>\<close>
  "new_gateway max_entries max_sessions allow_eval = \<lparr>gw_approvals = [], gw_approvals_max = max_entries,
     gw_sessions = [], gw_max_sessions = max_sessions, gw_allow_eval_sessions = allow_eval,
     gw_audit = [], gw_notified = []\<rparr>"

definition approve :: "string \<Rightarrow> string \<Rightarrow> string \<Rightarrow> gateway \<Rightarrow> gateway res" where
  "approve run_id fp approver g = guardE (run_id \<noteq> [] \<and> fp \<noteq> []) ValueError
     ''run_id and fingerprint are required''
     (Inr (g\<lparr>gw_approvals := put_bounded (gw_approvals_max g) (run_id, fp) approver (gw_approvals g)\<rparr>))"

definition consume :: "string \<Rightarrow> string \<Rightarrow> gateway \<Rightarrow> gateway \<times> string option" where
  "consume run_id fp g = (g\<lparr>gw_approvals := AList.delete (run_id, fp) (gw_approvals g)\<rparr>,
     map_of (gw_approvals g) (run_id, fp))"

definition revoke_run :: "string \<Rightarrow> gateway \<Rightarrow> gateway" where
  "revoke_run run_id g = g\<lparr>gw_approvals := filter (\<lambda>(k, _). fst k \<noteq> run_id) (gw_approvals g)\<rparr>"

definition token_key :: "(string \<Rightarrow> string) \<Rightarrow> string \<Rightarrow> string" where
  "token_key sha256 token = sha256 token"

definition open_session ::
  "gateway_env \<Rightarrow> string \<Rightarrow> string \<Rightarrow> string \<Rightarrow> string \<Rightarrow> capabilities \<Rightarrow> bool \<Rightarrow> gateway
     \<Rightarrow> (gateway \<times> gateway_caller) res" where
  \<comment> \<open>the fresh token first; the flag says whether a listener is given\<close>
  "open_session env token run_id prin engine caps listener g =
     guardE (py_strip run_id \<noteq> [] \<and> py_strip prin \<noteq> [] \<and> py_strip engine \<noteq> []) ValueError
       ''run_id, principal and engine are required to open a gateway session''
     (guardE (py_lower (py_strip (cap_runtime_profile caps)) = EVALS_PROFILE \<longrightarrow> gw_allow_eval_sessions g)
       ValueError ''this gateway does not accept evals sessions''
     (let caller = \<lparr>ca_run_id = run_id, ca_principal = prin, ca_engine = engine, ca_token = token\<rparr> in
      Inr (g\<lparr>gw_sessions := put_bounded (gw_max_sessions g) (token_key (ge_sha256 env) token)
               \<lparr>se_caller = caller, se_capabilities = caps, se_listener = listener, se_tool_calls_used = 0\<rparr>
               (gw_sessions g)\<rparr>, caller)))"

definition close_session :: "gateway_env \<Rightarrow> gateway_caller \<Rightarrow> gateway \<Rightarrow> gateway" where
  "close_session env caller g =
     g\<lparr>gw_sessions := AList.delete (token_key (ge_sha256 env) (ca_token caller)) (gw_sessions g)\<rparr>"

text \<open>Python's \<open>max\<close> and \<open>min\<close> of two floats: the second replaces the first only if it compares.\<close>

definition float_max :: "pyfloat \<Rightarrow> pyfloat \<Rightarrow> pyfloat" where
  "float_max a b = (if float_lt a b then b else a)"

definition float_min :: "pyfloat \<Rightarrow> pyfloat \<Rightarrow> pyfloat" where
  "float_min a b = (if float_lt b a then b else a)"

fun merge_opt :: "(pyfloat \<Rightarrow> pyfloat \<Rightarrow> pyfloat) \<Rightarrow> pyfloat option \<Rightarrow> pyfloat option \<Rightarrow> pyfloat option" where
  \<comment> \<open>over the values that are not \<open>None\<close>\<close>
  "merge_opt f (Some a) (Some b) = Some (f a b)"
| "merge_opt f (Some a) None = Some a"
| "merge_opt f None b = b"

definition merge_budget :: "budget_figures option \<Rightarrow> budget_figures \<Rightarrow> budget_figures" where
  "merge_budget current new = (case current of
     None \<Rightarrow> new
   | Some c \<Rightarrow> \<lparr>bf_tokens_used = float_max (bf_tokens_used c) (bf_tokens_used new),
       bf_max_tokens = float_min (bf_max_tokens c) (bf_max_tokens new),
       bf_duration_used_seconds = merge_opt float_max (bf_duration_used_seconds c) (bf_duration_used_seconds new),
       bf_max_duration_seconds = merge_opt float_min (bf_max_duration_seconds c) (bf_max_duration_seconds new),
       bf_cost_used_usd = merge_opt float_max (bf_cost_used_usd c) (bf_cost_used_usd new),
       bf_max_cost_usd = merge_opt float_min (bf_max_cost_usd c) (bf_max_cost_usd new)\<rparr>)"

definition report_budget ::
  "gateway_env \<Rightarrow> gateway_caller \<Rightarrow> budget_figures \<Rightarrow> gateway \<Rightarrow> gateway \<times> budget_figures option" where
  "report_budget env caller figures g =
     (let key = token_key (ge_sha256 env) (ca_token caller) in
      case map_of (gw_sessions g) key of
        None \<Rightarrow> (g, None)
      | Some r \<Rightarrow>
          (let merged = merge_budget (cap_budget (se_capabilities r)) figures in
           (g\<lparr>gw_sessions := AList.update key
                (r\<lparr>se_capabilities := (se_capabilities r)\<lparr>cap_budget := Some merged\<rparr>\<rparr>) (gw_sessions g)\<rparr>,
            Some merged)))"

definition authenticate :: "gateway_env \<Rightarrow> gateway_caller \<Rightarrow> gateway \<Rightarrow> session_record option" where
  "authenticate env caller g =
     (if ca_token caller = [] then None
      else (case map_of (gw_sessions g) (token_key (ge_sha256 env) (ca_token caller)) of
          None \<Rightarrow> None
        | Some r \<Rightarrow>
            if (ca_run_id (se_caller r), ca_principal (se_caller r), ca_engine (se_caller r)) =
               (ca_run_id caller, ca_principal caller, ca_engine caller) then Some r else None))"

section \<open>Policy inputs\<close>

definition budget_as_input :: "gateway_env \<Rightarrow> budget_figures \<Rightarrow> (string, jval) dict" where
  "budget_as_input env b =
     [(''tokens_used'', ge_num env (bf_tokens_used b)), (''max_tokens'', ge_num env (bf_max_tokens b))] @
     concat (map (\<lambda>(name, v). case v of None \<Rightarrow> [] | Some x \<Rightarrow> [(name, ge_num env x)])
       [(''duration_used_seconds'', bf_duration_used_seconds b),
        (''max_duration_seconds'', bf_max_duration_seconds b),
        (''cost_used_usd'', bf_cost_used_usd b), (''max_cost_usd'', bf_max_cost_usd b)])"

definition configured_denied_apps :: "string option \<Rightarrow> string list" where
  "configured_denied_apps env =
     map (\<lambda>i. py_lower (py_strip i)) (filter (\<lambda>i. py_strip i \<noteq> []) (py_split CHR '','' (or_default env [])))"

definition app_names :: "string list \<Rightarrow> string list" where
  "app_names apps = map (\<lambda>a. py_lower (py_strip a)) (filter (\<lambda>a. a \<noteq> []) apps)"

definition jstrs :: "string list \<Rightarrow> jval" where
  "jstrs xs = JList (map JStr xs)"

definition computer_use_input :: "gateway_env \<Rightarrow> gateway_action \<Rightarrow> capabilities \<Rightarrow> (string, jval) dict" where
  "computer_use_input env a caps =
     (let ui = ga_ui a;
          default_control = dict_get [(''ui_observe'', ''observe''), (''browser_read'', ''read''),
             (''browser_navigate'', ''navigate'')] (ga_kind a) [];
          control = (case ui of None \<Rightarrow> [] | Some u \<Rightarrow> ui_control u) in
      [(''action'', JStr (ga_kind a)),
       (''surface'', JStr (if startswith (ga_kind a) ''browser_'' then ''browser'' else ''desktop'')),
       (''control'', JStr (if control \<noteq> [] then control else default_control)),
       (''app'', JStr (py_lower (py_strip (case ui of None \<Rightarrow> [] | Some u \<Rightarrow> ui_app u)))),
       (''allowed_apps'', jstrs (sorted_set (app_names (cap_allowed_apps caps)))),
       (''denied_apps'', jstrs (sorted_set (app_names (cap_denied_apps caps) @
            configured_denied_apps (ge_denied_apps env)))),
       (''sensitive_field'', JBool (case ui of None \<Rightarrow> False | Some u \<Rightarrow> sensitive_field u)),
       (''url_scheme'', JStr (py_lower (case ui of None \<Rightarrow> [] | Some u \<Rightarrow> ui_url_scheme u))),
       (''egress_host'', JStr (ga_egress_host a))])"

definition call_provider :: "gateway_action \<Rightarrow> string" where
  \<comment> \<open>\<open>local\<close> for a loopback engine, else what follows the first colon of the tool\<close>
  "call_provider a = (if is_loopback_host (ga_egress_host a) then ''local''
     else if CHR '':'' \<in> set (ga_tool a) then after CHR '':'' (ga_tool a) else ga_tool a)"

definition agent_policy_input ::
  "gateway_env \<Rightarrow> gateway_action \<Rightarrow> capabilities \<Rightarrow> int \<Rightarrow> (string, jval) dict" where
  "agent_policy_input env a caps tool_calls_used =
     (let operation = dict_get CANONICAL_OPERATION (ga_kind a) (ga_tool a) in
      [(''agent_id'', JStr (ca_engine (ga_caller a))), (''tool'', JStr operation), (''action'', JStr operation),
       (''allowed_tools'', jstrs (sorted_set (cap_allowed_tools caps))), (''resource'', JStr (ga_target a)),
       (''allowed_targets'', jstrs (sort (cap_allowed_egress_hosts caps)))] @
      (if ga_kind a = ''network_egress'' then [(''target'', JStr (ga_target a))] else []) @
      (if ga_kind a = ''model_call'' then
         (''provider'', JStr (call_provider a)) #
         (if cap_data_classification caps \<noteq> []
            then [(''classification'', JStr (cap_data_classification caps))] else []) else []) @
      (if 0 < cap_max_tool_calls caps then
         [(''max_tool_calls'', JNum (py_str_int (cap_max_tool_calls caps))),
          (''tool_calls_used'', JNum (py_str_int tool_calls_used))] else []) @
      (case cap_budget caps of None \<Rightarrow> []
       | Some b \<Rightarrow> [(''budget'', JDict [(''tokens_used'', ge_num env (bf_tokens_used b)),
                                         (''max_tokens'', ge_num env (bf_max_tokens b))])]))"

definition tool_jail_input :: "gateway_action \<Rightarrow> capabilities \<Rightarrow> (string, jval) dict" where
  "tool_jail_input a caps =
     (let jail = or_default (ga_jail a) UNJAILED;
          executable = (if ga_executable a \<noteq> [] then ga_executable a else ga_tool a) in
      [(''command'', jstrs (if executable \<noteq> [] then [executable] else [])),
       (''allowed_executables'', jstrs (cap_allowed_executables caps)),
       (''isolation_tier'', JStr (jf_strategy jail)), (''readonly_rootfs'', JBool (jf_readonly_rootfs jail)),
       (''run_as_user'', JStr (jf_run_as_user jail)), (''allow_network'', JBool (jf_allow_network jail)),
       (''require_egress_mediation'', JBool (jf_require_egress_mediation jail)),
       (''appcontainer'', JBool (jf_appcontainer jail)), (''job_object'', JBool (jf_job_object jail)),
       (''require_appcontainer'', JBool (jf_require_appcontainer jail)),
       (''runtime_profile'', JStr (py_lower (py_strip (cap_runtime_profile caps)))),
       (''allowed_hosts'', JList []), (''requested_hosts'', JList [])])"

definition filesystem_access_input :: "gateway_action \<Rightarrow> capabilities \<Rightarrow> (string, jval) dict" where
  "filesystem_access_input a caps =
     [(''action'', JStr (if ga_kind a = ''file_write'' then ''write'' else ''read'')),
      (''path'', JStr (ga_target a)), (''allowed_paths'', jstrs (cap_read_roots caps)),
      (''allowed_write_paths'', jstrs (cap_write_roots caps))]"

definition network_egress_input :: "string \<Rightarrow> capabilities \<Rightarrow> (string, jval) dict" where
  "network_egress_input host caps =
     [(''action'', JStr ''network_egress''), (''target'', JStr host),
      (''allowed_targets'', jstrs (sort (cap_allowed_egress_hosts caps)))]"

definition policy_inputs ::
  "gateway_env \<Rightarrow> gateway_action \<Rightarrow> capabilities \<Rightarrow> int \<Rightarrow> (string \<times> jval) list" where
  "policy_inputs env a caps tool_calls_used =
     (let egress_host = (if ga_egress_host a \<noteq> [] then ga_egress_host a
                         else if ga_kind a = ''network_egress'' then ga_target a else []) in
      [(''agent_policy'', JDict (agent_policy_input env a caps tool_calls_used))] @
      (if ga_kind a = ''process_exec'' then [(''tool_jail'', JDict (tool_jail_input a caps))] else []) @
      (if ga_kind a \<in> {''file_read'', ''file_write''}
         then [(''filesystem_access'', JDict (filesystem_access_input a caps))] else []) @
      (if ga_kind a = ''network_egress'' \<or> egress_host \<noteq> []
         then [(''network_egress'', JDict (network_egress_input egress_host caps))] else []) @
      (if ga_kind a \<in> set COMPUTER_USE_KINDS
         then [(''computer_use'', JDict (computer_use_input env a caps))] else []) @
      (case cap_budget caps of None \<Rightarrow> []
       | Some b \<Rightarrow> [(''budget_policy'', JDict (budget_as_input env b))]))"

definition host_of :: "string \<Rightarrow> string" where
  "host_of url = (case urlparse (py_strip url) of
     None \<Rightarrow> [] | Some p \<Rightarrow> py_lower (or_default (url_hostname p) []))"

section \<open>Authorize\<close>

definition is_tool_call :: "string \<Rightarrow> bool" where
  "is_tool_call kind = (kind \<in> {''tool_call'', ''mcp_tool_call''})"

definition raise_risk :: "gateway_env \<Rightarrow> capabilities \<Rightarrow> gateway_action \<Rightarrow> gateway_action" where
  \<comment> \<open>step 2: recompute the class, keep the higher one\<close>
  "raise_risk env caps a =
     (let recomputed = classify_risk (ge_policy_root env) (ga_kind a) (ga_tool a) (ga_target a)
             (ga_command_summary a) [] (ga_method a) (cap_write_roots caps) (ga_egress_host a) (ga_ui a) in
      if ga_risk a < recomputed then a\<lparr>ga_risk := recomputed\<rparr> else a)"

definition DENY_REASON :: rx where
  \<comment> \<open>\<open>[a-z0-9_]{1,64}\<close>\<close>
  "DENY_REASON = Ch (\<lambda>c. is_lower c \<or> is_digit c \<or> c = CHR ''_'')"

definition deny_label :: "decision \<Rightarrow> string option" where
  "deny_label d = (case map_of (dec_outputs d) ''deny_reason'' of
     Some (JStr s) \<Rightarrow> if rx_fullmatch (many1 DENY_REASON) s \<and> length s \<le> 64 then Some s else None
   | _ \<Rightarrow> None)"

record policy_tally =
  pt_denied :: bool
  pt_reasons :: "string list"
  pt_versions :: "string list"

definition ask_policy ::
  "(string \<Rightarrow> jval \<Rightarrow> decision res) \<Rightarrow> policy_tally \<Rightarrow> string \<times> jval \<Rightarrow> policy_tally" where
  \<comment> \<open>the body of the loop of step 4\<close>
  "ask_policy engine t pp = (case pp of (policy, payload) \<Rightarrow>
     case engine policy payload of
       Inl _ \<Rightarrow> t\<lparr>pt_denied := True, pt_reasons := pt_reasons t @ [REASON_ENGINE_ERROR @ '':'' @ policy]\<rparr>
     | Inr d \<Rightarrow>
         (let t = (if dec_policy_version d \<noteq> [] then t\<lparr>pt_versions := pt_versions t @ [dec_policy_version d]\<rparr>
                   else t) in
          if \<not> dec_allow d then
            t\<lparr>pt_denied := True,
              pt_reasons := pt_reasons t @
                (if dec_reasons d \<noteq> [] then dec_reasons d else [policy @ ''.not_allowed'']) @
                (case deny_label d of None \<Rightarrow> [] | Some s \<Rightarrow> [policy @ ''.'' @ s])\<rparr>
          else
            t\<lparr>pt_reasons := pt_reasons t @
                (if dec_reasons d \<noteq> [] then dec_reasons d else [policy @ ''.allow''])\<rparr>))"

definition evaluate_policies ::
  "(string \<Rightarrow> jval \<Rightarrow> decision res) \<Rightarrow> (string \<times> jval) list \<Rightarrow> policy_tally" where
  "evaluate_policies engine plan =
     foldl (ask_policy engine) \<lparr>pt_denied = False, pt_reasons = [], pt_versions = []\<rparr> plan"

definition versions_text :: "string list \<Rightarrow> string" where
  "versions_text vs = (let t = py_join '','' (sorted_set vs) in if t \<noteq> [] then t else ''unknown'')"

definition finish ::
  "gateway_env \<Rightarrow> string \<Rightarrow> gateway_action \<Rightarrow> session_record option \<Rightarrow> outcome \<Rightarrow> string list \<Rightarrow> string
     \<Rightarrow> gateway \<Rightarrow> gateway \<times> gateway_decision" where
  \<comment> \<open>\<open>_finish\<close>; the second argument is the audit id\<close>
  "finish env audit_id a session outcome reasons policy_version g =
     (let version = (if policy_version \<noteq> [] then policy_version else ''unknown'');
          fp = fingerprint (ge_hmac env) a;
          audit = \<lparr>gr_audit_id = audit_id, gr_created_at = ge_clock env,
            gr_principal = (if ca_principal (ga_caller a) \<noteq> [] then ca_principal (ga_caller a)
                            else ''unauthenticated''),
            gr_run_id = ca_run_id (ga_caller a), gr_engine = ca_engine (ga_caller a),
            gr_action_kind = ga_kind a, gr_tool = ga_tool a, gr_target = ga_target a,
            gr_outcome = outcome, gr_reasons = reasons, gr_policy_version = version,
            gr_risk_class = risk_label (ga_risk a), gr_args_summary = ga_args_summary a,
            gr_command = ga_command_summary a, gr_fingerprint = fp\<rparr>;
          accepted = ge_sink env audit;
          decision = sealed (ge_hmac env) \<lparr>gd_outcome = (if accepted then outcome else Deny),
            gd_reasons = (if accepted then reasons else reasons @ [REASON_AUDIT_UNAVAILABLE]),
            gd_audit_id = audit_id, gd_policy_version = version, gd_risk = ga_risk a,
            gd_action_kind = ga_kind a, gd_tool = ga_tool a, gd_target = ga_target a,
            gd_fingerprint = fp, gd_args_digest = ga_args_digest a, gd_seal = []\<rparr>;
          heard = (case session of None \<Rightarrow> False | Some r \<Rightarrow> se_listener r) in
      (g\<lparr>gw_audit := gw_audit g @ (if accepted then [audit] else []),
         gw_notified := gw_notified g @ (if heard then [(a, decision)] else [])\<rparr>, decision))"

definition covering_grant ::
  "gateway_env \<Rightarrow> gateway_action \<Rightarrow> capabilities \<Rightarrow> string option \<times> string list" where
  \<comment> \<open>the id of a covering grant, and the reason a failing verifier adds\<close>
  "covering_grant env a caps = (case ge_grants env of
     Matcher m \<Rightarrow> (case m a caps of
        Inl _ \<Rightarrow> (None, [REASON_GRANT_ERROR])
      | Inr found \<Rightarrow> (found, []))
   | Coverer c \<Rightarrow> (case c a caps of
        Inl _ \<Rightarrow> (None, [REASON_GRANT_ERROR])
      | Inr b \<Rightarrow> (if b then Some [] else None, [])))"

definition ask_or_approved ::
  "gateway_env \<Rightarrow> string \<Rightarrow> gateway_action \<Rightarrow> session_record \<Rightarrow> string list \<Rightarrow> string \<Rightarrow> gateway
     \<Rightarrow> gateway \<times> gateway_decision" where
  "ask_or_approved env audit_id a r reasons policy_version g =
     (case consume (ca_run_id (ga_caller a)) (fingerprint (ge_hmac env) a) g of
        (g, Some _) \<Rightarrow> finish env audit_id a (Some r) Allow (reasons @ [REASON_APPROVED]) policy_version g
      | (g, None) \<Rightarrow>
          finish env audit_id a (Some r) Ask (reasons @ [REASON_APPROVAL_REQUIRED]) policy_version g)"

definition count_tool_call :: "gateway_env \<Rightarrow> gateway_caller \<Rightarrow> gateway \<Rightarrow> gateway" where
  "count_tool_call env caller g =
     g\<lparr>gw_sessions := map_ran (\<lambda>k r. if k = token_key (ge_sha256 env) (ca_token caller)
        then r\<lparr>se_tool_calls_used := se_tool_calls_used r + 1\<rparr> else r) (gw_sessions g)\<rparr>"

definition needs_ask :: "capabilities \<Rightarrow> gateway_action \<Rightarrow> bool" where
  "needs_ask caps a = (ga_risk a = R3 \<or> (ga_risk a = R2 \<and> cap_autonomy_tier caps = Tier_supervised))"

definition is_tainted :: "gateway_action \<Rightarrow> bool" where
  "is_tainted a = (ga_tainted a \<or> ga_kind a \<in> set COMPUTER_USE_KINDS)"

definition allow_action ::
  "gateway_env \<Rightarrow> string \<Rightarrow> gateway_action \<Rightarrow> session_record \<Rightarrow> string list \<Rightarrow> string \<Rightarrow> gateway
     \<Rightarrow> gateway \<times> gateway_decision" where
  \<comment> \<open>the end of step 6: the decision, and the tool call counted when it stands\<close>
  "allow_action env audit_id a r reasons policy_version g =
     (case finish env audit_id a (Some r) Allow reasons policy_version g of (g, d) \<Rightarrow>
        (if gd_outcome d = Allow \<and> is_tool_call (ga_kind a) then count_tool_call env (ga_caller a) g else g, d))"

definition decide_by_risk ::
  "gateway_env \<Rightarrow> string \<Rightarrow> gateway_action \<Rightarrow> session_record \<Rightarrow> string list \<Rightarrow> string \<Rightarrow> gateway
     \<Rightarrow> gateway \<times> gateway_decision" where
  \<comment> \<open>step 6\<close>
  "decide_by_risk env audit_id a r reasons policy_version g =
     (let caps = se_capabilities r in
      if R4 \<le> ga_risk a then
        finish env audit_id a (Some r) Deny (reasons @ [REASON_R4_PROHIBITED]) policy_version g
      else if \<not> needs_ask caps a then allow_action env audit_id a r reasons policy_version g
      else if is_tainted a then
        ask_or_approved env audit_id a r (reasons @ [REASON_TAINT_NO_GRANT]) policy_version g
      else (case covering_grant env a caps of
          (Some grant_id, extra) \<Rightarrow>
            allow_action env audit_id a r
              (reasons @ extra @ [REASON_GRANT] @
               (if grant_id \<noteq> [] then [REASON_GRANT_ID_PREFIX @ grant_id] else [])) policy_version g
        | (None, extra) \<Rightarrow> ask_or_approved env audit_id a r (reasons @ extra) policy_version g))"

definition review_intent :: "gateway_env \<Rightarrow> gateway_action \<Rightarrow> capabilities \<Rightarrow> outcome \<times> string list" where
  \<comment> \<open>step 5; without a gate, and for an \<open>allow\<close>, step 6 decides\<close>
  "review_intent env a caps = (case ge_intent_gate env of
     None \<Rightarrow> (Allow, [])
   | Some review \<Rightarrow> (case review a caps of
        Inl _ \<Rightarrow> (Deny, [''gateway.intent_gate_error''])
      | Inr verdict \<Rightarrow> verdict))"

definition authorize ::
  "gateway_env \<Rightarrow> string \<Rightarrow> gateway_action \<Rightarrow> gateway \<Rightarrow> gateway \<times> gateway_decision" where
  \<comment> \<open>the second argument is the fresh audit id\<close>
  "authorize env audit_id action g =
     (case authenticate env (ga_caller action) g of
        None \<Rightarrow> finish env audit_id action None Deny [REASON_UNAUTHENTICATED] [] g
      | Some r \<Rightarrow>
          if ga_kind action \<notin> set ACTION_KINDS \<or> ga_tool action = [] then
            finish env audit_id action (Some r) Deny [REASON_INVALID_ACTION] [] g
          else
            (let caps = se_capabilities r;
                 a = raise_risk env caps action;
                 tool_calls_used = se_tool_calls_used r + (if is_tool_call (ga_kind a) then 1 else 0);
                 t = evaluate_policies (ge_engine env) (policy_inputs env a caps tool_calls_used);
                 version = versions_text (pt_versions t) in
             if pt_denied t then finish env audit_id a (Some r) Deny (pt_reasons t) version g
             else (case review_intent env a caps of
                 (Deny, rs) \<Rightarrow> finish env audit_id a (Some r) Deny (pt_reasons t @ rs) version g
               | (Ask, rs) \<Rightarrow> ask_or_approved env audit_id a r (pt_reasons t @ rs) version g
               | (Allow, rs) \<Rightarrow> decide_by_risk env audit_id a r (pt_reasons t @ rs) version g)))"

section \<open>Unbound callers\<close>

definition UNBOUND_CALLER :: gateway_caller where
  "UNBOUND_CALLER = \<lparr>ca_run_id = [], ca_principal = [], ca_engine = ''unbound'', ca_token = []\<rparr>"

definition not_installed_decision :: "(string \<Rightarrow> string) \<Rightarrow> gateway_action \<Rightarrow> gateway_decision" where
  "not_installed_decision hmac a = sealed hmac \<lparr>gd_outcome = Deny, gd_reasons = [REASON_NOT_INSTALLED],
     gd_audit_id = [], gd_policy_version = ''unknown'', gd_risk = ga_risk a, gd_action_kind = ga_kind a,
     gd_tool = ga_tool a, gd_target = ga_target a, gd_fingerprint = fingerprint hmac a,
     gd_args_digest = ga_args_digest a, gd_seal = []\<rparr>"

definition authorize_unbound ::
  "gateway_env \<Rightarrow> string \<Rightarrow> gateway_action \<Rightarrow> gateway option \<Rightarrow> gateway option \<times> gateway_decision" where
  \<comment> \<open>\<open>authorize_action\<close> without a session: the installed gateway, if any, sees the unbound caller\<close>
  "authorize_unbound env audit_id action installed =
     (let a = action\<lparr>ga_caller := UNBOUND_CALLER\<rparr> in
      case installed of
        None \<Rightarrow> (None, not_installed_decision (ge_hmac env) a)
      | Some g \<Rightarrow> (case authorize env audit_id a g of (g, d) \<Rightarrow> (Some g, d)))"

definition gateway_enforcing :: "bool \<Rightarrow> gateway option \<Rightarrow> bool" where
  \<comment> \<open>the first argument: the engine reports itself running\<close>
  "gateway_enforcing engine_running installed = (installed \<noteq> None \<and> engine_running)"

definition gateway_message :: "gateway_decision \<Rightarrow> string \<Rightarrow> string" where
  "gateway_message d tool =
     (let reasons = (if py_join '', '' (gd_reasons d) \<noteq> [] then py_join '', '' (gd_reasons d)
                     else ''no reason given'');
          place = (if gd_target d \<noteq> [] then '' on '' @ [CHR 0x27] @ gd_target d @ [CHR 0x27] else []) in
      if gd_outcome d = Ask then
        ''[permission required] '' @ tool @ '': '' @ gd_action_kind d @ place @ '' is risk '' @
        risk_label (gd_risk d) @ '' and needs human approval (request '' @ gd_audit_id d @
        ''). It was NOT executed. Continue with other work; retry this exact action only after it has been approved.''
      else
        ''[denied by policy] '' @ tool @ '': '' @ gd_action_kind d @ place @ '' was denied by the gateway ('' @
        reasons @ ''; audit '' @ (if gd_audit_id d \<noteq> [] then gd_audit_id d else ''n/a'') @
        ''). It was NOT executed. Do not retry the same action; choose another approach or report the blocker.'')"

definition default_allowed_executables :: "string option \<Rightarrow> string list" where
  \<comment> \<open>\<open>LOCUS_GATEWAY_ALLOWED_EXECUTABLES\<close>\<close>
  "default_allowed_executables env =
     (let configured = py_strip (or_default env []) in
      if configured \<noteq> [] then
        map py_strip (filter (\<lambda>i. py_strip i \<noteq> []) (py_split CHR '','' configured))
      else [''bash'', ''sh'', ''git'', ''python'', ''python3'', ''pytest'', ''rg'', ''grep'', ''codex''])"

end
