(* ===== verification/Gateway_Decisions.thy ===== *)
theory Gateway_Decisions
  imports Gateway
begin

text \<open>
  Correctness of the gateway of \<open>locus_runtime/gateway.py\<close>: what an allow means, that every decision
  is recorded, single use of approvals, the invariant of the two tables over all operations, the life
  of a session, budget reports and the seal of a decision.
\<close>

section \<open>Specification predicates and sample values\<close>

definition policy_allows :: "gateway_env \<Rightarrow> string \<times> jval \<Rightarrow> bool" where
  "policy_allows env pp = (case ge_engine env (fst pp) (snd pp) of Inl _ \<Rightarrow> False | Inr d \<Rightarrow> dec_allow d)"

definition calls_used :: "session_record \<Rightarrow> gateway_action \<Rightarrow> int" where
  "calls_used r a = se_tool_calls_used r + (if is_tool_call (ga_kind a) then 1 else 0)"

definition approval_key :: "gateway_env \<Rightarrow> gateway_action \<Rightarrow> string \<times> string" where
  "approval_key env a = (ca_run_id (ga_caller a), fingerprint (ge_hmac env) a)"

definition audited :: "gateway_env \<Rightarrow> string \<Rightarrow> gateway_action \<Rightarrow> gateway \<Rightarrow> gateway \<Rightarrow> bool" where
  "audited env audit_id a g g' = (\<exists>rec. gw_audit g' = gw_audit g @ [rec] \<and> gr_outcome rec = Allow \<and>
     gr_audit_id rec = audit_id \<and> gr_fingerprint rec = fingerprint (ge_hmac env) a \<and>
     gr_run_id rec = ca_run_id (ga_caller a))"

definition approved :: "gateway_env \<Rightarrow> gateway_action \<Rightarrow> gateway \<Rightarrow> gateway \<Rightarrow> bool" where
  "approved env a g g' = (map_of (gw_approvals g) (approval_key env a) \<noteq> None \<and>
     gw_approvals g' = AList.delete (approval_key env a) (gw_approvals g))"

definition recorded :: "gateway_env \<Rightarrow> string \<Rightarrow> gateway \<Rightarrow> gateway \<Rightarrow> gateway_decision \<Rightarrow> bool" where
  "recorded env audit_id g g' d = (\<exists>rec. gr_audit_id rec = audit_id \<and> gr_fingerprint rec = gd_fingerprint d \<and>
    (if ge_sink env rec then gw_audit g' = gw_audit g @ [rec] \<and> gr_outcome rec = gd_outcome d \<and>
        gr_reasons rec = gd_reasons d
     else gw_audit g' = gw_audit g \<and> gd_outcome d = Deny))"

definition ends_in ::
  "gateway_env \<Rightarrow> string \<Rightarrow> gateway_action \<Rightarrow> gateway \<Rightarrow> gateway \<Rightarrow> gateway_decision \<Rightarrow> bool" where
  "ends_in env audit_id action g g' d = (\<exists>a r out rs v h h'.
     finish env audit_id a r out rs v h = (h', d) \<and>
     (a = action \<or> (\<exists>caps. a = raise_risk env caps action)) \<and>
     (h = g \<or> h = fst (consume (ca_run_id (ga_caller action)) (fingerprint (ge_hmac env) action) g)) \<and>
     (g' = h' \<or> g' = count_tool_call env (ga_caller action) h'))"

fun authorize_all ::
  "gateway_env \<Rightarrow> (string \<times> gateway_action) list \<Rightarrow> gateway \<Rightarrow> gateway \<times> gateway_decision list" where
  "authorize_all env [] g = (g, [])"
| "authorize_all env ((audit_id, a) # as) g =
     (case authorize env audit_id a g of (g, d) \<Rightarrow>
        case authorize_all env as g of (g, ds) \<Rightarrow> (g, d # ds))"

definition asks_human :: "gateway_env \<Rightarrow> gateway_action \<Rightarrow> bool" where
  \<comment> \<open>the class the caller computed already asks, and no grant can apply\<close>
  "asks_human env a = (ga_risk a = R3 \<and> is_tainted a)"

inductive gateway_step :: "(string \<Rightarrow> string) \<Rightarrow> gateway \<Rightarrow> gateway \<Rightarrow> bool" for sha where
  opens: "ge_sha256 env = sha \<Longrightarrow> open_session env token run_id prin engine caps l g = Inr (g', c) \<Longrightarrow>
     gateway_step sha g g'"
| closes: "ge_sha256 env = sha \<Longrightarrow> gateway_step sha g (close_session env c g)"
| reports: "ge_sha256 env = sha \<Longrightarrow> gateway_step sha g (fst (report_budget env c figures g))"
| approves: "approve run_id fp approver g = Inr g' \<Longrightarrow> gateway_step sha g g'"
| revokes: "gateway_step sha g (revoke_run run_id g)"
| authorizes: "ge_sha256 env = sha \<Longrightarrow> gateway_step sha g (fst (authorize env audit_id a g))"

definition session_ok :: "(string \<Rightarrow> string) \<Rightarrow> bool \<Rightarrow> string \<times> session_record \<Rightarrow> bool" where
  "session_ok sha allow_eval kr = (case kr of (k, r) \<Rightarrow>
     k = token_key sha (ca_token (se_caller r)) \<and> 0 \<le> se_tool_calls_used r \<and>
     py_strip (ca_run_id (se_caller r)) \<noteq> [] \<and> py_strip (ca_principal (se_caller r)) \<noteq> [] \<and>
     (py_lower (py_strip (cap_runtime_profile (se_capabilities r))) = EVALS_PROFILE \<longrightarrow> allow_eval))"

definition gateway_inv :: "(string \<Rightarrow> string) \<Rightarrow> gateway \<Rightarrow> bool" where
  "gateway_inv sha g \<longleftrightarrow>
     table_inv (gw_max_sessions g) (gw_sessions g) \<and>
     table_inv (gw_approvals_max g) (gw_approvals g) \<and>
     (\<forall>kr \<in> set (gw_sessions g). session_ok sha (gw_allow_eval_sessions g) kr)"

definition never_below :: "pyfloat option \<Rightarrow> pyfloat option \<Rightarrow> bool" where
  \<comment> \<open>a figure that was there stays, and is not replaced by a smaller one\<close>
  "never_below new old = (case old of None \<Rightarrow> True
     | Some a \<Rightarrow> (case new of None \<Rightarrow> False | Some b \<Rightarrow> \<not> float_lt b a))"

definition never_above :: "pyfloat option \<Rightarrow> pyfloat option \<Rightarrow> bool" where
  "never_above new old = (case old of None \<Rightarrow> True
     | Some a \<Rightarrow> (case new of None \<Rightarrow> False | Some b \<Rightarrow> \<not> float_lt a b))"

definition tighter :: "budget_figures \<Rightarrow> budget_figures \<Rightarrow> bool" where
  "tighter new old \<longleftrightarrow>
     never_below (Some (bf_tokens_used new)) (Some (bf_tokens_used old)) \<and>
     never_above (Some (bf_max_tokens new)) (Some (bf_max_tokens old)) \<and>
     never_below (bf_duration_used_seconds new) (bf_duration_used_seconds old) \<and>
     never_above (bf_max_duration_seconds new) (bf_max_duration_seconds old) \<and>
     never_below (bf_cost_used_usd new) (bf_cost_used_usd old) \<and>
     never_above (bf_max_cost_usd new) (bf_max_cost_usd old)"

definition plain_fields :: "gateway_decision \<Rightarrow> bool" where
  "plain_fields d = list_all (\<lambda>f. CHR ''|'' \<notin> set f)
     [gd_audit_id d, gd_action_kind d, gd_tool d, gd_fingerprint d, gd_args_digest d]"

definition sample_env :: gateway_env where
  \<comment> \<open>an engine that allows everything, a sink that accepts everything, no grants and no intent gate\<close>
  "sample_env = \<lparr>ge_engine = (\<lambda>_ _. Inr \<lparr>dec_allow = True, dec_reasons = [], dec_policy_version = ''v1'',
       dec_backend = ''opa'', dec_outputs = []\<rparr>),
     ge_sink = (\<lambda>_. True), ge_grants = NoGrants, ge_intent_gate = None, ge_clock = Fin 0,
     ge_sha256 = (\<lambda>s. s), ge_hmac = (\<lambda>s. s), ge_policy_root = [], ge_denied_apps = None,
     ge_num = (\<lambda>_. JNull), ge_show = (\<lambda>_. ''?''), ge_show_ui = (\<lambda>_. [])\<rparr>"

definition sample_caller :: gateway_caller where
  "sample_caller = \<lparr>ca_run_id = ''run'', ca_principal = ''p'', ca_engine = ''e'', ca_token = ''t''\<rparr>"

definition sample_action :: "string \<Rightarrow> risk_class \<Rightarrow> gateway_action" where
  "sample_action tool risk = \<lparr>ga_caller = sample_caller, ga_kind = ''tool_call'', ga_tool = tool, ga_target = [],
     ga_args_summary = [], ga_risk = risk, ga_args_digest = ''d'', ga_command_summary = [], ga_executable = [],
     ga_jail = None, ga_egress_host = [], ga_method = [], ga_facets = [], ga_ui = None, ga_tainted = True\<rparr>"

definition sample_budget :: "nat \<Rightarrow> budget_figures" where
  "sample_budget n = \<lparr>bf_tokens_used = Fin (of_nat n), bf_max_tokens = Fin 100, bf_duration_used_seconds = None,
     bf_max_duration_seconds = None, bf_cost_used_usd = None, bf_max_cost_usd = None\<rparr>"

definition sample_gateway :: "string \<Rightarrow> gateway" where
  \<comment> \<open>one session, and one approval for a call of the given tool\<close>
  "sample_gateway tool = (new_gateway 4 4 False)\<lparr>gw_sessions := [(''t'',
     \<lparr>se_caller = sample_caller, se_capabilities = default_capabilities\<lparr>cap_budget := Some (sample_budget 7)\<rparr>,
      se_listener = True, se_tool_calls_used = 0\<rparr>)],
     gw_approvals := [((''run'', fingerprint (\<lambda>s. s) (sample_action tool R3)), ''alice'')]\<rparr>"

definition asking_env :: gateway_env where
  "asking_env = sample_env\<lparr>ge_intent_gate := Some (\<lambda>_ _. Inr (Ask, [''intent.unclear'']))\<rparr>"

definition sample_decision :: "outcome \<Rightarrow> gateway_decision" where
  "sample_decision out = sealed (\<lambda>s. s) \<lparr>gd_outcome = out, gd_reasons = [], gd_audit_id = ''a1'',
     gd_policy_version = [], gd_risk = R1, gd_action_kind = ''tool_call'', gd_tool = ''x'', gd_target = [],
     gd_fingerprint = ''f'', gd_args_digest = ''d'', gd_seal = []\<rparr>"

section \<open>Lemmas\<close>

lemma ask_policy_denied:
  "pt_denied (ask_policy (ge_engine env) t pp) \<longleftrightarrow> pt_denied t \<or> \<not> policy_allows env pp"
  by (auto simp: ask_policy_def policy_allows_def Let_def split: sum.splits prod.splits)

lemma evaluate_policies_denied:
  "pt_denied (evaluate_policies (ge_engine env) plan) \<longleftrightarrow> (\<exists>pp \<in> set plan. \<not> policy_allows env pp)"
proof -
  have "pt_denied (foldl (ask_policy (ge_engine env)) t plan) \<longleftrightarrow>
      pt_denied t \<or> (\<exists>pp \<in> set plan. \<not> policy_allows env pp)" for t
    by (induction plan arbitrary: t) (auto simp: ask_policy_denied)
  then show ?thesis by (simp add: evaluate_policies_def)
qed

lemma finish_allow:
  assumes "finish env audit_id a r out reasons version g = (g', d)" and "gd_outcome d = Allow"
  shows "out = Allow"
    and "audited env audit_id a g g'"
  using assms by (auto simp: finish_def Let_def sealed_def audited_def split: if_splits)

lemma finish_fields:
  assumes "finish env audit_id a r out reasons version g = (g', d)"
  shows "gw_approvals g' = gw_approvals g" "gw_sessions g' = gw_sessions g"
    "gw_approvals_max g' = gw_approvals_max g" "gw_max_sessions g' = gw_max_sessions g"
    "gw_allow_eval_sessions g' = gw_allow_eval_sessions g"
    "gd_risk d = ga_risk a" "gd_audit_id d = audit_id" "gd_fingerprint d = fingerprint (ge_hmac env) a"
    "gd_seal d = seal_of (ge_hmac env) d" "gd_outcome d \<in> {out, Deny}" "gd_action_kind d = ga_kind a"
    "prefix (gw_audit g) (gw_audit g')"
  using assms by (auto simp: finish_def Let_def sealed_def seal_of_def seal_material_def)

lemma finish_outcome: "gd_outcome (snd (finish env audit_id a r out reasons version g)) = Allow \<Longrightarrow> out = Allow"
  by (metis finish_allow(1) prod.collapse)

lemma ask_or_approved_allow:
  assumes "ask_or_approved env audit_id a r reasons version g = (g', d)" and "gd_outcome d = Allow"
  shows "map_of (gw_approvals g) (approval_key env a) \<noteq> None"
    and "gw_approvals g' = AList.delete (approval_key env a) (gw_approvals g)"
    and "audited env audit_id a g g'"
proof -
  let ?g = "g\<lparr>gw_approvals := AList.delete (approval_key env a) (gw_approvals g)\<rparr>"
  have *: "map_of (gw_approvals g) (approval_key env a) \<noteq> None \<and>
    (\<exists>rs. finish env audit_id a (Some r) Allow rs version ?g = (g', d))"
    using assms finish_allow(1)
    by (fastforce simp: ask_or_approved_def consume_def approval_key_def split: option.splits)
  then obtain rs where f: "finish env audit_id a (Some r) Allow rs version ?g = (g', d)" by blast
  show "map_of (gw_approvals g) (approval_key env a) \<noteq> None" using * by blast
  show "gw_approvals g' = AList.delete (approval_key env a) (gw_approvals g)"
    using finish_fields(1) [OF f] by simp
  show "audited env audit_id a g g'"
    using finish_allow(2) [OF f assms(2)] by (simp add: audited_def)
qed

lemma allow_action_allow:
  assumes "allow_action env audit_id a r reasons version g = (g', d)" and "gd_outcome d = Allow"
  shows "gw_approvals g' = gw_approvals g"
    and "audited env audit_id a g g'"
    and "gw_sessions g' = (if is_tool_call (ga_kind a)
           then gw_sessions (count_tool_call env (ga_caller a) g) else gw_sessions g)"
proof -
  obtain h where f: "finish env audit_id a (Some r) Allow reasons version g = (h, d)"
    and g': "g' = (if is_tool_call (ga_kind a) then count_tool_call env (ga_caller a) h else h)"
    using assms by (auto simp: allow_action_def split: prod.splits if_splits)
  show "gw_approvals g' = gw_approvals g" using finish_fields(1) [OF f] g' by (simp add: count_tool_call_def)
  show "audited env audit_id a g g'"
    using finish_allow(2) [OF f assms(2)] g' by (simp add: count_tool_call_def audited_def)
  show "gw_sessions g' = (if is_tool_call (ga_kind a)
      then gw_sessions (count_tool_call env (ga_caller a) g) else gw_sessions g)"
    using finish_fields(2) [OF f] g' by (simp add: count_tool_call_def)
qed

lemma decide_by_risk_AllowE:
  assumes "decide_by_risk env audit_id a r reasons version g = (g', d)" and "gd_outcome d = Allow"
  obtains (direct) rs where "ga_risk a < R4" "allow_action env audit_id a r rs version g = (g', d)"
      "needs_ask (se_capabilities r) a \<longrightarrow>
         \<not> is_tainted a \<and> fst (covering_grant env a (se_capabilities r)) \<noteq> None"
    | (human) rs where "ga_risk a < R4" "needs_ask (se_capabilities r) a"
      "ask_or_approved env audit_id a r rs version g = (g', d)"
proof (cases "R4 \<le> ga_risk a")
  case True
  then have "finish env audit_id a (Some r) Deny (reasons @ [REASON_R4_PROHIBITED]) version g = (g', d)"
    using assms(1) by (simp add: decide_by_risk_def Let_def)
  from finish_allow(1) [OF this assms(2)] show ?thesis by simp
next
  case low: False
  note run = assms(1) [unfolded decide_by_risk_def Let_def]
  show ?thesis
  proof (cases "needs_ask (se_capabilities r) a")
    case False
    then show ?thesis using direct run low by auto
  next
    case ask: True
    show ?thesis
    proof (cases "is_tainted a")
      case True
      then show ?thesis using human run low ask by auto
    next
      case False
      then show ?thesis using direct human run low ask
        by (cases "covering_grant env a (se_capabilities r)") (auto split: option.splits)
    qed
  qed
qed

lemma raise_risk_fields [simp]:
  "ga_caller (raise_risk env caps a) = ga_caller a" "ga_kind (raise_risk env caps a) = ga_kind a"
  "ga_tool (raise_risk env caps a) = ga_tool a" "ga_target (raise_risk env caps a) = ga_target a"
  "ga_egress_host (raise_risk env caps a) = ga_egress_host a"
  "ga_args_digest (raise_risk env caps a) = ga_args_digest a"
  "ga_tainted (raise_risk env caps a) = ga_tainted a"
  by (simp_all add: raise_risk_def Let_def)

lemma fingerprint_raise_risk [simp]:
  "fingerprint hmac (raise_risk env caps a) = fingerprint hmac a"
  by (simp add: fingerprint_def)

lemma approval_key_raise_risk [simp]: "approval_key env (raise_risk e caps a) = approval_key env a"
  by (simp add: approval_key_def)

lemma approved_raise_risk [simp]: "approved env (raise_risk e caps a) g g' = approved env a g g'"
  by (simp add: approved_def)

lemma raise_risk_ge: "ga_risk a \<le> ga_risk (raise_risk env caps a)"
  by (auto simp: raise_risk_def Let_def)

lemma raise_risk_recomputed:
  "classify_risk (ge_policy_root env) (ga_kind a) (ga_tool a) (ga_target a) (ga_command_summary a) []
     (ga_method a) (cap_write_roots caps) (ga_egress_host a) (ga_ui a) \<le> ga_risk (raise_risk env caps a)"
  by (auto simp: raise_risk_def Let_def not_less)

text \<open>The branches of the handler, with the state and the outcome each passes on.\<close>

lemma authorize_cases:
  assumes "authorize env audit_id action g = (g', d)"
  obtains
    (unauthenticated) "authenticate env (ga_caller action) g = None"
      "finish env audit_id action None Deny [REASON_UNAUTHENTICATED] [] g = (g', d)"
  | (invalid) r where "authenticate env (ga_caller action) g = Some r"
      "ga_kind action \<notin> set ACTION_KINDS \<or> ga_tool action = []"
      "finish env audit_id action (Some r) Deny [REASON_INVALID_ACTION] [] g = (g', d)"
  | (refused) r rs v where "authenticate env (ga_caller action) g = Some r"
      "finish env audit_id (raise_risk env (se_capabilities r) action) (Some r) Deny rs v g = (g', d)"
  | (gate_asks) r rs v where "authenticate env (ga_caller action) g = Some r"
      "ga_kind action \<in> set ACTION_KINDS" "ga_tool action \<noteq> []"
      "\<forall>pp \<in> set (policy_inputs env (raise_risk env (se_capabilities r) action) (se_capabilities r)
          (calls_used r action)). policy_allows env pp"
      "fst (review_intent env (raise_risk env (se_capabilities r) action) (se_capabilities r)) = Ask"
      "ask_or_approved env audit_id (raise_risk env (se_capabilities r) action) r rs v g = (g', d)"
  | (by_risk) r rs v where "authenticate env (ga_caller action) g = Some r"
      "ga_kind action \<in> set ACTION_KINDS" "ga_tool action \<noteq> []"
      "\<forall>pp \<in> set (policy_inputs env (raise_risk env (se_capabilities r) action) (se_capabilities r)
          (calls_used r action)). policy_allows env pp"
      "fst (review_intent env (raise_risk env (se_capabilities r) action) (se_capabilities r)) = Allow"
      "decide_by_risk env audit_id (raise_risk env (se_capabilities r) action) r rs v g = (g', d)"
proof (cases "authenticate env (ga_caller action) g")
  case None
  then show ?thesis using assms unauthenticated by (simp add: authorize_def)
next
  case (Some r)
  let ?caps = "se_capabilities r"
  let ?a = "raise_risk env ?caps action"
  let ?plan = "policy_inputs env ?a ?caps (calls_used r action)"
  let ?t = "evaluate_policies (ge_engine env) ?plan"
  show ?thesis
  proof (cases "ga_kind action \<notin> set ACTION_KINDS \<or> ga_tool action = []")
    case True
    then show ?thesis using assms Some invalid by (simp add: authorize_def)
  next
    case valid: False
    have run: "(if pt_denied ?t then finish env audit_id ?a (Some r) Deny (pt_reasons ?t)
           (versions_text (pt_versions ?t)) g
         else (case review_intent env ?a ?caps of
             (Deny, rs) \<Rightarrow> finish env audit_id ?a (Some r) Deny (pt_reasons ?t @ rs)
                (versions_text (pt_versions ?t)) g
           | (Ask, rs) \<Rightarrow> ask_or_approved env audit_id ?a r (pt_reasons ?t @ rs)
                (versions_text (pt_versions ?t)) g
           | (Allow, rs) \<Rightarrow> decide_by_risk env audit_id ?a r (pt_reasons ?t @ rs)
                (versions_text (pt_versions ?t)) g)) = (g', d)"
      using assms
      unfolding authorize_def Some option.case Let_def calls_used_def raise_risk_fields
      by (simp only: valid if_False)
    show ?thesis
    proof (cases "pt_denied ?t")
      case True
      then show ?thesis using refused [OF Some] run by auto
    next
      case False
      then have all: "\<forall>pp \<in> set ?plan. policy_allows env pp" by (auto simp: evaluate_policies_denied)
      obtain out rs where rev: "review_intent env ?a ?caps = (out, rs)" by fastforce
      show ?thesis
      proof (cases out)
        case Allow
        then show ?thesis using by_risk [OF Some _ _ all] valid rev run False by auto
      next
        case Ask
        then show ?thesis using gate_asks [OF Some _ _ all] valid rev run False by auto
      next
        case Deny
        then show ?thesis using refused [OF Some] rev run False by auto
      qed
    qed
  qed
qed

lemma review_intent_none: "ge_intent_gate env = None \<Longrightarrow> fst (review_intent env a caps) = Allow"
  by (simp add: review_intent_def)

lemma authorize_allow_conditions:
  assumes run: "authorize env audit_id action g = (g', d)" and allow: "gd_outcome d = Allow"
  shows "\<exists>r a. authenticate env (ga_caller action) g = Some r \<and>
    ga_kind action \<in> set ACTION_KINDS \<and> a = raise_risk env (se_capabilities r) action \<and>
    (\<forall>pp \<in> set (policy_inputs env a (se_capabilities r) (calls_used r action)). policy_allows env pp) \<and>
    audited env audit_id a g g' \<and>
    (approved env a g g' \<or>
     ga_risk a < R4 \<and> (needs_ask (se_capabilities r) a \<longrightarrow>
        \<not> is_tainted a \<and> fst (covering_grant env a (se_capabilities r)) \<noteq> None)) \<and>
    (ge_intent_gate env = None \<longrightarrow> ga_risk a < R4)"
  using run
proof (cases rule: authorize_cases)
  case unauthenticated
  from finish_allow(1) [OF this(2) allow] show ?thesis by simp
next
  case (invalid r)
  from finish_allow(1) [OF this(3) allow] show ?thesis by simp
next
  case (refused r rs v)
  from finish_allow(1) [OF this(2) allow] show ?thesis by simp
next
  case (gate_asks r rs v)
  then show ?thesis
    using ask_or_approved_allow [OF gate_asks(6) allow] review_intent_none [of env]
    by (auto simp: approved_def)
next
  case (by_risk r rs v)
  from by_risk(6) allow show ?thesis
  proof (cases rule: decide_by_risk_AllowE)
    case (direct rs')
    then show ?thesis using by_risk allow_action_allow(2) [OF direct(2) allow] by blast
  next
    case (human rs')
    then show ?thesis using by_risk ask_or_approved_allow [OF human(3) allow] unfolding approved_def by blast
  qed
qed

text \<open>Every path ends in one call of \<open>finish\<close>, at most after taking the approval and before counting.\<close>

lemma ends_in_finish:
  "finish env audit_id a r out rs v g = (g', d) \<Longrightarrow> a = action \<or> a = raise_risk env caps action \<Longrightarrow>
     ends_in env audit_id action g g' d"
  unfolding ends_in_def by blast

lemma ends_in_ask:
  assumes "ask_or_approved env audit_id (raise_risk env caps action) r rs v g = (g', d)"
  shows "ends_in env audit_id action g g' d"
proof -
  let ?a = "raise_risk env caps action"
  let ?h = "fst (consume (ca_run_id (ga_caller action)) (fingerprint (ge_hmac env) action) g)"
  have "\<exists>out rs. finish env audit_id ?a (Some r) out rs v ?h = (g', d)"
    using assms by (auto simp: ask_or_approved_def consume_def split: option.splits)
  then show ?thesis unfolding ends_in_def by blast
qed

lemma ends_in_allow:
  assumes "allow_action env audit_id (raise_risk env caps action) r rs v g = (g', d)"
  shows "ends_in env audit_id action g g' d"
proof -
  obtain h' where "finish env audit_id (raise_risk env caps action) (Some r) Allow rs v g = (h', d)"
    "g' = h' \<or> g' = count_tool_call env (ga_caller action) h'"
    using assms by (auto simp: allow_action_def split: prod.splits if_splits)
  then show ?thesis unfolding ends_in_def by blast
qed

lemma ends_in_decide:
  assumes "decide_by_risk env audit_id (raise_risk env caps action) r rs v g = (g', d)"
  shows "ends_in env audit_id action g g' d"
  using assms unfolding decide_by_risk_def Let_def
  by (auto intro: ends_in_finish ends_in_ask ends_in_allow split: if_splits prod.splits option.splits)

lemma authorize_ends_in:
  "authorize env audit_id action g = (g', d) \<Longrightarrow> ends_in env audit_id action g g' d"
  by (erule authorize_cases) (auto intro: ends_in_finish ends_in_ask ends_in_decide)

lemma count_tool_call_fields [simp]:
  "gw_approvals (count_tool_call env c g) = gw_approvals g" "gw_audit (count_tool_call env c g) = gw_audit g"
  "gw_notified (count_tool_call env c g) = gw_notified g"
  "gw_max_sessions (count_tool_call env c g) = gw_max_sessions g"
  "gw_approvals_max (count_tool_call env c g) = gw_approvals_max g"
  "gw_allow_eval_sessions (count_tool_call env c g) = gw_allow_eval_sessions g"
  by (simp_all add: count_tool_call_def)

lemma consume_fields [simp]:
  "gw_approvals (fst (consume r f g)) = AList.delete (r, f) (gw_approvals g)"
  "gw_sessions (fst (consume r f g)) = gw_sessions g" "gw_audit (fst (consume r f g)) = gw_audit g"
  "gw_max_sessions (fst (consume r f g)) = gw_max_sessions g"
  "gw_approvals_max (fst (consume r f g)) = gw_approvals_max g"
  "gw_allow_eval_sessions (fst (consume r f g)) = gw_allow_eval_sessions g"
  by (simp_all add: consume_def)

lemma finish_recorded:
  assumes "finish env audit_id a r out rs v h = (h', d)"
  shows "recorded env audit_id h h' d"
proof -
  let ?rec = "\<lparr>gr_audit_id = audit_id, gr_created_at = ge_clock env,
            gr_principal = (if ca_principal (ga_caller a) \<noteq> [] then ca_principal (ga_caller a)
                            else ''unauthenticated''),
            gr_run_id = ca_run_id (ga_caller a), gr_engine = ca_engine (ga_caller a),
            gr_action_kind = ga_kind a, gr_tool = ga_tool a, gr_target = ga_target a,
            gr_outcome = out, gr_reasons = rs, gr_policy_version = (if v \<noteq> [] then v else ''unknown''),
            gr_risk_class = risk_label (ga_risk a), gr_args_summary = ga_args_summary a,
            gr_command = ga_command_summary a, gr_fingerprint = fingerprint (ge_hmac env) a\<rparr>"
  show ?thesis using assms unfolding recorded_def
    by (intro exI [of _ ?rec]) (auto simp: finish_def Let_def sealed_def)
qed

lemma ends_in_recorded:
  assumes "ends_in env audit_id action g g' d"
  shows "recorded env audit_id g g' d"
proof -
  from assms obtain a r out rs v h h' where f: "finish env audit_id a r out rs v h = (h', d)"
    and eq: "gw_audit h = gw_audit g" "gw_audit g' = gw_audit h'"
    unfolding ends_in_def by force
  show ?thesis using finish_recorded [OF f] unfolding recorded_def eq .
qed

lemma ends_in_tables:
  assumes "ends_in env audit_id action g g' d"
  shows "gw_approvals g' = gw_approvals g \<or>
      gw_approvals g' = AList.delete (approval_key env action) (gw_approvals g)"
    and "gw_sessions g' = gw_sessions g \<or>
      gw_sessions g' = gw_sessions (count_tool_call env (ga_caller action) g)"
    and "gw_max_sessions g' = gw_max_sessions g" "gw_approvals_max g' = gw_approvals_max g"
    and "gd_seal d = seal_of (ge_hmac env) d"
    and "gd_fingerprint d = fingerprint (ge_hmac env) action" and "ga_risk action \<le> gd_risk d"
proof -
  from assms obtain a r out rs v h h' where f: "finish env audit_id a r out rs v h = (h', d)"
    and a: "a = action \<or> (\<exists>caps. a = raise_risk env caps action)"
    and h: "h = g \<or> h = fst (consume (ca_run_id (ga_caller action)) (fingerprint (ge_hmac env) action) g)"
    and g': "g' = h' \<or> g' = count_tool_call env (ga_caller action) h'"
    unfolding ends_in_def by blast
  note ff = finish_fields [OF f]
  have s: "gw_sessions (count_tool_call env (ga_caller action) h') =
      gw_sessions (count_tool_call env (ga_caller action) g)"
    using ff(2) h by (auto simp: count_tool_call_def)
  show "gw_approvals g' = gw_approvals g \<or>
      gw_approvals g' = AList.delete (approval_key env action) (gw_approvals g)"
    using ff(1) h g' by (auto simp: approval_key_def)
  show "gw_sessions g' = gw_sessions g \<or>
      gw_sessions g' = gw_sessions (count_tool_call env (ga_caller action) g)"
    using ff(2) h g' s by auto
  show "gw_max_sessions g' = gw_max_sessions g" "gw_approvals_max g' = gw_approvals_max g"
    using ff(3,4) h g' by auto
  show "gd_seal d = seal_of (ge_hmac env) d" by (rule ff(9))
  show "gd_fingerprint d = fingerprint (ge_hmac env) action" using ff(8) a by auto
  show "ga_risk action \<le> gd_risk d" using ff(6) a raise_risk_ge by auto
qed

lemma asks_human_approved:
  assumes "asks_human env action" and "authorize env audit_id action g = (g', d)" and "gd_outcome d = Allow"
  shows "approved env action g g'"
proof -
  from authorize_allow_conditions [OF assms(2,3)] obtain caps where
    *: "approved env (raise_risk env caps action) g g' \<or> ga_risk (raise_risk env caps action) < R4 \<and>
       (needs_ask caps (raise_risk env caps action) \<longrightarrow> \<not> is_tainted (raise_risk env caps action))"
    by blast
  have r: "R3 \<le> ga_risk (raise_risk env caps action)"
    using raise_risk_ge [of action env caps] assms(1) by (simp add: asks_human_def)
  have three: "x = R3" if "R3 \<le> x" "x < R4" for x
    using that by (cases x) (auto simp: less_eq_risk_class_def less_risk_class_def)
  have "is_tainted (raise_risk env caps action)"
    using assms(1) by (simp add: asks_human_def is_tainted_def)
  with * r three show ?thesis by (auto simp: needs_ask_def)
qed

lemma approvals_never_appear:
  assumes "authorize env audit_id action g = (g', d)" and "map_of (gw_approvals g) k = None"
  shows "map_of (gw_approvals g') k = None"
  using ends_in_tables(1) [OF authorize_ends_in [OF assms(1)]] assms(2)
  by (auto simp: delete_conv')

lemma set_put_bounded: "set (put_bounded n k v d) \<subseteq> insert (k, v) (set d)"
  unfolding put_bounded_def Let_def
  using set_update_subset [of k v d] by (auto dest: in_set_dropD)

lemma inv_open:
  assumes "gateway_inv (ge_sha256 env) g" and "open_session env token run_id prin engine caps l g = Inr (g', c)"
  shows "gateway_inv (ge_sha256 env) g'"
proof -
  let ?r = "\<lparr>se_caller = c, se_capabilities = caps, se_listener = l, se_tool_calls_used = 0\<rparr>"
  have g': "g' = g\<lparr>gw_sessions := put_bounded (gw_max_sessions g) (token_key (ge_sha256 env) token) ?r (gw_sessions g)\<rparr>"
    and c: "ca_token c = token" "ca_run_id c = run_id" "ca_principal c = prin"
    and ok: "py_strip run_id \<noteq> []" "py_strip prin \<noteq> []"
      "py_lower (py_strip (cap_runtime_profile caps)) = EVALS_PROFILE \<longrightarrow> gw_allow_eval_sessions g"
    using assms(2) by (auto simp: open_session_def guardE_eq_Inr_iff Let_def)
  have "\<forall>kr \<in> set (gw_sessions g'). session_ok (ge_sha256 env) (gw_allow_eval_sessions g) kr"
    using assms(1) set_put_bounded [of "gw_max_sessions g" "token_key (ge_sha256 env) token" ?r "gw_sessions g"]
      c ok by (auto simp: g' gateway_inv_def session_ok_def)
  then show ?thesis using assms(1) by (simp add: gateway_inv_def g' table_inv_put)
qed

lemma inv_close: "gateway_inv sha g \<Longrightarrow> gateway_inv sha (close_session env c g)"
  using set_delete_subset by (fastforce simp: gateway_inv_def close_session_def table_inv_delete)

lemma table_inv_update:
  "table_inv n d \<Longrightarrow> map_of d k \<noteq> None \<Longrightarrow> table_inv n (AList.update k v d)"
  by (auto simp: table_inv_def distinct_update length_update map_of_eq_None_iff)

lemma inv_report: "gateway_inv sha g \<Longrightarrow> gateway_inv sha (fst (report_budget env c figures g))"
proof -
  assume inv: "gateway_inv sha g"
  let ?k = "token_key (ge_sha256 env) (ca_token c)"
  show ?thesis
  proof (cases "map_of (gw_sessions g) ?k")
    case None
    then show ?thesis using inv by (simp add: report_budget_def)
  next
    case (Some r)
    let ?r = "r\<lparr>se_capabilities := (se_capabilities r)\<lparr>cap_budget := Some (merge_budget
        (cap_budget (se_capabilities r)) figures)\<rparr>\<rparr>"
    have "session_ok sha (gw_allow_eval_sessions g) (?k, r)"
      using inv map_of_SomeD [OF Some] by (simp add: gateway_inv_def)
    then have "session_ok sha (gw_allow_eval_sessions g) (?k, ?r)" by (simp add: session_ok_def)
    then have "\<forall>kr \<in> set (AList.update ?k ?r (gw_sessions g)). session_ok sha (gw_allow_eval_sessions g) kr"
      using inv set_update_subset [of ?k ?r "gw_sessions g"] by (auto simp: gateway_inv_def)
    then show ?thesis using inv Some table_inv_update [of _ "gw_sessions g" ?k]
      by (simp add: report_budget_def gateway_inv_def Let_def)
  qed
qed

lemma inv_approve: "gateway_inv sha g \<Longrightarrow> approve run_id fp approver g = Inr g' \<Longrightarrow> gateway_inv sha g'"
  by (auto simp: approve_def guardE_eq_Inr_iff gateway_inv_def table_inv_put)

lemma inv_revoke: "gateway_inv sha g \<Longrightarrow> gateway_inv sha (revoke_run run_id g)"
  by (auto simp: revoke_run_def gateway_inv_def table_inv_def distinct_map_filter
      intro: order_trans [OF length_filter_le])

lemma inv_count:
  assumes "gateway_inv sha g"
  shows "gateway_inv sha (count_tool_call env c g)"
proof -
  have "map fst (gw_sessions (count_tool_call env c g)) = map fst (gw_sessions g)"
    by (simp add: count_tool_call_def map_ran_def case_prod_beta comp_def)
  moreover from this have "length (gw_sessions (count_tool_call env c g)) = length (gw_sessions g)"
    by (metis length_map)
  moreover have "\<forall>kr \<in> set (gw_sessions (count_tool_call env c g)). session_ok sha (gw_allow_eval_sessions g) kr"
    using assms
    by (force simp: count_tool_call_def map_ran_def gateway_inv_def session_ok_def split: if_splits)
  ultimately show ?thesis using assms by (simp add: gateway_inv_def table_inv_def)
qed

lemma inv_authorize:
  assumes "gateway_inv sha g" and "authorize env audit_id a g = (g', d)"
  shows "gateway_inv sha g'"
proof -
  note e = ends_in_tables [OF authorize_ends_in [OF assms(2)]]
  have ev: "gw_allow_eval_sessions g' = gw_allow_eval_sessions g"
  proof -
    from authorize_ends_in [OF assms(2)] show ?thesis
      unfolding ends_in_def by (force dest: finish_fields(5))
  qed
  have "gateway_inv sha (count_tool_call env (ga_caller a) g)" by (rule inv_count [OF assms(1)])
  with e(1-4) ev assms(1) show ?thesis
    by (auto simp: gateway_inv_def table_inv_delete)
qed

lemma gateway_step_inv: "gateway_step sha g g' \<Longrightarrow> gateway_inv sha g \<Longrightarrow> gateway_inv sha g'"
proof (induction rule: gateway_step.induct)
  case (authorizes env g audit_id a)
  then show ?case using inv_authorize [of sha g env audit_id a] by (cases "authorize env audit_id a g") simp
qed (auto intro: inv_open inv_close inv_report inv_approve inv_revoke)

lemma unauthenticated_denied:
  assumes "authenticate env (ga_caller a) g = None"
  shows "gd_outcome (snd (authorize env audit_id a g)) = Deny"
    and "gw_sessions (fst (authorize env audit_id a g)) = gw_sessions g"
    and "gw_approvals (fst (authorize env audit_id a g)) = gw_approvals g"
proof -
  obtain g' d where f: "finish env audit_id a None Deny [REASON_UNAUTHENTICATED] [] g = (g', d)" by fastforce
  then have "authorize env audit_id a g = (g', d)" using assms by (simp add: authorize_def)
  then show "gd_outcome (snd (authorize env audit_id a g)) = Deny"
    "gw_sessions (fst (authorize env audit_id a g)) = gw_sessions g"
    "gw_approvals (fst (authorize env audit_id a g)) = gw_approvals g"
    using finish_fields [OF f] by auto
qed

lemma open_session_Inr:
  assumes "open_session env token run_id prin engine caps l g = Inr (g', c)"
  shows "c = \<lparr>ca_run_id = run_id, ca_principal = prin, ca_engine = engine, ca_token = token\<rparr>"
    and "gw_sessions g' = put_bounded (gw_max_sessions g) (token_key (ge_sha256 env) token)
      \<lparr>se_caller = c, se_capabilities = caps, se_listener = l, se_tool_calls_used = 0\<rparr> (gw_sessions g)"
    and "gw_max_sessions g' = gw_max_sessions g"
  using assms by (auto simp: open_session_def guardE_eq_Inr_iff Let_def)

lemma open_session_authenticates:
  assumes "gateway_inv (ge_sha256 env) g" and "0 < gw_max_sessions g" and "token \<noteq> []"
    and "open_session env token run_id prin engine caps l g = Inr (g', c)"
  shows "authenticate env c g' =
    Some \<lparr>se_caller = c, se_capabilities = caps, se_listener = l, se_tool_calls_used = 0\<rparr>"
proof -
  obtain n where n: "gw_max_sessions g = Suc n" using assms(2) by (cases "gw_max_sessions g") auto
  have "table_inv (Suc n) (gw_sessions g)" using assms(1) n by (simp add: gateway_inv_def)
  from dict_table.find_put [OF this] show ?thesis
    using assms(3) open_session_Inr [OF assms(4)] n by (simp add: authenticate_def)
qed

lemma closed_session_unauthenticated: "authenticate env c (close_session env c g) = None"
  by (simp add: authenticate_def close_session_def delete_conv')

lemma float_lt_irrefl: "\<not> float_lt a a"
  by (cases a) auto

lemma float_lt_asym: "float_lt a b \<Longrightarrow> \<not> float_lt b a"
  by (cases a; cases b) auto

lemma merge_never_below: "never_below (merge_opt float_max a b) a"
  by (cases a; cases b) (auto simp: never_below_def float_max_def float_lt_irrefl dest: float_lt_asym)

lemma merge_never_above: "never_above (merge_opt float_min a b) a"
  by (cases a; cases b) (auto simp: never_above_def float_min_def float_lt_irrefl dest: float_lt_asym)

lemma merge_budget_tighter: "tighter (merge_budget (Some c) new) c"
  using merge_never_below [of "Some (bf_tokens_used c)" "Some (bf_tokens_used new)"]
    merge_never_above [of "Some (bf_max_tokens c)" "Some (bf_max_tokens new)"]
  by (simp add: merge_budget_def tighter_def merge_never_below merge_never_above)

lemma approved_iff_changed:
  "approved env a g g' \<Longrightarrow> gw_approvals g' \<noteq> gw_approvals g"
  by (metis approved_def delete_conv' fun_upd_same)

lemma ask_or_approved_sessions:
  assumes "ask_or_approved env audit_id a r rs v g = (g', d)"
  shows "gw_sessions g' = gw_sessions g"
  using assms by (auto simp: ask_or_approved_def consume_def dest: finish_fields(2) split: option.splits)

lemma outcome_text_plain: "CHR ''|'' \<notin> set (outcome_text out)"
  by (cases out) auto

lemma outcome_text_inj: "outcome_text a = outcome_text b \<Longrightarrow> a = b"
  by (cases a; cases b) auto

lemma seal_material_outcome:
  assumes "seal_material d = seal_material d'"
  shows "gd_outcome d = gd_outcome d'"
proof -
  have "hd (py_split CHR ''|'' (seal_material e)) = outcome_text (gd_outcome e)" for e
    by (simp add: seal_material_def py_split_append outcome_text_plain)
  then show ?thesis using assms outcome_text_inj by metis
qed

lemma seal_material_fields:
  assumes "seal_material d = seal_material d'" and "plain_fields d" and "plain_fields d'"
  shows "gd_audit_id d = gd_audit_id d' \<and> gd_action_kind d = gd_action_kind d' \<and> gd_tool d = gd_tool d' \<and>
    gd_fingerprint d = gd_fingerprint d' \<and> gd_args_digest d = gd_args_digest d'"
proof -
  have split: "py_split CHR ''|'' (seal_material e) = [outcome_text (gd_outcome e), gd_audit_id e,
      gd_action_kind e, gd_tool e, gd_fingerprint e, gd_args_digest e]" if "plain_fields e" for e
    unfolding seal_material_def
    by (rule py_split_join) (use that outcome_text_plain in \<open>auto simp: plain_fields_def\<close>)
  from split [OF assms(2)] split [OF assms(3)] assms(1) show ?thesis by simp
qed

lemma sample_opened:
  "open_session sample_env ''t'' ''run'' ''p'' ''e'' default_capabilities True (new_gateway 4 4 False) =
     Inr ((new_gateway 4 4 False)\<lparr>gw_sessions := [(''t'', \<lparr>se_caller = sample_caller,
       se_capabilities = default_capabilities, se_listener = True, se_tool_calls_used = 0\<rparr>)]\<rparr>, sample_caller)"
  by code_simp

section \<open>Contracts\<close>

text \<open>
  The gateway as a client of a policy decision point, and of a source of grants: what the provider
  promises of a decision or of a grant it returns holds of every action the gateway allows.
\<close>

context policy_decision_point
begin

lemma policy_allows_permits: "ge_engine env = ask \<Longrightarrow> policy_allows env pp \<Longrightarrow> permits (fst pp) (snd pp)"
  using allow_permits [of "fst pp" "snd pp"] by (auto simp: policy_allows_def split: sum.splits)

lemma allow_plan_permitted:
  assumes "ge_engine env = ask" and "authorize env audit_id action g = (g', d)" and "gd_outcome d = Allow"
  shows "\<exists>r. authenticate env (ga_caller action) g = Some r \<and>
    (\<forall>(policy, inp) \<in> set (policy_inputs env (raise_risk env (se_capabilities r) action) (se_capabilities r)
       (calls_used r action)). permits policy inp)"
  using authorize_allow_conditions [OF assms(2,3)] policy_allows_permits [OF assms(1)] by fastforce

end

locale grant_provider =
  fixes verifier :: grant_verifier
    and valid :: "gateway_action \<Rightarrow> string \<Rightarrow> bool"
  assumes covering_valid: "ge_grants env = verifier \<Longrightarrow> fst (covering_grant env a caps) = Some i \<Longrightarrow> valid a i"
begin

lemma allow_by_grant:
  assumes "ge_grants env = verifier" and "authorize env audit_id action g = (g', d)" and "gd_outcome d = Allow"
    and "authenticate env (ga_caller action) g = Some r"
    and "needs_ask (se_capabilities r) (raise_risk env (se_capabilities r) action)"
    and "\<not> approved env action g g'"
  shows "\<exists>i. valid (raise_risk env (se_capabilities r) action) i \<and> \<not> is_tainted action \<and>
    ga_risk (raise_risk env (se_capabilities r) action) < R4"
proof -
  have t: "is_tainted (raise_risk env (se_capabilities r) action) = is_tainted action"
    by (simp add: is_tainted_def)
  from authorize_allow_conditions [OF assms(2,3)] assms(4-6) t
  obtain i where "fst (covering_grant env (raise_risk env (se_capabilities r) action) (se_capabilities r)) = Some i"
    "ga_risk (raise_risk env (se_capabilities r) action) < R4" "\<not> is_tainted action"
    by auto
  then show ?thesis using covering_valid [OF assms(1)] by blast
qed

end

interpretation no_grants: grant_provider NoGrants "\<lambda>_ _. False"
  by unfold_locales (simp add: covering_grant_def NoGrants_def)

section \<open>Properties\<close>

text \<open>
  C1: What an \<open>allow\<close> of the gateway means.  The caller is the one of an open session, the kind
  is known, every policy of the plan for the action (with the class raised to the recomputed one and
  the tool call counted) answered allow, the audit sink accepted the record before the decision was
  returned, and either a human approval of exactly this action was taken, or the class is below R4
  and, where the tier asks, a grant covers the action and it is not tainted.  Without an intent gate
  the class is below R4 in every case.
\<close>

theorem authorize_allow_sound:
  assumes "authorize env audit_id action g = (g', d)" and "gd_outcome d = Allow"
  shows "\<exists>r a. authenticate env (ga_caller action) g = Some r \<and>
    ga_kind action \<in> set ACTION_KINDS \<and> a = raise_risk env (se_capabilities r) action \<and>
    (\<forall>pp \<in> set (policy_inputs env a (se_capabilities r) (calls_used r action)). policy_allows env pp) \<and>
    audited env audit_id a g g' \<and>
    (approved env a g g' \<or>
     ga_risk a < R4 \<and> (needs_ask (se_capabilities r) a \<longrightarrow>
        \<not> is_tainted a \<and> fst (covering_grant env a (se_capabilities r)) \<noteq> None)) \<and>
    (ge_intent_gate env = None \<longrightarrow> ga_risk a < R4)"
  using assms by (rule authorize_allow_conditions)

theorem authorize_allow_sound_witness:
  "\<exists>r a. authenticate sample_env sample_caller (sample_gateway ''x'') = Some r \<and>
    audited sample_env ''a1'' a (sample_gateway ''x'')
      (fst (authorize sample_env ''a1'' (sample_action ''search'' R1) (sample_gateway ''x'')))"
proof -
  have "gd_outcome (snd (authorize sample_env ''a1'' (sample_action ''search'' R1) (sample_gateway ''x''))) = Allow"
    by code_simp
  then have "\<exists>r a. authenticate sample_env (ga_caller (sample_action ''search'' R1)) (sample_gateway ''x'') = Some r \<and>
      audited sample_env ''a1'' a (sample_gateway ''x'')
        (fst (authorize sample_env ''a1'' (sample_action ''search'' R1) (sample_gateway ''x'')))"
    using authorize_allow_sound [OF prod.collapse [symmetric]] by blast
  then show ?thesis by (simp add: sample_action_def)
qed

text \<open>
  C15: No decision without its record.  Every call of \<open>authorize\<close>, on every path, offers one record
  with the fingerprint of the action and the audit id to the sink: if the sink accepts it, it holds
  the outcome and the reasons returned; if the sink refuses, the outcome is deny.
\<close>

theorem authorize_recorded_or_denied:
  assumes "authorize env audit_id action g = (g', d)"
  shows "recorded env audit_id g g' d"
  by (rule ends_in_recorded [OF authorize_ends_in [OF assms]])

theorem authorize_recorded_or_denied_witness:
  "recorded sample_env ''a1'' (sample_gateway ''x'')
     (fst (authorize sample_env ''a1'' (sample_action ''search'' R1) (sample_gateway ''x'')))
     (snd (authorize sample_env ''a1'' (sample_action ''search'' R1) (sample_gateway ''x'')))"
  by (rule authorize_recorded_or_denied [OF prod.collapse [symmetric]])



text \<open>
  C13: In every state reachable by opening and closing sessions, reporting budgets, approving,
  revoking and authorizing, both tables have distinct keys and stay within their capacity, every
  session is stored under the digest of its own token with a named run and principal and a
  nonnegative count, and a session of the evaluation profile exists only where the gateway takes them.
\<close>

theorem gateway_reachable_inv:
  assumes "(gateway_step sha)\<^sup>*\<^sup>* (new_gateway max_entries max_sessions allow_eval) g"
  shows "gateway_inv sha g \<and> length (gw_sessions g) \<le> gw_max_sessions g \<and>
    length (gw_approvals g) \<le> gw_approvals_max g"
proof -
  have "gateway_inv sha g" using assms
  proof (induction rule: rtranclp_induct)
    case base
    then show ?case by (simp add: gateway_inv_def new_gateway_def table_inv_def)
  next
    case (step y z)
    then show ?case using gateway_step_inv by blast
  qed
  then show ?thesis by (simp add: gateway_inv_def table_inv_def)
qed

theorem gateway_reachable_inv_witness:
  "gateway_inv (\<lambda>s. s) ((new_gateway 4 4 False)\<lparr>gw_sessions := [(''t'', \<lparr>se_caller = sample_caller,
       se_capabilities = default_capabilities, se_listener = True, se_tool_calls_used = 0\<rparr>)]\<rparr>)"
proof -
  have "ge_sha256 sample_env = (\<lambda>s. s)" by (simp add: sample_env_def)
  then have "gateway_step (\<lambda>s. s) (new_gateway 4 4 False) ((new_gateway 4 4 False)\<lparr>gw_sessions := [(''t'',
      \<lparr>se_caller = sample_caller, se_capabilities = default_capabilities, se_listener = True,
       se_tool_calls_used = 0\<rparr>)]\<rparr>)"
    using sample_opened by (rule gateway_step.opens)
  then show ?thesis using gateway_reachable_inv [OF r_into_rtranclp] by blast
qed

text \<open>
  A session authenticates its caller after it is opened, with its capabilities and no tool call
  counted; the same token presented for another run is refused; and once the session is closed every
  action of the caller is denied.
\<close>

theorem session_lifecycle:
  assumes "gateway_inv (ge_sha256 env) g" and "0 < gw_max_sessions g" and "token \<noteq> []"
    and "open_session env token run_id prin engine caps l g = Inr (g', c)"
  shows "(\<exists>r. authenticate env c g' = Some r \<and> se_capabilities r = caps \<and> se_tool_calls_used r = 0) \<and>
    (c' = c\<lparr>ca_run_id := run'\<rparr> \<and> run' \<noteq> run_id \<longrightarrow> authenticate env c' g' = None) \<and>
    (ga_caller a = c \<longrightarrow>
       gd_outcome (snd (authorize env audit_id a (close_session env c g'))) = Deny)"
proof (intro conjI impI)
  note auth = open_session_authenticates [OF assms]
  show "\<exists>r. authenticate env c g' = Some r \<and> se_capabilities r = caps \<and> se_tool_calls_used r = 0"
    using auth by simp
  show "authenticate env c' g' = None" if "c' = c\<lparr>ca_run_id := run'\<rparr> \<and> run' \<noteq> run_id"
  proof -
    have "map_of (gw_sessions g') (token_key (ge_sha256 env) token) =
        Some \<lparr>se_caller = c, se_capabilities = caps, se_listener = l, se_tool_calls_used = 0\<rparr>"
      using auth open_session_Inr(1) [OF assms(4)]
      by (simp add: authenticate_def split: if_splits option.splits)
    then show ?thesis using that open_session_Inr(1) [OF assms(4)] by (auto simp: authenticate_def)
  qed
  show "gd_outcome (snd (authorize env audit_id a (close_session env c g'))) = Deny" if "ga_caller a = c"
    using unauthenticated_denied(1) closed_session_unauthenticated that by metis
qed

theorem session_lifecycle_witness:
  "authenticate sample_env (sample_caller\<lparr>ca_run_id := ''other''\<rparr>) (fst (projr
     (open_session sample_env ''t'' ''run'' ''p'' ''e'' default_capabilities True (new_gateway 4 4 False)))) = None"
proof -
  have "gateway_inv (ge_sha256 sample_env) (new_gateway 4 4 False)"
    by (simp add: gateway_inv_def new_gateway_def table_inv_def)
  moreover have "0 < gw_max_sessions (new_gateway 4 4 False)" by (simp add: new_gateway_def)
  ultimately show ?thesis
    using session_lifecycle [OF _ _ _ sample_opened, of "sample_caller\<lparr>ca_run_id := ''other''\<rparr>" "''other''"]
    by (simp add: sample_opened)
qed

text \<open>
  Budget reports only tighten.  Figures merged into a session never lower what was used and
  never raise a limit, and a figure that was there is not lost.
\<close>

theorem report_budget_tightens:
  assumes "report_budget env c figures g = (g', Some m)"
    and "map_of (gw_sessions g) (token_key (ge_sha256 env) (ca_token c)) = Some r"
  shows "(\<forall>old. cap_budget (se_capabilities r) = Some old \<longrightarrow> tighter m old) \<and>
    map_of (gw_sessions g') (token_key (ge_sha256 env) (ca_token c)) =
      Some (r\<lparr>se_capabilities := (se_capabilities r)\<lparr>cap_budget := Some m\<rparr>\<rparr>)"
  using assms merge_budget_tighter by (auto simp: report_budget_def Let_def update_conv')

theorem report_budget_tightens_witness:
  "tighter (sample_budget 9) (sample_budget 7) \<and>
   snd (report_budget sample_env sample_caller (sample_budget 9) (sample_gateway ''x'')) = Some (sample_budget 9)"
proof -
  have s: "snd (report_budget sample_env sample_caller (sample_budget 9) (sample_gateway ''x'')) = Some (sample_budget 9)"
    by code_simp
  have "map_of (gw_sessions (sample_gateway ''x'')) (token_key (ge_sha256 sample_env) (ca_token sample_caller)) =
      Some \<lparr>se_caller = sample_caller, se_capabilities = default_capabilities\<lparr>cap_budget := Some (sample_budget 7)\<rparr>,
        se_listener = True, se_tool_calls_used = 0\<rparr>"
    by code_simp
  from report_budget_tightens [OF _ this] s show ?thesis by (metis capabilities.select_convs(8) capabilities.surjective capabilities.update_convs(8) prod.collapse session_record.select_convs(2))
qed



text \<open>
  The seal binds a decision.  Two decisions that verify under the same seal have the same
  outcome, when the keyed digest does not collide on their two texts; and when no field holds the
  separator they agree on the audit id, the kind, the tool, the fingerprint and the digest too.
\<close>

theorem seal_binds_decision:
  assumes "verify_decision hmac d" and "verify_decision hmac d'" and "gd_seal d' = gd_seal d"
    and "inj_on hmac {seal_material d, seal_material d'}"
  shows "gd_outcome d' = gd_outcome d \<and>
    (plain_fields d \<and> plain_fields d' \<longrightarrow>
       gd_audit_id d' = gd_audit_id d \<and> gd_action_kind d' = gd_action_kind d \<and> gd_tool d' = gd_tool d \<and>
       gd_fingerprint d' = gd_fingerprint d \<and> gd_args_digest d' = gd_args_digest d)"
proof -
  have "hmac (seal_material d) = hmac (seal_material d')"
    using assms(1-3) by (simp add: verify_decision_def seal_of_def)
  then have eq: "seal_material d = seal_material d'" by (rule inj_onD [OF assms(4)]) simp_all
  have "gd_outcome d = gd_outcome d'" by (rule seal_material_outcome [OF eq])
  with seal_material_fields [OF eq] show ?thesis by metis
qed

theorem seal_binds_decision_witness:
  "gd_outcome ((sample_decision Ask)\<lparr>gd_reasons := [''r'']\<rparr>) = gd_outcome (sample_decision Ask) \<and>
   gd_tool ((sample_decision Ask)\<lparr>gd_reasons := [''r'']\<rparr>) = gd_tool (sample_decision Ask)"
proof -
  have "verify_decision (\<lambda>s. s) (sample_decision Ask)"
    "verify_decision (\<lambda>s. s) ((sample_decision Ask)\<lparr>gd_reasons := [''r'']\<rparr>)"
    "gd_seal ((sample_decision Ask)\<lparr>gd_reasons := [''r'']\<rparr>) = gd_seal (sample_decision Ask)"
    "plain_fields (sample_decision Ask) \<and> plain_fields ((sample_decision Ask)\<lparr>gd_reasons := [''r'']\<rparr>)"
    by code_simp+
  then show ?thesis using seal_binds_decision [of "\<lambda>s. s" "sample_decision Ask" "(sample_decision Ask)\<lparr>gd_reasons := [''r'']\<rparr>"]
    by simp
qed

text \<open>
  An intent gate that asks is decided before the class is looked at: with an approval in the
  ledger an R4 action is then allowed, although without a gate the same approval never allows it.
\<close>

theorem approval_overrides_r4:
  "gd_outcome (snd (authorize sample_env ''a1'' (sample_action ''x'' R4) (sample_gateway ''x''))) = Deny \<and>
   gd_outcome (snd (authorize asking_env ''a1'' (sample_action ''x'' R4) (sample_gateway ''x''))) = Allow \<and>
   gd_risk (snd (authorize asking_env ''a1'' (sample_action ''x'' R4) (sample_gateway ''x''))) = R4"
  by code_simp

end
