(* ===== verification/Grants.thy ===== *)
theory Grants
  imports Grant_Keys Gateway_Decisions
begin

text \<open>
  \<open>locus_runtime/grants.py\<close>: capability grants.  A pattern says which actions a grant covers; the
  authority mints a Biscuit token whose Datalog checks encode the pattern; the store keeps the records
  and the revoked identifiers; the verifier looks up the live grants of the caller and runs each
  token's checks against facts of the action.

  The Biscuit library is a record of functions.  A line of Datalog the code writes is a constructor
  of \<open>datalog\<close> holding the parameters of that line, and the facts of the authorizer are a record.
  Stored records are JSON values; floats are exact numbers, printed and read by arguments.
\<close>

section \<open>Constants\<close>

definition GRANT_SCOPES :: "string list" where "GRANT_SCOPES = [''run'', ''standing'']"
definition APPROVAL_SCOPES :: "string list" where "APPROVAL_SCOPES = [''once'', ''run'', ''standing'']"
definition STANDING_TTL :: int where "STANDING_TTL = 30 * 86400 * 1000000"  \<comment> \<open>in microseconds\<close>
definition RUN_TTL_MAX :: int where "RUN_TTL_MAX = 24 * 3600 * 1000000"
definition MAX_GRANTS_PER_LOOKUP :: nat where "MAX_GRANTS_PER_LOOKUP = 256"
definition TOOL_KINDS :: "string list" where "TOOL_KINDS = [''tool_call'', ''mcp_tool_call'']"
definition FILE_KINDS :: "string list" where "FILE_KINDS = [''file_read'', ''file_write'']"
definition TEXT_MAX :: nat where "TEXT_MAX = 1024"

section \<open>Patterns\<close>

datatype target_mode = Exact | Prefix

fun mode_text :: "target_mode \<Rightarrow> string" where
  "mode_text Exact = ''exact''"
| "mode_text Prefix = ''prefix''"

record grant_pattern =
  gp_kind :: string
  gp_tool :: string
  gp_target_mode :: target_mode
  gp_target :: string
  gp_args :: "string option"
  gp_command :: "string option"
  gp_recipients :: "string option"
  gp_amount_ceiling_cents :: "int option"

definition dotdot :: string where "dotdot = ''..''"

fun bounded_text :: "jval \<Rightarrow> bool" where
  "bounded_text JNull = True"
| "bounded_text (JStr s) = (length s \<le> 4 * TEXT_MAX)"
| "bounded_text _ = False"

fun cents :: "jval \<Rightarrow> int option" where
  \<comment> \<open>an integer that is not a boolean\<close>
  "cents (JNum t) = py_int t"
| "cents _ = None"

definition ceiling_ok :: "jval \<Rightarrow> bool" where
  "ceiling_ok v = (v = JNull \<or> (case cents v of None \<Rightarrow> False | Some n \<Rightarrow> 0 \<le> n))"

fun text_of :: "jval \<Rightarrow> string option" where
  "text_of (JStr s) = Some s"
| "text_of _ = None"

definition post_init ::
  "jval \<Rightarrow> string \<Rightarrow> jval \<Rightarrow> string \<Rightarrow> jval \<Rightarrow> jval \<Rightarrow> jval \<Rightarrow> jval \<Rightarrow> grant_pattern res" where
  \<comment> \<open>\<open>__post_init__\<close> on fields of any type but for the tool and the target\<close>
  "post_init kind tool mode target args command recipients limit =
     guardE (kind \<in> JStr ` set ACTION_KINDS) GrantError ''unknown action kind''
     (guardE (tool \<noteq> [] \<and> length tool \<le> TEXT_MAX) GrantError ''a grant pattern needs a tool''
     (guardE (mode \<in> {JStr ''exact'', JStr ''prefix''}) GrantError ''target_mode must be exact or prefix''
     (guardE (\<not> (mode = JStr ''prefix'' \<and> (target = [] \<or> py_contains dotdot target)))
        GrantError ''a prefix pattern needs a concrete folder''
     (guardE (\<not> (kind \<in> JStr ` set TOOL_KINDS \<and> args = JNull)) GrantError
        ''a tool-call pattern must pin its arguments''
     (guardE (\<not> (kind = JStr ''process_exec'' \<and> command = JNull)) GrantError
        ''a process_exec pattern must pin its command''
     (guardE (ceiling_ok limit) GrantError ''amount_ceiling_cents must be a non-negative integer''
     (guardE (bounded_text (JStr target)) GrantError ''target is not a bounded string''
     (guardE (bounded_text args) GrantError ''args is not a bounded string''
     (guardE (bounded_text command) GrantError ''command is not a bounded string''
     (guardE (bounded_text recipients) GrantError ''recipients is not a bounded string''
     (Inr \<lparr>gp_kind = the (text_of kind), gp_tool = tool,
        gp_target_mode = (if mode = JStr ''prefix'' then Prefix else Exact), gp_target = target,
        gp_args = text_of args, gp_command = text_of command, gp_recipients = text_of recipients,
        gp_amount_ceiling_cents = cents limit\<rparr>)))))))))))"

definition opt_json :: "('a \<Rightarrow> jval) \<Rightarrow> 'a option \<Rightarrow> jval" where
  "opt_json f v = (case v of None \<Rightarrow> JNull | Some x \<Rightarrow> f x)"

definition make_pattern ::
  "string \<Rightarrow> string \<Rightarrow> target_mode \<Rightarrow> string \<Rightarrow> string option \<Rightarrow> string option \<Rightarrow> string option
     \<Rightarrow> int option \<Rightarrow> grant_pattern res" where
  \<comment> \<open>\<open>GrantPattern(...)\<close> with arguments of the declared types\<close>
  "make_pattern kind tool mode target args command recipients limit =
     post_init (JStr kind) tool (JStr (mode_text mode)) target (opt_json JStr args) (opt_json JStr command)
       (opt_json JStr recipients) (opt_json (\<lambda>n. JNum (py_str_int n)) limit)"

definition pattern_to_dict :: "grant_pattern \<Rightarrow> (string, jval) dict" where
  "pattern_to_dict p = [(''kind'', JStr (gp_kind p)), (''tool'', JStr (gp_tool p)),
     (''target_mode'', JStr (mode_text (gp_target_mode p))), (''target'', JStr (gp_target p)),
     (''args'', opt_json JStr (gp_args p)), (''command'', opt_json JStr (gp_command p)),
     (''recipients'', opt_json JStr (gp_recipients p)),
     (''amount_ceiling_cents'', opt_json (\<lambda>n. JNum (py_str_int n)) (gp_amount_ceiling_cents p))]"

definition PATTERN_FIELDS :: "string list" where
  "PATTERN_FIELDS = [''kind'', ''tool'', ''target_mode'', ''target'', ''args'', ''command'',
     ''recipients'', ''amount_ceiling_cents'']"

definition pattern_from_dict :: "jval \<Rightarrow> grant_pattern res option" where
  \<comment> \<open>\<open>None\<close>: a tool or a target that is not a text, which no pattern of this model holds\<close>
  "pattern_from_dict raw = (case raw of
     JDict kvs \<Rightarrow>
       if \<not> set (map fst kvs) \<subseteq> set PATTERN_FIELDS then
         Some (raise GrantError ''unknown grant pattern fields'')
       else if \<not> {''kind'', ''tool'', ''target_mode'', ''target''} \<subseteq> set (map fst kvs) then
         Some (raise GrantError ''missing required arguments'')
       else (case (jget raw ''tool'', jget raw ''target'') of
           (JStr tool, JStr target) \<Rightarrow> Some (post_init (jget raw ''kind'') tool (jget raw ''target_mode'') target
              (jget raw ''args'') (jget raw ''command'') (jget raw ''recipients'')
              (jget raw ''amount_ceiling_cents''))
         | _ \<Rightarrow> None)
   | _ \<Rightarrow> Some (raise GrantError ''grant pattern must be an object''))"

definition pattern_describe :: "(int \<Rightarrow> string) \<Rightarrow> grant_pattern \<Rightarrow> string" where
  \<comment> \<open>the first argument prints an amount of cents with two decimals\<close>
  "pattern_describe money p = py_join '', '' (
     [gp_kind p @ '' '' @ gp_tool p @ '' '' @
        (if gp_target_mode p = Prefix then ''under '' else ''on '') @ gp_target p] @
     (case gp_recipients p of None \<Rightarrow> [] | Some r \<Rightarrow> [''to '' @ (if r \<noteq> [] then r else ''nobody'')]) @
     (case gp_amount_ceiling_cents p of None \<Rightarrow> [] | Some n \<Rightarrow> [''up to '' @ money n]) @
     (case gp_command p of None \<Rightarrow> [] | Some c \<Rightarrow> [''command `'' @ c @ ''`'']))"

definition folder_separator :: "char \<Rightarrow> bool" where
  "folder_separator c = (c = CHR ''/'' \<or> c = CHR 0x5C)"

definition parent_folder :: "string \<Rightarrow> string" where
  "parent_folder path = (let upto = rstrip (\<lambda>c. \<not> folder_separator c) path in
     if 1 < length upto then upto else [])"

definition tightest_pattern :: "gateway_action \<Rightarrow> grant_pattern res" where
  "tightest_pattern a =
     guardE (ga_risk a < R4) GrantError ''R4 actions are never grantable''
     (guardE (ga_kind a \<in> set ACTION_KINDS \<and> ga_tool a \<noteq> []) GrantError ''action is not grantable''
     (let facets = ga_facets a in
      if ga_kind a \<in> set FILE_KINDS then
        (if parent_folder (ga_target a) \<noteq> [] \<and> \<not> py_contains dotdot (ga_target a)
         then make_pattern (ga_kind a) (ga_tool a) Prefix (parent_folder (ga_target a)) None None None None
         else make_pattern (ga_kind a) (ga_tool a) Exact (ga_target a) None None None None)
      else if ga_kind a = ''process_exec'' then
        make_pattern (ga_kind a) (ga_tool a) Exact (ga_target a) None
          (Some (dict_get facets ''command'' (ga_command_summary a))) None None
      else if ga_kind a \<in> {''network_egress'', ''model_call''} then
        make_pattern (ga_kind a) (ga_tool a) Exact (ga_target a) None None None None
      else (case map_option py_int (map_of facets ''amount_cents'') of
          Some None \<Rightarrow> raise ValueError ''invalid literal for int() with base 10''
        | amount \<Rightarrow> make_pattern (ga_kind a) (ga_tool a) Exact (ga_target a)
            (Some (dict_get facets ''args'' ''{}'')) None (map_of facets ''recipients'')
            (Option.bind amount (\<lambda>n. n)))))"

section \<open>Records\<close>

record grant_record =
  gt_grant_id :: string
  gt_principal :: string
  gt_scope :: string
  gt_pattern :: "(string, jval) dict"
  gt_token :: string
  gt_revocation_ids :: "string list"
  gt_key_id :: int
  gt_created_at :: pyfloat
  gt_expires_at :: "pyfloat option"
  gt_run_id :: string
  gt_pinned :: bool
  gt_approver :: string
  gt_parent_id :: string
  gt_revoked :: bool
  gt_revoked_at :: "pyfloat option"
  gt_revoked_by :: string

text \<open>How the process prints: \<open>str\<close> of a container, and a float as a JSON number.\<close>

record printing =
  pr_show :: "jval \<Rightarrow> string"
  pr_num :: "pyfloat \<Rightarrow> jval"
  pr_nonfinite :: pyfloat        \<comment> \<open>which value a number that is not finite stands for\<close>

definition grant_kind :: "printing \<Rightarrow> grant_record \<Rightarrow> string" where
  "grant_kind pr r = jstr_or_empty (pr_show pr) (jget (JDict (gt_pattern r)) ''kind'')"

definition grant_tool :: "printing \<Rightarrow> grant_record \<Rightarrow> string" where
  "grant_tool pr r = jstr_or_empty (pr_show pr) (jget (JDict (gt_pattern r)) ''tool'')"

definition grant_status :: "grant_record \<Rightarrow> pyfloat \<Rightarrow> string" where
  "grant_status r now =
     (if gt_revoked r then ''revoked''
      else (case gt_expires_at r of
          Some t \<Rightarrow> if float_lt t now then ''expired'' else ''active''
        | None \<Rightarrow> ''active''))"

definition grant_to_dict :: "printing \<Rightarrow> grant_record \<Rightarrow> (string, jval) dict" where
  "grant_to_dict pr r = [(''grant_id'', JStr (gt_grant_id r)), (''principal'', JStr (gt_principal r)),
     (''scope'', JStr (gt_scope r)), (''pattern'', JDict (gt_pattern r)), (''token'', JStr (gt_token r)),
     (''revocation_ids'', JList (map JStr (gt_revocation_ids r))),
     (''key_id'', JNum (py_str_int (gt_key_id r))), (''created_at'', pr_num pr (gt_created_at r)),
     (''expires_at'', opt_json (pr_num pr) (gt_expires_at r)), (''run_id'', JStr (gt_run_id r)),
     (''pinned'', JBool (gt_pinned r)), (''approver'', JStr (gt_approver r)),
     (''parent_id'', JStr (gt_parent_id r)), (''revoked'', JBool (gt_revoked r)),
     (''revoked_at'', opt_json (pr_num pr) (gt_revoked_at r)), (''revoked_by'', JStr (gt_revoked_by r))]"

definition grant_from_dict :: "printing \<Rightarrow> jval \<Rightarrow> grant_record res" where
  "grant_from_dict pr raw =
     (let text = (\<lambda>k. jstr_or_empty (pr_show pr) (jget raw k)); scope = text ''scope'' in
      guardE (scope \<in> set GRANT_SCOPES) GrantError (''unknown grant scope '' @ py_repr scope)
      (bindE (jdict (or_value (jget raw ''pattern'') (JDict []))) (\<lambda>pattern.
       bindE (jitems (or_value (jget raw ''revocation_ids'') (JList []))) (\<lambda>ids.
       bindE (jint (pr_nonfinite pr) (or_value (jget raw ''key_id'') (JNum ''0''))) (\<lambda>key_id.
       bindE (jfloat (pr_nonfinite pr) (or_value (jget raw ''created_at'') (JNum ''0.0''))) (\<lambda>created_at.
       bindE (opt_float (pr_nonfinite pr) (jget raw ''expires_at'')) (\<lambda>expires_at.
       bindE (opt_float (pr_nonfinite pr) (jget raw ''revoked_at'')) (\<lambda>revoked_at.
       Inr \<lparr>gt_grant_id = text ''grant_id'', gt_principal = text ''principal'', gt_scope = scope,
         gt_pattern = pattern, gt_token = text ''token'', gt_revocation_ids = map (jstr (pr_show pr)) ids,
         gt_key_id = key_id, gt_created_at = created_at, gt_expires_at = expires_at, gt_run_id = text ''run_id'',
         gt_pinned = jtruthy (jget raw ''pinned''), gt_approver = text ''approver'',
         gt_parent_id = text ''parent_id'', gt_revoked = jtruthy (jget raw ''revoked''),
         gt_revoked_at = revoked_at, gt_revoked_by = text ''revoked_by''\<rparr>))))))))"

definition public_view :: "printing \<Rightarrow> (int \<Rightarrow> string) \<Rightarrow> grant_record \<Rightarrow> pyfloat \<Rightarrow> (string, jval) dict option" where
  \<comment> \<open>\<open>None\<close> where the stored pattern is outside \<^const>\<open>pattern_from_dict\<close>\<close>
  "public_view pr money r now =
     map_option (\<lambda>p. AList.update ''summary''
         (JStr (case p of Inl _ \<Rightarrow> [] | Inr q \<Rightarrow> pattern_describe money q))
         (AList.update ''status'' (JStr (grant_status r now))
         (AList.update ''revocation_ids'' (JList (map (\<lambda>i. JStr (take 16 i)) (gt_revocation_ids r)))
         (AList.delete ''token'' (grant_to_dict pr r)))))
       (pattern_from_dict (JDict (gt_pattern r)))"

section \<open>The store\<close>

record grant_store =
  gs_records :: "(string, jval) dict"
  gs_revoked :: "string list"
  gs_changes :: nat                     \<comment> \<open>calls of \<open>on_change\<close>\<close>

definition empty_store :: grant_store where
  "empty_store = \<lparr>gs_records = [], gs_revoked = [], gs_changes = 0\<rparr>"

definition store_add :: "printing \<Rightarrow> grant_record \<Rightarrow> grant_store \<Rightarrow> grant_store" where
  "store_add pr r s = s\<lparr>gs_records := AList.update (gt_grant_id r) (JDict (grant_to_dict pr r)) (gs_records s),
     gs_changes := Suc (gs_changes s)\<rparr>"

fun skipped :: "pyexn \<Rightarrow> bool" where
  \<comment> \<open>\<open>except (GrantError, TypeError, ValueError)\<close>\<close>
  "skipped (Exn c m) = (c \<in> {GrantError, GrantKeyError, TypeErrorC, ValueError})"

definition store_get :: "printing \<Rightarrow> string \<Rightarrow> grant_store \<Rightarrow> grant_record option res" where
  "store_get pr grant_id s = (case map_of (gs_records s) grant_id of
     Some (JDict kvs) \<Rightarrow> (case grant_from_dict pr (JDict kvs) of
        Inr r \<Rightarrow> Inr (Some r)
      | Inl e \<Rightarrow> if skipped e then Inr None else Inl e)
   | _ \<Rightarrow> Inr None)"

fun read_records :: "printing \<Rightarrow> jval list \<Rightarrow> grant_record list res" where
  "read_records pr [] = Inr []"
| "read_records pr (raw # raws) =
     (if \<not> is_jdict raw then read_records pr raws
      else (case grant_from_dict pr raw of
          Inr r \<Rightarrow> bindE (read_records pr raws) (\<lambda>rs. Inr (r # rs))
        | Inl e \<Rightarrow> if skipped e then read_records pr raws else Inl e))"

fun insert_by_time :: "grant_record \<Rightarrow> grant_record list \<Rightarrow> grant_record list" where
  "insert_by_time r [] = [r]"
| "insert_by_time r (x # xs) =
     (if float_lt (gt_created_at r) (gt_created_at x) then r # x # xs else x # insert_by_time r xs)"

definition sort_by_time :: "grant_record list \<Rightarrow> grant_record list" where
  \<comment> \<open>\<open>sort(key=created_at)\<close>, stable\<close>
  "sort_by_time rs = foldl (\<lambda>xs r. insert_by_time r xs) [] rs"

definition store_records :: "printing \<Rightarrow> string option \<Rightarrow> grant_store \<Rightarrow> grant_record list res" where
  "store_records pr prin s = bindE (read_records pr (map snd (gs_records s))) (\<lambda>rs.
     Inr (sort_by_time (filter (\<lambda>r. case prin of None \<Rightarrow> True | Some p \<Rightarrow> gt_principal r = p) rs)))"

definition is_revoked :: "string list \<Rightarrow> grant_store \<Rightarrow> bool" where
  "is_revoked ids s = list_ex (\<lambda>i. i \<in> set (gs_revoked s)) ids"

definition active_grants :: "printing \<Rightarrow> string \<Rightarrow> pyfloat \<Rightarrow> grant_store \<Rightarrow> grant_record list res" where
  "active_grants pr prin now s = bindE (store_records pr (Some prin) s) (\<lambda>rs.
     Inr (filter (\<lambda>r. grant_status r now = ''active'' \<and> \<not> is_revoked (gt_revocation_ids r) s) rs))"

definition revoke :: "printing \<Rightarrow> string \<Rightarrow> string \<Rightarrow> pyfloat \<Rightarrow> grant_store \<Rightarrow> (grant_store \<times> grant_record) res" where
  "revoke pr grant_id by_whom now s = (case map_of (gs_records s) grant_id of
     Some (JDict kvs) \<Rightarrow>
       bindE (grant_from_dict pr (JDict kvs)) (\<lambda>r.
       let s = s\<lparr>gs_revoked := foldl append_unique (gs_revoked s) (gt_revocation_ids r)\<rparr> in
       if gt_revoked r then Inr (s\<lparr>gs_changes := Suc (gs_changes s)\<rparr>, r)
       else
         (let updated = AList.update ''revoked_by'' (JStr by_whom) (AList.update ''revoked_at'' (pr_num pr now)
                 (AList.update ''revoked'' (JBool True) kvs));
              s = s\<lparr>gs_records := AList.update grant_id (JDict updated) (gs_records s)\<rparr> in
          bindE (grant_from_dict pr (JDict updated)) (\<lambda>r.
          Inr (s\<lparr>gs_changes := Suc (gs_changes s)\<rparr>, r))))
   | _ \<Rightarrow> raise KeyErrorC grant_id)"

section \<open>Tokens\<close>

text \<open>The lines of Datalog in the blocks of a token, with their parameters.\<close>

datatype datalog =
    Grant_head string string string   \<comment> \<open>\<open>grant_id({gid}); grant_principal({principal}); grant_scope({scope});\<close>\<close>
  | Grant_kind_tool string string     \<comment> \<open>\<open>grant_kind({kind}); grant_tool({tool});\<close>\<close>
  | Check_principal string            \<comment> \<open>\<open>check if principal({principal});\<close>\<close>
  | Check_action string string        \<comment> \<open>\<open>check if action({kind}, {tool});\<close>\<close>
  | Check_target string               \<comment> \<open>\<open>check if action_target({target});\<close>\<close>
  | Check_target_prefix string        \<comment> \<open>\<open>check if action_target($t), $t.starts_with({target});\<close>\<close>
  | Reject_dotdot                     \<comment> \<open>\<open>reject if action_target($t), $t.contains("..");\<close>\<close>
  | Check_args string                 \<comment> \<open>\<open>check if action_args({args});\<close>\<close>
  | Check_command string              \<comment> \<open>\<open>check if action_command({command});\<close>\<close>
  | Check_recipients string           \<comment> \<open>\<open>check if recipients({recipients});\<close>\<close>
  | Reject_recipients                 \<comment> \<open>\<open>reject if recipients($r);\<close>\<close>
  | Check_amount int                  \<comment> \<open>\<open>check if amount($a), $a <= {ceiling};\<close>\<close>
  | Reject_amount                     \<comment> \<open>\<open>reject if amount($a);\<close>\<close>
  | Grant_run string                  \<comment> \<open>\<open>grant_run({run}); check if run({run});\<close>\<close>
  | Check_run string                  \<comment> \<open>\<open>check if run({run});\<close>\<close>
  | Grant_pinned                      \<comment> \<open>\<open>grant_pinned(true);\<close>\<close>
  | Check_time int                    \<comment> \<open>\<open>check if time($t), $t <= {exp};\<close>\<close>

text \<open>The facts of the authorizer; its policy is always \<open>allow if grant_id($g)\<close>.\<close>

record action_facts =
  af_principal :: string
  af_run :: string
  af_kind :: string
  af_tool :: string
  af_target :: string
  af_now :: int
  af_args :: "string option"
  af_command :: "string option"
  af_recipients :: "string option"
  af_amount :: "int option"

record ('k, 'p, 't) biscuit_lib =
  bl_keys :: "('k, 'p) key_lib"
  bl_build :: "datalog list \<Rightarrow> nat \<Rightarrow> 'k \<Rightarrow> 't option"           \<comment> \<open>with the root key id\<close>
  bl_append :: "'t \<Rightarrow> datalog list \<Rightarrow> 't option"
  bl_to_base64 :: "'t \<Rightarrow> string"
  bl_from_base64 :: "string \<Rightarrow> (nat option \<Rightarrow> 'p option) \<Rightarrow> 't option"  \<comment> \<open>verifies the signatures\<close>
  bl_revocation_ids :: "'t \<Rightarrow> string list"
  bl_authorize :: "'t \<Rightarrow> action_facts \<Rightarrow> bool"
  bl_date :: "pyfloat \<Rightarrow> int option"             \<comment> \<open>a time stamp as a date, \<open>None\<close> out of range\<close>

definition parse_token :: "('k, 'p, 't) biscuit_lib \<Rightarrow> ('k, 'p) authority \<Rightarrow> string \<Rightarrow> 't res" where
  "parse_token lib au token = (case bl_from_base64 lib token (root_key au) of
     None \<Rightarrow> raise GrantError ''grant token failed verification''
   | Some t \<Rightarrow> Inr t)"

definition lib_call :: "'a option \<Rightarrow> 'a res" where
  \<comment> \<open>an exception of the library\<close>
  "lib_call v = (case v of None \<Rightarrow> raise RuntimeErrorC ''biscuit'' | Some x \<Rightarrow> Inr x)"

definition to_date :: "('k, 'p, 't) biscuit_lib \<Rightarrow> pyfloat \<Rightarrow> int res" where
  "to_date lib x = (case bl_date lib x of None \<Rightarrow> raise ValueError ''timestamp out of range'' | Some d \<Rightarrow> Inr d)"

definition date_of :: "('k, 'p, 't) biscuit_lib \<Rightarrow> pyfloat option \<Rightarrow> int option res" where
  "date_of lib x = (case x of None \<Rightarrow> Inr None | Some t \<Rightarrow> bindE (to_date lib t) (\<lambda>d. Inr (Some d)))"

fun float_add :: "pyfloat \<Rightarrow> rat \<Rightarrow> pyfloat" where
  "float_add (Fin a) b = Fin (a + b)"
| "float_add x b = x"

definition pattern_code :: "grant_pattern \<Rightarrow> datalog list" where
  \<comment> \<open>the lines of the pattern in the authority block\<close>
  "pattern_code p =
     (if gp_target_mode p = Exact then [Check_target (gp_target p)]
      else [Check_target_prefix (gp_target p), Reject_dotdot]) @
     (case gp_args p of None \<Rightarrow> [] | Some a \<Rightarrow> [Check_args a]) @
     (case gp_command p of None \<Rightarrow> [] | Some c \<Rightarrow> [Check_command c]) @
     (case gp_recipients p of Some r \<Rightarrow> [Check_recipients r] | None \<Rightarrow> [Reject_recipients]) @
     (case gp_amount_ceiling_cents p of Some n \<Rightarrow> [Check_amount n] | None \<Rightarrow> [Reject_amount])"

definition mint_code ::
  "grant_pattern \<Rightarrow> string \<Rightarrow> string \<Rightarrow> string \<Rightarrow> string \<Rightarrow> bool \<Rightarrow> int option \<Rightarrow> datalog list" where
  "mint_code p grant_id prin scope run_id pinned expiry =
     [Grant_head grant_id prin scope, Grant_kind_tool (gp_kind p) (gp_tool p), Check_principal prin,
      Check_action (gp_kind p) (gp_tool p)] @
     pattern_code p @
     (if scope = ''run'' then [Grant_run run_id] else []) @
     (if pinned then [Grant_pinned] else []) @
     (case expiry of None \<Rightarrow> [] | Some d \<Rightarrow> [Check_time d])"

definition lifetime_of :: "string \<Rightarrow> int option \<Rightarrow> int" where
  \<comment> \<open>microseconds; a zero \<open>timedelta\<close> is false\<close>
  "lifetime_of scope ttl =
     (let given = (\<lambda>dflt. case ttl of None \<Rightarrow> dflt | Some t \<Rightarrow> if t = 0 then dflt else t) in
      if scope = ''run'' then min (given RUN_TTL_MAX) RUN_TTL_MAX else given STANDING_TTL)"

definition mint ::
  "('k, 'p, 't) biscuit_lib \<Rightarrow> ('k, 'p) authority \<Rightarrow> string \<Rightarrow> grant_pattern \<Rightarrow> string \<Rightarrow> string \<Rightarrow> string
     \<Rightarrow> bool \<Rightarrow> int option \<Rightarrow> string \<Rightarrow> pyfloat \<Rightarrow> grant_record res" where
  \<comment> \<open>the third argument is the fresh grant id, the last the time of issue\<close>
  "mint lib au grant_id p prin scope run_id pinned ttl approver issued =
     (case au_signing au of
        None \<Rightarrow> raise GrantKeyError ''this authority cannot mint (no signing key)''
      | Some key \<Rightarrow>
          (let prin = py_strip prin in
           guardE (prin \<noteq> []) GrantError ''a grant needs a principal''
           (guardE (scope \<in> set GRANT_SCOPES) GrantError (''unknown grant scope '' @ py_repr scope)
           (guardE (\<not> (scope = ''run'' \<and> py_strip run_id = [])) GrantError ''a run grant needs a run id''
           (guardE (\<not> (scope = ''run'' \<and> pinned)) GrantError ''only standing grants can be pinned''
           (guardE (0 < lifetime_of scope ttl) GrantError ''grant lifetime must be positive''
           (let expires_at = (if pinned then None
                  else Some (float_add issued (of_int (lifetime_of scope ttl) / 1000000)));
                key_id = key_id_for (bl_keys lib) (kl_public_of (bl_keys lib) key) in
            bindE (date_of lib expires_at) (\<lambda>expiry.
            bindE (lib_call (bl_build lib (mint_code p grant_id prin scope run_id pinned expiry) key_id key)) (\<lambda>token.
            Inr \<lparr>gt_grant_id = grant_id, gt_principal = prin, gt_scope = scope, gt_pattern = pattern_to_dict p,
              gt_token = bl_to_base64 lib token, gt_revocation_ids = bl_revocation_ids lib token,
              gt_key_id = int key_id, gt_created_at = issued, gt_expires_at = expires_at,
              gt_run_id = (if scope = ''run'' then run_id else []), gt_pinned = pinned, gt_approver = approver,
              gt_parent_id = [], gt_revoked = False, gt_revoked_at = None, gt_revoked_by = []\<rparr>)))))))))"

definition attenuation_code ::
  "string option \<Rightarrow> string option \<Rightarrow> int option \<Rightarrow> int option \<Rightarrow> datalog list" where
  "attenuation_code run_id target_prefix expiry limit =
     (case run_id of None \<Rightarrow> [] | Some r \<Rightarrow> [Check_run r]) @
     (case target_prefix of None \<Rightarrow> [] | Some t \<Rightarrow> [Check_target_prefix t]) @
     (case expiry of None \<Rightarrow> [] | Some d \<Rightarrow> [Check_time d]) @
     (case limit of None \<Rightarrow> [] | Some n \<Rightarrow> [Check_amount n])"

definition attenuate ::
  "('k, 'p, 't) biscuit_lib \<Rightarrow> ('k, 'p) authority \<Rightarrow> string \<Rightarrow> grant_record \<Rightarrow> string option \<Rightarrow> string option
     \<Rightarrow> pyfloat option \<Rightarrow> int option \<Rightarrow> pyfloat \<Rightarrow> grant_record res" where
  \<comment> \<open>the third argument is the fresh grant id, the last the time\<close>
  "attenuate lib au grant_id r run_id target_prefix expires_at limit now =
     bindE (parse_token lib au (gt_token r)) (\<lambda>parent.
     guardE (case run_id of None \<Rightarrow> True | Some i \<Rightarrow> py_strip i \<noteq> []) GrantError ''run_id must be non-empty''
     (guardE (case target_prefix of None \<Rightarrow> True | Some t \<Rightarrow> t \<noteq> [] \<and> \<not> py_contains dotdot t) GrantError
        ''target_prefix must be a concrete folder''
     (bindE (date_of lib expires_at) (\<lambda>expiry.
     guardE (case limit of None \<Rightarrow> True | Some n \<Rightarrow> 0 \<le> n) GrantError
        ''amount_ceiling_cents must be non-negative''
     (guardE (attenuation_code run_id target_prefix expiry limit \<noteq> []) GrantError
        ''attenuation must add at least one restriction''
     (bindE (lib_call (bl_append lib parent (attenuation_code run_id target_prefix expiry limit))) (\<lambda>child.
     Inr \<lparr>gt_grant_id = grant_id, gt_principal = gt_principal r,
       gt_scope = (if run_id = None then gt_scope r else ''run''), gt_pattern = gt_pattern r,
       gt_token = bl_to_base64 lib child, gt_revocation_ids = bl_revocation_ids lib child,
       gt_key_id = gt_key_id r, gt_created_at = now,
       gt_expires_at = (case expires_at of None \<Rightarrow> gt_expires_at r
          | Some t \<Rightarrow> (case gt_expires_at r of None \<Rightarrow> Some t | Some u \<Rightarrow> Some (float_min u t))),
       gt_run_id = (case run_id of None \<Rightarrow> gt_run_id r | Some i \<Rightarrow> i),
       gt_pinned = (gt_pinned r \<and> expires_at = None), gt_approver = gt_approver r,
       gt_parent_id = gt_grant_id r, gt_revoked = False, gt_revoked_at = None, gt_revoked_by = []\<rparr>)))))))"

section \<open>Verification\<close>

definition authorizer_facts ::
  "('k, 'p, 't) biscuit_lib \<Rightarrow> gateway_action \<Rightarrow> pyfloat \<Rightarrow> action_facts res" where
  "authorizer_facts lib a now =
     bindE (to_date lib now) (\<lambda>date.
     case map_option py_int (map_of (ga_facets a) ''amount_cents'') of
       Some None \<Rightarrow> raise ValueError ''invalid literal for int() with base 10''
     | amount \<Rightarrow> Inr \<lparr>af_principal = ca_principal (ga_caller a), af_run = ca_run_id (ga_caller a),
         af_kind = ga_kind a, af_tool = ga_tool a, af_target = ga_target a, af_now = date,
         af_args = map_of (ga_facets a) ''args'',
         af_command = (if ga_kind a = ''process_exec''
            then Some (dict_get (ga_facets a) ''command'' (ga_command_summary a)) else None),
         af_recipients = map_of (ga_facets a) ''recipients'', af_amount = Option.bind amount (\<lambda>n. n)\<rparr>)"

record ('k, 'p, 't) verifier =
  vf_lib :: "('k, 'p, 't) biscuit_lib"
  vf_authority :: "('k, 'p) authority"
  vf_store :: grant_store
  vf_clock :: pyfloat
  vf_printing :: printing

definition verifier_ready :: "('k, 'p, 't) verifier \<Rightarrow> bool" where
  "verifier_ready v = (accepted_key_ids (vf_authority v) \<noteq> [])"

definition token_covers :: "('k, 'p, 't) verifier \<Rightarrow> string \<Rightarrow> gateway_action \<Rightarrow> bool res" where
  "token_covers v token a = (case parse_token (vf_lib v) (vf_authority v) token of
     Inl _ \<Rightarrow> Inr False
   | Inr t \<Rightarrow>
       if is_revoked (bl_revocation_ids (vf_lib v) t) (vf_store v) then Inr False
       else bindE (authorizer_facts (vf_lib v) a (vf_clock v)) (\<lambda>facts.
         Inr (bl_authorize (vf_lib v) t facts)))"

fun first_covering :: "('k, 'p, 't) verifier \<Rightarrow> gateway_action \<Rightarrow> grant_record list \<Rightarrow> grant_record option res" where
  "first_covering v a [] = Inr None"
| "first_covering v a (r # rs) = bindE (token_covers v (gt_token r) a) (\<lambda>b.
     if b then Inr (Some r) else first_covering v a rs)"

definition candidate :: "printing \<Rightarrow> gateway_action \<Rightarrow> grant_record \<Rightarrow> bool" where
  "candidate pr a r = (grant_kind pr r = ga_kind a \<and> grant_tool pr r = ga_tool a \<and>
     (gt_scope r \<noteq> ''run'' \<or> gt_run_id r = ca_run_id (ga_caller a)))"

definition match_grant :: "('k, 'p, 't) verifier \<Rightarrow> gateway_action \<Rightarrow> grant_record option res" where
  \<comment> \<open>\<open>match\<close>\<close>
  "match_grant v a =
     (if ca_principal (ga_caller a) = [] \<or> ca_run_id (ga_caller a) = [] \<or> R4 \<le> ga_risk a then Inr None
      else bindE (active_grants (vf_printing v) (ca_principal (ga_caller a)) (vf_clock v) (vf_store v)) (\<lambda>rs.
        first_covering v a (take MAX_GRANTS_PER_LOOKUP (filter (candidate (vf_printing v) a) rs))))"

definition covers :: "('k, 'p, 't) verifier \<Rightarrow> gateway_action \<Rightarrow> bool res" where
  "covers v a = bindE (match_grant v a) (\<lambda>found. Inr (found \<noteq> None))"

definition biscuit_grants :: "('k, 'p, 't) verifier \<Rightarrow> grant_verifier" where
  \<comment> \<open>the verifier as the gateway calls it: the id of the grant found\<close>
  "biscuit_grants v = Matcher (\<lambda>a _. bindE (match_grant v a) (\<lambda>found. Inr (map_option gt_grant_id found)))"

end
