(* ===== verification/Grants_Sound.thy ===== *)
theory Grants_Sound
  imports Grants
begin

text \<open>
  Correctness of the grants: the meaning of a pattern, what is relied on of the Biscuit library, the
  invariant of the store over minting, attenuating and revoking, soundness of the lookup, permanence
  of revocation, the round trips of stored values, and the verifier as a provider for the gateway.
\<close>

section \<open>Specification predicates and sample values\<close>

fun holds :: "action_facts \<Rightarrow> datalog \<Rightarrow> bool" where
  \<comment> \<open>what a line asks of the facts of the authorizer\<close>
  "holds f (Check_principal p) = (af_principal f = p)"
| "holds f (Check_action k t) = (af_kind f = k \<and> af_tool f = t)"
| "holds f (Check_target t) = (af_target f = t)"
| "holds f (Check_target_prefix t) = startswith (af_target f) t"
| "holds f Reject_dotdot = (\<not> py_contains dotdot (af_target f))"
| "holds f (Check_args a) = (af_args f = Some a)"
| "holds f (Check_command c) = (af_command f = Some c)"
| "holds f (Check_recipients r) = (af_recipients f = Some r)"
| "holds f Reject_recipients = (af_recipients f = None)"
| "holds f (Check_amount n) = (case af_amount f of None \<Rightarrow> False | Some m \<Rightarrow> m \<le> n)"
| "holds f Reject_amount = (af_amount f = None)"
| "holds f (Grant_run r) = (af_run f = r)"
| "holds f (Check_run r) = (af_run f = r)"
| "holds f (Check_time d) = (af_now f \<le> d)"
| "holds f _ = True"

definition biscuit_laws :: "('k, 'p, 't) biscuit_lib \<Rightarrow> ('t \<Rightarrow> datalog list) \<Rightarrow> bool" where
  \<comment> \<open>the documented behaviour relied on: blocks are kept and only added, encoding is faithful,
      revocation ids are inherited, and authorization needs every check of every block\<close>
  "biscuit_laws lib content \<longleftrightarrow>
     (\<forall>code i k t. bl_build lib code i k = Some t \<longrightarrow> content t = code) \<and>
     (\<forall>t code t'. bl_append lib t code = Some t' \<longrightarrow> content t' = content t @ code) \<and>
     (\<forall>t code t'. bl_append lib t code = Some t' \<longrightarrow> set (bl_revocation_ids lib t) \<subseteq> set (bl_revocation_ids lib t')) \<and>
     (\<forall>t root t'. bl_from_base64 lib (bl_to_base64 lib t) root = Some t' \<longrightarrow> t' = t) \<and>
     (\<forall>t f. bl_authorize lib t f \<longrightarrow> list_all (holds f) (content t))"

definition pattern_covers :: "grant_pattern \<Rightarrow> gateway_action \<Rightarrow> bool" where
  \<comment> \<open>the meaning of a pattern, on the action itself\<close>
  "pattern_covers p a \<longleftrightarrow> gp_kind p = ga_kind a \<and> gp_tool p = ga_tool a \<and>
     (case gp_target_mode p of
        Exact \<Rightarrow> ga_target a = gp_target p
      | Prefix \<Rightarrow> startswith (ga_target a) (gp_target p) \<and> \<not> py_contains dotdot (ga_target a)) \<and>
     (case gp_args p of None \<Rightarrow> True | Some x \<Rightarrow> map_of (ga_facets a) ''args'' = Some x) \<and>
     (case gp_command p of None \<Rightarrow> True
      | Some c \<Rightarrow> ga_kind a = ''process_exec'' \<and> dict_get (ga_facets a) ''command'' (ga_command_summary a) = c) \<and>
     map_of (ga_facets a) ''recipients'' = gp_recipients p \<and>
     (case gp_amount_ceiling_cents p of
        None \<Rightarrow> map_of (ga_facets a) ''amount_cents'' = None
      | Some n \<Rightarrow> (\<exists>t m. map_of (ga_facets a) ''amount_cents'' = Some t \<and> py_int t = Some m \<and> m \<le> n))"

definition genuine :: "('k, 'p, 't) biscuit_lib \<Rightarrow> ('t \<Rightarrow> datalog list) \<Rightarrow> grant_record \<Rightarrow> bool" where
  \<comment> \<open>the token of the record carries the checks of its pattern, principal and run\<close>
  "genuine lib content r \<longleftrightarrow> (\<exists>p t. gt_pattern r = pattern_to_dict p \<and> gt_token r = bl_to_base64 lib t \<and>
     gt_revocation_ids r = bl_revocation_ids lib t \<and>
     {Check_principal (gt_principal r), Check_action (gp_kind p) (gp_tool p)} \<union> set (pattern_code p) \<subseteq> set (content t) \<and>
     (gt_scope r = ''run'' \<longrightarrow> Grant_run (gt_run_id r) \<in> set (content t) \<or> Check_run (gt_run_id r) \<in> set (content t)))"

definition stored_as :: "grant_record \<Rightarrow> jval \<Rightarrow> bool" where
  "stored_as r raw \<longleftrightarrow> jget raw ''principal'' = JStr (gt_principal r) \<and> jget raw ''scope'' = JStr (gt_scope r) \<and>
     jget raw ''pattern'' = JDict (gt_pattern r) \<and> jget raw ''token'' = JStr (gt_token r) \<and>
     jget raw ''revocation_ids'' = JList (map JStr (gt_revocation_ids r)) \<and>
     jget raw ''run_id'' = JStr (gt_run_id r)"

definition store_ok :: "('k, 'p, 't) biscuit_lib \<Rightarrow> ('t \<Rightarrow> datalog list) \<Rightarrow> grant_store \<Rightarrow> bool" where
  "store_ok lib content s \<longleftrightarrow> (\<forall>raw \<in> snd ` set (gs_records s). \<exists>r. genuine lib content r \<and> stored_as r raw)"

inductive store_step ::
  "('k, 'p, 't) biscuit_lib \<Rightarrow> ('k, 'p) authority \<Rightarrow> printing \<Rightarrow> grant_store \<Rightarrow> grant_store \<Rightarrow> bool"
  for lib au pr where
  mints: "mint lib au grant_id p prin scope run_id pinned ttl approver now = Inr r \<Longrightarrow>
     store_step lib au pr s (store_add pr r s)"
| attenuates: "store_get pr parent_id s = Inr (Some parent) \<Longrightarrow>
     attenuate lib au grant_id parent run target_prefix expires limit now = Inr r \<Longrightarrow>
     store_step lib au pr s (store_add pr r s)"
| revokes: "revoke pr grant_id by_whom now s = Inr (s', r) \<Longrightarrow> store_step lib au pr s s'"

definition same_grant :: "grant_record \<Rightarrow> grant_record \<Rightarrow> bool" where
  "same_grant r r' \<longleftrightarrow> gt_principal r' = gt_principal r \<and> gt_scope r' = gt_scope r \<and>
     gt_pattern r' = gt_pattern r \<and> gt_token r' = gt_token r \<and> gt_revocation_ids r' = gt_revocation_ids r \<and>
     gt_run_id r' = gt_run_id r"

definition live_grant :: "('k, 'p, 't) verifier \<Rightarrow> gateway_action \<Rightarrow> grant_record \<Rightarrow> bool" where
  \<comment> \<open>what the gateway may assume of a grant it is given for an action\<close>
  "live_grant v a r \<longleftrightarrow>
     (\<exists>raw \<in> snd ` set (gs_records (vf_store v)). grant_from_dict (vf_printing v) raw = Inr r) \<and>
     gt_principal r = ca_principal (ga_caller a) \<and>
     (gt_scope r = ''run'' \<longrightarrow> gt_run_id r = ca_run_id (ga_caller a)) \<and>
     (\<exists>p. gt_pattern r = pattern_to_dict p \<and> pattern_covers p a) \<and>
     \<not> gt_revoked r \<and> \<not> is_revoked (gt_revocation_ids r) (vf_store v) \<and>
     (\<forall>t. gt_expires_at r = Some t \<longrightarrow> \<not> float_lt t (vf_clock v))"

definition prints :: "printing \<Rightarrow> pyfloat \<Rightarrow> bool" where
  \<comment> \<open>a float is read back from its JSON form\<close>
  "prints pr x \<longleftrightarrow> pr_num pr x \<noteq> JNull \<and> jfloat (pr_nonfinite pr) (pr_num pr x) = Inr x \<and>
     jfloat (pr_nonfinite pr) (or_value (pr_num pr x) (JNum ''0.0'')) = Inr x"

definition sample_pattern :: grant_pattern where
  "sample_pattern = \<lparr>gp_kind = ''file_write'', gp_tool = ''edit'', gp_target_mode = Prefix, gp_target = ''/ws/'',
     gp_args = None, gp_command = None, gp_recipients = None, gp_amount_ceiling_cents = None\<rparr>"

definition sample_content :: "bool \<Rightarrow> datalog list" where
  "sample_content b = mint_code sample_pattern (if b then ''g2'' else ''g1'') ''p'' ''standing'' [] True None"

definition sample_biscuit :: "(bytes, bytes, bool) biscuit_lib" where
  \<comment> \<open>a library that knows two tokens\<close>
  "sample_biscuit = \<lparr>bl_keys = sample_keys,
     bl_build = (\<lambda>code _ _. if code = sample_content False then Some False
        else if code = sample_content True then Some True else None),
     bl_append = (\<lambda>_ _. None), bl_to_base64 = (\<lambda>b. if b then ''t2'' else ''t1''),
     bl_from_base64 = (\<lambda>s root. if s = ''t1'' then Some False else if s = ''t2'' then Some True else None),
     bl_revocation_ids = (\<lambda>b. [if b then ''r2'' else ''r1'']),
     bl_authorize = (\<lambda>b f. list_all (holds f) (sample_content b)),
     bl_date = (\<lambda>x. case x of Fin q \<Rightarrow> Some (floor q) | _ \<Rightarrow> None)\<rparr>"

definition sample_authority :: "(bytes, bytes) authority" where
  "sample_authority = make_authority sample_keys (Some [1]) []"

definition sample_printing :: printing where
  "sample_printing = \<lparr>pr_show = (\<lambda>_. ''?''), pr_num = (\<lambda>x. JBool (x = Fin 1)),
     pr_nonfinite = PosInf\<rparr>"

definition sample_grant :: "string \<Rightarrow> grant_record" where
  "sample_grant i = projr (mint sample_biscuit sample_authority i sample_pattern ''p'' ''standing'' [] True None ''alice'' (Fin 1))"

definition sample_store :: grant_store where
  "sample_store = store_add sample_printing (sample_grant ''g2'') (store_add sample_printing (sample_grant ''g1'') empty_store)"

definition sample_revoked :: "grant_store \<times> grant_record" where
  "sample_revoked = projr (revoke sample_printing ''g1'' ''alice'' (Fin 1) sample_store)"

definition sample_verifier :: "grant_store \<Rightarrow> (bytes, bytes, bool) verifier" where
  "sample_verifier s = \<lparr>vf_lib = sample_biscuit, vf_authority = sample_authority, vf_store = s, vf_clock = Fin 10,
     vf_printing = sample_printing\<rparr>"

definition sample_write :: gateway_action where
  "sample_write = (sample_action ''edit'' R3)\<lparr>ga_kind := ''file_write'', ga_target := ''/ws/a'', ga_tainted := False\<rparr>"

section \<open>Lemmas\<close>

lemma mint_InrE:
  assumes "mint lib au grant_id p prin scope run_id pinned ttl approver now = Inr r"
  obtains expiry i k t where "bl_build lib (mint_code p grant_id (gt_principal r) scope run_id pinned expiry) i k = Some t"
    "gt_pattern r = pattern_to_dict p" "gt_token r = bl_to_base64 lib t" "gt_scope r = scope"
    "gt_revocation_ids r = bl_revocation_ids lib t" "scope = ''run'' \<Longrightarrow> gt_run_id r = run_id"
  using assms
  by (auto simp: mint_def Let_def guardE_eq_Inr_iff bindE_eq_Inr_iff lib_call_def raise_def split: option.splits)

lemma mint_genuine:
  assumes laws: "biscuit_laws lib content"
    and "mint lib au grant_id p prin scope run_id pinned ttl approver now = Inr r"
  shows "genuine lib content r"
  using assms(2)
proof (rule mint_InrE)
  fix expiry i k t
  assume b: "bl_build lib (mint_code p grant_id (gt_principal r) scope run_id pinned expiry) i k = Some t"
    and r: "gt_pattern r = pattern_to_dict p" "gt_token r = bl_to_base64 lib t" "gt_scope r = scope"
    "gt_revocation_ids r = bl_revocation_ids lib t" "scope = ''run'' \<Longrightarrow> gt_run_id r = run_id"
  have "content t = mint_code p grant_id (gt_principal r) scope run_id pinned expiry"
    using laws b by (simp add: biscuit_laws_def)
  then show ?thesis using r unfolding genuine_def by (intro exI [of _ p] exI [of _ t]) (auto simp: mint_code_def)
qed

lemma attenuate_InrE:
  assumes "attenuate lib au grant_id parent run target_prefix expires limit now = Inr r"
  obtains expiry t t' where "parse_token lib au (gt_token parent) = Inr t"
    "bl_append lib t (attenuation_code run target_prefix expiry limit) = Some t'"
    "gt_pattern r = gt_pattern parent" "gt_token r = bl_to_base64 lib t'" "gt_principal r = gt_principal parent"
    "gt_revocation_ids r = bl_revocation_ids lib t'"
    "gt_scope r = (if run = None then gt_scope parent else ''run'')"
    "gt_run_id r = (case run of None \<Rightarrow> gt_run_id parent | Some i \<Rightarrow> i)"
  using assms
  by (auto simp: attenuate_def guardE_eq_Inr_iff bindE_eq_Inr_iff lib_call_def raise_def split: option.splits)

lemma attenuate_genuine:
  assumes laws: "biscuit_laws lib content" and g: "genuine lib content parent"
    and "attenuate lib au grant_id parent run target_prefix expires limit now = Inr r"
  shows "genuine lib content r" and "set (gt_revocation_ids parent) \<subseteq> set (gt_revocation_ids r)"
proof -
  from assms(3) obtain expiry t t' where
    a: "parse_token lib au (gt_token parent) = Inr t"
    "bl_append lib t (attenuation_code run target_prefix expiry limit) = Some t'"
    and r: "gt_pattern r = gt_pattern parent" "gt_token r = bl_to_base64 lib t'" "gt_principal r = gt_principal parent"
    "gt_revocation_ids r = bl_revocation_ids lib t'"
    "gt_scope r = (if run = None then gt_scope parent else ''run'')"
    "gt_run_id r = (case run of None \<Rightarrow> gt_run_id parent | Some i \<Rightarrow> i)"
    by (rule attenuate_InrE)
  from g obtain p u where p: "gt_pattern parent = pattern_to_dict p" "gt_token parent = bl_to_base64 lib u"
    "gt_revocation_ids parent = bl_revocation_ids lib u"
    and sub: "{Check_principal (gt_principal parent), Check_action (gp_kind p) (gp_tool p)} \<union> set (pattern_code p) \<subseteq> set (content u)"
    and run: "gt_scope parent = ''run'' \<longrightarrow> Grant_run (gt_run_id parent) \<in> set (content u) \<or> Check_run (gt_run_id parent) \<in> set (content u)"
    unfolding genuine_def by blast
  have "t = u" using laws a(1) p(2)
    by (auto simp: parse_token_def biscuit_laws_def raise_def split: option.splits)
  then have c: "content t' = content u @ attenuation_code run target_prefix expiry limit"
    "set (bl_revocation_ids lib u) \<subseteq> set (bl_revocation_ids lib t')"
    using laws a(2) unfolding biscuit_laws_def by blast+
  show "set (gt_revocation_ids parent) \<subseteq> set (gt_revocation_ids r)" using c(2) p(3) r(4) by simp
  show "genuine lib content r" unfolding genuine_def
    using r p(1) sub run c(1)
    by (intro exI [of _ p] exI [of _ t']) (auto simp: attenuation_code_def split: option.splits)
qed

lemma stored_as_to_dict: "stored_as r (JDict (grant_to_dict pr r))"
  by (simp add: stored_as_def grant_to_dict_def)

lemma jget_update: "jget (JDict (AList.update k v kvs)) j = (if j = k then v else jget (JDict kvs) j)"
  by (simp add: update_conv')

lemma stored_as_revoked:
  "stored_as r (JDict kvs) \<Longrightarrow> stored_as r (JDict (AList.update ''revoked_by'' x
     (AList.update ''revoked_at'' y (AList.update ''revoked'' z kvs))))"
  unfolding stored_as_def jget_update by simp

lemma jstr_or_empty_JStr [simp]: "jstr_or_empty f (JStr s) = s"
  by (simp add: jstr_or_empty_def)

lemma or_value_JDict [simp]: "or_value (JDict kvs) (JDict []) = JDict kvs"
  by (simp add: or_value_def)

lemma or_value_JList [simp]: "or_value (JList xs) (JList []) = JList xs"
  by (simp add: or_value_def)

lemma map_jstr_JStr: "map (jstr f) (map JStr xs) = xs"
  by (induction xs) auto

lemma from_dict_stored:
  assumes "stored_as r raw" and "grant_from_dict pr raw = Inr r'"
  shows "same_grant r r'"
  using assms
  by (auto simp: stored_as_def same_grant_def grant_from_dict_def Let_def guardE_eq_Inr_iff bindE_eq_Inr_iff
      map_jstr_JStr simp del: map_map)

lemma genuine_same: "same_grant r r' \<Longrightarrow> genuine lib content r \<Longrightarrow> genuine lib content r'"
  by (simp add: same_grant_def genuine_def)

lemma store_ok_lookup:
  assumes "store_ok lib content s" and "map_of (gs_records s) k = Some raw"
  shows "\<exists>r. genuine lib content r \<and> stored_as r raw"
proof -
  have "raw \<in> snd ` set (gs_records s)" using map_of_SomeD [OF assms(2)] by force
  then show ?thesis using assms(1) unfolding store_ok_def by blast
qed

lemma store_ok_read:
  assumes "store_ok lib content s" and "raw \<in> snd ` set (gs_records s)" and "grant_from_dict pr raw = Inr r"
  shows "genuine lib content r"
proof -
  obtain r0 where "genuine lib content r0" "stored_as r0 raw" using assms(1,2) unfolding store_ok_def by blast
  then show ?thesis using from_dict_stored [OF _ assms(3)] genuine_same by blast
qed

lemma store_ok_update:
  assumes "store_ok lib content s" and "genuine lib content r" and "stored_as r raw"
    and "gs_records s' = AList.update k raw (gs_records s)"
  shows "store_ok lib content s'"
  using assms set_update_subset [of k raw "gs_records s"] unfolding store_ok_def by fastforce

lemma store_get_genuine:
  assumes "store_ok lib content s" and "store_get pr i s = Inr (Some r)"
  shows "genuine lib content r"
proof -
  from assms(2) obtain kvs where k: "map_of (gs_records s) i = Some (JDict kvs)"
    "grant_from_dict pr (JDict kvs) = Inr r"
    by (auto simp: store_get_def split: option.splits jval.splits sum.splits if_splits)
  then have "JDict kvs \<in> snd ` set (gs_records s)" by (metis image_eqI map_of_SomeD snd_conv)
  from store_ok_read [OF assms(1) this k(2)] show ?thesis .
qed

lemma revoke_InrE:
  assumes "revoke pr grant_id by_whom now s = Inr (s', r)"
  obtains kvs r0 where "map_of (gs_records s) grant_id = Some (JDict kvs)" "grant_from_dict pr (JDict kvs) = Inr r0"
    "gs_revoked s' = foldl append_unique (gs_revoked s) (gt_revocation_ids r0)"
    "gs_records s' = gs_records s \<or> gs_records s' = AList.update grant_id (JDict (AList.update ''revoked_by'' (JStr by_whom)
       (AList.update ''revoked_at'' (pr_num pr now) (AList.update ''revoked'' (JBool True) kvs)))) (gs_records s)"
    "r = r0 \<or> grant_from_dict pr (JDict (AList.update ''revoked_by'' (JStr by_whom)
       (AList.update ''revoked_at'' (pr_num pr now) (AList.update ''revoked'' (JBool True) kvs)))) = Inr r"
  using assms
  by (auto simp: revoke_def Let_def bindE_eq_Inr_iff raise_def split: option.splits jval.splits if_splits)

lemma store_step_ok:
  assumes laws: "biscuit_laws lib content" and "store_step lib au pr s s'" and "store_ok lib content s"
  shows "store_ok lib content s'"
  using assms(2,3)
proof (induction rule: store_step.induct)
  case (mints grant_id p prin scope run_id pinned ttl approver now r s)
  from mint_genuine [OF laws mints(1)] show ?case
    by (rule store_ok_update [OF mints(2)]) (auto simp: stored_as_to_dict store_add_def)
next
  case (attenuates parent_id s parent grant_id run target_prefix expires limit now r)
  from attenuate_genuine(1) [OF laws store_get_genuine [OF attenuates(3,1)] attenuates(2)] show ?case
    by (rule store_ok_update [OF attenuates(3)]) (auto simp: stored_as_to_dict store_add_def)
next
  case (revokes grant_id by_whom now s s' r)
  from revokes(1) obtain kvs r0 where k: "map_of (gs_records s) grant_id = Some (JDict kvs)"
    and recs: "gs_records s' = gs_records s \<or> gs_records s' = AList.update grant_id (JDict (AList.update ''revoked_by'' (JStr by_whom)
       (AList.update ''revoked_at'' (pr_num pr now) (AList.update ''revoked'' (JBool True) kvs)))) (gs_records s)"
    by (rule revoke_InrE)
  obtain r1 where r1: "genuine lib content r1" "stored_as r1 (JDict kvs)"
    using store_ok_lookup [OF revokes(2) k] by blast
  from recs show ?case
  proof
    assume "gs_records s' = gs_records s"
    then show ?thesis using revokes(2) by (simp add: store_ok_def)
  next
    assume "gs_records s' = AList.update grant_id (JDict (AList.update ''revoked_by'' (JStr by_whom)
       (AList.update ''revoked_at'' (pr_num pr now) (AList.update ''revoked'' (JBool True) kvs)))) (gs_records s)"
    then show ?thesis by (rule store_ok_update [OF revokes(2) r1(1) stored_as_revoked [OF r1(2)]])
  qed
qed

lemma store_steps_ok:
  assumes "biscuit_laws lib content" and "(store_step lib au pr)\<^sup>*\<^sup>* empty_store s"
  shows "store_ok lib content s"
  using assms(2)
proof (induction rule: rtranclp_induct)
  case base
  then show ?case by (simp add: store_ok_def empty_store_def)
next
  case (step y z)
  then show ?case using store_step_ok [OF assms(1)] by blast
qed

lemma revoked_grow:
  "store_step lib au pr s s' \<Longrightarrow> set (gs_revoked s) \<subseteq> set (gs_revoked s')"
  by (induction rule: store_step.induct) (auto simp: store_add_def set_foldl_append_unique elim!: revoke_InrE)

lemma revoked_grow_steps:
  "(store_step lib au pr)\<^sup>*\<^sup>* s s' \<Longrightarrow> set (gs_revoked s) \<subseteq> set (gs_revoked s')"
  by (induction rule: rtranclp_induct) (use revoked_grow in blast)+

lemma read_records_member:
  "read_records pr raws = Inr rs \<Longrightarrow> r \<in> set rs \<Longrightarrow> \<exists>raw \<in> set raws. grant_from_dict pr raw = Inr r"
proof (induction raws arbitrary: rs)
  case (Cons a raws)
  then show ?case by (auto simp: bindE_eq_Inr_iff split: if_splits sum.splits)
qed simp

lemma set_insert_by_time: "set (insert_by_time r xs) = insert r (set xs)"
  by (induction xs) auto

lemma set_sort_by_time: "set (sort_by_time rs) = set rs"
proof -
  have "set (foldl (\<lambda>xs r. insert_by_time r xs) acc rs) = set acc \<union> set rs" for acc
    by (induction rs arbitrary: acc) (auto simp: set_insert_by_time)
  then show ?thesis by (simp add: sort_by_time_def)
qed

lemma active_grants_member:
  assumes "active_grants pr prin now s = Inr rs" and "r \<in> set rs"
  shows "\<exists>raw \<in> snd ` set (gs_records s). grant_from_dict pr raw = Inr r"
    and "gt_principal r = prin" and "grant_status r now = ''active''" and "\<not> is_revoked (gt_revocation_ids r) s"
  using assms
  by (auto simp: active_grants_def store_records_def bindE_eq_Inr_iff set_sort_by_time dest!: read_records_member)

lemma first_covering_Some:
  "first_covering v a rs = Inr (Some r) \<Longrightarrow> r \<in> set rs \<and> token_covers v (gt_token r) a = Inr True"
  by (induction rs) (auto simp: bindE_eq_Inr_iff split: if_splits)

lemma match_grantE:
  assumes "match_grant v a = Inr (Some r)"
  obtains rs where "active_grants (vf_printing v) (ca_principal (ga_caller a)) (vf_clock v) (vf_store v) = Inr rs"
    "r \<in> set rs" "candidate (vf_printing v) a r" "token_covers v (gt_token r) a = Inr True" "ga_risk a < R4"
proof -
  from assms obtain rs where "active_grants (vf_printing v) (ca_principal (ga_caller a)) (vf_clock v) (vf_store v) = Inr rs"
    "first_covering v a (take MAX_GRANTS_PER_LOOKUP (filter (candidate (vf_printing v) a) rs)) = Inr (Some r)"
    "\<not> R4 \<le> ga_risk a"
    by (auto simp: match_grant_def bindE_eq_Inr_iff split: if_splits)
  with first_covering_Some [OF this(2)] show ?thesis using that by (auto dest: in_set_takeD)
qed

lemma authorizer_facts_fields:
  assumes "authorizer_facts lib a now = Inr f"
  shows "af_kind f = ga_kind a" "af_tool f = ga_tool a" "af_target f = ga_target a"
    "af_run f = ca_run_id (ga_caller a)"
    "af_args f = map_of (ga_facets a) ''args''" "af_recipients f = map_of (ga_facets a) ''recipients''"
    "af_command f = (if ga_kind a = ''process_exec''
       then Some (dict_get (ga_facets a) ''command'' (ga_command_summary a)) else None)"
    "case map_of (ga_facets a) ''amount_cents'' of None \<Rightarrow> af_amount f = None
       | Some t \<Rightarrow> (\<exists>m. py_int t = Some m \<and> af_amount f = Some m)"
proof -
  let ?fields = "\<lambda>f. af_kind f = ga_kind a \<and> af_tool f = ga_tool a \<and> af_target f = ga_target a \<and>
    af_run f = ca_run_id (ga_caller a) \<and>
    af_args f = map_of (ga_facets a) ''args'' \<and> af_recipients f = map_of (ga_facets a) ''recipients'' \<and>
    af_command f = (if ga_kind a = ''process_exec''
       then Some (dict_get (ga_facets a) ''command'' (ga_command_summary a)) else None) \<and>
    (case map_of (ga_facets a) ''amount_cents'' of None \<Rightarrow> af_amount f = None
       | Some t \<Rightarrow> (\<exists>m. py_int t = Some m \<and> af_amount f = Some m))"
  have "?fields f"
  proof (cases "map_of (ga_facets a) ''amount_cents''")
    case None
    then show ?thesis using assms by (auto simp: authorizer_facts_def bindE_eq_Inr_iff)
  next
    case (Some t)
    then show ?thesis using assms
      by (cases "py_int t") (auto simp: authorizer_facts_def bindE_eq_Inr_iff raise_def)
  qed
  then show "af_kind f = ga_kind a" "af_tool f = ga_tool a" "af_target f = ga_target a"
    "af_run f = ca_run_id (ga_caller a)"
    "af_args f = map_of (ga_facets a) ''args''" "af_recipients f = map_of (ga_facets a) ''recipients''"
    "af_command f = (if ga_kind a = ''process_exec''
       then Some (dict_get (ga_facets a) ''command'' (ga_command_summary a)) else None)"
    "case map_of (ga_facets a) ''amount_cents'' of None \<Rightarrow> af_amount f = None
       | Some t \<Rightarrow> (\<exists>m. py_int t = Some m \<and> af_amount f = Some m)"
    by blast+
qed

lemma pattern_code_covers:
  assumes f: "authorizer_facts lib a now = Inr f" and all: "\<forall>x \<in> set (pattern_code p). holds f x"
    and k: "holds f (Check_action (gp_kind p) (gp_tool p))"
  shows "pattern_covers p a"
proof -
  note af = authorizer_facts_fields [OF f]
  show ?thesis
    using all k af(8) unfolding pattern_covers_def pattern_code_def
    by (auto simp: af(1-7) split: option.splits target_mode.splits if_splits)
qed

lemma token_covers_genuine:
  assumes laws: "biscuit_laws (vf_lib v) content" and g: "genuine (vf_lib v) content r"
    and t: "token_covers v (gt_token r) a = Inr True"
  shows "\<exists>p. gt_pattern r = pattern_to_dict p \<and> pattern_covers p a"
    and "gt_scope r = ''run'' \<Longrightarrow> gt_run_id r = ca_run_id (ga_caller a)"
proof -
  from g obtain p u where p: "gt_pattern r = pattern_to_dict p" "gt_token r = bl_to_base64 (vf_lib v) u"
    and sub: "{Check_principal (gt_principal r), Check_action (gp_kind p) (gp_tool p)} \<union> set (pattern_code p) \<subseteq> set (content u)"
    and run: "gt_scope r = ''run'' \<longrightarrow> Grant_run (gt_run_id r) \<in> set (content u) \<or> Check_run (gt_run_id r) \<in> set (content u)"
    unfolding genuine_def by blast
  from t obtain w f where w: "bl_from_base64 (vf_lib v) (gt_token r) (root_key (vf_authority v)) = Some w"
    and f: "authorizer_facts (vf_lib v) a (vf_clock v) = Inr f" and auth: "bl_authorize (vf_lib v) w f"
    by (auto simp: token_covers_def parse_token_def raise_def bindE_eq_Inr_iff split: option.splits if_splits)
  have "w = u" using laws w p(2) unfolding biscuit_laws_def by auto
  then have all: "\<forall>x \<in> set (content u). holds f x"
    using laws auth unfolding biscuit_laws_def list_all_iff by blast
  show "\<exists>p. gt_pattern r = pattern_to_dict p \<and> pattern_covers p a"
    using pattern_code_covers [OF f, of p] all sub p(1) by blast
  note authorizer_facts_fields(4) [OF f]
  then show "gt_run_id r = ca_run_id (ga_caller a)" if "gt_scope r = ''run''"
    using all run that by force
qed

lemma active_not_expired:
  "grant_status r now = ''active'' \<Longrightarrow> \<not> gt_revoked r \<and> (\<forall>t. gt_expires_at r = Some t \<longrightarrow> \<not> float_lt t now)"
  by (auto simp: grant_status_def split: if_splits option.splits)

lemma match_grant_live:
  assumes laws: "biscuit_laws (vf_lib v) content" and ok: "store_ok (vf_lib v) content (vf_store v)"
    and m: "match_grant v a = Inr (Some r)"
  shows "live_grant v a r \<and> ga_risk a < R4"
proof -
  from m obtain rs where a: "active_grants (vf_printing v) (ca_principal (ga_caller a)) (vf_clock v) (vf_store v) = Inr rs"
    "r \<in> set rs" and t: "token_covers v (gt_token r) a = Inr True" and risk: "ga_risk a < R4"
    by (rule match_grantE)
  note mem = active_grants_member [OF a]
  from mem(1) obtain raw where "raw \<in> snd ` set (gs_records (vf_store v))"
    "grant_from_dict (vf_printing v) raw = Inr r" by blast
  then have "genuine (vf_lib v) content r" by (rule store_ok_read [OF ok])
  from token_covers_genuine [OF laws this t] mem active_not_expired [OF mem(3)] risk
  show ?thesis unfolding live_grant_def by blast
qed

lemma revoke_ids:
  assumes laws: "biscuit_laws lib content" and ok: "store_ok lib content s"
    and rev: "revoke pr grant_id by_whom now s = Inr (s', r)"
  shows "genuine lib content r" and "set (gt_revocation_ids r) \<subseteq> set (gs_revoked s')"
proof -
  from rev obtain kvs r0 where k: "map_of (gs_records s) grant_id = Some (JDict kvs)"
    "grant_from_dict pr (JDict kvs) = Inr r0"
    "gs_revoked s' = foldl append_unique (gs_revoked s) (gt_revocation_ids r0)"
    and r: "r = r0 \<or> grant_from_dict pr (JDict (AList.update ''revoked_by'' (JStr by_whom)
       (AList.update ''revoked_at'' (pr_num pr now) (AList.update ''revoked'' (JBool True) kvs)))) = Inr r"
    by (rule revoke_InrE)
  obtain r1 where r1: "genuine lib content r1" "stored_as r1 (JDict kvs)"
    using store_ok_lookup [OF ok k(1)] by blast
  have "same_grant r1 r0" by (rule from_dict_stored [OF r1(2) k(2)])
  moreover have "same_grant r1 r"
    using r calculation from_dict_stored [OF stored_as_revoked [OF r1(2)]] by blast
  ultimately show "genuine lib content r" "set (gt_revocation_ids r) \<subseteq> set (gs_revoked s')"
    using genuine_same r1(1) by (auto simp: same_grant_def k(3) set_foldl_append_unique)
qed

lemma cents_opt_json: "cents (opt_json (\<lambda>n. JNum (py_str_int n)) v) = v"
  by (cases v) (auto simp: opt_json_def py_int_str_int)

lemma text_of_opt_json [simp]: "text_of (opt_json JStr v) = v"
  by (cases v) (auto simp: opt_json_def)

lemma make_pattern_Inr:
  assumes "make_pattern kind tool mode target args command recipients limit = Inr p"
  shows "p = \<lparr>gp_kind = kind, gp_tool = tool, gp_target_mode = mode, gp_target = target, gp_args = args,
     gp_command = command, gp_recipients = recipients, gp_amount_ceiling_cents = limit\<rparr>"
  using assms unfolding make_pattern_def post_init_def
  by (cases mode) (auto simp: guardE_eq_Inr_iff cents_opt_json)

lemma parent_folder_prefix: "prefix (parent_folder path) path"
proof -
  have "prefix (rstrip f path) path" for f
    unfolding rstrip_def by (metis suffix_dropWhile suffix_to_prefix rev_rev_ident)
  then show ?thesis by (simp add: parent_folder_def Let_def)
qed

lemma jint_str_int: "jint nf (or_value (JNum (py_str_int n)) (JNum ''0'')) = Inr n"
proof -
  have "py_int ''0'' = Some 0" by code_simp
  then show ?thesis using num_text_zero [of n] by (auto simp: or_value_def py_int_str_int)
qed

lemma live_grant_raise_risk [simp]: "live_grant v (raise_risk env caps a) r = live_grant v a r"
proof -
  have same: "ga_facets (raise_risk env caps a) = ga_facets a"
    "ga_command_summary (raise_risk env caps a) = ga_command_summary a"
    by (simp_all add: raise_risk_def Let_def)
  show ?thesis unfolding live_grant_def pattern_covers_def raise_risk_fields same ..
qed

interpretation biscuit: grant_provider "biscuit_grants v"
  "\<lambda>a i. \<forall>content. biscuit_laws (vf_lib v) content \<and> store_ok (vf_lib v) content (vf_store v) \<longrightarrow>
     (\<exists>r. gt_grant_id r = i \<and> live_grant v a r)" for v
proof unfold_locales
  fix env :: gateway_env and a caps i
  assume "ge_grants env = biscuit_grants v" "fst (covering_grant env a caps) = Some i"
  then obtain r where "match_grant v a = Inr (Some r)" "gt_grant_id r = i"
    by (auto simp: covering_grant_def biscuit_grants_def bindE_def split: sum.splits)
  then show "\<forall>content. biscuit_laws (vf_lib v) content \<and> store_ok (vf_lib v) content (vf_store v) \<longrightarrow>
     (\<exists>r. gt_grant_id r = i \<and> live_grant v a r)" using match_grant_live by blast
qed

lemma sample_laws: "biscuit_laws sample_biscuit sample_content"
  unfolding biscuit_laws_def sample_biscuit_def by (auto split: if_splits)

lemma sample_mints:
  "mint sample_biscuit sample_authority ''g1'' sample_pattern ''p'' ''standing'' [] True None ''alice'' (Fin 1) =
     Inr (sample_grant ''g1'')"
  "mint sample_biscuit sample_authority ''g2'' sample_pattern ''p'' ''standing'' [] True None ''alice'' (Fin 1) =
     Inr (sample_grant ''g2'')"
  by code_simp+

lemma sample_reach: "(store_step sample_biscuit sample_authority sample_printing)\<^sup>*\<^sup>* empty_store sample_store"
  unfolding sample_store_def
  by (rule rtranclp.rtrancl_into_rtrancl [OF rtranclp.rtrancl_into_rtrancl [OF rtranclp.rtrancl_refl]])
    (rule store_step.mints [OF sample_mints(1)], rule store_step.mints [OF sample_mints(2)])

lemma sample_found: "match_grant (sample_verifier sample_store) sample_write = Inr (Some (sample_grant ''g1''))"
  by code_simp

lemma sample_found_later:
  "match_grant (sample_verifier (fst sample_revoked)) sample_write = Inr (Some (sample_grant ''g2''))"
  by code_simp

lemma sample_revoke:
  "revoke sample_printing ''g1'' ''alice'' (Fin 1) sample_store = Inr (fst sample_revoked, snd sample_revoked)"
  by code_simp

section \<open>Properties\<close>

text \<open>
  C7: A grant the verifier finds is live and covers the action.  For every store reached by minting,
  attenuating and revoking, the record found for an action is stored, belongs to the caller's
  principal, to this run if it is a run grant, is neither revoked nor expired, and its pattern covers
  the action: kind, tool, target, pinned arguments or command, recipients and amount; and the action
  is below R4.  Of the library this needs that authorization requires every check of every block.
\<close>

theorem match_grant_sound:
  assumes "biscuit_laws (vf_lib v) content"
    and "(store_step (vf_lib v) au pr)\<^sup>*\<^sup>* empty_store (vf_store v)"
    and "match_grant v a = Inr (Some r)"
  shows "live_grant v a r \<and> ga_risk a < R4"
  using assms(1) store_steps_ok [OF assms(1,2)] assms(3) by (rule match_grant_live)

theorem match_grant_sound_witness:
  "live_grant (sample_verifier sample_store) sample_write (sample_grant ''g1'')"
proof -
  have "biscuit_laws (vf_lib (sample_verifier sample_store)) sample_content"
    "(store_step (vf_lib (sample_verifier sample_store)) sample_authority sample_printing)\<^sup>*\<^sup>* empty_store
       (vf_store (sample_verifier sample_store))"
    using sample_laws sample_reach by (simp_all add: sample_verifier_def)
  from match_grant_sound [OF this sample_found] show ?thesis ..
qed

text \<open>
  C8: Revocation is permanent.  After a grant is revoked, whatever is minted, attenuated or revoked
  later, no grant that is found shares a revocation identifier with it; in particular neither the
  grant nor one attenuated from it is ever found again.
\<close>

theorem revocation_permanent:
  assumes laws: "biscuit_laws lib content" and "(store_step lib au pr)\<^sup>*\<^sup>* empty_store s"
    and rev: "revoke pr grant_id by_whom now s = Inr (s', r)"
    and later: "(store_step lib au pr)\<^sup>*\<^sup>* s' (vf_store v)" and "gt_revocation_ids r \<noteq> []"
    and m: "match_grant v a = Inr (Some r')"
  shows "set (gt_revocation_ids r) \<inter> set (gt_revocation_ids r') = {} \<and>
    attenuate lib au grant_id' r run target_prefix expires limit now' \<noteq> Inr r'"
proof -
  have ok: "store_ok lib content s" by (rule store_steps_ok [OF laws assms(2)])
  note ids = revoke_ids [OF laws ok rev]
  from m obtain rs where "active_grants (vf_printing v) (ca_principal (ga_caller a)) (vf_clock v) (vf_store v) = Inr rs"
    "r' \<in> set rs" by (rule match_grantE)
  then have "\<not> is_revoked (gt_revocation_ids r') (vf_store v)" by (rule active_grants_member(4))
  then have "set (gt_revocation_ids r') \<inter> set (gs_revoked (vf_store v)) = {}"
    by (auto simp: is_revoked_def list_ex_iff)
  then have *: "set (gt_revocation_ids r) \<inter> set (gt_revocation_ids r') = {}"
    using ids(2) revoked_grow_steps [OF later] by blast
  then show ?thesis using attenuate_genuine(2) [OF laws ids(1)] assms(5) by (metis inf.absorb1 set_empty)
qed

theorem revocation_permanent_witness:
  "set (gt_revocation_ids (snd sample_revoked)) \<inter> set (gt_revocation_ids (sample_grant ''g2'')) = {} \<and>
   gt_revocation_ids (snd sample_revoked) = [''r1'']"
proof -
  have ids: "gt_revocation_ids (snd sample_revoked) = [''r1'']" by code_simp
  have "(store_step sample_biscuit sample_authority sample_printing)\<^sup>*\<^sup>* (fst sample_revoked)
      (vf_store (sample_verifier (fst sample_revoked)))"
    by (simp add: sample_verifier_def)
  moreover have "gt_revocation_ids (snd sample_revoked) \<noteq> []" using ids by simp
  ultimately show ?thesis
    using revocation_permanent [OF sample_laws sample_reach sample_revoke _ _ sample_found_later] ids by blast
qed

text \<open>
  The pattern offered to the approver covers the action it was made from, is never made for R4,
  and is a folder prefix only for a file action, and then its own folder.
\<close>

theorem tightest_pattern_covers:
  assumes "tightest_pattern a = Inr p"
    and "ga_kind a \<in> set FILE_KINDS \<union> {''process_exec'', ''network_egress'', ''model_call''} \<and>
           map_of (ga_facets a) ''recipients'' = None \<and> map_of (ga_facets a) ''amount_cents'' = None \<or>
         map_of (ga_facets a) ''args'' \<noteq> None \<and> ga_kind a \<in> set TOOL_KINDS"
  shows "pattern_covers p a \<and> ga_risk a < R4 \<and>
    (gp_target_mode p = Prefix \<longrightarrow> ga_kind a \<in> set FILE_KINDS \<and> gp_target p = parent_folder (ga_target a))"
proof -
  have risk: "ga_risk a < R4" and body: "(let facets = ga_facets a in
      if ga_kind a \<in> set FILE_KINDS then
        (if parent_folder (ga_target a) \<noteq> [] \<and> \<not> py_contains dotdot (ga_target a)
         then make_pattern (ga_kind a) (ga_tool a) Prefix (parent_folder (ga_target a)) None None None None
         else make_pattern (ga_kind a) (ga_tool a) Exact (ga_target a) None None None None)
      else if ga_kind a = ''process_exec'' then
        make_pattern (ga_kind a) (ga_tool a) Exact (ga_target a) None
          (Some (dict_get facets ''command'' (ga_command_summary a))) None None
      else if ga_kind a \<in> {''network_egress'', ''model_call''} then
        make_pattern (ga_kind a) (ga_tool a) Exact (ga_target a) None None None None
      else (case map_option py_int (map_of facets ''amount_cents'') of
          Some None \<Rightarrow> raise ValueError ''invalid literal for int() with base 10''
        | amount \<Rightarrow> make_pattern (ga_kind a) (ga_tool a) Exact (ga_target a)
            (Some (dict_get facets ''args'' ''{}'')) None (map_of facets ''recipients'')
            (Option.bind amount (\<lambda>n. n)))) = Inr p"
    using assms(1) unfolding tightest_pattern_def guardE_eq_Inr_iff by blast+
  have k: "ga_kind a \<notin> set FILE_KINDS" "ga_kind a \<noteq> ''process_exec''" "ga_kind a \<notin> {''network_egress'', ''model_call''}"
    if "ga_kind a \<in> set TOOL_KINDS" using that by (auto simp: FILE_KINDS_def TOOL_KINDS_def)
  show ?thesis
  proof (cases "ga_kind a \<in> set TOOL_KINDS")
    case True
    obtain x where x: "map_of (ga_facets a) ''args'' = Some x"
      using assms(2) k [OF True] by blast
    note body' = body [unfolded Let_def if_not_P [OF k(1) [OF True]] if_not_P [OF k(2) [OF True]]
        if_not_P [OF k(3) [OF True]]]
    show ?thesis
    proof (cases "map_of (ga_facets a) ''amount_cents''")
      case None
      then show ?thesis using body' risk x k [OF True]
        by (auto simp: pattern_covers_def dict_get_def dest!: make_pattern_Inr)
    next
      case (Some t)
      then show ?thesis using body' risk x k [OF True]
        by (cases "py_int t") (auto simp: pattern_covers_def dict_get_def raise_def dest!: make_pattern_Inr)
    qed
  next
    case False
    then have none: "map_of (ga_facets a) ''recipients'' = None" "map_of (ga_facets a) ''amount_cents'' = None"
      and kind: "ga_kind a \<in> set FILE_KINDS \<or> ga_kind a = ''process_exec'' \<or> ga_kind a \<in> {''network_egress'', ''model_call''}"
      using assms(2) by blast+
    show ?thesis using body kind none risk parent_folder_prefix [of "ga_target a"]
      by (auto simp: pattern_covers_def Let_def split: if_splits dest!: make_pattern_Inr)
  qed
qed

theorem tightest_pattern_covers_witness:
  "pattern_covers sample_pattern sample_write \<and> tightest_pattern sample_write = Inr sample_pattern"
proof -
  have t: "tightest_pattern sample_write = Inr sample_pattern" by code_simp
  have "ga_kind sample_write \<in> set FILE_KINDS \<union> {''process_exec'', ''network_egress'', ''model_call''} \<and>
      map_of (ga_facets sample_write) ''recipients'' = None \<and> map_of (ga_facets sample_write) ''amount_cents'' = None"
    by code_simp
  from tightest_pattern_covers [OF t disjI1 [OF this]] t show ?thesis by blast
qed

text \<open>
  A pattern that passed its checks is read back from its stored form unchanged.
\<close>

theorem pattern_dict_roundtrip:
  assumes "make_pattern kind tool mode target args command recipients limit = Inr p"
  shows "pattern_from_dict (JDict (pattern_to_dict p)) = Some (Inr p)"
  using assms make_pattern_Inr [OF assms] unfolding make_pattern_def
  by (simp add: pattern_from_dict_def pattern_to_dict_def PATTERN_FIELDS_def)

theorem pattern_dict_roundtrip_witness:
  "pattern_from_dict (JDict (pattern_to_dict sample_pattern)) = Some (Inr sample_pattern)"
proof -
  have "make_pattern ''file_write'' ''edit'' Prefix ''/ws/'' None None None None = Inr sample_pattern" by code_simp
  then show ?thesis by (rule pattern_dict_roundtrip)
qed

text \<open>
  A grant record is read back from its stored form unchanged, for times that survive printing.
\<close>

theorem grant_record_roundtrip:
  assumes "gt_scope r \<in> set GRANT_SCOPES" and "prints pr (gt_created_at r)"
    and "case gt_expires_at r of None \<Rightarrow> True | Some t \<Rightarrow> prints pr t"
    and "case gt_revoked_at r of None \<Rightarrow> True | Some t \<Rightarrow> prints pr t"
  shows "grant_from_dict pr (JDict (grant_to_dict pr r)) = Inr r"
proof -
  have o: "opt_float (pr_nonfinite pr) (opt_json (pr_num pr) v) = Inr v" if "case v of None \<Rightarrow> True | Some t \<Rightarrow> prints pr t" for v
    using that by (cases v) (auto simp: opt_float_def opt_json_def prints_def)
  have i: "jint (pr_nonfinite pr) (or_value (JNum (py_str_int n)) (JNum ''0'')) = Inr n" for n
    by (rule jint_str_int)
  show ?thesis using assms(1,2) o [OF assms(3)] o [OF assms(4)] i
    by (simp add: grant_from_dict_def grant_to_dict_def Let_def prints_def map_jstr_JStr del: map_map)
qed

theorem grant_record_roundtrip_witness:
  "grant_from_dict sample_printing (JDict (grant_to_dict sample_printing (sample_grant ''g1''))) = Inr (sample_grant ''g1'')"
proof -
  have "gt_scope (sample_grant ''g1'') \<in> set GRANT_SCOPES" "prints sample_printing (gt_created_at (sample_grant ''g1''))"
    "case gt_expires_at (sample_grant ''g1'') of None \<Rightarrow> True | Some t \<Rightarrow> prints sample_printing t"
    "case gt_revoked_at (sample_grant ''g1'') of None \<Rightarrow> True | Some t \<Rightarrow> prints sample_printing t"
    by code_simp+
  then show ?thesis by (rule grant_record_roundtrip)
qed

end
