(* ===== verification/Loop_State.thy ===== *)
theory Loop_State
  imports Py_Text
begin

text \<open>
  \<open>locus_runtime/loop_runner/state.py\<close>: the configuration of the loop runner, its kill switch, the
  lock file that keeps two runs from overlapping, the ledger of runs and failures, and the run
  history.  The environment is a function from names to values and the front matter of
  \<open>WORKFLOW.md\<close> a JSON value; a file is its content, absent or present.  The lock is modelled twice:
  \<open>acquire\<close> as one process runs it alone, and as single file operations that several processes interleave.
\<close>

section \<open>Environment\<close>

type_synonym environment = "string \<Rightarrow> string option"

definition env_text :: "environment \<Rightarrow> string \<Rightarrow> string" where
  \<comment> \<open>\<open>str(os.getenv(name) or "").strip()\<close>\<close>
  "env_text env name = (case env name of None \<Rightarrow> [] | Some s \<Rightarrow> py_strip s)"

definition TRUE_WORDS :: "string list" where
  "TRUE_WORDS = [''1'', ''true'', ''yes'', ''on'']"

definition env_int :: "environment \<Rightarrow> string \<Rightarrow> int \<Rightarrow> int" where
  "env_int env name dflt =
     (case (if env_text env name = [] then Some dflt else py_int (env_text env name)) of
        None \<Rightarrow> dflt
      | Some value \<Rightarrow> if 0 < value then value else dflt)"

definition env_float :: "environment \<Rightarrow> string \<Rightarrow> pyfloat \<Rightarrow> pyfloat" where
  "env_float env name dflt =
     (case (if env_text env name = [] then Some dflt else py_float (env_text env name)) of
        None \<Rightarrow> dflt
      | Some value \<Rightarrow> if float_lt (Fin 0) value then value else dflt)"

definition env_bool :: "environment \<Rightarrow> string \<Rightarrow> bool \<Rightarrow> bool" where
  "env_bool env name dflt =
     (let raw = py_lower (env_text env name) in if raw = [] then dflt else raw \<in> set TRUE_WORDS)"

definition env_fraction :: "environment \<Rightarrow> string \<Rightarrow> pyfloat \<Rightarrow> pyfloat" where
  "env_fraction env name dflt =
     (case (if env_text env name = [] then Some dflt else py_float (env_text env name)) of
        None \<Rightarrow> dflt
      | Some value \<Rightarrow> if float_le (Fin 0) value \<and> float_le value (Fin 1) then value else dflt)"

definition env_list :: "environment \<Rightarrow> string \<Rightarrow> string list" where
  "env_list env name = map py_strip (filter (\<lambda>s. py_strip s \<noteq> [])
     (py_split CHR '','' (case env name of None \<Rightarrow> [] | Some s \<Rightarrow> s)))"

section \<open>Configuration\<close>

definition DEFAULT_ACTIVE_STATES :: "string list" where
  "DEFAULT_ACTIVE_STATES = [''Todo'', ''In Progress'', ''Rework'']"

definition DEFAULT_EXCLUDE_LABELS :: "string list" where
  "DEFAULT_EXCLUDE_LABELS = [''epic'', ''agent:ineligible'', ''agent:human-review-required'']"

definition EVAL_MODES :: "string list" where
  "EVAL_MODES = [''off'', ''advisory'', ''required'']"

definition parse_eval_mode :: "string option \<Rightarrow> string \<Rightarrow> string" where
  "parse_eval_mode value dflt =
     (let raw = py_lower (py_strip (case value of None \<Rightarrow> [] | Some s \<Rightarrow> s)) in
      if raw \<in> set EVAL_MODES then raw
      else dict_get [(''0'', ''off''), (''false'', ''off''), (''no'', ''off''), (''1'', ''advisory''),
        (''true'', ''advisory''), (''on'', ''advisory''), (''yes'', ''advisory'')] raw dflt)"

record loop_config =
  lc_repo_path :: string
  lc_home :: string
  lc_project_slug :: string
  lc_active_states :: "string list"
  lc_exclude_labels :: "string list"
  lc_required_label :: string
  lc_in_progress_state :: string
  lc_review_state :: string
  lc_todo_state :: string
  lc_blocked_state :: string
  lc_remote :: string
  lc_base_branch :: string
  lc_poll_interval_seconds :: pyfloat
  lc_max_runs_per_day :: int
  lc_max_failures :: int
  lc_lock_ttl_seconds :: pyfloat
  lc_auto_merge :: bool
  lc_required_checks :: "string list"
  lc_merge_method :: string
  lc_check_commands :: "(string, string) dict"
  lc_quality_gates :: bool
  lc_perf_gate :: bool
  lc_perf_iterations :: int
  lc_gate_python :: string
  lc_typecheck_roots :: "string list"
  lc_typecheck_args :: "string list"
  lc_eval_gate :: string
  lc_eval_threshold :: pyfloat
  lc_eval_max_steps :: int
  lc_propose_skills :: bool
  lc_file_failure_issues :: bool
  lc_max_failure_issues_per_day :: int
  lc_failure_issue_min_occurrences :: int

definition jget_or :: "jval \<Rightarrow> string \<Rightarrow> jval \<Rightarrow> jval res" where
  \<comment> \<open>\<open>v.get(k) or d\<close>; only dictionaries have \<open>get\<close>\<close>
  "jget_or v k d = (if is_jdict v then Inr (or_value (jget v k) d)
     else raise AttributeErrorC ''object has no attribute get'')"

definition text_list :: "(jval \<Rightarrow> string) \<Rightarrow> jval \<Rightarrow> string list res" where
  "text_list sh v = bindE (jitems v) (\<lambda>xs. Inr (map (jstr sh) xs))"

definition poll_interval :: "pyfloat \<Rightarrow> jval \<Rightarrow> pyfloat res" where
  \<comment> \<open>\<open>float(v) / 1000.0\<close>, 30 when \<open>v\<close> is no number\<close>
  "poll_interval nf v = (case jfloat nf v of
     Inr (Fin q) \<Rightarrow> Inr (Fin (q / 1000))
   | Inr x \<Rightarrow> Inr x
   | Inl (Exn c m) \<Rightarrow> if c \<in> {TypeErrorC, ValueError} then Inr (Fin 30) else Inl (Exn c m))"

definition config_load ::
  "(jval \<Rightarrow> string) \<Rightarrow> pyfloat \<Rightarrow> environment \<Rightarrow> jval \<Rightarrow> string \<Rightarrow> string \<Rightarrow> loop_config res" where
  \<comment> \<open>printing, the non-finite number, the environment, the front matter, the repository and the home\<close>
  "config_load sh nf env front repo home =
     bindE (jget_or front ''tracker'' (JDict [])) (\<lambda>tracker.
     bindE (jget_or tracker ''provider'' (JDict [])) (\<lambda>provider.
     bindE (jget_or front ''symphony'' (JDict [])) (\<lambda>symphony.
     bindE (jget_or front ''polling'' (JDict [])) (\<lambda>polling.
     bindE (case env ''LOCUS_LOOP_PROJECT_SLUG'' of
         Some (c # s) \<Rightarrow> Inr (c # s)
       | _ \<Rightarrow> bindE (jget_or provider ''project_slug'' (JStr [])) (\<lambda>v. Inr (jstr sh v))) (\<lambda>slug.
     bindE (jget_or polling ''interval_ms'' (JNum ''30000'')) (\<lambda>ms.
     bindE (poll_interval nf ms) (\<lambda>interval.
     bindE (bindE (jget_or tracker ''exclude_labels'' (JList (map JStr DEFAULT_EXCLUDE_LABELS))) (text_list sh)) (\<lambda>excluded.
     bindE (bindE (jget_or tracker ''active_states'' (JList (map JStr DEFAULT_ACTIVE_STATES))) (text_list sh)) (\<lambda>active.
     bindE (jget_or symphony ''default_branch'' (JStr ''main'')) (\<lambda>branch.
     Inr \<lparr>lc_repo_path = repo, lc_home = home, lc_project_slug = py_strip slug, lc_active_states = active,
       lc_exclude_labels = excluded, lc_required_label = ''agent:eligible'', lc_in_progress_state = ''In Progress'',
       lc_review_state = ''In Review'', lc_todo_state = ''Todo'', lc_blocked_state = ''Blocked'',
       lc_remote = ''origin'', lc_base_branch = jstr sh branch,
       lc_poll_interval_seconds = env_float env ''LOCUS_LOOP_POLL_SECONDS'' interval,
       lc_max_runs_per_day = env_int env ''LOCUS_LOOP_MAX_RUNS_PER_DAY'' 5,
       lc_max_failures = env_int env ''LOCUS_LOOP_MAX_FAILURES'' 2,
       lc_lock_ttl_seconds = env_float env ''LOCUS_LOOP_LOCK_TTL_SECONDS'' (Fin 7200),
       lc_auto_merge = (py_lower (env_text env ''LOCUS_LOOP_AUTO_MERGE'') \<in> set TRUE_WORDS),
       lc_required_checks = env_list env ''LOCUS_LOOP_REQUIRED_CHECKS'', lc_merge_method = ''squash'',
       lc_check_commands = filter (\<lambda>kv. snd kv \<noteq> []) (map (\<lambda>(k, n). (k, env_text env n))
          [(''tests'', ''LOCUS_LOOP_TEST_COMMAND''), (''lint'', ''LOCUS_LOOP_LINT_COMMAND''),
           (''typecheck'', ''LOCUS_LOOP_TYPECHECK_COMMAND'')]),
       lc_quality_gates = env_bool env ''LOCUS_LOOP_QUALITY_GATES'' True,
       lc_perf_gate = env_bool env ''LOCUS_LOOP_PERF_GATE'' True,
       lc_perf_iterations = env_int env ''LOCUS_LOOP_PERF_ITERATIONS'' 30,
       lc_gate_python = (let p = env_text env ''LOCUS_LOOP_GATE_PYTHON'' in if p \<noteq> [] then p else ''python''),
       lc_typecheck_roots = (let r = env_list env ''LOCUS_LOOP_TYPECHECK_ROOTS'' in
          if r \<noteq> [] then r else [''locus_runtime'', ''locus_tooling'']),
       lc_typecheck_args = py_words (case env ''LOCUS_LOOP_TYPECHECK_ARGS'' of None \<Rightarrow> [] | Some s \<Rightarrow> s),
       lc_eval_gate = parse_eval_mode (env ''LOCUS_LOOP_EVAL_GATE'') ''advisory'',
       lc_eval_threshold = env_fraction env ''LOCUS_LOOP_EVAL_THRESHOLD'' (Fin (3 / 10)),
       lc_eval_max_steps = env_int env ''LOCUS_LOOP_EVAL_MAX_STEPS'' 20,
       lc_propose_skills = env_bool env ''LOCUS_LOOP_PROPOSE_SKILLS'' True,
       lc_file_failure_issues = env_bool env ''LOCUS_LOOP_FILE_FAILURE_ISSUES'' True,
       lc_max_failure_issues_per_day = env_int env ''LOCUS_LOOP_MAX_FAILURE_ISSUES_PER_DAY'' 3,
       lc_failure_issue_min_occurrences = env_int env ''LOCUS_LOOP_FAILURE_ISSUE_MIN_OCCURRENCES'' 2\<rparr>))))))))))"

definition kill_switch_reason :: "environment \<Rightarrow> string \<Rightarrow> bool \<Rightarrow> string" where
  \<comment> \<open>the path of the kill file and whether it exists\<close>
  "kill_switch_reason env kill_file exists =
     (if py_lower (env_text env ''LOCUS_LOOP_DISABLED'') \<in> set TRUE_WORDS then ''LOCUS_LOOP_DISABLED is set''
      else if exists then ''kill-switch file '' @ kill_file @ '' exists''
      else [])"

section \<open>The lock\<close>

text \<open>The lock file: absent, or a JSON document, where \<open>None\<close> is one that does not parse (an empty file).\<close>

type_synonym lock_file = "jval option option"

definition read_json :: "lock_file \<Rightarrow> (string, jval) dict" where
  \<comment> \<open>\<open>_read_json\<close>\<close>
  "read_json f = (case f of Some (Some (JDict kvs)) \<Rightarrow> kvs | _ \<Rightarrow> [])"

record lock_env =
  le_ttl :: pyfloat
  le_nonfinite :: pyfloat
  le_num :: "pyfloat \<Rightarrow> jval"
  le_show :: "jval \<Rightarrow> string"

fun float_sub :: "pyfloat \<Rightarrow> pyfloat \<Rightarrow> pyfloat" where
  "float_sub (Fin a) (Fin b) = Fin (a - b)"
| "float_sub NaN _ = NaN"
| "float_sub _ NaN = NaN"
| "float_sub PosInf PosInf = NaN"
| "float_sub NegInf NegInf = NaN"
| "float_sub PosInf _ = PosInf"
| "float_sub NegInf _ = NegInf"
| "float_sub (Fin a) PosInf = NegInf"
| "float_sub (Fin a) NegInf = PosInf"

definition stale :: "lock_env \<Rightarrow> pyfloat \<Rightarrow> (string, jval) dict \<Rightarrow> bool" where
  "stale le now data = (case jfloat (le_nonfinite le) (or_value (jget (JDict data) ''acquired_at'') (JNum ''0'')) of
     Inl _ \<Rightarrow> True
   | Inr acquired \<Rightarrow> float_le (le_ttl le) (float_sub now acquired))"

definition lock_payload :: "lock_env \<Rightarrow> pyfloat \<Rightarrow> string \<Rightarrow> nat \<Rightarrow> jval" where
  "lock_payload le now holder pid = JDict [(''owner'', JStr holder), (''pid'', JNum (nat_digits pid)),
     (''acquired_at'', le_num le now)]"

definition busy_message :: "lock_env \<Rightarrow> (string, jval) dict \<Rightarrow> string" where
  "busy_message le current = ''another loop run holds the lock ('' @
     jstr (le_show le) (jget (JDict current) ''owner'') @ '')''"

fun acquire_tries :: "nat \<Rightarrow> lock_env \<Rightarrow> pyfloat \<Rightarrow> string \<Rightarrow> nat \<Rightarrow> lock_file \<Rightarrow> lock_file \<times> unit res" where
  \<comment> \<open>the loop of \<open>acquire\<close>, nothing else touching the file\<close>
  "acquire_tries 0 le now holder pid f = (f, raise LoopBusy ''could not acquire the loop lock'')"
| "acquire_tries (Suc n) le now holder pid f =
     (case f of
        None \<Rightarrow> (Some (Some (lock_payload le now holder pid)), Inr ())
      | Some _ \<Rightarrow>
          if read_json f \<noteq> [] \<and> \<not> stale le now (read_json f)
          then (f, raise LoopBusy (busy_message le (read_json f)))
          else acquire_tries n le now holder pid None)"

definition acquire :: "lock_env \<Rightarrow> pyfloat \<Rightarrow> string \<Rightarrow> nat \<Rightarrow> lock_file \<Rightarrow> lock_file \<times> unit res" where
  "acquire le now holder pid f = acquire_tries 2 le now holder pid f"

definition refresh :: "lock_env \<Rightarrow> pyfloat \<Rightarrow> string \<Rightarrow> nat \<Rightarrow> bool \<Rightarrow> lock_file \<Rightarrow> lock_file" where
  "refresh le now holder pid held f = (if held then Some (Some (lock_payload le now holder pid)) else f)"

definition release :: "bool \<Rightarrow> lock_file \<Rightarrow> lock_file \<times> bool" where
  \<comment> \<open>and the new value of \<open>held\<close>\<close>
  "release held f = (if held then (None, False) else (f, held))"

subsection \<open>Interleaved\<close>

text \<open>
  One file operation of one process at a time.  A file has an identity: a process that created it
  goes on writing to that file even when the path names another one by then.
\<close>

datatype lock_phase =
    Idle
  | Opening nat                      \<comment> \<open>tries left\<close>
  | Inspecting nat                   \<comment> \<open>the file exists\<close>
  | Unlinking nat                    \<comment> \<open>it was judged stale\<close>
  | Writing nat                      \<comment> \<open>the file created, not yet written\<close>
  | Holding
  | Refused

record lock_world =
  lw_path :: "(nat \<times> jval option) option"  \<comment> \<open>the file at the path: identity and content\<close>
  lw_next :: nat                            \<comment> \<open>identity of the next file\<close>
  lw_phase :: "nat \<Rightarrow> lock_phase"           \<comment> \<open>by process\<close>

definition lw_file :: "lock_world \<Rightarrow> lock_file" where
  "lw_file w = map_option snd (lw_path w)"

definition set_phase :: "nat \<Rightarrow> lock_phase \<Rightarrow> lock_world \<Rightarrow> lock_world" where
  "set_phase pid ph w = w\<lparr>lw_phase := (lw_phase w)(pid := ph)\<rparr>"

definition write_file :: "nat \<Rightarrow> jval \<Rightarrow> lock_world \<Rightarrow> lock_world" where
  "write_file i v w = (case lw_path w of
     Some (k, _) \<Rightarrow> if k = i then w\<lparr>lw_path := Some (k, Some v)\<rparr> else w
   | None \<Rightarrow> w)"

definition lock_micro :: "lock_env \<Rightarrow> pyfloat \<Rightarrow> nat \<Rightarrow> lock_world \<Rightarrow> lock_world" where
  \<comment> \<open>the next file operation of a process that acquires or holds the lock\<close>
  "lock_micro le now pid w = (case lw_phase w pid of
     Idle \<Rightarrow> set_phase pid (Opening 2) w
   | Opening n \<Rightarrow>
       if n = 0 then set_phase pid Refused w
       else (case lw_path w of
           None \<Rightarrow> set_phase pid (Writing (lw_next w))
             (w\<lparr>lw_path := Some (lw_next w, None), lw_next := Suc (lw_next w)\<rparr>)
         | Some _ \<Rightarrow> set_phase pid (Inspecting (n - 1)) w)
   | Inspecting n \<Rightarrow>
       if read_json (lw_file w) \<noteq> [] \<and> \<not> stale le now (read_json (lw_file w)) then set_phase pid Refused w
       else set_phase pid (Unlinking n) w
   | Unlinking n \<Rightarrow> set_phase pid (Opening n) (w\<lparr>lw_path := None\<rparr>)
   | Writing i \<Rightarrow> set_phase pid Holding (write_file i (lock_payload le now (nat_digits pid) pid) w)
   | Holding \<Rightarrow> set_phase pid Idle (w\<lparr>lw_path := None\<rparr>)
   | Refused \<Rightarrow> w)"

definition lock_run :: "lock_env \<Rightarrow> pyfloat \<Rightarrow> nat list \<Rightarrow> lock_world \<Rightarrow> lock_world" where
  \<comment> \<open>a schedule: whose turn it is, all at one instant\<close>
  "lock_run le now schedule w = fold (lock_micro le now) schedule w"

section \<open>The ledger\<close>

type_synonym ledger = "(string, jval) dict"

definition ledger_section :: "ledger \<Rightarrow> string \<Rightarrow> (string, jval) dict res" where
  \<comment> \<open>\<open>self.data.get(k) or {}\<close>, used as a dictionary\<close>
  "ledger_section d k = (case or_value (jget (JDict d) k) (JDict []) of
     JDict kvs \<Rightarrow> Inr kvs
   | _ \<Rightarrow> raise AttributeErrorC ''object has no attribute get'')"

definition counter :: "pyfloat \<Rightarrow> (string, jval) dict \<Rightarrow> string \<Rightarrow> int res" where
  \<comment> \<open>\<open>int(d.get(k, 0))\<close>\<close>
  "counter nf d k = jint nf (case map_of d k of None \<Rightarrow> JNum ''0'' | Some v \<Rightarrow> v)"

definition runs_today :: "pyfloat \<Rightarrow> string \<Rightarrow> ledger \<Rightarrow> int res" where
  "runs_today nf today d = bindE (ledger_section d ''runs_per_day'') (\<lambda>per_day. counter nf per_day today)"

definition count_run :: "pyfloat \<Rightarrow> string \<Rightarrow> ledger \<Rightarrow> ledger res" where
  "count_run nf today d =
     bindE (ledger_section d ''runs_per_day'') (\<lambda>old.
     let per_day = filter (\<lambda>(k, v). today \<le> k) old in
     bindE (counter nf per_day today) (\<lambda>n.
     Inr (AList.update ''runs_per_day'' (JDict (AList.update today (JNum (py_str_int (n + 1))) per_day)) d)))"

definition failures :: "pyfloat \<Rightarrow> string \<Rightarrow> ledger \<Rightarrow> int res" where
  "failures nf issue d = bindE (ledger_section d ''failures'') (\<lambda>fs. counter nf fs issue)"

definition record_failure :: "pyfloat \<Rightarrow> string \<Rightarrow> ledger \<Rightarrow> (ledger \<times> int) res" where
  "record_failure nf issue d =
     bindE (ledger_section d ''failures'') (\<lambda>fs.
     bindE (counter nf fs issue) (\<lambda>n.
     Inr (AList.update ''failures'' (JDict (AList.update issue (JNum (py_str_int (n + 1))) fs)) d, n + 1)))"

definition clear_failures :: "string \<Rightarrow> ledger \<Rightarrow> ledger res" where
  "clear_failures issue d =
     bindE (ledger_section d ''failures'') (\<lambda>fs.
     Inr (AList.update ''failures'' (JDict (AList.delete issue fs)) d))"

definition active_run :: "ledger \<Rightarrow> (string, jval) dict option" where
  "active_run d = (case jget (JDict d) ''active'' of JDict r \<Rightarrow> Some r | _ \<Rightarrow> None)"

definition set_active :: "(string, jval) dict option \<Rightarrow> ledger \<Rightarrow> ledger" where
  "set_active r d = AList.update ''active'' (case r of None \<Rightarrow> JNull | Some kvs \<Rightarrow> JDict kvs) d"

definition open_prs :: "ledger \<Rightarrow> jval list res" where
  "open_prs d = bindE (jitems (or_value (jget (JDict d) ''open_prs'') (JList []))) (\<lambda>ps. Inr (filter is_jdict ps))"

definition add_open_pr :: "(string, jval) dict \<Rightarrow> ledger \<Rightarrow> ledger res" where
  "add_open_pr r d = bindE (open_prs d) (\<lambda>ps. Inr (AList.update ''open_prs'' (JList (ps @ [JDict r])) d))"

definition pr_number :: "pyfloat \<Rightarrow> jval \<Rightarrow> int res" where
  "pr_number nf p = jint nf (or_value (jget p ''number'') (JNum ''-1''))"

definition remove_open_pr :: "pyfloat \<Rightarrow> int \<Rightarrow> ledger \<Rightarrow> ledger res" where
  "remove_open_pr nf number d =
     bindE (open_prs d) (\<lambda>ps.
     bindE (mapE (pr_number nf) ps) (\<lambda>ns.
     Inr (AList.update ''open_prs'' (JList (map fst (filter (\<lambda>(p, n). n \<noteq> number) (zip ps ns)))) d)))"

definition set_last :: "(string, jval) dict \<Rightarrow> ledger \<Rightarrow> ledger" where
  "set_last r d = AList.update ''last_run'' (JDict r) d"

section \<open>History\<close>

definition append_run_history :: "'a \<Rightarrow> 'a list \<Rightarrow> 'a list" where
  \<comment> \<open>the lines of \<open>runs.jsonl\<close>\<close>
  "append_run_history line history = history @ [line]"

definition read_run_history :: "(string \<Rightarrow> jval option) \<Rightarrow> nat \<Rightarrow> string list option \<Rightarrow> jval list" where
  \<comment> \<open>\<open>None\<close>: no such file; the first argument is \<open>json.loads\<close>; the limit is positive\<close>
  "read_run_history loads limit ls = (case ls of None \<Rightarrow> []
     | Some ls \<Rightarrow> filter is_jdict (List.map_filter loads (drop (length ls - limit) ls)))"

definition loop_status ::
  "pyfloat \<Rightarrow> environment \<Rightarrow> string \<Rightarrow> bool \<Rightarrow> string \<Rightarrow> string \<Rightarrow> int option \<Rightarrow> lock_file \<Rightarrow> ledger
     \<Rightarrow> (string, jval) dict res" where
  \<comment> \<open>kill file and whether it exists, home, today, the limit given, the lock file and the ledger\<close>
  "loop_status nf env kill_file exists home today max_runs lock d =
     (let reason = kill_switch_reason env kill_file exists; held = read_json lock in
      bindE (runs_today nf today d) (\<lambda>n.
      bindE (open_prs d) (\<lambda>prs.
      Inr [(''enabled'', JBool (reason = [])), (''disabled_reason'', JStr reason), (''home'', JStr home),
        (''runs_today'', JNum (py_str_int n)),
        (''max_runs_per_day'', JNum (py_str_int (case max_runs of
           Some m \<Rightarrow> if m \<noteq> 0 then m else env_int env ''LOCUS_LOOP_MAX_RUNS_PER_DAY'' 5
         | None \<Rightarrow> env_int env ''LOCUS_LOOP_MAX_RUNS_PER_DAY'' 5))),
        (''lock'', if held = [] then JNull else JDict [(''owner'', jget (JDict held) ''owner''),
           (''acquired_at'', jget (JDict held) ''acquired_at'')]),
        (''active_run'', (case active_run d of None \<Rightarrow> JNull | Some r \<Rightarrow> JDict r)),
        (''last_run'', jget (JDict d) ''last_run''), (''open_prs'', JList prs),
        (''failures'', or_value (jget (JDict d) ''failures'') (JDict []))])))"

section \<open>Specification predicates and sample values\<close>

definition reads_back :: "lock_env \<Rightarrow> pyfloat \<Rightarrow> bool" where
  \<comment> \<open>a time is read back from the lock file\<close>
  "reads_back le t \<longleftrightarrow> jfloat (le_nonfinite le) (or_value (le_num le t) (JNum ''0'')) = Inr t"

definition free_world :: lock_world where
  "free_world = \<lparr>lw_path = None, lw_next = 0, lw_phase = (\<lambda>_. Idle)\<rparr>"

definition sample_lock :: lock_env where
  "sample_lock = \<lparr>le_ttl = Fin 7200, le_nonfinite = PosInf, le_num = (\<lambda>_. JBool True), le_show = (\<lambda>_. [])\<rparr>"

section \<open>Lemmas\<close>

lemma env_int_pos: "0 < d \<Longrightarrow> 0 < env_int env name d"
  by (auto simp: env_int_def split: option.splits)

lemma env_float_pos: "float_lt (Fin 0) d \<Longrightarrow> float_lt (Fin 0) (env_float env name d)"
  by (auto simp: env_float_def split: option.splits)

lemma env_fraction_range:
  "float_le (Fin 0) d \<and> float_le d (Fin 1) \<Longrightarrow>
     float_le (Fin 0) (env_fraction env name d) \<and> float_le (env_fraction env name d) (Fin 1)"
  by (auto simp: env_fraction_def split: option.splits)

lemma parse_eval_mode_mode: "d \<in> set EVAL_MODES \<Longrightarrow> parse_eval_mode v d \<in> set EVAL_MODES"
  by (simp add: parse_eval_mode_def Let_def dict_get_def EVAL_MODES_def)

lemma config_loadE:
  assumes "config_load sh nf env front repo home = Inr c"
  obtains slug interval excluded active branch where
    "lc_max_runs_per_day c = env_int env ''LOCUS_LOOP_MAX_RUNS_PER_DAY'' 5"
    "lc_max_failures c = env_int env ''LOCUS_LOOP_MAX_FAILURES'' 2"
    "lc_perf_iterations c = env_int env ''LOCUS_LOOP_PERF_ITERATIONS'' 30"
    "lc_eval_max_steps c = env_int env ''LOCUS_LOOP_EVAL_MAX_STEPS'' 20"
    "lc_max_failure_issues_per_day c = env_int env ''LOCUS_LOOP_MAX_FAILURE_ISSUES_PER_DAY'' 3"
    "lc_failure_issue_min_occurrences c = env_int env ''LOCUS_LOOP_FAILURE_ISSUE_MIN_OCCURRENCES'' 2"
    "lc_lock_ttl_seconds c = env_float env ''LOCUS_LOOP_LOCK_TTL_SECONDS'' (Fin 7200)"
    "lc_eval_threshold c = env_fraction env ''LOCUS_LOOP_EVAL_THRESHOLD'' (Fin (3 / 10))"
    "lc_eval_gate c = parse_eval_mode (env ''LOCUS_LOOP_EVAL_GATE'') ''advisory''"
    "lc_auto_merge c = (py_lower (env_text env ''LOCUS_LOOP_AUTO_MERGE'') \<in> set TRUE_WORDS)"
  using assms unfolding config_load_def bindE_eq_Inr_iff by fastforce

lemma payload_read: "read_json (Some (Some (lock_payload le now holder pid))) = [(''owner'', JStr holder), (''pid'', JNum (nat_digits pid)),
     (''acquired_at'', le_num le now)]"
  by (simp add: read_json_def lock_payload_def)

lemma payload_stale:
  "reads_back le now \<Longrightarrow> stale le now' (read_json (Some (Some (lock_payload le now holder pid)))) \<longleftrightarrow>
     float_le (le_ttl le) (float_sub now' now)"
  by (simp add: stale_def payload_read reads_back_def)

lemma acquire_alt:
  "acquire le now holder pid f =
     (if f \<noteq> None \<and> read_json f \<noteq> [] \<and> \<not> stale le now (read_json f)
      then (f, raise LoopBusy (busy_message le (read_json f)))
      else (Some (Some (lock_payload le now holder pid)), Inr ()))"
  by (cases f) (simp_all add: acquire_def numeral_2_eq_2)

lemma ledger_section_update:
  "ledger_section (AList.update k (JDict v) d) k = Inr v"
  "j \<noteq> k \<Longrightarrow> ledger_section (AList.update k (JDict v) d) j = ledger_section d j"
  by (auto simp: ledger_section_def or_value_def update_conv')

lemma counter_update:
  "counter nf (AList.update k (JNum (py_str_int n)) d) k = Inr n"
  "j \<noteq> k \<Longrightarrow> counter nf (AList.update k v d) j = counter nf d j"
  by (auto simp: counter_def update_conv' py_int_str_int)

lemma counter_filter: "P k \<Longrightarrow> counter nf (filter (\<lambda>(k, v). P k) d) k = counter nf d k"
proof -
  assume "P k"
  then have "map_of (filter (\<lambda>(k, v). P k) d) k = map_of d k" by (induction d) auto
  then show ?thesis by (simp add: counter_def)
qed

lemma lock_run_Cons: "lock_run le now (p # ps) w = lock_run le now ps (lock_micro le now p w)"
  by (simp add: lock_run_def)

lemma lock_run_Nil: "lock_run le now [] w = w"
  by (simp add: lock_run_def)

lemmas lock_steps = lock_run_Cons lock_run_Nil lock_micro_def set_phase_def lw_file_def write_file_def

lemma solo_free:
  assumes "lw_phase w pid = Idle" and "lw_path w = None"
  shows "lw_phase (lock_run le now [pid, pid, pid] w) pid = Holding \<and>
    lw_file (lock_run le now [pid, pid, pid] w) = Some (Some (lock_payload le now (nat_digits pid) pid))"
  using assms by (simp add: lock_steps)

lemma solo_busy:
  assumes "lw_phase w pid = Idle" and "lw_path w \<noteq> None" and "read_json (lw_file w) \<noteq> []"
    and "\<not> stale le now (read_json (lw_file w))"
  shows "lw_phase (lock_run le now [pid, pid, pid] w) pid = Refused \<and> lw_file (lock_run le now [pid, pid, pid] w) = lw_file w"
  using assms by (auto simp: lock_steps)

lemma solo_stale:
  assumes idle: "lw_phase w pid = Idle" and "lw_path w \<noteq> None"
    and old: "\<not> (read_json (lw_file w) \<noteq> [] \<and> \<not> stale le now (read_json (lw_file w)))"
  shows "lw_phase (lock_run le now [pid, pid, pid, pid, pid, pid] w) pid = Holding \<and>
    lw_file (lock_run le now [pid, pid, pid, pid, pid, pid] w) = Some (Some (lock_payload le now (nat_digits pid) pid))"
proof -
  let ?ph = "\<lambda>x. w\<lparr>lw_phase := (lw_phase w)(pid := x)\<rparr>"
  obtain kc where path: "lw_path w = Some kc" using assms(2) by blast
  have f: "lw_file (?ph x) = lw_file w" for x by (simp add: lw_file_def)
  have 1: "lock_micro le now pid w = ?ph (Opening 2)" using idle by (simp add: lock_micro_def set_phase_def)
  have 2: "lock_micro le now pid (?ph (Opening 2)) = ?ph (Inspecting 1)"
    using path by (simp add: lock_micro_def set_phase_def)
  have 3: "lock_micro le now pid (?ph (Inspecting 1)) = ?ph (Unlinking 1)"
    using old unfolding lock_micro_def f by (auto simp: set_phase_def)
  have 4: "lock_micro le now pid (?ph (Unlinking 1)) = (?ph (Opening 1))\<lparr>lw_path := None\<rparr>"
    by (simp add: lock_micro_def set_phase_def)
  show ?thesis unfolding lock_run_Cons 1 2 3 4 by (simp add: lock_steps)
qed

section \<open>Properties\<close>





text \<open>
  The ledger counts.  Counting a run raises today's number by one and leaves that of later days;
  recording a failure returns and stores one more for the issue and leaves the other issues; clearing
  sets the issue's number to zero; and neither affects the other's section.
\<close>

theorem ledger_counts:
  assumes "count_run nf today d = Inr d'" and "record_failure nf issue d' = Inr (d'', n)"
  shows "\<exists>r. runs_today nf today d = Inr r \<and> runs_today nf today d'' = Inr (r + 1) \<and>
    (today < day \<longrightarrow> runs_today nf day d'' = runs_today nf day d) \<and>
    failures nf issue d'' = Inr n \<and> failures nf issue d = Inr (n - 1) \<and>
    (other \<noteq> issue \<longrightarrow> failures nf other d'' = failures nf other d) \<and>
    (\<exists>c. clear_failures issue d'' = Inr c \<and> failures nf issue c = Inr 0 \<and> runs_today nf today c = Inr (r + 1))"
proof -
  from assms(1) obtain old r where old: "ledger_section d ''runs_per_day'' = Inr old"
    and r: "counter nf (filter (\<lambda>(k, v). today \<le> k) old) today = Inr r"
    and d': "d' = AList.update ''runs_per_day'' (JDict (AList.update today (JNum (py_str_int (r + 1)))
       (filter (\<lambda>(k, v). today \<le> k) old))) d"
    by (auto simp: count_run_def bindE_eq_Inr_iff Let_def)
  have fd: "ledger_section d' ''failures'' = ledger_section d ''failures''"
    unfolding d' by (rule ledger_section_update(2)) simp
  from assms(2) obtain fs m where fs: "ledger_section d' ''failures'' = Inr fs" "counter nf fs issue = Inr m" "n = m + 1"
    and d'': "d'' = AList.update ''failures'' (JDict (AList.update issue (JNum (py_str_int (m + 1))) fs)) d'"
    by (auto simp: record_failure_def bindE_eq_Inr_iff)
  have runs'': "ledger_section d'' ''runs_per_day'' = Inr (AList.update today (JNum (py_str_int (r + 1)))
       (filter (\<lambda>(k, v). today \<le> k) old))"
    unfolding d'' d' by (simp add: ledger_section_update)
  have today: "counter nf old today = Inr r" using r counter_filter [of "\<lambda>k. today \<le> k" today] by simp
  have zero: "counter nf (AList.delete issue xs) issue = Inr 0" for xs
  proof -
    have "py_int ''0'' = Some 0" by code_simp
    then show ?thesis by (simp add: counter_def delete_conv')
  qed
  let ?c = "AList.update ''failures'' (JDict (AList.delete issue (AList.update issue (JNum (py_str_int (m + 1))) fs))) d''"
  have "clear_failures issue d'' = Inr ?c"
    unfolding clear_failures_def d'' by (simp add: ledger_section_update)
  moreover have "failures nf issue ?c = Inr 0"
    by (simp add: failures_def ledger_section_update zero)
  moreover have "runs_today nf today ?c = Inr (r + 1)"
    using runs'' by (simp add: runs_today_def ledger_section_update counter_update)
  moreover have "today < day \<longrightarrow> runs_today nf day d'' = runs_today nf day d"
    using runs'' old counter_filter [of "\<lambda>k. today \<le> k" day] by (auto simp: runs_today_def counter_update)
  ultimately show ?thesis
    using today old runs'' fs fd
    by (simp add: runs_today_def failures_def counter_update d'' ledger_section_update)
qed

theorem ledger_counts_witness:
  "\<exists>r. runs_today NaN ''2025-01-01'' [] = Inr r \<and>
     runs_today NaN ''2025-01-01'' (fst (projr (record_failure NaN ''I-1'' (projr (count_run NaN ''2025-01-01'' []))))) = Inr (r + 1)"
proof -
  have "count_run NaN ''2025-01-01'' [] = Inr (projr (count_run NaN ''2025-01-01'' []))"
    "record_failure NaN ''I-1'' (projr (count_run NaN ''2025-01-01'' [])) =
      Inr (fst (projr (record_failure NaN ''I-1'' (projr (count_run NaN ''2025-01-01'' [])))),
           snd (projr (record_failure NaN ''I-1'' (projr (count_run NaN ''2025-01-01'' [])))))"
    by code_simp+
  from ledger_counts [OF this] show ?thesis by blast
qed

text \<open>
  Whatever the environment holds, in a loaded configuration the limits on runs, failures, steps
  and issues and the lock's time to live are positive, the evaluation threshold is between 0 and 1,
  the evaluation mode is a known one, and merging without a human is off unless it is asked for.
\<close>

theorem config_limits:
  assumes "config_load sh nf env front repo home = Inr c"
  shows "0 < lc_max_runs_per_day c \<and> 0 < lc_max_failures c \<and> 0 < lc_perf_iterations c \<and> 0 < lc_eval_max_steps c \<and>
    0 < lc_max_failure_issues_per_day c \<and> 0 < lc_failure_issue_min_occurrences c \<and>
    float_lt (Fin 0) (lc_lock_ttl_seconds c) \<and>
    float_le (Fin 0) (lc_eval_threshold c) \<and> float_le (lc_eval_threshold c) (Fin 1) \<and>
    lc_eval_gate c \<in> set EVAL_MODES \<and> (env ''LOCUS_LOOP_AUTO_MERGE'' = None \<longrightarrow> \<not> lc_auto_merge c)"
  using assms
proof (rule config_loadE)
  have adv: "''advisory'' \<in> set EVAL_MODES" by (simp add: EVAL_MODES_def)
  assume c: "lc_max_runs_per_day c = env_int env ''LOCUS_LOOP_MAX_RUNS_PER_DAY'' 5"
    "lc_max_failures c = env_int env ''LOCUS_LOOP_MAX_FAILURES'' 2"
    "lc_perf_iterations c = env_int env ''LOCUS_LOOP_PERF_ITERATIONS'' 30"
    "lc_eval_max_steps c = env_int env ''LOCUS_LOOP_EVAL_MAX_STEPS'' 20"
    "lc_max_failure_issues_per_day c = env_int env ''LOCUS_LOOP_MAX_FAILURE_ISSUES_PER_DAY'' 3"
    "lc_failure_issue_min_occurrences c = env_int env ''LOCUS_LOOP_FAILURE_ISSUE_MIN_OCCURRENCES'' 2"
    "lc_lock_ttl_seconds c = env_float env ''LOCUS_LOOP_LOCK_TTL_SECONDS'' (Fin 7200)"
    "lc_eval_threshold c = env_fraction env ''LOCUS_LOOP_EVAL_THRESHOLD'' (Fin (3 / 10))"
    "lc_eval_gate c = parse_eval_mode (env ''LOCUS_LOOP_EVAL_GATE'') ''advisory''"
    "lc_auto_merge c = (py_lower (env_text env ''LOCUS_LOOP_AUTO_MERGE'') \<in> set TRUE_WORDS)"
  have off: "env ''LOCUS_LOOP_AUTO_MERGE'' = None \<Longrightarrow> \<not> lc_auto_merge c"
    by (simp add: c(10) env_text_def py_lower_def TRUE_WORDS_def)
  show ?thesis unfolding c(1-9)
    using off env_int_pos env_float_pos [of "Fin 7200"] env_fraction_range [of "Fin (3 / 10)"] parse_eval_mode_mode [OF adv]
    by simp
qed

theorem config_limits_witness:
  "0 < lc_max_runs_per_day (projr (config_load (\<lambda>_. []) PosInf (\<lambda>_. None) (JDict [(''polling'', JDict [(''interval_ms'', JBool True)])]) ''/r'' ''/h''))"
proof -
  have "\<exists>c. config_load (\<lambda>_. []) PosInf (\<lambda>_. None) (JDict [(''polling'', JDict [(''interval_ms'', JBool True)])]) ''/r'' ''/h'' = Inr c"
    by (simp add: config_load_def jget_or_def or_value_def poll_interval_def text_list_def)
  then obtain c where "config_load (\<lambda>_. []) PosInf (\<lambda>_. None) (JDict [(''polling'', JDict [(''interval_ms'', JBool True)])]) ''/r'' ''/h'' = Inr c" ..
  then show ?thesis using config_limits by fastforce
qed

text \<open>
  Interleaved, the lock does not exclude.  A process that finds the file of another between its
  creation and its writing reads it as empty, judges it stale, removes it and takes the lock: both
  hold it, at the same instant.
\<close>

theorem lock_race:
  "lw_phase (lock_run le now [1, 1, 2, 2, 2, 2, 2, 2, 1] free_world) 1 = Holding \<and>
   lw_phase (lock_run le now [1, 1, 2, 2, 2, 2, 2, 2, 1] free_world) 2 = Holding"
  by (simp add: lock_steps free_world_def read_json_def)

end
