(* ===== verification/Merge_Guard.thy ===== *)
theory Merge_Guard
  imports Py_Regex Py_Text
begin

text \<open>
  \<open>locus_runtime/loop_runner/merge_guard.py\<close>: the decision whether a pull request of the
  self-improvement loop may merge without a human.  It is a pure function of the changed files with
  their diffs, the check results, the CODEOWNERS text and the two versions of gate configuration
  files.  Unicode normalization and the TOML reader of the standard library are arguments.
\<close>

section \<open>Constants\<close>

definition BASELINE_PROTECTED :: "string list" where
  "BASELINE_PROTECTED = [''/policies/'', ''/locus_runtime/gateway.py'', ''/locus_runtime/policy_engine.py'',
     ''/locus_runtime/sandbox.py'', ''/locus_runtime/win_sandbox.py'', ''/locus_runtime/security.py'',
     ''/locus_runtime/grants.py'', ''/locus_tooling/native_secrets.py'', ''/apps/backend/app/policy_gateway.py'',
     ''/apps/backend/app/request_security.py'', ''/apps/backend/app/control_status.py'', ''/.github/'',
     ''CODEOWNERS'', ''/AGENTS.md'', ''/SECURITY.md'', ''/THREAT-MODEL.md'', ''/docs/product/'',
     ''/locus_runtime/loop_runner/'']"

definition GATE_CONFIG_BASENAMES :: "string list" where
  "GATE_CONFIG_BASENAMES = [''conftest.py'', ''pytest.ini'', ''tox.ini'', ''setup.cfg'', ''ruff.toml'',
     ''.ruff.toml'', ''mypy.ini'', ''.mypy.ini'', ''.pre-commit-config.yaml'', ''.coveragerc'', ''noxfile.py'']"

definition GATE_CONFIG_PATHS :: "string list" where
  "GATE_CONFIG_PATHS = [''.github/workflows/'', ''policies/'', ''scripts/run_opa.py'', ''precommit.sh'', ''precommit.ps1'']"

definition PYPROJECT_GATE_TABLES :: "string list" where
  "PYPROJECT_GATE_TABLES = [''ruff'', ''mypy'', ''pytest'', ''coverage'']"

definition MAKEFILE_GATE_TARGETS :: "string list" where
  "MAKEFILE_GATE_TARGETS = [''test'', ''unit-test'', ''integration-test'', ''performance-test'', ''lint'',
     ''typecheck'', ''policy-test'', ''helm-validate'']"

definition SUCCESS :: string where "SUCCESS = ''success''"
definition SOFT_PASS :: "string list" where "SOFT_PASS = [''skipped'', ''neutral'']"

definition control_char :: "char \<Rightarrow> bool" where
  "control_char c = (let n = ord_of c :: nat in n < 32 \<or> n = 127)"

definition word_char :: rx where "word_char = Ch is_word"

definition TEST_FUNC :: rx where
  \<comment> \<open>\<open>^\s*(?:async\s+)?def\s+test\w*\s*\(\<close>\<close>
  "TEST_FUNC = cat [TextStart, Star space, opt (cat [lit ''async'', spaces]), lit ''def'', spaces, lit ''test'',
     Star word_char, Star space, chr CHR ''('']"

definition ASSERT :: rx where
  \<comment> \<open>\<open>^\s*(?:assert\b|self\.assert\w*\s*\(|pytest\.raises\s*\()\<close>\<close>
  "ASSERT = cat [TextStart, Star space, alts [cat [lit ''assert'', WordB],
     cat [lit ''self.assert'', Star word_char, Star space, chr CHR ''(''],
     cat [lit ''pytest.raises'', Star space, chr CHR ''('']]]"

definition SKIP_MARKERS :: rx where
  "SKIP_MARKERS = alts [
     cat [lit ''pytest.mark.'', words [''skip'', ''skipif'', ''xfail''], WordB],
     cat [lit ''pytest.'', words [''skip'', ''xfail'', ''importorskip''], Star space, chr CHR ''(''],
     cat [lit ''unittest.'', words [''skip'', ''skipIf'', ''skipUnless'', ''expectedFailure''], WordB],
     cat [lit ''@'', Star space, words [''skip'', ''skipIf'', ''skipUnless'', ''expectedFailure''], WordB],
     cat [WordB, lit ''it.skip'', Star space, chr CHR ''(''],
     cat [WordB, lit ''describe.skip'', Star space, chr CHR ''(''],
     cat [WordB, lit ''test.skip'', Star space, chr CHR ''(''],
     cat [WordB, words [''it'', ''describe'', ''test''], lit ''.todo'', Star space, chr CHR ''(''],
     cat [WordB, lit ''xit'', Star space, chr CHR ''(''],
     cat [WordB, lit ''xdescribe'', Star space, chr CHR ''('']]"

section \<open>Inputs and output\<close>

record changed_file =
  cf_path :: string
  cf_status :: string
  cf_previous_path :: string
  cf_patch :: string

record gate_check =
  gc_name :: string
  gc_status :: string
  gc_conclusion :: string

datatype merge_action = Merge | Hold

record merge_decision =
  md_action :: merge_action
  md_reasons :: "string list"

record py_env =
  pe_nfkc :: "string \<Rightarrow> string"                       \<comment> \<open>\<open>unicodedata.normalize("NFKC", s)\<close>\<close>
  pe_toml :: "string \<Rightarrow> (string, jval) dict option"   \<comment> \<open>\<open>tomllib.loads\<close>, \<open>None\<close> an error\<close>

section \<open>Paths\<close>

fun normpath_step :: "string list \<Rightarrow> string \<Rightarrow> string list" where
  \<comment> \<open>one component of a relative path, the components so far reversed\<close>
  "normpath_step acc part =
     (if part = [] \<or> part = ''.'' then acc
      else if part \<noteq> ''..'' \<or> acc = [] \<or> hd acc = ''..'' then part # acc
      else tl acc)"

definition normpath :: "string \<Rightarrow> string" where
  \<comment> \<open>\<open>posixpath.normpath\<close> of a path that does not start with a slash\<close>
  "normpath path = (let parts = rev (foldl normpath_step [] (py_split CHR ''/'' path)) in
     if parts = [] then ''.'' else py_join ''/'' parts)"

definition trim_windows :: "string \<Rightarrow> string" where
  \<comment> \<open>\<open>p.rstrip(" .") or p\<close>\<close>
  "trim_windows p = (let q = rstrip (\<lambda>c. c = CHR '' '' \<or> c = CHR ''.'') p in if q \<noteq> [] then q else p)"

definition normalize_path :: "py_env \<Rightarrow> string \<Rightarrow> string res" where
  "normalize_path env raw =
     guardE (py_strip raw \<noteq> [] \<and> \<not> list_ex control_char raw) UnsafePath (''unsafe path '' @ py_repr raw)
     (let text = py_replace_char CHR 0x5C CHR ''/'' (pe_nfkc env (py_strip raw)) in
      guardE (CHR '':'' \<notin> set text) UnsafePath (''path with '' @ [CHR 0x27, CHR '':'', CHR 0x27] @ '' '' @ py_repr text)
      (guardE (\<not> startswith text ''/'') UnsafePath (''absolute path '' @ py_repr text)
      (let norm = normpath text in
       guardE (\<not> (norm = ''.'' \<or> norm = [] \<or> norm = ''..'' \<or> startswith norm ''../'')) UnsafePath
         (''path escapes the repository '' @ py_repr text)
       (Inr (py_lower (py_join ''/'' (map trim_windows (py_split CHR ''/'' norm))))))))"

section \<open>CODEOWNERS\<close>

fun glob_to_rx :: "string \<Rightarrow> rx list" where
  "glob_to_rx [] = []"
| "glob_to_rx (c # s) =
     (if c = CHR ''*'' then
        (case s of
           d # e # t \<Rightarrow>
             if d = CHR ''*'' \<and> e = CHR ''/'' then opt (cat [Star anychar, chr CHR ''/'']) # glob_to_rx t
             else if d = CHR ''*'' then Star anychar # glob_to_rx (e # t)
             else Star (none_of ''/'') # glob_to_rx (d # e # t)
         | [d] \<Rightarrow> if d = CHR ''*'' then [Star anychar] else Star (none_of ''/'') # glob_to_rx [d]
         | [] \<Rightarrow> [Star (none_of ''/'')])
      else if c = CHR ''?'' then none_of ''/'' # glob_to_rx s
      else chr c # glob_to_rx s)"

definition owner_parts :: "string \<Rightarrow> bool \<times> bool \<times> string" where
  \<comment> \<open>is the pattern anchored, does it name a directory, and its body\<close>
  "owner_parts pattern =
     (let pat = py_lower (py_replace_char CHR 0x5C CHR ''/'' (py_strip pattern));
          directory = endswith pat ''/'';
          pat = rstrip (\<lambda>c. c = CHR ''/'') pat;
          anchored = (startswith pat ''/'' \<or> CHR ''/'' \<in> set pat) in
      (anchored, directory, lstrip (\<lambda>c. c = CHR ''/'') pat))"

definition owner_rx :: "bool \<Rightarrow> bool \<Rightarrow> string \<Rightarrow> rx" where
  "owner_rx anchored directory pat =
     cat ([TextStart] @ (if anchored then [] else [opt (cat [Star anychar, chr CHR ''/''])]) @
          glob_to_rx pat @
          (if directory then [chr CHR ''/'', Star anychar] else [opt (cat [chr CHR ''/'', Star anychar])]) @
          [TextEnd])"

definition compile_owner_pattern :: "string \<Rightarrow> rx" where
  "compile_owner_pattern pattern = (case owner_parts pattern of (anchored, directory, pat) \<Rightarrow>
     owner_rx anchored directory pat)"

record owner_rule =
  or_pattern :: string
  or_regex :: rx

definition parse_codeowners :: "string \<Rightarrow> owner_rule list" where
  "parse_codeowners text = map (\<lambda>line. let pattern = hd (py_words line) in
       \<lparr>or_pattern = pattern, or_regex = compile_owner_pattern pattern\<rparr>)
     (filter (\<lambda>line. line \<noteq> [] \<and> \<not> startswith line ''#'') (map py_strip (splitlines text)))"

fun protected_match :: "string \<Rightarrow> owner_rule list \<Rightarrow> string" where
  "protected_match path [] = []"
| "protected_match path (r # rs) = (if rx_match (or_regex r) path then or_pattern r else protected_match path rs)"

section \<open>Gate configuration\<close>

definition basename :: "string \<Rightarrow> string" where
  "basename path = last (py_split CHR ''/'' path)"

definition is_test_path :: "string \<Rightarrow> bool" where
  "is_test_path path =
     (let name = basename path in
      startswith path ''tests/'' \<or> py_contains ''/tests/'' path \<or> py_contains ''/__tests__/'' path \<or>
      startswith name ''test_'' \<or>
      list_ex (endswith name) [''_test.py'', ''.test.ts'', ''.test.tsx'', ''.spec.ts'', ''.spec.tsx''])"

definition gate_config_reason :: "string \<Rightarrow> string" where
  "gate_config_reason path =
     (if basename path \<in> set GATE_CONFIG_BASENAMES then ''gate configuration file changed: '' @ path
      else if list_ex (\<lambda>p. path = rstrip (\<lambda>c. c = CHR ''/'') p \<or> startswith path p) GATE_CONFIG_PATHS
        then ''gate definition changed: '' @ path
      else [])"

definition pyproject_gate_tables :: "py_env \<Rightarrow> string \<Rightarrow> (string, jval) dict option" where
  "pyproject_gate_tables env text = map_option (\<lambda>data.
     case jget (JDict data) ''tool'' of
       JDict tool \<Rightarrow> map (\<lambda>name. (name, jget (JDict tool) name)) PYPROJECT_GATE_TABLES
     | v \<Rightarrow> if jtruthy v then [] else map (\<lambda>name. (name, JNull)) PYPROJECT_GATE_TABLES) (pe_toml env text)"

definition make_name_char :: "char \<Rightarrow> bool" where
  "make_name_char c = (is_alpha c \<or> is_digit c \<or> c \<in> set ''_.%/ -'')"

definition make_rule :: "string \<Rightarrow> (string \<times> string) option" where
  \<comment> \<open>\<open>^([A-Za-z0-9_.%/ -]+?)\s*::?(?!=)(.*)$\<close>: the two groups of the match\<close>
  "make_rule line = (case py_partition CHR '':'' line of (head, found, rest) \<Rightarrow>
     (let name = (let t = rstrip py_isspace head in if t \<noteq> [] then t else take 1 head) in
      if \<not> found \<or> head = [] \<or> \<not> list_all make_name_char name then None
      else if startswith rest '':'' \<and> \<not> startswith rest '':='' then Some (name, drop 1 rest)
      else if startswith rest ''='' then None
      else Some (name, rest)))"

definition MAKE_VAR :: rx where
  \<comment> \<open>\<open>^\s*(?:export\s+|override\s+)?([A-Za-z_][A-Za-z0-9_]*)\s*(?:\?|:|::|\+|!)?=\<close>\<close>
  "MAKE_VAR = cat [TextStart, Star space, opt (Alt (cat [lit ''export'', spaces]) (cat [lit ''override'', spaces])),
     Ch (\<lambda>c. is_alpha c \<or> c = CHR ''_''), Star (Ch (\<lambda>c. is_alpha c \<or> is_digit c \<or> c = CHR ''_'')), Star space,
     opt (words [''?'', '':'', ''::'', ''+'', ''!'']), chr CHR ''='']"

fun before_mark :: "string \<Rightarrow> string" where
  \<comment> \<open>\<open>s.split("##", 1)[0]\<close>\<close>
  "before_mark [] = []"
| "before_mark (c # s) = (if startswith (c # s) ''##'' then [] else c # before_mark s)"

record make_facts =
  mf_targets :: "(string, string list) dict"
  mf_variables :: "string list"
  mf_current :: "string list option"     \<comment> \<open>the targets that share the recipe being read\<close>

definition add_recipe :: "string \<Rightarrow> string list \<Rightarrow> (string, string list) dict \<Rightarrow> (string, string list) dict" where
  "add_recipe line names targets = map (\<lambda>(k, ls). (k, if k \<in> set names then ls @ [line] else ls)) targets"

definition make_line :: "make_facts \<Rightarrow> string \<Rightarrow> make_facts" where
  \<comment> \<open>the body of the loop over the lines\<close>
  "make_line f raw =
     (let line = rstrip py_isspace raw in
      if startswith raw [CHR 0x09] then
        (case mf_current f of None \<Rightarrow> f
         | Some names \<Rightarrow> f\<lparr>mf_targets := add_recipe (py_strip line) names (mf_targets f)\<rparr>)
      else if py_strip line = [] \<or> startswith (lstrip py_isspace line) ''#'' then f
      else if rx_match MAKE_VAR line then
        f\<lparr>mf_variables := mf_variables f @ [py_join '' '' (py_words line)], mf_current := None\<rparr>
      else (case make_rule line of
          None \<Rightarrow> f\<lparr>mf_current := None\<rparr>
        | Some (names, rest) \<Rightarrow>
            (let gates = filter (\<lambda>n. n \<in> set MAKEFILE_GATE_TARGETS) (py_words names);
                 prereqs = py_strip (before_mark rest) in
             if gates = [] then f\<lparr>mf_current := None\<rparr>
             else f\<lparr>mf_targets := foldl (\<lambda>d n. AList.update n [''prereqs: '' @ prereqs] d) (mf_targets f) gates,
                    mf_current := Some gates\<rparr>)))"

definition makefile_gate_facts :: "string \<Rightarrow> (string, string list) dict \<times> string list" where
  "makefile_gate_facts text =
     (let f = foldl make_line \<lparr>mf_targets = [], mf_variables = [], mf_current = None\<rparr> (splitlines text) in
      (mf_targets f, sort (mf_variables f)))"

type_synonym config_versions = "(string, string option \<times> string option) dict"

fun find_version :: "py_env \<Rightarrow> string \<Rightarrow> config_versions \<Rightarrow> (string option \<times> string option) option" where
  "find_version env path [] = None"
| "find_version env path ((k, v) # kvs) =
     (if normalize_path env k = Inr path then Some v else find_version env path kvs)"

fun canon :: "jval \<Rightarrow> jval" where
  \<comment> \<open>dictionaries compare without regard to the order of their keys\<close>
  "canon (JDict kvs) = JDict (sort_key fst (map (\<lambda>(k, v). (k, canon v)) kvs))"
| "canon (JList xs) = JList (map canon xs)"
| "canon v = v"

definition pyproject_reasons :: "py_env \<Rightarrow> string \<Rightarrow> string \<Rightarrow> string \<Rightarrow> string list" where
  "pyproject_reasons env path base_text head_text =
     (case (pyproject_gate_tables env base_text, pyproject_gate_tables env head_text) of
        (Some old, Some new) \<Rightarrow> map (\<lambda>t. ''pyproject.toml [tool.'' @ t @ ''] changed'')
          (filter (\<lambda>t. canon (jget (JDict old) t) \<noteq> canon (jget (JDict new) t)) PYPROJECT_GATE_TABLES)
      | _ \<Rightarrow> [path @ '' could not be parsed (TOMLDecodeError)''])"

definition makefile_reasons :: "string \<Rightarrow> string \<Rightarrow> string list" where
  "makefile_reasons base_text head_text =
     (let (old_t, old_v) = makefile_gate_facts base_text; (new_t, new_v) = makefile_gate_facts head_text in
      map (\<lambda>t. ''Makefile gate target '' @ [CHR 0x27] @ t @ [CHR 0x27] @ '' changed'')
        (filter (\<lambda>t. map_of old_t t \<noteq> map_of new_t t) (sort MAKEFILE_GATE_TARGETS)) @
      (if old_v \<noteq> new_v then [''Makefile variables changed (gate commands may depend on them)''] else []))"

definition config_reasons :: "py_env \<Rightarrow> string \<Rightarrow> config_versions \<Rightarrow> string list" where
  "config_reasons env path versions =
     (let name = basename path in
      if name \<notin> {''pyproject.toml'', ''makefile''} then []
      else (case find_version env path versions of
          None \<Rightarrow> [path @ '' changed but its before/after contents were not provided'']
        | Some (Some base_text, Some head_text) \<Rightarrow>
            if name = ''pyproject.toml'' then pyproject_reasons env path base_text head_text
            else makefile_reasons base_text head_text
        | Some _ \<Rightarrow> [path @ '' added or removed'']))"

definition added_line :: "string \<Rightarrow> bool" where
  "added_line l = (\<not> startswith l ''+++'' \<and> \<not> startswith l ''---'' \<and> startswith l ''+'')"

definition removed_line :: "string \<Rightarrow> bool" where
  "removed_line l = (\<not> startswith l ''+++'' \<and> \<not> startswith l ''---'' \<and> startswith l ''-'')"

definition patch_lines :: "string \<Rightarrow> string list \<times> string list" where
  "patch_lines patch = (let ls = splitlines patch in
     (map tl (filter added_line ls), map tl (filter removed_line ls)))"

section \<open>Decision\<close>

definition quoted :: "string \<Rightarrow> string" where
  "quoted s = [CHR 0x27] @ s @ [CHR 0x27]"

definition check_key :: "gate_check \<Rightarrow> string" where
  "check_key c = py_lower (py_strip (gc_name c))"

definition by_name :: "gate_check list \<Rightarrow> (string, gate_check list) dict" where
  "by_name checks = foldl (\<lambda>d c. AList.update (check_key c) (dict_get d (check_key c) [] @ [c]) d) [] checks"

definition required_names :: "string list \<Rightarrow> string list" where
  "required_names required = sorted_set (map (\<lambda>r. py_lower (py_strip r)) (filter (\<lambda>r. py_strip r \<noteq> []) required))"

definition required_reasons :: "string \<Rightarrow> gate_check list \<Rightarrow> string list" where
  "required_reasons name runs =
     (if runs = [] then [''required check '' @ quoted name @ '' did not run'']
      else concat (map (\<lambda>run.
        if py_lower (gc_status run) \<noteq> ''completed'' \<or> py_lower (gc_conclusion run) \<noteq> SUCCESS then
          [''required check '' @ quoted name @ '' is '' @ py_lower (gc_status run) @ ''/'' @
             (if gc_conclusion run \<noteq> [] then py_lower (gc_conclusion run) else ''none'')]
        else []) runs))"

definition other_reasons :: "string \<Rightarrow> gate_check list \<Rightarrow> string list" where
  "other_reasons name runs = concat (map (\<lambda>run.
     let status = py_lower (gc_status run); conclusion = py_lower (gc_conclusion run) in
     if status \<noteq> ''completed'' then
       [''check '' @ quoted name @ '' is '' @ (if status \<noteq> [] then status else ''unknown'')]
     else if conclusion \<noteq> SUCCESS \<and> conclusion \<notin> set SOFT_PASS then
       [''check '' @ quoted name @ '' concluded '' @ (if conclusion \<noteq> [] then conclusion else ''none'')]
     else []) runs)"

definition check_reasons :: "gate_check list \<Rightarrow> string list \<Rightarrow> string list" where
  "check_reasons checks required =
     (if checks = [] then [''no CI checks reported on the PR head'']
      else (let names = by_name checks; req = required_names required in
        concat (map (\<lambda>n. required_reasons n (dict_get names n [])) req) @
        concat (map (\<lambda>n. other_reasons n (dict_get names n []))
          (filter (\<lambda>n. n \<notin> set req) (sort (map fst names))))))"

record test_tally =
  tt_tests_added :: nat
  tt_tests_removed :: nat
  tt_asserts_added :: nat
  tt_asserts_removed :: nat

definition count_lines :: "rx \<Rightarrow> string list \<Rightarrow> nat" where
  "count_lines r ls = length (filter (rx_match r) ls)"

definition path_reasons :: "owner_rule list \<Rightarrow> owner_rule list \<Rightarrow> string \<Rightarrow> string list" where
  "path_reasons owner_rules baseline_rules path =
     (let owner = protected_match path owner_rules;
          pattern = (if owner \<noteq> [] then owner else protected_match path baseline_rules);
          gate = gate_config_reason path in
      (if pattern \<noteq> [] then [''protected path changed: '' @ path @ '' (matches '' @ pattern @ '')''] else []) @
      (if gate \<noteq> [] then [gate] else []))"

definition error_text :: "'a res \<Rightarrow> string list" where
  "error_text r = (case r of Inl e \<Rightarrow> [exn_msg e] | Inr _ \<Rightarrow> [])"

definition status_of :: "changed_file \<Rightarrow> string" where
  "status_of item = py_lower (if cf_status item \<noteq> [] then cf_status item else ''modified'')"

definition raw_paths :: "changed_file \<Rightarrow> string list" where
  "raw_paths item = cf_path item # (if cf_previous_path item \<noteq> [] then [cf_previous_path item] else [])"

definition no_tests :: test_tally where
  "no_tests = \<lparr>tt_tests_added = 0, tt_tests_removed = 0, tt_asserts_added = 0, tt_asserts_removed = 0\<rparr>"

definition review_paths ::
  "py_env \<Rightarrow> owner_rule list \<Rightarrow> owner_rule list \<Rightarrow> config_versions \<Rightarrow> changed_file \<Rightarrow> string list
     \<Rightarrow> string list \<times> test_tally" where
  \<comment> \<open>the body of the loop over the files, once both paths are normalized\<close>
  "review_paths env owner_rules baseline_rules versions item paths =
     (let head_path = hd paths;
          old_path = (if 1 < length paths then paths ! 1 else head_path);
          status = status_of item;
          is_test = (is_test_path head_path \<or> is_test_path old_path);
          (added, removed) = patch_lines (cf_patch item) in
      (concat (map (path_reasons owner_rules baseline_rules) paths) @
       config_reasons env head_path versions @
       (if is_test_path old_path \<and> (status \<in> {''removed'', ''deleted''} \<or>
             status = ''renamed'' \<and> \<not> is_test_path head_path)
        then [''test file deleted or moved out of the test tree: '' @ old_path] else []) @
       (if list_ex (rx_search SKIP_MARKERS) added then [''skip/xfail marker added in '' @ head_path] else []) @
       (if is_test \<and> cf_patch item = [] \<and> status \<notin> {''added'', ''removed'', ''deleted''}
        then [''test file '' @ head_path @ '' changed but its diff was not provided''] else []),
       if is_test then \<lparr>tt_tests_added = count_lines TEST_FUNC added, tt_tests_removed = count_lines TEST_FUNC removed,
           tt_asserts_added = count_lines ASSERT added, tt_asserts_removed = count_lines ASSERT removed\<rparr>
       else no_tests))"

definition review_file ::
  "py_env \<Rightarrow> owner_rule list \<Rightarrow> owner_rule list \<Rightarrow> config_versions \<Rightarrow> changed_file \<Rightarrow> string list \<times> test_tally" where
  "review_file env owner_rules baseline_rules versions item =
     (let norms = map (normalize_path env) (raw_paths item) in
      case mapE (normalize_path env) (raw_paths item) of
        Inl _ \<Rightarrow> (concat (map error_text norms), no_tests)
      | Inr paths \<Rightarrow> review_paths env owner_rules baseline_rules versions item paths)"

definition plural_counts :: "string \<Rightarrow> nat \<Rightarrow> nat \<Rightarrow> string" where
  "plural_counts what removed added = ''net deletion of '' @ what @ '' ('' @ nat_digits removed @ '' removed, '' @
     nat_digits added @ '' added)''"

definition evaluate_auto_merge ::
  "py_env \<Rightarrow> changed_file list \<Rightarrow> gate_check list \<Rightarrow> string option \<Rightarrow> string list \<Rightarrow> config_versions
     \<Rightarrow> merge_decision" where
  "evaluate_auto_merge env changed_files checks codeowners_text required_checks versions =
     (let owner_rules = (case codeowners_text of None \<Rightarrow> [] | Some t \<Rightarrow> parse_codeowners t);
          baseline_rules = parse_codeowners (py_join [newline] BASELINE_PROTECTED);
          reviews = map (review_file env owner_rules baseline_rules versions) changed_files;
          total = (\<lambda>f. sum_list (map (\<lambda>r. f (snd r)) reviews));
          reasons = check_reasons checks required_checks @
            (if owner_rules = [] then [''CODEOWNERS is missing or empty; protected paths cannot be verified''] else []) @
            (if changed_files = [] then [''the PR changes no files''] else []) @
            concat (map fst reviews) @
            (if total tt_tests_added < total tt_tests_removed
             then [plural_counts ''test functions'' (total tt_tests_removed) (total tt_tests_added)] else []) @
            (if total tt_asserts_added < total tt_asserts_removed
             then [plural_counts ''assertions'' (total tt_asserts_removed) (total tt_asserts_added)] else []);
          deduped = dict_fromkeys reasons in
      \<lparr>md_action = (if deduped \<noteq> [] then Hold else Merge), md_reasons = deduped\<rparr>)"

section \<open>Specification predicates and sample values\<close>

definition below :: "bool \<Rightarrow> bool \<Rightarrow> string \<Rightarrow> string \<Rightarrow> bool" where
  \<comment> \<open>the path is the named file or directory, or lies beneath it\<close>
  "below anchored directory w path \<longleftrightarrow> (\<exists>d t. path = d @ w @ t \<and>
     (d = [] \<or> \<not> anchored \<and> last d = CHR ''/'') \<and> (t = [] \<and> \<not> directory \<or> t \<noteq> [] \<and> hd t = CHR ''/''))"

definition net_ok :: "(string list \<times> test_tally) list \<Rightarrow> bool" where
  "net_ok reviews \<longleftrightarrow>
     sum_list (map (\<lambda>r. tt_tests_removed (snd r)) reviews) \<le> sum_list (map (\<lambda>r. tt_tests_added (snd r)) reviews) \<and>
     sum_list (map (\<lambda>r. tt_asserts_removed (snd r)) reviews) \<le> sum_list (map (\<lambda>r. tt_asserts_added (snd r)) reviews)"

definition owner_rules_of :: "string option \<Rightarrow> owner_rule list" where
  "owner_rules_of text = (case text of None \<Rightarrow> [] | Some t \<Rightarrow> parse_codeowners t)"

definition baseline_rules :: "owner_rule list" where
  "baseline_rules = parse_codeowners (py_join [newline] BASELINE_PROTECTED)"

definition completed :: "gate_check \<Rightarrow> bool" where
  "completed c \<longleftrightarrow> py_lower (gc_status c) = ''completed''"

definition concluded :: "gate_check \<Rightarrow> string" where
  "concluded c = py_lower (gc_conclusion c)"

definition checks_green :: "gate_check list \<Rightarrow> string list \<Rightarrow> bool" where
  \<comment> \<open>some check ran, all completed, the required ones ran with success, the others with success or were skipped\<close>
  "checks_green checks required \<longleftrightarrow> checks \<noteq> [] \<and>
     (\<forall>n \<in> set (required_names required). \<exists>c \<in> set checks. check_key c = n) \<and>
     (\<forall>c \<in> set checks. completed c \<and> (concluded c = SUCCESS \<or>
        check_key c \<notin> set (required_names required) \<and> concluded c \<in> set SOFT_PASS))"

definition unprotected :: "owner_rule list \<Rightarrow> string \<Rightarrow> bool" where
  "unprotected rules path \<longleftrightarrow> (\<forall>r \<in> set rules. \<not> rx_match (or_regex r) path)"

definition tests_kept :: "changed_file \<Rightarrow> string list \<Rightarrow> bool" where
  \<comment> \<open>no test file goes, no added line skips a test, and the diff of a changed test file is there\<close>
  "tests_kept f paths \<longleftrightarrow>
     (let old = (if 1 < length paths then paths ! 1 else hd paths) in
      (is_test_path old \<longrightarrow> status_of f \<notin> {''removed'', ''deleted''} \<and>
         (status_of f = ''renamed'' \<longrightarrow> is_test_path (hd paths))) \<and>
      (\<forall>l \<in> set (fst (patch_lines (cf_patch f))). \<not> rx_search SKIP_MARKERS l) \<and>
      ((is_test_path (hd paths) \<or> is_test_path old) \<and> cf_patch f = [] \<longrightarrow>
         status_of f \<in> {''added'', ''removed'', ''deleted''}))"

definition file_clean :: "py_env \<Rightarrow> owner_rule list \<Rightarrow> config_versions \<Rightarrow> changed_file \<Rightarrow> bool" where
  "file_clean env owner_rules versions f \<longleftrightarrow> (\<exists>paths. mapE (normalize_path env) (raw_paths f) = Inr paths \<and>
     (\<forall>p \<in> set paths. unprotected owner_rules p \<and> unprotected baseline_rules p \<and> gate_config_reason p = []) \<and>
     config_reasons env (hd paths) versions = [] \<and> tests_kept f paths)"

definition plain_part :: "string \<Rightarrow> bool" where
  "plain_part s \<longleftrightarrow> s \<noteq> [] \<and> s \<noteq> ''.'' \<and> s \<noteq> ''..'' \<and> CHR ''/'' \<notin> set s"

definition sample_py :: py_env where
  "sample_py = \<lparr>pe_nfkc = (\<lambda>s. s), pe_toml = (\<lambda>_. None)\<rparr>"

definition green_check :: gate_check where
  "green_check = \<lparr>gc_name = ''ci'', gc_status = ''completed'', gc_conclusion = ''success''\<rparr>"

definition sample_change :: "string \<Rightarrow> string \<Rightarrow> string \<Rightarrow> string \<Rightarrow> changed_file" where
  "sample_change path status previous patch =
     \<lparr>cf_path = path, cf_status = status, cf_previous_path = previous, cf_patch = patch\<rparr>"

definition sample_merge :: "changed_file \<Rightarrow> merge_decision" where
  "sample_merge f = evaluate_auto_merge sample_py [f] [green_check] (Some ''/policies/ @team'') [''ci''] []"

section \<open>Lemmas\<close>

lemma glob_literal: "list_all (\<lambda>c. c \<noteq> CHR ''*'' \<and> c \<noteq> CHR ''?'') w \<Longrightarrow> glob_to_rx w = map chr w"
  by (induction w) auto

lemma owner_rx_below:
  assumes lit: "list_all (\<lambda>c. c \<noteq> CHR ''*'' \<and> c \<noteq> CHR ''?'') w" and b: "below anchored directory w path"
    and nl: "newline \<notin> set path"
  shows "rx_match (owner_rx anchored directory w) path"
proof -
  from b obtain d t where p: "path = d @ w @ t" and d: "d = [] \<or> \<not> anchored \<and> d \<noteq> [] \<and> last d = CHR ''/''"
    and t: "t = [] \<and> \<not> directory \<or> (\<exists>u. t = CHR ''/'' # u)"
    unfolding below_def by (metis last_snoc list.collapse neq_Nil_conv)
  have nl': "newline \<notin> set d" "newline \<notin> set t" using nl p by auto
  have start: "\<exists>b. ((None, path), (b, w @ t)) \<in> rel (cat ([TextStart] @ (if anchored then [] else
      [opt (cat [Star anychar, chr CHR ''/''])])))"
  proof (cases "d = []")
    case True
    then show ?thesis using p by (auto simp: opt_def relcomp_unfold)
  next
    case False
    then have nd: "d = butlast d @ [CHR ''/'']" using d by (metis append_butlast_last_id)
    have "newline \<notin> set (butlast d)" using nl'(1) by (metis in_set_butlastD)
    then obtain b where "((None, butlast d @ CHR ''/'' # w @ t), (b, CHR ''/'' # w @ t)) \<in> (rel anychar)\<^sup>*"
      using rel_star_any by blast
    moreover have "path = butlast d @ CHR ''/'' # w @ t" using p nd by (metis append.assoc append_Cons append_Nil)
    ultimately show ?thesis using d False by (auto simp: opt_def relcomp_unfold chr_def)
  qed
  then obtain b where s: "((None, path), (b, w @ t)) \<in> rel (cat ([TextStart] @ (if anchored then [] else
      [opt (cat [Star anychar, chr CHR ''/''])])))" ..
  have w: "\<exists>b'. ((b, w @ t), (b', t)) \<in> rel (cat (glob_to_rx w))"
    unfolding glob_literal [OF lit] cat_chr rel_lit by auto
  have e: "\<exists>q. ((b', t), q) \<in> rel (cat ((if directory then [chr CHR ''/'', Star anychar]
      else [opt (cat [chr CHR ''/'', Star anychar])]) @ [TextEnd]))" for b'
  proof -
    from t show ?thesis
    proof
      assume "t = [] \<and> \<not> directory"
      then show ?thesis by (auto simp: opt_def relcomp_unfold)
    next
      assume "\<exists>u. t = CHR ''/'' # u"
      then obtain u where u: "t = CHR ''/'' # u" by blast
      obtain b2 where "((Some CHR ''/'', u), (b2, [])) \<in> (rel anychar)\<^sup>*"
        using rel_star_any [of u "Some CHR ''/''" "[]"] nl'(2) u by auto
      then show ?thesis using u by (auto simp: opt_def relcomp_unfold chr_def)
    qed
  qed
  show ?thesis unfolding rx_match_iff owner_rx_def
    using s w e by (simp only: append_assoc [symmetric] rel_cat_append) (blast)
qed

lemma merge_iff:
  "md_action (evaluate_auto_merge env files checks owners required versions) = Merge \<longleftrightarrow>
     check_reasons checks required = [] \<and> owner_rules_of owners \<noteq> [] \<and> files \<noteq> [] \<and>
     (\<forall>f \<in> set files. fst (review_file env (owner_rules_of owners) baseline_rules versions f) = []) \<and>
     net_ok (map (review_file env (owner_rules_of owners) baseline_rules versions) files)"
  unfolding evaluate_auto_merge_def Let_def owner_rules_of_def [symmetric] baseline_rules_def [symmetric]
  by (auto simp: dict_fromkeys_Nil_iff net_ok_def comp_def not_less)

lemma by_name_snoc: "by_name (cs @ [c]) = AList.update (check_key c) (dict_get (by_name cs) (check_key c) [] @ [c]) (by_name cs)"
  by (simp add: by_name_def)

lemma dict_get_by_name: "dict_get (by_name cs) n [] = filter (\<lambda>c. check_key c = n) cs"
proof (induction cs rule: rev_induct)
  case Nil
  then show ?case by (simp add: by_name_def dict_get_def)
next
  case (snoc c cs)
  then show ?case by (auto simp: by_name_snoc dict_get_def update_conv')
qed

lemma keys_by_name: "fst ` set (by_name cs) = check_key ` set cs"
  by (induction cs rule: rev_induct) (simp_all add: by_name_snoc dom_update, simp add: by_name_def)

lemma required_reasons_Nil:
  "required_reasons n runs = [] \<longleftrightarrow> runs \<noteq> [] \<and> (\<forall>c \<in> set runs. completed c \<and> concluded c = SUCCESS)"
proof -
  have "required_reasons n runs = [] \<longleftrightarrow> runs \<noteq> [] \<and> (\<forall>c \<in> set runs.
      \<not> (py_lower (gc_status c) \<noteq> ''completed'' \<or> py_lower (gc_conclusion c) \<noteq> SUCCESS))"
    unfolding required_reasons_def by (cases runs) (simp_all only: concat_map_Nil guard_Nil list.distinct simp_thms if_True if_False)
  then show ?thesis by (simp add: completed_def concluded_def)
qed

lemma other_reasons_Nil:
  "other_reasons n runs = [] \<longleftrightarrow> (\<forall>c \<in> set runs. completed c \<and> (concluded c = SUCCESS \<or> concluded c \<in> set SOFT_PASS))"
proof -
  have "other_reasons n runs = [] \<longleftrightarrow> (\<forall>c \<in> set runs. \<not> (py_lower (gc_status c) \<noteq> ''completed'') \<and>
      \<not> (py_lower (gc_conclusion c) \<noteq> SUCCESS \<and> py_lower (gc_conclusion c) \<notin> set SOFT_PASS))"
    unfolding other_reasons_def Let_def concat_map_Nil guard_Nil guard_Nil2 ..
  then show ?thesis by (auto simp: completed_def concluded_def)
qed

lemma check_reasons_Nil: "check_reasons checks required = [] \<longleftrightarrow> checks_green checks required"
proof (cases "checks = []")
  case True
  then show ?thesis by (simp add: check_reasons_def checks_green_def)
next
  case False
  let ?req = "set (required_names required)"
  have "check_reasons checks required = [] \<longleftrightarrow>
      (\<forall>n \<in> ?req. required_reasons n (filter (\<lambda>c. check_key c = n) checks) = []) \<and>
      (\<forall>n \<in> check_key ` set checks - ?req. other_reasons n (filter (\<lambda>c. check_key c = n) checks) = [])"
    using False by (auto simp: check_reasons_def Let_def dict_get_by_name keys_by_name)
  also have "\<dots> \<longleftrightarrow> checks_green checks required"
    using False by (auto simp: required_reasons_Nil other_reasons_Nil checks_green_def filter_empty_conv)
  finally show ?thesis .
qed

lemma protected_match_Nil:
  assumes "\<forall>r \<in> set rules. or_pattern r \<noteq> []"
  shows "protected_match path rules = [] \<longleftrightarrow> (\<forall>r \<in> set rules. \<not> rx_match (or_regex r) path)"
  using assms by (induction rules) auto

lemma parse_codeowners_patterns: "\<forall>r \<in> set (parse_codeowners text). or_pattern r \<noteq> []"
proof
  fix r assume "r \<in> set (parse_codeowners text)"
  then obtain line where l: "py_strip line \<noteq> []" "or_pattern r = hd (py_words (py_strip line))"
    by (auto simp: parse_codeowners_def Let_def)
  have "py_words (py_strip line) \<noteq> []"
    using split_runs_not_Nil [of "[]" "py_strip line" py_isspace] py_strip_nonspace [OF l(1)] by (simp add: py_words_def)
  then show "or_pattern r \<noteq> []" using l(2) py_words_nonempty hd_in_set by metis
qed

lemma rules_patterns: "\<forall>r \<in> set (owner_rules_of text). or_pattern r \<noteq> []"
  "\<forall>r \<in> set baseline_rules. or_pattern r \<noteq> []"
  using parse_codeowners_patterns by (auto simp: owner_rules_of_def baseline_rules_def split: option.splits)

lemma path_reasons_Nil:
  "path_reasons (owner_rules_of text) baseline_rules path = [] \<longleftrightarrow>
     unprotected (owner_rules_of text) path \<and> unprotected baseline_rules path \<and> gate_config_reason path = []"
proof -
  have eq: "protected_match path (owner_rules_of text) = [] \<longleftrightarrow> unprotected (owner_rules_of text) path"
    "protected_match path baseline_rules = [] \<longleftrightarrow> unprotected baseline_rules path"
    unfolding unprotected_def by (rule protected_match_Nil [OF rules_patterns(1)], rule protected_match_Nil [OF rules_patterns(2)])
  show ?thesis unfolding path_reasons_def Let_def append_is_Nil_conv guard_Nil
    using eq by auto
qed

lemma review_paths_Nil:
  "fst (review_paths env (owner_rules_of text) baseline_rules versions f paths) = [] \<longleftrightarrow>
     (\<forall>p \<in> set paths. unprotected (owner_rules_of text) p \<and> unprotected baseline_rules p \<and> gate_config_reason p = []) \<and>
     config_reasons env (hd paths) versions = [] \<and> tests_kept f paths"
proof -
  obtain added removed where p: "patch_lines (cf_patch f) = (added, removed)" by fastforce
  show ?thesis
    unfolding review_paths_def Let_def p prod.case fst_conv append_is_Nil_conv guard_Nil concat_map_Nil
      path_reasons_Nil tests_kept_def list_ex_iff by blast
qed

lemma mapE_Inl: "mapE f xs = Inl e \<Longrightarrow> concat (map (\<lambda>x. error_text (f x)) xs) \<noteq> []"
proof (induction xs)
  case (Cons x xs)
  show ?case
  proof (cases "f x")
    case (Inr y)
    then show ?thesis using Cons by (auto simp: bindE_eq_Inl_iff)
  qed (simp add: error_text_def)
qed simp

lemma review_file_Nil:
  "fst (review_file env (owner_rules_of text) baseline_rules versions f) = [] \<longleftrightarrow>
     file_clean env (owner_rules_of text) versions f"
proof (cases "mapE (normalize_path env) (raw_paths f)")
  case (Inl e)
  from mapE_Inl [OF this] show ?thesis by (simp add: review_file_def file_clean_def Inl comp_def)
next
  case (Inr paths)
  then show ?thesis unfolding review_file_def file_clean_def Inr Let_def sum.case review_paths_Nil by auto
qed

lemma baseline_rule:
  assumes "pat \<in> set BASELINE_PROTECTED"
  shows "\<exists>r \<in> set baseline_rules. or_regex r = compile_owner_pattern pat"
proof -
  have "map or_pattern baseline_rules = BASELINE_PROTECTED" unfolding baseline_rules_def by code_simp
  then obtain r where r: "r \<in> set baseline_rules" "or_pattern r = pat" using assms by (metis in_set_conv_nth length_map nth_map)
  then have "or_regex r = compile_owner_pattern (or_pattern r)"
    by (auto simp: baseline_rules_def parse_codeowners_def Let_def)
  then show ?thesis using r by blast
qed

lemma baseline_literal:
  assumes "pat \<in> set BASELINE_PROTECTED" and "owner_parts pat = (anchored, directory, w)"
  shows "list_all (\<lambda>c. c \<noteq> CHR ''*'' \<and> c \<noteq> CHR ''?'') w"
proof -
  have "list_all (\<lambda>p. list_all (\<lambda>c. c \<noteq> CHR ''*'' \<and> c \<noteq> CHR ''?'') (snd (snd (owner_parts p)))) BASELINE_PROTECTED"
    by code_simp
  then show ?thesis using assms by (force simp: list_all_iff)
qed

lemma normpath_fold:
  assumes "\<forall>c \<in> set parts. CHR ''/'' \<notin> set c"
    and "\<exists>xs n. acc = xs @ replicate n ''..'' \<and> list_all plain_part xs"
  shows "\<exists>xs n. foldl normpath_step acc parts = xs @ replicate n ''..'' \<and> list_all plain_part xs"
  using assms
proof (induction parts arbitrary: acc)
  case (Cons c parts)
  from Cons.prems(2) obtain xs n where acc: "acc = xs @ replicate n ''..''" "list_all plain_part xs" by blast
  have "\<exists>xs n. normpath_step acc c = xs @ replicate n ''..'' \<and> list_all plain_part xs"
  proof (cases xs)
    case Nil
    consider "c = [] \<or> c = ''.''" | "c = ''..''" | "plain_part c"
      using Cons.prems(1) by (auto simp: plain_part_def)
    then show ?thesis
    proof cases
      case 1
      then show ?thesis using acc by auto
    next
      case 2
      then have "normpath_step acc c = [] @ replicate (Suc n) ''..''" using acc Nil by (cases n) auto
      then show ?thesis by fastforce
    next
      case 3
      then have "normpath_step acc c = [c] @ replicate n ''..''" using acc Nil by (auto simp: plain_part_def)
      then show ?thesis using 3 by fastforce
    qed
  next
    case (Cons y ys)
    consider "c = [] \<or> c = ''.''" | "c = ''..''" | "plain_part c"
      using Cons.prems(1) by (auto simp: plain_part_def)
    then show ?thesis
    proof cases
      case 1
      then show ?thesis using acc by auto
    next
      case 2
      then have "normpath_step acc c = ys @ replicate n ''..''" using acc Cons by (auto simp: plain_part_def)
      then show ?thesis using acc Cons by auto
    next
      case 3
      then have "normpath_step acc c = (c # xs) @ replicate n ''..''" using acc by (auto simp: plain_part_def)
      then show ?thesis using 3 acc(2) by fastforce
    qed
  qed
  then show ?case using Cons.IH Cons.prems(1) by (simp del: normpath_step.simps)
qed simp

lemma plain_lower: "plain_part s \<Longrightarrow> plain_part (py_lower s)"
  by (auto simp: plain_part_def py_lower_def map_eq_Cons_conv lower_char_eq) (metis lower_char_eq(1))

lemma trim_windows_plain: "plain_part s \<Longrightarrow> plain_part (trim_windows s)"
proof -
  assume s: "plain_part s"
  let ?q = "rstrip (\<lambda>c. c = CHR '' '' \<or> c = CHR ''.'') s"
  have sub: "set ?q \<subseteq> set s" by (auto simp: rstrip_def dest: set_dropWhileD)
  have "last ?q \<noteq> CHR ''.''" if "?q \<noteq> []"
    using that hd_dropWhile [of "\<lambda>c. c = CHR '' '' \<or> c = CHR ''.''" "rev s"] by (auto simp: rstrip_def last_rev)
  then show ?thesis using s sub by (auto simp: trim_windows_def Let_def plain_part_def)
qed

lemma normpath_parts:
  assumes "\<not> (normpath text = ''.'' \<or> normpath text = [] \<or> normpath text = ''..'' \<or> startswith (normpath text) ''../'')"
  shows "list_all plain_part (py_split CHR ''/'' (normpath text))"
proof -
  let ?L = "rev (foldl normpath_step [] (py_split CHR ''/'' text))"
  have "\<forall>c \<in> set (py_split CHR ''/'' text). CHR ''/'' \<notin> set c" using py_split_no_sep by blast
  then obtain xs n where fold: "foldl normpath_step [] (py_split CHR ''/'' text) = xs @ replicate n ''..''"
    "list_all plain_part xs"
    using normpath_fold [of "py_split CHR ''/'' text" "[]"] by force
  then have L: "?L = replicate n ''..'' @ rev xs" by simp
  have ne: "?L \<noteq> []" and norm: "normpath text = py_join ''/'' ?L"
    using assms by (auto simp: normpath_def Let_def split: if_splits)
  have "n = 0"
  proof (rule ccontr)
    assume "n \<noteq> 0"
    then obtain m where "n = Suc m" by (cases n) auto
    then obtain rest where "?L = ''..'' # rest" using L by simp
    then have "normpath text = ''..'' \<or> startswith (normpath text) ''../''"
      unfolding norm by (cases rest) auto
    then show False using assms by blast
  qed
  then have all: "list_all plain_part ?L" using L fold(2) by simp
  then have "\<forall>x \<in> set ?L. CHR ''/'' \<notin> set x" by (auto simp: list_all_iff plain_part_def)
  then show ?thesis using py_split_join [OF _ ne] all unfolding norm by simp
qed

section \<open>Properties\<close>



text \<open>
  C28: The built-in protected paths hold whatever CODEOWNERS says: a change of a file named by a
  baseline pattern, or beneath a directory it names, in any spelling that normalizes to it, is held.
\<close>

theorem baseline_always_held:
  assumes "f \<in> set files" and "raw \<in> set (raw_paths f)" and "normalize_path env raw = Inr path"
    and "newline \<notin> set path" and "pat \<in> set BASELINE_PROTECTED"
    and "owner_parts pat = (anchored, directory, w)" and "below anchored directory w path"
  shows "md_action (evaluate_auto_merge env files checks owners required versions) = Hold"
proof -
  obtain r where r: "r \<in> set baseline_rules" "or_regex r = compile_owner_pattern pat"
    using baseline_rule [OF assms(5)] by blast
  have "rx_match (or_regex r) path"
    using owner_rx_below [OF baseline_literal [OF assms(5,6)] assms(7,4)] r(2) assms(6)
    by (simp add: compile_owner_pattern_def)
  then have bad: "\<not> unprotected baseline_rules path" using r(1) by (auto simp: unprotected_def)
  have "path \<in> set paths" if "mapE (normalize_path env) (raw_paths f) = Inr paths" for paths
    using mapE_Inr_member [OF that] assms(2,3) by fastforce
  then have "\<not> file_clean env (owner_rules_of owners) versions f"
    using bad unfolding file_clean_def by blast
  then have "md_action (evaluate_auto_merge env files checks owners required versions) \<noteq> Merge"
    using assms(1) unfolding merge_iff review_file_Nil by blast
  then show ?thesis by (cases "md_action (evaluate_auto_merge env files checks owners required versions)") auto
qed

theorem baseline_always_held_witness:
  "md_action (sample_merge (sample_change ''Policies/Agent.rego'' ''modified'' [] [])) = Hold"
proof -
  let ?f = "sample_change ''Policies/Agent.rego'' ''modified'' [] []"
  have n: "normalize_path sample_py ''Policies/Agent.rego'' = Inr ''policies/agent.rego''" by code_simp
  have f: "?f \<in> set [?f]" "''Policies/Agent.rego'' \<in> set (raw_paths ?f)"
    by (simp_all add: sample_change_def raw_paths_def)
  have p: "newline \<notin> set ''policies/agent.rego''" "''/policies/'' \<in> set BASELINE_PROTECTED"
    "owner_parts ''/policies/'' = (True, True, ''policies'')" by code_simp+
  have "below True True ''policies'' ''policies/agent.rego''"
    unfolding below_def by (intro exI [of _ "[]"] exI [of _ "''/agent.rego''"]) simp
  from baseline_always_held [OF f n p this] show ?thesis by (simp add: sample_merge_def)
qed

text \<open>
  A normalized path is a plain relative path: lower case, no leading slash, and no component that
  is empty, \<open>.\<close> or \<open>..\<close>.
\<close>

theorem normalize_path_shape:
  assumes "normalize_path env raw = Inr path"
  shows "(\<forall>part \<in> set (py_split CHR ''/'' path). part \<noteq> [] \<and> part \<noteq> ''.'' \<and> part \<noteq> ''..'') \<and>
    py_lower path = path \<and> \<not> startswith path ''/''"
proof -
  from assms obtain t where ok: "\<not> (normpath t = ''.'' \<or> normpath t = [] \<or> normpath t = ''..'' \<or>
      startswith (normpath t) ''../'')"
    and path: "path = py_lower (py_join ''/'' (map trim_windows (py_split CHR ''/'' (normpath t))))"
    unfolding normalize_path_def guardE_eq_Inr_iff Let_def by blast
  let ?L = "map (\<lambda>p. py_lower (trim_windows p)) (py_split CHR ''/'' (normpath t))"
  have all: "list_all plain_part ?L"
    using normpath_parts [OF ok] by (auto simp: list_all_iff intro: plain_lower trim_windows_plain)
  have p: "path = py_join ''/'' ?L" unfolding path py_lower_join by (simp add: comp_def)
  have ne: "?L \<noteq> []" by (simp add: py_split_not_Nil)
  have sep: "\<forall>x \<in> set ?L. CHR ''/'' \<notin> set x" using all unfolding list_all_iff plain_part_def by blast
  have split: "py_split CHR ''/'' path = ?L" unfolding p by (rule py_split_join [OF sep ne])
  have "\<not> startswith path ''/''"
  proof
    assume "startswith path ''/''"
    then have "[] \<in> set (py_split CHR ''/'' path)" by (auto simp: prefix_def)
    then show False using all split by (auto simp: list_all_iff plain_part_def)
  qed
  then show ?thesis using all split path py_lower_idem by (auto simp: list_all_iff plain_part_def)
qed

theorem normalize_path_shape_witness: "py_lower ''a/c.py'' = ''a/c.py'' \<and> normalize_path sample_py ''A/b/../C.py. '' = Inr ''a/c.py''"
proof -
  have "normalize_path sample_py ''A/b/../C.py. '' = Inr ''a/c.py''" by code_simp
  then show ?thesis using normalize_path_shape by blast
qed

text \<open>
  Only the new path of a renamed file is compared with the configuration files: a pull request
  that renames the \<open>Makefile\<close> away merges, although one that removes it is held.
\<close>

theorem makefile_moved_away_merges:
  "md_action (sample_merge (sample_change ''old.mk'' ''renamed'' ''Makefile'' [])) = Merge \<and>
   md_action (sample_merge (sample_change ''Makefile'' ''removed'' [] [])) = Hold"
  by code_simp

text \<open>
  Lines of a diff starting with three plus signs are taken for a file header: an added line
  \<open>++pytest.skip(1)\<close>, a call under two unary signs, is not seen as a skip marker and merges.
\<close>

theorem hidden_skip_merges:
  "md_action (sample_merge (sample_change ''tests/test_a.py'' ''modified'' [] ''+++pytest.skip(1)'')) = Merge \<and>
   md_action (sample_merge (sample_change ''tests/test_a.py'' ''modified'' [] ''+pytest.skip(1)'')) = Hold"
  by code_simp

end
