(* ===== verification/Graph_Compiler.thy ===== *)
theory Graph_Compiler
  imports Py_Regex Py_Text
begin

text \<open>
  \<open>apps/backend/app/graph_compiler.py\<close>: the compilation of a workflow graph drawn on the canvas into a
  LangGraph program, and the nodes it runs.  The topology (links, routing nodes, entry, ancestors,
  cycles), the routing of a node's decision with the guard that bounds loops, the node runner with its
  state update, and the edges given to LangGraph.

  LangGraph itself is an argument: a list of builder calls is compiled by it.  The agents that edit
  files (the coding loop, the team, the analyzers) are an argument of the agent node too; telemetry
  callbacks, whose failures are swallowed, are left out.
\<close>

section \<open>Graphs\<close>

record graph_node =
  gn_id :: string
  gn_type :: string
  gn_title :: string
  gn_config :: jval

record graph_link =
  gl_from :: string
  gl_to :: string
  gl_from_port :: "string option"
  gl_to_port :: "string option"

definition norm_type :: "string \<Rightarrow> string" where
  "norm_type node_type = (let candidate = py_strip node_type in
     if candidate = [] then ''locus/unknown''
     else if startswith candidate ''locus/'' then candidate else ''locus/'' @ candidate)"

definition or_text :: "string option \<Rightarrow> string \<Rightarrow> string" where
  \<comment> \<open>\<open>str(text or default)\<close>\<close>
  "or_text t d = (case t of None \<Rightarrow> d | Some s \<Rightarrow> if s = [] then d else s)"

definition port_of :: "graph_link \<Rightarrow> string" where
  "port_of e = or_text (gl_from_port e) ''out''"

definition inside :: "string list \<Rightarrow> graph_link \<Rightarrow> bool" where
  \<comment> \<open>both ends are nodes\<close>
  "inside ids e = (gl_from e \<in> set ids \<and> gl_to e \<in> set ids)"

definition out_links :: "string list \<Rightarrow> graph_link list \<Rightarrow> (string, graph_link list) dict" where
  "out_links ids links = map (\<lambda>i. (i, filter (\<lambda>e. inside ids e \<and> gl_from e = i) links)) (dict_fromkeys ids)"

definition in_links :: "string list \<Rightarrow> graph_link list \<Rightarrow> (string, graph_link list) dict" where
  "in_links ids links = map (\<lambda>i. (i, filter (\<lambda>e. inside ids e \<and> gl_to e = i) links)) (dict_fromkeys ids)"

definition routing_nodes :: "(string, graph_link list) dict \<Rightarrow> (string, string list) dict" where
  "routing_nodes out = filter (\<lambda>(_, ports). 1 < length ports)
     (map (\<lambda>(i, es). (i, sorted_set (map port_of es))) out)"

definition entry_of :: "graph_node list \<Rightarrow> (string, graph_link list) dict \<Rightarrow> string" where
  "entry_of nodes inl = (case filter (\<lambda>n. norm_type (gn_type n) = ''locus/trigger'' \<or>
       dict_get inl (gn_id n) [] = []) nodes of
     n # _ \<Rightarrow> gn_id n
   | [] \<Rightarrow> (case nodes of [] \<Rightarrow> [] | n # _ \<Rightarrow> gn_id n))"

definition terminals_of :: "graph_node list \<Rightarrow> (string, graph_link list) dict \<Rightarrow> string list" where
  "terminals_of nodes out = map gn_id (filter (\<lambda>n. dict_get out (gn_id n) [] = [] \<or>
     norm_type (gn_type n) = ''locus/output'') nodes)"

definition rev_links :: "string list \<Rightarrow> graph_link list \<Rightarrow> (string, string list) dict" where
  \<comment> \<open>\<open>rev\<close>: the set of predecessors of each node, as a list without repetitions\<close>
  "rev_links ids links = map (\<lambda>i. (i, dict_fromkeys (map gl_from (filter (\<lambda>e. inside ids e \<and> gl_to e = i) links))))
     (dict_fromkeys ids)"

lemma ancestors_smaller:
  assumes "stack \<noteq> []" and "last stack \<notin> set seen"
  shows "card (fst ` set preds - set (seen @ [last stack])) < card (fst ` set preds - set seen) \<or>
    card (fst ` set preds - set (seen @ [last stack])) = card (fst ` set preds - set seen) \<and>
    length (butlast stack @ dict_get preds (last stack) []) < length stack"
proof (cases "last stack \<in> fst ` set preds")
  case True
  then have "fst ` set preds - set (seen @ [last stack]) \<subset> fst ` set preds - set seen" using assms(2) by auto
  then show ?thesis by (intro disjI1 psubset_card_mono) auto
next
  case False
  then have "dict_get preds (last stack) [] = []"
    by (auto simp: dict_get_def map_of_eq_None_iff split: option.splits) (metis fst_conv image_eqI map_of_SomeD)
  moreover have "fst ` set preds - set (seen @ [last stack]) = fst ` set preds - set seen" using False by auto
  ultimately show ?thesis using assms(1) by (cases stack) auto
qed

function ancestors_loop :: "(string, string list) dict \<Rightarrow> string list \<Rightarrow> string list \<Rightarrow> string list" where
  "ancestors_loop preds seen stack =
     (if stack = [] then seen
      else if last stack \<in> set seen then ancestors_loop preds seen (butlast stack)
      else ancestors_loop preds (seen @ [last stack]) (butlast stack @ dict_get preds (last stack) []))"
  by pat_completeness auto

termination
proof (relation "measures [\<lambda>(preds, seen, stack). card (fst ` set preds - set seen), \<lambda>(preds, seen, stack). length stack]")
  fix preds :: "(string, string list) dict" and seen stack :: "string list"
  assume "stack \<noteq> []" "last stack \<notin> set seen"
  from ancestors_smaller [OF this, of preds]
  show "((preds, seen @ [last stack], butlast stack @ dict_get preds (last stack) []), preds, seen, stack)
    \<in> measures [\<lambda>(preds, seen, stack). card (fst ` set preds - set seen), \<lambda>(preds, seen, stack). length stack]"
    by simp
qed auto

declare ancestors_loop.simps [simp del]

definition ancestors :: "string list \<Rightarrow> graph_link list \<Rightarrow> string \<Rightarrow> string list" where
  "ancestors ids links node_id =
     (let preds = rev_links ids links in ancestors_loop preds [] (dict_get preds node_id []))"

section \<open>Cycles\<close>

definition adjacency :: "string list \<Rightarrow> graph_link list \<Rightarrow> (string, string list) dict" where
  "adjacency ids links = map (\<lambda>i. (i, map gl_to (filter (\<lambda>e. inside ids e \<and> gl_from e = i) links))) (dict_fromkeys ids)"

definition indegrees :: "string list \<Rightarrow> graph_link list \<Rightarrow> (string, int) dict" where
  "indegrees ids links =
     map (\<lambda>i. (i, int (length (filter (\<lambda>e. inside ids e \<and> gl_to e = i) links)))) (dict_fromkeys ids)"

definition relax :: "(string, int) dict \<times> string list \<Rightarrow> string \<Rightarrow> (string, int) dict \<times> string list" where
  \<comment> \<open>the body of the inner loop\<close>
  "relax s nxt = (let n = dict_get (fst s) nxt 0 - 1 in
     (AList.update nxt n (fst s), if n = 0 then snd s @ [nxt] else snd s))"

definition waiting :: "(string, int) dict \<Rightarrow> string set" where
  "waiting d = {k \<in> fst ` set d. 0 < dict_get d k 0}"

lemma finite_waiting [simp]: "finite (waiting d)"
  by (simp add: waiting_def)

lemma dict_get_absent: "k \<notin> fst ` set d \<Longrightarrow> dict_get d k x = x"
  by (auto simp: dict_get_def split: option.splits) (metis fst_conv image_eqI map_of_SomeD)

lemma waiting_iff: "k \<in> waiting d \<longleftrightarrow> 0 < dict_get d k 0"
  using dict_get_absent [of k d 0] by (cases "k \<in> fst ` set d") (auto simp: waiting_def)

lemma relax_potential: "length (snd (relax s x)) + card (waiting (fst (relax s x))) \<le> length (snd s) + card (waiting (fst s))"
proof (cases "dict_get (fst s) x 0 = 1")
  case True
  have "waiting (fst (relax s x)) = waiting (fst s) - {x}"
    using True by (auto simp: relax_def Let_def waiting_iff split: if_splits)
  moreover have "x \<in> waiting (fst s)" using True by (simp add: waiting_iff)
  ultimately have "Suc (card (waiting (fst (relax s x)))) = card (waiting (fst s))" using card_Suc_Diff1 [of "waiting (fst s)" x] by simp
  then show ?thesis using True by (simp add: relax_def Let_def)
next
  case False
  have "waiting (fst (relax s x)) = waiting (fst s)"
    using False by (auto simp: relax_def Let_def waiting_iff split: if_splits)
  then show ?thesis using False by (simp add: relax_def Let_def)
qed

lemma relax_all_potential:
  "length (snd (foldl relax s xs)) + card (waiting (fst (foldl relax s xs))) \<le> length (snd s) + card (waiting (fst s))"
proof (induction xs arbitrary: s)
  case (Cons x xs)
  from le_trans [OF Cons.IH relax_potential] show ?case by simp
qed simp

function kahn :: "(string, string list) dict \<Rightarrow> (string, int) dict \<Rightarrow> string list \<Rightarrow> nat \<Rightarrow> nat" where
  \<comment> \<open>the \<open>while queue\<close> loop; the result is the number of visited nodes\<close>
  "kahn adj indegree queue visited =
     (if queue = [] then visited
      else (case foldl relax (indegree, butlast queue) (dict_get adj (last queue) []) of
        (indegree', queue') \<Rightarrow> kahn adj indegree' queue' (Suc visited)))"
  by pat_completeness auto

termination
proof (relation "measure (\<lambda>(adj, d, q, n). length q + card (waiting d))")
  fix adj :: "(string, string list) dict" and d d' :: "(string, int) dict" and q q' :: "string list" and n :: nat
  assume "q \<noteq> []" and "(d', q') = foldl relax (d, butlast q) (dict_get adj (last q) [])"
  moreover have "length (butlast q) < length q" using \<open>q \<noteq> []\<close> by (cases q) auto
  ultimately show "((adj, d', q', Suc n), adj, d, q, n) \<in> measure (\<lambda>(adj, d, q, n). length q + card (waiting d))"
    using relax_all_potential [of "(d, butlast q)" "dict_get adj (last q) []"] by (metis (mono_tags, lifting) add_less_cancel_right case_prod_conv fst_conv in_measure order_le_less_trans snd_conv)
qed auto

declare kahn.simps [simp del]

definition has_cycle :: "string list \<Rightarrow> graph_link list \<Rightarrow> bool" where
  "has_cycle node_ids links =
     (let indegree = indegrees node_ids links;
          queue = map fst (filter (\<lambda>(_, d). d = 0) indegree) in
      kahn (adjacency node_ids links) indegree queue 0 \<noteq> length node_ids)"

section \<open>Routing\<close>

definition FORWARD_NAMES :: "string list" where
  "FORWARD_NAMES = [''agreed'', ''approve'', ''approved'', ''out'', ''continue'', ''yes'']"

definition forward_port :: "string \<Rightarrow> (string, string) dict \<Rightarrow> (string \<Rightarrow> string list) \<Rightarrow> string option" where
  "forward_port node_id port_targets ancestors_of =
     (let anc = ancestors_of node_id;
          forward = map fst (filter (\<lambda>(_, tgt). tgt \<notin> set anc \<and> tgt \<noteq> node_id) port_targets) in
      if forward \<noteq> [] then
        (case filter (\<lambda>pref. pref \<in> set forward) FORWARD_NAMES of
           pref # _ \<Rightarrow> Some pref
         | [] \<Rightarrow> Some (hd forward))
      else None)"

definition FORWARD_SYNONYMS :: "string list" where
  "FORWARD_SYNONYMS = [''agreed'', ''approve'', ''approved'', ''yes'', ''done'', ''complete'', ''ship'']"

definition BACK_SYNONYMS :: "string list" where
  "BACK_SYNONYMS = [''continue_discussion'', ''request_changes'', ''retry'', ''again'', ''no'', ''revise'']"

definition DECISION_PREFIX :: rx where
  \<comment> \<open>\<open>decision\s*[:\-]\s*\<close>, before the group\<close>
  "DECISION_PREFIX = cat [lit ''decision'', Star space, one_of '':-'', Star space]"

definition route_char :: "char \<Rightarrow> bool" where
  "route_char c = (is_lower c \<or> c = CHR ''_'')"

fun decision_group :: "char option \<Rightarrow> string \<Rightarrow> string option" where
  \<comment> \<open>\<open>re.search(...).group(1)\<close>: the run of name characters after the leftmost prefix that has one\<close>
  "decision_group prev s = (case filter (\<lambda>q. takeWhile route_char (snd q) \<noteq> []) (ends DECISION_PREFIX (prev, s)) of
     q # _ \<Rightarrow> Some (takeWhile route_char (snd q))
   | [] \<Rightarrow> (case s of [] \<Rightarrow> None | c # t \<Rightarrow> decision_group (Some c) t))"

declare decision_group.simps [simp del]

definition last_chars :: "nat \<Rightarrow> string \<Rightarrow> string" where
  \<comment> \<open>\<open>s[-n:]\<close>\<close>
  "last_chars n s = drop (length s - n) s"

definition extract_route :: "string \<Rightarrow> string list \<Rightarrow> string" where
  "extract_route text ports =
     (if text = [] \<or> ports = [] then []
      else let low = py_lower text;
               tail = last_chars 400 low;
               candidates = (case decision_group None low of None \<Rightarrow> [] | Some w \<Rightarrow> [w]) @
                 map py_lower (filter (\<lambda>p. py_contains (py_lower p) tail) ports);
               found = concat (map (\<lambda>cand. filter (\<lambda>p. cand = py_lower p) ports) candidates);
               forward_ports = filter (\<lambda>p. py_lower p \<in> set FORWARD_SYNONYMS) ports;
               back_ports = filter (\<lambda>p. py_lower p \<in> set BACK_SYNONYMS) ports in
        if found \<noteq> [] then hd found
        else if list_ex (\<lambda>s. py_contains s tail) FORWARD_SYNONYMS \<and> forward_ports \<noteq> [] then hd forward_ports
        else if list_ex (\<lambda>s. py_contains s tail) BACK_SYNONYMS \<and> back_ports \<noteq> [] then hd back_ports
        else [])"

section \<open>State\<close>

type_synonym result = "(string, jval) dict"

record graph_state =
  gs_message :: string
  gs_run_input :: jval
  gs_node_outputs :: "(string, result) dict"
  gs_loop_counts :: "(string, int) dict"
  gs_events :: "jval list"
  gs_artifacts :: "jval list"

record node_update =
  nu_message :: "string option"
  nu_node_outputs :: "(string, result) dict"
  nu_loop_counts :: "(string, int) dict"
  nu_events :: "jval list"
  nu_artifacts :: "jval option"

definition merge_dicts :: "('k, 'v) dict \<Rightarrow> ('k, 'v) dict \<Rightarrow> ('k, 'v) dict" where
  "merge_dicts old new = foldl (\<lambda>d (k, v). AList.update k v d) old new"

definition take_last :: "string \<Rightarrow> string \<Rightarrow> string" where
  "take_last old new = (if new \<noteq> [] then new else old)"

definition apply_update :: "graph_state \<Rightarrow> node_update \<Rightarrow> graph_state res" where
  \<comment> \<open>the reducers of \<open>GraphState\<close>\<close>
  "apply_update s u =
     bindE (case nu_artifacts u of
         None \<Rightarrow> Inr []
       | Some (JList xs) \<Rightarrow> Inr xs
       | Some _ \<Rightarrow> raise TypeErrorC ''can only concatenate list to list'') (\<lambda>arts.
     Inr (s\<lparr>gs_message := (case nu_message u of None \<Rightarrow> gs_message s | Some m \<Rightarrow> take_last (gs_message s) m),
       gs_node_outputs := merge_dicts (gs_node_outputs s) (nu_node_outputs u),
       gs_loop_counts := merge_dicts (gs_loop_counts s) (nu_loop_counts u),
       gs_events := gs_events s @ nu_events u,
       gs_artifacts := gs_artifacts s @ arts\<rparr>))"

definition forced_port :: "string \<Rightarrow> (string, string) dict \<Rightarrow> (string \<Rightarrow> string list) \<Rightarrow> string" where
  \<comment> \<open>\<open>forward or next(iter(port_targets), "")\<close>\<close>
  "forced_port node_id port_targets ancestors_of =
     or_text (forward_port node_id port_targets ancestors_of) (case port_targets of [] \<Rightarrow> [] | (p, _) # _ \<Rightarrow> p)"

definition router_for ::
  "(jval \<Rightarrow> string) \<Rightarrow> string \<Rightarrow> (string, string) dict \<Rightarrow> int \<Rightarrow> (string \<Rightarrow> string list) \<Rightarrow> graph_state \<Rightarrow> string" where
  "router_for show_val node_id port_targets max_loop_iterations ancestors_of state =
     (let res = dict_get (gs_node_outputs state) node_id [];
          chosen = py_strip (jstr_or_empty show_val (jget (JDict res) ''route''));
          forced = forced_port node_id port_targets ancestors_of in
      if max_loop_iterations \<le> dict_get (gs_loop_counts state) node_id 0 then forced
      else if chosen \<in> fst ` set port_targets then chosen
      else forced)"

section \<open>Prompts and agents\<close>

definition gather_incoming ::
  "string \<Rightarrow> (string, graph_link list) dict \<Rightarrow> (string, result) dict \<Rightarrow> result list \<times> (string, result list) dict" where
  "gather_incoming node_id inl node_outputs =
     foldl (\<lambda>(incoming, by_port) e.
        case map_of node_outputs (gl_from e) of
          None \<Rightarrow> (incoming, by_port)
        | Some r \<Rightarrow> (let port = or_text (gl_to_port e) ''in'' in
            (incoming @ [r], AList.update port (dict_get by_port port [] @ [r]) by_port)))
       ([], []) (dict_get inl node_id [])"

definition spec_text :: "(jval \<Rightarrow> string) \<Rightarrow> graph_state \<Rightarrow> string" where
  "spec_text show_val s = py_strip (jstr_or_empty show_val
     (or_value (jget (gs_run_input s) ''spec'') (jget (gs_run_input s) ''message'')))"

definition last_items :: "nat \<Rightarrow> 'a list \<Rightarrow> 'a list" where
  "last_items n xs = drop (length xs - n) xs"

definition context_line :: "(jval \<Rightarrow> string) \<Rightarrow> result \<Rightarrow> string list" where
  "context_line show_val item =
     (let get = jget (JDict item);
          msg = or_value (get ''message'') (or_value (get ''response'') (get ''agreed_design''));
          who = or_value (get ''agent_id'') (or_value (get ''title'') (JStr [])) in
      if jtruthy msg then [''- '' @ jstr show_val who @ '': '' @ take 600 (jstr show_val msg)] else [])"

definition compose_user_prompt :: "(jval \<Rightarrow> string) \<Rightarrow> graph_node \<Rightarrow> result list \<Rightarrow> graph_state \<Rightarrow> string" where
  "compose_user_prompt show_val node incoming state =
     (let spec = spec_text show_val state;
          ctx_lines = concat (map (context_line show_val) (last_items 6 incoming)) in
      py_join [newline]
        ([''Workflow task for node '' @ [CHR 0x27] @ gn_title node @ [CHR 0x27] @ ''.''] @
         (if spec \<noteq> [] then [newline # ''Specification / objective:'' @ newline # take 4000 spec] else []) @
         (if ctx_lines \<noteq> [] then [newline # ''Upstream contributions:'' @ newline # py_join [newline] ctx_lines] else [])))"

record agent_resolution =
  ar_agent_id :: string
  ar_system_prompt :: string
  ar_model :: string
  ar_provider :: string
  ar_execution_mode :: string
  ar_harness_backend :: string
  ar_found :: bool

record chat_response =
  cr_text :: string
  cr_reasoning :: string
  cr_usage :: jval

text \<open>
  What the compiler is given.  \<open>cd_delegate\<close> is the work of the coding, team and analyzer agents, by
  the name of the function the code calls; \<open>cd_complete\<close> one call of the resolved chat client.
\<close>

record compiler_deps =
  cd_show :: "jval \<Rightarrow> string"
  cd_resolve_agent :: "jval \<Rightarrow> agent_resolution res"
  cd_complete :: "agent_resolution \<Rightarrow> string \<Rightarrow> string \<Rightarrow> chat_response res"
  cd_delegate :: "string \<Rightarrow> graph_node \<Rightarrow> agent_resolution \<Rightarrow> string \<Rightarrow> result res"
  cd_execute_native :: "graph_node \<Rightarrow> result list \<Rightarrow> (string, result list) dict \<Rightarrow> jval res"
  cd_mode :: string
  cd_max_loop_iterations :: int

definition PROVIDER_CALL_FAILED :: string where
  "PROVIDER_CALL_FAILED = ''provider_call_failed''"

definition quoted :: "string \<Rightarrow> string" where
  "quoted s = [CHR 0x27] @ s @ [CHR 0x27]"

definition provider_failure_message :: "agent_resolution \<Rightarrow> pyexn \<Rightarrow> string" where
  "provider_failure_message r e =
     ''['' @ PROVIDER_CALL_FAILED @ ''] Model provider '' @ quoted (or_text (Some (ar_provider r)) ''unknown'') @
     '' call failed for model '' @ quoted (ar_model r) @ '': '' @ take 300 (exn_msg e)"

definition delegate_name :: "agent_resolution \<Rightarrow> string option" where
  "delegate_name r =
     (if ar_execution_mode r = ''code'' then
        Some (if ar_harness_backend r = ''codex'' then ''_delegate_to_codex_agent'' else ''_delegate_to_swe_agent'')
      else if ar_execution_mode r = ''team'' then Some ''_delegate_to_collaborative_team''
      else if ar_execution_mode r = ''analyze'' then Some ''_delegate_to_analyzer_agent''
      else None)"

definition PLAN_FOCUS :: string where
  "PLAN_FOCUS = [newline, newline] @ ''Focus: PLAN ONLY. Analyze the task and produce a concrete, step-by-step execution plan (files/components to change, approach, tests, risks). Do NOT execute tools or modify files.''"

definition decision_request :: "string list \<Rightarrow> string" where
  "decision_request out_ports = [newline, newline] @ ''When you have decided, end your reply with a line exactly:'' @
     [newline] @ ''DECISION: <one of: '' @ py_join '' | '' out_ports @ ''>''"

definition chat_node ::
  "compiler_deps \<Rightarrow> graph_node \<Rightarrow> agent_resolution \<Rightarrow> string \<Rightarrow> string list \<Rightarrow> result" where
  \<comment> \<open>the single call of the model, and its record\<close>
  "chat_node deps node r user_prompt out_ports =
     (let (text, reasoning, usage, mode, error_code) =
        (case cd_complete deps r (ar_system_prompt r) user_prompt of
           Inl e \<Rightarrow> (provider_failure_message r e, [], JDict [], ''failed'', PROVIDER_CALL_FAILED)
         | Inr resp \<Rightarrow>
             (let text = py_strip (cr_text resp); reasoning = py_strip (cr_reasoning resp) in
              (if text = [] then reasoning else text, if text = [] then [] else reasoning,
               or_value (cr_usage resp) (JDict []), ''live'', [])));
        route = (if 1 < length out_ports \<and> error_code = [] then extract_route text out_ports else []) in
      [(''agent_id'', JStr (ar_agent_id r)), (''title'', JStr (gn_title node)),
       (''model'', JStr (if ar_provider r \<noteq> [] then ar_provider r @ ''/'' @ ar_model r else ar_model r)),
       (''response'', JStr text), (''message'', JStr text), (''summary'', JStr (take 240 text)),
       (''reasoning'', JStr reasoning), (''route'', JStr route), (''usage'', usage), (''mode'', JStr mode),
       (''resolved'', JBool (ar_found r))] @
      (if error_code \<noteq> [] then [(''error_code'', JStr error_code)] else []))"

definition run_agent_node ::
  "compiler_deps \<Rightarrow> graph_node \<Rightarrow> result list \<Rightarrow> string list \<Rightarrow> graph_state \<Rightarrow> result res" where
  "run_agent_node deps node incoming out_ports state =
     bindE (cd_resolve_agent deps (if is_jdict (gn_config node) then gn_config node else JDict [])) (\<lambda>r.
     let prompt = compose_user_prompt (cd_show deps) node incoming state in
     case (if cd_mode deps = ''execute'' then delegate_name r else None) of
       Some f \<Rightarrow> cd_delegate deps f node r prompt
     | None \<Rightarrow>
         (let prompt = (if cd_mode deps = ''plan'' then prompt @ PLAN_FOCUS else prompt);
              prompt = (if 1 < length out_ports then prompt @ decision_request out_ports else prompt) in
          Inr (chat_node deps node r prompt out_ports)))"

section \<open>The node runner\<close>

definition native_result :: "jval \<Rightarrow> result" where
  \<comment> \<open>a result that is not a dictionary is wrapped; a decision serves as the route\<close>
  "native_result v =
     (let r = (case v of JDict kvs \<Rightarrow> kvs | _ \<Rightarrow> [(''value'', v)]) in
      if map_of r ''route'' = None then
        (case or_value (jget (JDict r) ''decision'') (jget (JDict r) ''logic_mode'') of
           JStr d \<Rightarrow> AList.update ''route'' (JStr d) r
         | _ \<Rightarrow> r)
      else r)"

definition node_result ::
  "compiler_deps \<Rightarrow> graph_node \<Rightarrow> string list \<Rightarrow> (string, graph_link list) dict \<Rightarrow> graph_state \<Rightarrow> result" where
  "node_result deps node out_ports inl state =
     (case gather_incoming (gn_id node) inl (gs_node_outputs state) of (incoming, by_port) \<Rightarrow>
      (case (if startswith (norm_type (gn_type node)) ''locus/agent''
             then run_agent_node deps node incoming out_ports state
             else bindE (cd_execute_native deps node incoming by_port) (\<lambda>v. Inr (native_result v))) of
         Inl e \<Rightarrow> [(''error'', JStr (exn_msg e)), (''mode'', JStr ''failed''), (''route'', JStr [])]
       | Inr r \<Rightarrow> r))"

definition node_runner ::
  "compiler_deps \<Rightarrow> graph_node \<Rightarrow> string list \<Rightarrow> (string, graph_link list) dict \<Rightarrow> graph_state \<Rightarrow> node_update" where
  "node_runner deps node out_ports inl state =
     (let r = node_result deps node out_ports inl state;
          new_count = dict_get (gs_loop_counts state) (gn_id node) 0 + 1;
          artifacts = dict_get r ''artifacts'' (JList []);
          r = AList.delete ''artifacts'' r;
          message = jstr_or_empty (cd_show deps) (or_value (jget (JDict r) ''message'') (jget (JDict r) ''response'')) in
      \<lparr>nu_message = (if message \<noteq> [] then Some message else None),
       nu_node_outputs = [(gn_id node, r)],
       nu_loop_counts = [(gn_id node, new_count)],
       nu_events = [JDict [(''node_id'', JStr (gn_id node)), (''type'', JStr ''node_completed''),
         (''summary'', dict_get r ''summary'' (JStr []))]],
       nu_artifacts = (if jtruthy artifacts then Some artifacts else None)\<rparr>)"

section \<open>Compilation\<close>

datatype builder_call =
    AddNode string
  | AddEdge string string
  | AddConditionalEdges string "(string, string) dict"

record compiled_graph =
  cg_calls :: "builder_call list"
  cg_entry :: string
  cg_terminals :: "string list"
  cg_has_cycle :: bool
  cg_agent_node_ids :: "string list"
  cg_routing_nodes :: "(string, string list) dict"
  cg_node_count :: nat

definition START :: string where "START = ''__start__''"
definition END :: string where "END = ''__end__''"

definition port_targets_of :: "graph_link list \<Rightarrow> (string, string) dict" where
  \<comment> \<open>\<open>setdefault\<close>: the first link of a port gives its target\<close>
  "port_targets_of es = foldl (\<lambda>d e. if map_of d (port_of e) = None then d @ [(port_of e, gl_to e)] else d) [] es"

definition node_calls ::
  "(string, graph_link list) dict \<Rightarrow> (string, string list) dict \<Rightarrow> graph_node \<Rightarrow> builder_call list" where
  "node_calls out routing n =
     (let es = dict_get out (gn_id n) [] in
      if es = [] then [AddEdge (gn_id n) END]
      else if map_of routing (gn_id n) \<noteq> None then [AddConditionalEdges (gn_id n) (port_targets_of es)]
      else map (\<lambda>e. AddEdge (gn_id n) (gl_to e)) es)"

definition compile_locus_graph :: "bool \<Rightarrow> graph_node list \<Rightarrow> graph_link list \<Rightarrow> compiled_graph res" where
  \<comment> \<open>up to the \<open>compile\<close> of the builder\<close>
  "compile_locus_graph langgraph_available nodes links =
     guardE langgraph_available RuntimeErrorC ''langgraph is not installed; cannot compile the workflow graph.''
     (guardE (nodes \<noteq> []) ValueError ''graph has no nodes''
     (let ids = map gn_id nodes;
          out = out_links ids links;
          routing = routing_nodes out;
          entry = entry_of nodes (in_links ids links) in
      Inr \<lparr>cg_calls = map (\<lambda>n. AddNode (gn_id n)) nodes @ [AddEdge START entry] @
             concat (map (node_calls out routing) nodes),
           cg_entry = entry, cg_terminals = terminals_of nodes out,
           cg_has_cycle = has_cycle ids links,
           cg_agent_node_ids = map gn_id (filter (\<lambda>n. startswith (norm_type (gn_type n)) ''locus/agent'') nodes),
           cg_routing_nodes = routing, cg_node_count = length nodes\<rparr>))"

definition recursion_limit :: "compiler_deps \<Rightarrow> compiled_graph \<Rightarrow> int" where
  "recursion_limit deps g = cd_max_loop_iterations deps * int (max (cg_node_count g) 1) + 25"

definition initial_state :: "(jval \<Rightarrow> string) \<Rightarrow> jval \<Rightarrow> graph_state" where
  "initial_state show_val run_input =
     \<lparr>gs_message = jstr_or_empty show_val (or_value (jget run_input ''message'') (jget run_input ''spec'')),
      gs_run_input = run_input, gs_node_outputs = [], gs_loop_counts = [], gs_events = [], gs_artifacts = []\<rparr>"

definition last_output :: "compiled_graph \<Rightarrow> (string, result) dict \<Rightarrow> result option" where
  "last_output g node_outputs =
     (case filter (\<lambda>t. map_of node_outputs t \<noteq> None) (cg_terminals g) of
        t # _ \<Rightarrow> map_of node_outputs t
      | [] \<Rightarrow> if node_outputs \<noteq> [] then Some (snd (last node_outputs)) else None)"

section \<open>Sample values\<close>

definition sample_node :: "string \<Rightarrow> string \<Rightarrow> graph_node" where
  "sample_node i t = \<lparr>gn_id = i, gn_type = t, gn_title = i, gn_config = JDict []\<rparr>"

definition sample_link :: "string \<Rightarrow> string \<Rightarrow> string \<Rightarrow> graph_link" where
  "sample_link a b p = \<lparr>gl_from = a, gl_to = b, gl_from_port = Some p, gl_to_port = None\<rparr>"

text \<open>A worker, a reviewer that sends back or agrees, an output.\<close>

definition review_nodes :: "graph_node list" where
  "review_nodes = [sample_node ''a'' ''trigger'', sample_node ''r'' ''agent'', sample_node ''o'' ''output'']"

definition review_links :: "graph_link list" where
  "review_links = [sample_link ''a'' ''r'' ''out'', sample_link ''r'' ''a'' ''request_changes'', sample_link ''r'' ''o'' ''agreed'']"

definition review_graph :: compiled_graph where
  "review_graph = (case compile_locus_graph True review_nodes review_links of Inr g \<Rightarrow> g)"

text \<open>Five reviewers in a row, each of which can send back to the start.\<close>

definition chain_nodes :: "graph_node list" where
  "chain_nodes = map (\<lambda>i. sample_node i ''agent'') [''a'', ''1'', ''2'', ''3'', ''4'', ''5'', ''o'']"

definition chain_links :: "graph_link list" where
  "chain_links = sample_link ''a'' ''1'' ''out'' # concat (map (\<lambda>(i, j). [sample_link i j ''agreed'', sample_link i ''a'' ''retry''])
     [(''1'', ''2''), (''2'', ''3''), (''3'', ''4''), (''4'', ''5''), (''5'', ''o'')])"

definition chain_walk :: "string list" where
  \<comment> \<open>each reviewer sends back three times, the first reviewers before the later ones\<close>
  "chain_walk = concat (map (\<lambda>k. concat (replicate 3 (''a'' # take k [''1'', ''2'', ''3'', ''4'', ''5'']))) [1, 2, 3, 4, 5]) @
     [''a'', ''1'', ''2'', ''3'', ''4'', ''5'', ''o'']"

definition fan_nodes :: "graph_node list" where
  "fan_nodes = map (\<lambda>i. sample_node i ''agent'') [''a'', ''r'', ''o'', ''p'']"

definition fan_links :: "graph_link list" where
  \<comment> \<open>the reviewer's port \<open>agreed\<close> has two targets\<close>
  "fan_links = [sample_link ''a'' ''r'' ''out'', sample_link ''r'' ''a'' ''retry'', sample_link ''r'' ''o'' ''agreed'',
     sample_link ''r'' ''p'' ''agreed'']"

definition sample_deps :: compiler_deps where
  "sample_deps = \<lparr>cd_show = (\<lambda>_. []), cd_resolve_agent = (\<lambda>_. raise KeyErrorC ''no agent''),
     cd_complete = (\<lambda>_ _ _. raise RuntimeErrorC ''no model''), cd_delegate = (\<lambda>_ _ _ _. Inr []),
     cd_execute_native = (\<lambda>_ _ _. Inr (JDict [(''decision'', JStr ''agreed'')])), cd_mode = ''execute'',
     cd_max_loop_iterations = 4\<rparr>"

fun call_reaches :: "string \<Rightarrow> builder_call \<Rightarrow> bool" where
  "call_reaches y (AddNode _) = False"
| "call_reaches y (AddEdge _ b) = (b = y)"
| "call_reaches y (AddConditionalEdges _ pt) = (y \<in> snd ` set pt)"

end
