(* ===== verification/Graph_Runs.thy ===== *)
theory Graph_Runs
  imports Graph_Compiler
begin

text \<open>
  Correctness of the graph compiler: the ancestors and the cycle check against the relation of the
  links, the forward port, the walks a run can take and their bound, the merging of parallel updates.
\<close>

section \<open>Meaning\<close>

definition link_rel :: "string list \<Rightarrow> graph_link list \<Rightarrow> (string \<times> string) set" where
  "link_rel ids links = set (map (\<lambda>e. (gl_from e, gl_to e)) (filter (inside ids) links))"

lemma link_rel_inside: "(u, v) \<in> link_rel ids links \<Longrightarrow> u \<in> set ids \<and> v \<in> set ids"
  by (auto simp: link_rel_def inside_def)

lemma finite_link_rel [simp]: "finite (link_rel ids links)"
  by (rule finite_subset [of _ "set ids \<times> set ids"]) (auto dest: link_rel_inside)

lemma map_of_tabulate: "map_of (map (\<lambda>i. (i, f i)) ks) k = (if k \<in> set ks then Some (f k) else None)"
  by (induction ks) auto

lemma dict_get_tabulate: "dict_get (map (\<lambda>i. (i, f i)) (dict_fromkeys ids)) k x = (if k \<in> set ids then f k else x)"
  by (simp add: dict_get_def map_of_tabulate)

subsection \<open>Ancestors\<close>

lemma closed_reach:
  assumes "\<forall>x \<in> S. P `` {x} \<subseteq> S \<union> T" and "x \<in> S"
  shows "P\<^sup>* `` {x} \<subseteq> S \<union> P\<^sup>* `` T"
proof
  fix y assume "y \<in> P\<^sup>* `` {x}"
  then have "(x, y) \<in> P\<^sup>*" by simp
  then show "y \<in> S \<union> P\<^sup>* `` T"
  proof (induction rule: rtrancl_induct)
    case (step y z)
    then show ?case using assms(1) by (auto intro: rtrancl_into_rtrancl)
  qed (use assms(2) in simp)
qed

lemma reach_step: "{x} \<union> P\<^sup>* `` (P `` {x}) = P\<^sup>* `` {x}"
  by (auto elim: converse_rtranclE intro: converse_rtrancl_into_rtrancl)

lemma Image_insert1: "R `` insert x A = R `` {x} \<union> R `` A"
  by blast

lemma absorb_reach: "C \<subseteq> A \<union> B \<Longrightarrow> A \<union> B = A \<union> (C \<union> B)"
  by blast

lemma set_last_butlast: "xs \<noteq> [] \<Longrightarrow> set xs = insert (last xs) (set (butlast xs))"
  by (induction xs) auto

lemma ancestors_loop_set:
  assumes P: "\<And>x. P `` {x} = set (dict_get preds x [])"
    and "\<forall>x \<in> set seen. P `` {x} \<subseteq> set seen \<union> set stack"
  shows "set (ancestors_loop preds seen stack) = set seen \<union> P\<^sup>* `` set stack"
  using assms
proof (induction preds seen stack rule: ancestors_loop.induct)
  case (1 preds seen stack)
  note closed = 1(4) and P = 1(3)
  show ?case
  proof (cases "stack = []")
    case False
    let ?c = "last stack" and ?rest = "butlast stack"
    have st: "set stack = insert ?c (set ?rest)" by (rule set_last_butlast [OF False])
    show ?thesis
    proof (cases "?c \<in> set seen")
      case True
      have "set seen \<union> set stack = set seen \<union> set ?rest" using True unfolding st by (simp add: insert_absorb)
      then have closed: "\<forall>x \<in> set seen. P `` {x} \<subseteq> set seen \<union> set ?rest" using closed by simp
      have "ancestors_loop preds seen stack = ancestors_loop preds seen ?rest"
        using False True by (subst ancestors_loop.simps) simp
      then have "set (ancestors_loop preds seen stack) = set seen \<union> P\<^sup>* `` set ?rest"
        using 1(1) [OF False True P closed] by simp
      also have "\<dots> = set seen \<union> P\<^sup>* `` set stack"
        unfolding st by (subst Image_insert1) (rule absorb_reach [OF closed_reach [OF closed True]])
      finally show ?thesis .
    next
      case seen: False
      have "\<forall>x \<in> set (seen @ [?c]). P `` {x} \<subseteq> set (seen @ [?c]) \<union> set (?rest @ dict_get preds ?c [])"
        (is "\<forall>x \<in> _. _ \<subseteq> ?U")
      proof
        fix x assume "x \<in> set (seen @ [?c])"
        then consider "x \<in> set seen" | "x = ?c" by auto
        then show "P `` {x} \<subseteq> ?U"
        proof cases
          case 1
          with closed have "P `` {x} \<subseteq> set seen \<union> insert ?c (set ?rest)" unfolding st by (rule bspec)
          then show ?thesis unfolding set_append list.set by (rule order_trans) auto
        qed (auto simp: P)
      qed
      from 1(2) [OF False seen P this] False seen
      have "set (ancestors_loop preds seen stack) = set seen \<union> {?c} \<union> P\<^sup>* `` (set ?rest \<union> P `` {?c})"
        by (subst ancestors_loop.simps) (simp add: P)
      also have "\<dots> = set seen \<union> (({?c} \<union> P\<^sup>* `` (P `` {?c})) \<union> P\<^sup>* `` set ?rest)" by (simp add: Image_Un Un_ac)
      also have "\<dots> = set seen \<union> P\<^sup>* `` set stack" unfolding reach_step st by (subst (2) Image_insert1) (rule refl)
      finally show ?thesis .
    qed
  qed (simp add: ancestors_loop.simps)
qed

lemma rev_links_rel: "set (dict_get (rev_links ids links) x []) = (link_rel ids links)\<inverse> `` {x}"
proof -
  have "dict_get (rev_links ids links) x [] =
      (if x \<in> set ids then dict_fromkeys (map gl_from (filter (\<lambda>e. inside ids e \<and> gl_to e = x) links)) else [])"
    unfolding rev_links_def dict_get_tabulate ..
  moreover have "set (map gl_from (filter (\<lambda>e. inside ids e \<and> gl_to e = x) links)) = (link_rel ids links)\<inverse> `` {x}"
    unfolding link_rel_def by (induction links) auto
  moreover have "x \<notin> set ids \<Longrightarrow> (link_rel ids links)\<inverse> `` {x} = {}" by (auto dest: link_rel_inside)
  ultimately show ?thesis by (cases "x \<in> set ids") (simp_all only: if_True if_False set_dict_fromkeys list.set simp_thms)
qed

lemma set_ancestors: "set (ancestors ids links node_id) = {a. (a, node_id) \<in> (link_rel ids links)\<^sup>+}"
proof -
  let ?E = "link_rel ids links"
  have "set (ancestors ids links node_id) = (?E\<inverse>)\<^sup>* `` (?E\<inverse> `` {node_id})"
    unfolding ancestors_def Let_def
    by (subst ancestors_loop_set [where P = "?E\<inverse>"]) (simp_all add: rev_links_rel)
  also have "\<dots> = {a. \<exists>p. (a, p) \<in> ?E\<^sup>* \<and> (p, node_id) \<in> ?E}" by (auto simp: rtrancl_converse)
  also have "\<dots> = {a. (a, node_id) \<in> ?E\<^sup>+}" by (auto simp: trancl_unfold_right)
  finally show ?thesis .
qed

subsection \<open>Kahn's algorithm\<close>

lemma relax_all_get: "dict_get (fst (foldl relax s xs)) k 0 = dict_get (fst s) k 0 - int (count_list xs k)"
  by (induction xs arbitrary: s) (auto simp: relax_def Let_def)

lemma relax_all_queue:
  "\<exists>news. snd (foldl relax s xs) = snd s @ news \<and> distinct news \<and>
     set news = {k. 0 < dict_get (fst s) k 0 \<and> dict_get (fst s) k 0 \<le> int (count_list xs k)}"
proof (induction xs arbitrary: s)
  case (Cons x xs)
  let ?d = "\<lambda>k. dict_get (fst s) k 0"
  let ?s = "relax s x"
  from Cons [of ?s] obtain news where n: "snd (foldl relax ?s xs) = snd ?s @ news" "distinct news"
    "set news = {k. 0 < dict_get (fst ?s) k 0 \<and> dict_get (fst ?s) k 0 \<le> int (count_list xs k)}" by blast
  have d: "dict_get (fst ?s) k 0 = (if k = x then ?d x - 1 else ?d k)" for k
    by (simp add: relax_def Let_def)
  have eq: "?d k \<le> int (count_list (x # xs) k) \<longleftrightarrow> (if k = x then ?d x - 1 \<le> int (count_list xs x) else ?d k \<le> int (count_list xs k))" for k
    by auto
  show ?case
  proof (cases "?d x = 1")
    case True
    have "snd (foldl relax s (x # xs)) = snd s @ (x # news)" using n(1) True by (simp add: relax_def Let_def)
    moreover have "x \<notin> set news" using n(3) True by (simp add: d)
    moreover have "set (x # news) = {k. 0 < ?d k \<and> ?d k \<le> int (count_list (x # xs) k)}"
      using True unfolding list.set n(3) d eq by auto
    ultimately show ?thesis using n(2) by (intro exI [of _ "x # news"]) (simp del: count_list.simps)
  next
    case False
    have "snd (foldl relax s (x # xs)) = snd s @ news" using n(1) False by (simp add: relax_def Let_def)
    moreover have "set news = {k. 0 < ?d k \<and> ?d k \<le> int (count_list (x # xs) k)}"
      using False unfolding n(3) d eq by auto
    ultimately show ?thesis using n(2) by (intro exI [of _ news]) (simp del: count_list.simps)
  qed
qed simp

definition indegree_from :: "string list \<Rightarrow> graph_link list \<Rightarrow> string set \<Rightarrow> string \<Rightarrow> nat" where
  \<comment> \<open>the links into a node from nodes that are not visited\<close>
  "indegree_from ids links V k = length (filter (\<lambda>e. inside ids e \<and> gl_from e \<notin> V \<and> gl_to e = k) links)"

lemma indegree_from_0: "indegree_from ids links V k = 0 \<longleftrightarrow> (\<forall>u. (u, k) \<in> link_rel ids links \<longrightarrow> u \<in> V)"
  by (force simp: indegree_from_def filter_empty_conv link_rel_def)

lemma count_adjacent:
  "cur \<in> set ids \<Longrightarrow> count_list (dict_get (adjacency ids links) cur []) k =
     length (filter (\<lambda>e. inside ids e \<and> gl_from e = cur \<and> gl_to e = k) links)"
  by (induction links) (auto simp: adjacency_def dict_get_tabulate)

lemma indegree_from_insert:
  assumes "cur \<in> set ids" and "cur \<notin> V"
  shows "indegree_from ids links V k = indegree_from ids links (insert cur V) k + count_list (dict_get (adjacency ids links) cur []) k"
  unfolding count_adjacent [OF assms(1)] indegree_from_def using assms(2) by (induction links) auto

definition kahn_inv :: "string list \<Rightarrow> graph_link list \<Rightarrow> string set \<Rightarrow> (string, int) dict \<Rightarrow> string list \<Rightarrow> bool" where
  "kahn_inv ids links V d q \<longleftrightarrow> V \<subseteq> set ids \<and> distinct q \<and> set q = {k \<in> set ids - V. indegree_from ids links V k = 0} \<and>
     (\<forall>k. dict_get d k 0 = int (indegree_from ids links V k)) \<and>
     (\<forall>x \<in> V. (x, x) \<notin> (link_rel ids links)\<^sup>+ \<and> (\<forall>u. (u, x) \<in> link_rel ids links \<longrightarrow> u \<in> V))"

lemma kahn_inv_step:
  assumes inv: "kahn_inv ids links V d q" and q: "q \<noteq> []"
    and step: "foldl relax (d, butlast q) (dict_get (adjacency ids links) (last q) []) = (d', q')"
  shows "last q \<in> set ids - V \<and> kahn_inv ids links (insert (last q) V) d' q'"
proof -
  let ?c = "last q" and ?E = "link_rel ids links" and ?n = "indegree_from ids links"
  let ?a = "dict_get (adjacency ids links) ?c []"
  have c: "?c \<in> set ids" "?c \<notin> V" "?n V ?c = 0" using inv q last_in_set [OF q] by (auto simp: kahn_inv_def)
  have d: "dict_get d k 0 = int (?n V k)" for k using inv by (simp add: kahn_inv_def)
  have n: "?n V k = ?n (insert ?c V) k + count_list ?a k" for k by (rule indegree_from_insert [OF c(1,2)])
  have d': "dict_get d' k 0 = int (?n (insert ?c V) k)" for k
    using relax_all_get [of "(d, butlast q)" ?a k] n [of k] step d by simp
  obtain news where news: "q' = butlast q @ news" "distinct news"
    "set news = {k. 0 < ?n V k \<and> ?n V k \<le> count_list ?a k}"
    using relax_all_queue [of "(d, butlast q)" ?a] step d by auto
  have split: "q = butlast q @ [?c]" using q by simp
  have dq: "distinct q" and sq: "set q = {k \<in> set ids - V. ?n V k = 0}" using inv by (auto simp: kahn_inv_def)
  from dq have "distinct (butlast q @ [?c])" by (simp only: split [symmetric])
  then have bl: "set (butlast q) = set q - {?c}" "distinct (butlast q)"
    using arg_cong [OF split, of set] by auto
  have fresh: "k \<in> set ids - V \<and> k \<noteq> ?c" if "k \<in> set news" for k
  proof -
    have pos: "0 < ?n V k" "0 < count_list ?a k" using that news(3) by auto
    have "\<forall>x \<in> V. ?n V x = 0" using inv by (simp add: kahn_inv_def indegree_from_0)
    then have "k \<noteq> ?c" "k \<notin> V" using c(3) pos(1) by auto
    moreover have "k \<in> set ids" using pos(1) by (auto simp: indegree_from_def filter_empty_conv inside_def)
    ultimately show ?thesis by simp
  qed
  have "distinct q'" using news bl sq by auto
  moreover have "set q' = {k \<in> set ids - insert ?c V. ?n (insert ?c V) k = 0}"
    using fresh n by (auto simp: news(1) bl(1) sq news(3))
  moreover have "(?c, ?c) \<notin> ?E\<^sup>+"
  proof
    assume "(?c, ?c) \<in> ?E\<^sup>+"
    then obtain p where p: "(?c, p) \<in> ?E\<^sup>*" "(p, ?c) \<in> ?E" by (auto simp: trancl_unfold_right)
    then have "(p, p) \<in> ?E\<^sup>+" by (rule rtrancl_into_trancl2 [rotated])
    moreover have "p \<in> V" using p(2) c(3) by (simp add: indegree_from_0)
    ultimately show False using inv by (auto simp: kahn_inv_def)
  qed
  moreover have "(u, ?c) \<in> ?E \<Longrightarrow> u \<in> V" for u using c(3) by (simp add: indegree_from_0)
  ultimately show ?thesis using inv c(1,2) d' by (auto simp: kahn_inv_def)
qed

lemma kahn_visits:
  "kahn_inv ids links V d q \<Longrightarrow>
   \<exists>V' d'. V \<subseteq> V' \<and> kahn_inv ids links V' d' [] \<and> kahn (adjacency ids links) d q n = n + card (V' - V)"
proof (induction "adjacency ids links" d q n arbitrary: V rule: kahn.induct)
  case (1 d q n)
  show ?case
  proof (cases "q = []")
    case False
    obtain d' q' where r: "foldl relax (d, butlast q) (dict_get (adjacency ids links) (last q) []) = (d', q')" by fastforce
    from kahn_inv_step [OF 1(2) False r] have c: "last q \<in> set ids - V" "kahn_inv ids links (insert (last q) V) d' q'" by auto
    from 1(1) [OF False r [symmetric] c(2)] obtain V' d'' where V': "insert (last q) V \<subseteq> V'"
      "kahn_inv ids links V' d'' []" "kahn (adjacency ids links) d' q' (Suc n) = Suc n + card (V' - insert (last q) V)" by auto
    have "finite V'" using V'(2) by (auto simp: kahn_inv_def intro: finite_subset)
    then have "Suc (card (V' - insert (last q) V)) = card (V' - V)"
      using c(1) V'(1) card_Suc_Diff1 [of "V' - V" "last q"] by (auto simp: Diff_insert [symmetric])
    then show ?thesis using V' False r by (subst kahn.simps) (intro exI [of _ V'] exI [of _ d''], auto)
  qed (use 1(2) in \<open>subst kahn.simps, auto\<close>)
qed

lemma kahn_inv_init:
  "kahn_inv ids links {} (indegrees ids links) (map fst (filter (\<lambda>(_, d). d = 0) (indegrees ids links)))"
proof -
  have get: "dict_get (indegrees ids links) k 0 = int (indegree_from ids links {} k)" for k
    by (auto simp: indegrees_def dict_get_tabulate indegree_from_def inside_def filter_empty_conv)
  have "map fst (filter (\<lambda>(_, d). d = 0) (indegrees ids links)) = filter (\<lambda>i. indegree_from ids links {} i = 0) (dict_fromkeys ids)"
    unfolding indegrees_def filter_map comp_def map_map by (simp add: indegree_from_def)
  then show ?thesis using get by (auto simp: kahn_inv_def)
qed

lemma has_cycle_correct:
  assumes "distinct ids"
  shows "has_cycle ids links \<longleftrightarrow> (\<exists>x. (x, x) \<in> (link_rel ids links)\<^sup>+)"
proof -
  let ?E = "link_rel ids links"
  obtain V d where V: "kahn_inv ids links V d []"
    "kahn (adjacency ids links) (indegrees ids links) (map fst (filter (\<lambda>(_, d). d = 0) (indegrees ids links))) 0 = card V"
    using kahn_visits [OF kahn_inv_init, of ids links 0] by auto
  have sub: "V \<subseteq> set ids" using V(1) by (simp add: kahn_inv_def)
  have "has_cycle ids links \<longleftrightarrow> V \<noteq> set ids"
    using V(2) sub card_subset_eq [OF _ sub] distinct_card [OF assms] by (auto simp: has_cycle_def Let_def)
  also have "\<dots> \<longleftrightarrow> (\<exists>x. (x, x) \<in> ?E\<^sup>+)"
  proof
    assume "V \<noteq> set ids"
    then obtain k where k: "k \<in> set ids - V" using sub by blast
    have pred: "\<exists>u \<in> set ids - V. (u, x) \<in> ?E" if "x \<in> set ids - V" for x
    proof -
      have "{k \<in> set ids - V. indegree_from ids links V k = 0} = {}" using V(1) by (simp add: kahn_inv_def)
      then have "indegree_from ids links V x \<noteq> 0" using that by (metis (mono_tags, lifting) empty_iff mem_Collect_eq)
      then obtain u where "(u, x) \<in> ?E" "u \<notin> V" unfolding indegree_from_0 by blast
      then show ?thesis using link_rel_inside [of u x ids links] by blast
    qed
    show "\<exists>x. (x, x) \<in> ?E\<^sup>+"
    proof (rule ccontr)
      assume "\<nexists>x. (x, x) \<in> ?E\<^sup>+"
      then have "wf ?E" by (auto intro: finite_acyclic_wf simp: acyclic_def)
      then obtain m where "m \<in> set ids - V" "\<forall>u. (u, m) \<in> ?E \<longrightarrow> u \<notin> set ids - V"
        using wfE_min [OF _ k] by metis
      then show False using pred by blast
    qed
  next
    assume "\<exists>x. (x, x) \<in> ?E\<^sup>+"
    then obtain x where x: "(x, x) \<in> ?E\<^sup>+" ..
    then have "x \<in> set ids" by (auto dest!: tranclD link_rel_inside)
    then show "V \<noteq> set ids" using x V(1) by (auto simp: kahn_inv_def)
  qed
  finally show ?thesis .
qed

section \<open>Walks\<close>

text \<open>
  Which nodes a node that has run \<open>c\<close> times can be followed by, whatever it decides: along its edges,
  and for a conditional edge along any port before the bound and along the forced one from then on.
  A walk is a path of a run from the entry.  With parallel branches a node may have run more often
  than it occurs on the path, so the count is at least the number of its occurrences.
\<close>

definition call_targets :: "int \<Rightarrow> (string \<Rightarrow> string list) \<Rightarrow> int \<Rightarrow> string \<Rightarrow> builder_call \<Rightarrow> string list" where
  "call_targets M anc c x call = (case call of
     AddNode _ \<Rightarrow> []
   | AddEdge a b \<Rightarrow> if a = x \<and> b \<noteq> END then [b] else []
   | AddConditionalEdges a pt \<Rightarrow>
       if a \<noteq> x then []
       else if M \<le> c then (case map_of pt (forced_port a pt anc) of None \<Rightarrow> [] | Some y \<Rightarrow> [y])
       else map snd pt)"

definition next_nodes :: "int \<Rightarrow> (string \<Rightarrow> string list) \<Rightarrow> builder_call list \<Rightarrow> int \<Rightarrow> string \<Rightarrow> string list" where
  "next_nodes M anc calls c x = concat (map (call_targets M anc c x) calls)"

inductive graph_walk :: "int \<Rightarrow> (string \<Rightarrow> string list) \<Rightarrow> compiled_graph \<Rightarrow> string list \<Rightarrow> bool" for M anc g where
  start: "graph_walk M anc g [cg_entry g]"
| step: "graph_walk M anc g (xs @ [x]) \<Longrightarrow> int (count_list (xs @ [x]) x) \<le> c \<Longrightarrow>
    y \<in> set (next_nodes M anc (cg_calls g) c x) \<Longrightarrow> graph_walk M anc g (xs @ [x, y])"

subsection \<open>Edges\<close>

lemma get_out_links: "dict_get (out_links ids links) x [] = (if x \<in> set ids then filter (\<lambda>e. inside ids e \<and> gl_from e = x) links else [])"
  unfolding out_links_def by (rule dict_get_tabulate)

lemma out_link_rel: "e \<in> set (dict_get (out_links ids links) x []) \<Longrightarrow> (x, gl_to e) \<in> link_rel ids links"
  by (auto simp: get_out_links link_rel_def split: if_splits)

lemma port_targets_snoc:
  "port_targets_of (es @ [e]) = (if map_of (port_targets_of es) (port_of e) = None
     then port_targets_of es @ [(port_of e, gl_to e)] else port_targets_of es)"
  by (simp add: port_targets_of_def)

lemma port_targets_Nil [simp]: "port_targets_of [] = []"
  by (simp add: port_targets_of_def)

lemma distinct_port_targets: "distinct (map fst (port_targets_of es))"
proof (induction es rule: rev_induct)
  case (snoc e es)
  then show ?case unfolding port_targets_snoc by (auto simp: map_of_eq_None_iff)
qed simp

lemma port_targets_keys: "fst ` set (port_targets_of es) = port_of ` set es"
proof (induction es rule: rev_induct)
  case (snoc e es)
  then show ?case unfolding port_targets_snoc by (auto simp: map_of_eq_None_iff)
qed simp

lemma port_targets_link: "(p, t) \<in> set (port_targets_of es) \<Longrightarrow> \<exists>e \<in> set es. port_of e = p \<and> gl_to e = t"
proof (induction es rule: rev_induct)
  case (snoc e es)
  then show ?case unfolding port_targets_snoc by (auto split: if_splits)
qed simp

subsection \<open>The forward port\<close>

lemma preferred_in:
  "(if f \<noteq> [] then (case filter (\<lambda>q. q \<in> set f) names of q # _ \<Rightarrow> Some q | [] \<Rightarrow> Some (hd f)) else None) = Some p \<Longrightarrow>
   p \<in> set f"
  by (auto simp: filter_eq_Cons_iff split: if_splits list.splits)

lemma forward_port_target:
  assumes "distinct (map fst pt)" and "forward_port x pt (ancestors ids links) = Some p"
  shows "\<exists>t. map_of pt p = Some t \<and> (t, x) \<notin> (link_rel ids links)\<^sup>*"
proof -
  let ?f = "map fst (filter (\<lambda>(_, tgt). tgt \<notin> set (ancestors ids links x) \<and> tgt \<noteq> x) pt)"
  have "p \<in> set ?f"
    using assms(2) unfolding forward_port_def Let_def by (rule preferred_in)
  then obtain t where t: "(p, t) \<in> set pt" "t \<notin> set (ancestors ids links x)" "t \<noteq> x" by auto
  then have "(t, x) \<notin> (link_rel ids links)\<^sup>*" by (auto simp: set_ancestors dest: rtranclD)
  then show ?thesis using t(1) assms(1) by (auto intro: map_of_is_SomeI)
qed

lemma forward_port_None:
  "forward_port x pt (ancestors ids links) = None \<longleftrightarrow> (\<forall>(p, t) \<in> set pt. (t, x) \<in> (link_rel ids links)\<^sup>*)"
proof -
  have "forward_port x pt (ancestors ids links) = None \<longleftrightarrow>
      filter (\<lambda>(_, tgt). tgt \<notin> set (ancestors ids links x) \<and> tgt \<noteq> x) pt = []"
    by (auto simp: forward_port_def Let_def split: list.splits)
  also have "\<dots> \<longleftrightarrow> (\<forall>(p, t) \<in> set pt. (t, x) \<in> (link_rel ids links)\<^sup>*)"
    by (force simp: filter_empty_conv set_ancestors rtrancl_eq_or_trancl)
  finally show ?thesis .
qed

subsection \<open>Bounded walks\<close>

definition guarded :: "string list \<Rightarrow> graph_link list \<Rightarrow> string \<Rightarrow> bool" where
  \<comment> \<open>a routing node some port of which does not lead back to it\<close>
  "guarded ids links x = (let es = dict_get (out_links ids links) x [] in
     map_of (routing_nodes (out_links ids links)) x \<noteq> None \<and>
     forward_port x (port_targets_of es) (ancestors ids links) \<noteq> None)"

definition loop_bound :: "int \<Rightarrow> nat" where
  "loop_bound M = max 1 (nat M)"

lemma compile_InrD:
  assumes "compile_locus_graph b nodes links = Inr g"
  defines "ids \<equiv> map gn_id nodes"
  shows "nodes \<noteq> []" "cg_calls g = map (\<lambda>n. AddNode (gn_id n)) nodes @ [AddEdge START (cg_entry g)] @
      concat (map (node_calls (out_links ids links) (routing_nodes (out_links ids links))) nodes)"
    "cg_entry g = entry_of nodes (in_links ids links)" "cg_has_cycle g = has_cycle ids links" "cg_node_count g = length nodes"
  using assms by (auto simp: compile_locus_graph_def guardE_eq_Inr_iff Let_def)

lemma entry_in_nodes: "nodes \<noteq> [] \<Longrightarrow> entry_of nodes inl \<in> gn_id ` set nodes"
proof (cases "filter (\<lambda>n. norm_type (gn_type n) = ''locus/trigger'' \<or> dict_get inl (gn_id n) [] = []) nodes")
  case (Cons n ns)
  then have "n \<in> set nodes" by (auto simp: filter_eq_Cons_iff)
  with Cons show ?thesis by (simp add: entry_of_def)
qed (auto simp: entry_of_def split: list.splits)

lemma next_node_call:
  assumes g: "compile_locus_graph b nodes links = Inr g" and x: "x \<noteq> START"
    and y: "y \<in> set (next_nodes M anc (cg_calls g) c x)"
  defines "out \<equiv> out_links (map gn_id nodes) links"
  shows "x \<in> gn_id ` set nodes \<and>
    (if dict_get out x [] \<noteq> [] \<and> map_of (routing_nodes out) x \<noteq> None
     then y \<in> set (call_targets M anc c x (AddConditionalEdges x (port_targets_of (dict_get out x []))))
     else y \<in> gl_to ` set (dict_get out x []))"
proof -
  note TrueI [simproc del: list_to_set_comprehension]
  from y compile_InrD(2) [OF g] x obtain n where n: "n \<in> set nodes"
    "y \<in> set (concat (map (call_targets M anc c x) (node_calls out (routing_nodes out) n)))"
    by (auto simp: next_nodes_def call_targets_def out_def)
  show ?thesis
  proof (cases "gn_id n = x")
    case True
    then show ?thesis using n by (auto simp: node_calls_def Let_def call_targets_def split: if_splits)
  next
    case False
    then show ?thesis using n(2) by (auto simp: node_calls_def Let_def call_targets_def split: if_splits)
  qed
qed

lemma next_node_link:
  assumes g: "compile_locus_graph b nodes links = Inr g" and x: "x \<noteq> START"
    and y: "y \<in> set (next_nodes M anc (cg_calls g) c x)"
  shows "(x, y) \<in> link_rel (map gn_id nodes) links"
proof -
  let ?es = "dict_get (out_links (map gn_id nodes) links) x []"
  note TrueI [simproc del: list_to_set_comprehension]
  have "\<exists>e \<in> set ?es. gl_to e = y"
    using next_node_call [OF g x y]
    by (auto simp: call_targets_def split: if_splits option.splits dest!: map_of_SomeD port_targets_link)
  then show ?thesis by (auto intro: out_link_rel)
qed

lemma next_node_forced:
  assumes g: "compile_locus_graph b nodes links = Inr g" and x: "x \<noteq> START"
    and y: "y \<in> set (next_nodes M (ancestors (map gn_id nodes) links) (cg_calls g) c x)"
    and guard: "guarded (map gn_id nodes) links x" and c: "M \<le> c"
  shows "(y, x) \<notin> (link_rel (map gn_id nodes) links)\<^sup>*"
proof -
  let ?anc = "ancestors (map gn_id nodes) links"
  let ?pt = "port_targets_of (dict_get (out_links (map gn_id nodes) links) x [])"
  obtain p where p: "forward_port x ?pt ?anc = Some p" using guard by (auto simp: guarded_def Let_def)
  from forward_port_target [OF distinct_port_targets p] obtain t where
    t: "map_of ?pt p = Some t" "(t, x) \<notin> (link_rel (map gn_id nodes) links)\<^sup>*" by blast
  have "p \<noteq> []" using port_targets_keys map_of_SomeD [OF t(1)]
    by (force simp: port_of_def or_text_def split: option.splits if_splits)
  then have "forced_port x ?pt ?anc = p" using p by (simp add: forced_port_def or_text_def)
  moreover have "?pt \<noteq> []" using t(1) by auto
  ultimately have "y = t" using next_node_call [OF g x y] guard c t(1)
    by (auto simp: guarded_def Let_def call_targets_def split: if_splits)
  then show ?thesis using t(2) by simp
qed

lemma walk_path:
  assumes g: "compile_locus_graph b nodes links = Inr g" and reserved: "START \<notin> gn_id ` set nodes"
    and walk: "graph_walk M anc g xs"
  shows "set xs \<subseteq> gn_id ` set nodes \<and> successively (\<lambda>x y. (x, y) \<in> link_rel (map gn_id nodes) links) xs"
  using walk
proof (induction rule: graph_walk.induct)
  case start
  have "cg_entry g \<in> gn_id ` set nodes" using entry_in_nodes compile_InrD(1,3) [OF g] by metis
  then show ?case by simp
next
  case (step xs x c y)
  then have "x \<in> gn_id ` set nodes" by simp
  with reserved have "x \<noteq> START" by metis
  from next_node_link [OF g this step.hyps(3)] step.IH show ?case
    by (auto simp: successively_append_iff dest: link_rel_inside)
qed

lemma guarded_occurrences:
  assumes g: "compile_locus_graph b nodes links = Inr g" and reserved: "START \<notin> gn_id ` set nodes"
    and guard: "guarded (map gn_id nodes) links w"
    and walk: "graph_walk M (ancestors (map gn_id nodes) links) g xs"
  shows "count_list xs w \<le> loop_bound M \<and>
    (count_list xs w = loop_bound M \<longrightarrow> last xs = w \<or> (last xs, w) \<notin> (link_rel (map gn_id nodes) links)\<^sup>*)"
  using walk
proof (induction rule: graph_walk.induct)
  case start
  show ?case by (auto simp: loop_bound_def)
next
  case (step xs x c y)
  let ?E = "link_rel (map gn_id nodes) links"
  have "x \<in> gn_id ` set nodes" using walk_path [OF g reserved step.hyps(1)] by simp
  with reserved have x: "x \<noteq> START" by metis
  have e: "(x, y) \<in> ?E" by (rule next_node_link [OF g x step.hyps(3)])
  have forced: "(y, w) \<notin> ?E\<^sup>*" if "x = w" "count_list (xs @ [x]) w = loop_bound M"
  proof -
    have "M \<le> c" using that step.hyps(2) by (auto simp: loop_bound_def)
    then show ?thesis using next_node_forced [OF g x step.hyps(3)] guard that(1) by simp
  qed
  have away: "(y, w) \<notin> ?E\<^sup>*" if "count_list (xs @ [x]) w = loop_bound M"
    using step.IH that forced e by (cases "x = w") (auto intro: converse_rtrancl_into_rtrancl)
  then have "y = w \<Longrightarrow> count_list (xs @ [x]) w < loop_bound M" using step.IH by (auto simp: order.strict_iff_order)
  then show ?case using step.IH away by auto
qed

lemma segments_length:
  assumes "\<And>ys zs ws. xs = ys @ zs @ ws \<Longrightarrow> set zs \<inter> G = {} \<Longrightarrow> length zs \<le> N"
  shows "length xs \<le> N + length (filter (\<lambda>x. x \<in> G) xs) * (N + 1)"
  using assms
proof (induction "length xs" arbitrary: xs rule: less_induct)
  case less
  let ?zs = "takeWhile (\<lambda>x. x \<notin> G) xs"
  have zs: "length ?zs \<le> N" by (rule less.prems [of "[]" _ "dropWhile (\<lambda>x. x \<notin> G) xs"]) (auto dest: set_takeWhileD)
  have none: "filter (\<lambda>x. x \<in> G) ?zs = []" by (auto simp: filter_empty_conv dest: set_takeWhileD)
  show ?case
  proof (cases "dropWhile (\<lambda>x. x \<notin> G) xs")
    case Nil
    then have "?zs = xs" by (metis append_Nil2 takeWhile_dropWhile_id)
    then have "length xs \<le> N" using zs by metis
    then show ?thesis by simp
  next
    case (Cons w rest)
    have xs: "xs = ?zs @ w # rest" using Cons by (metis takeWhile_dropWhile_id)
    have "length rest < length xs" using arg_cong [OF xs, of length] by simp
    moreover have "\<And>ys zs ws. rest = ys @ zs @ ws \<Longrightarrow> set zs \<inter> G = {} \<Longrightarrow> length zs \<le> N"
      using less.prems xs by (metis append.assoc append_Cons)
    ultimately have "length rest \<le> N + length (filter (\<lambda>x. x \<in> G) rest) * (N + 1)" by (rule less.hyps)
    moreover have "filter (\<lambda>x. x \<in> G) xs = w # filter (\<lambda>x. x \<in> G) rest"
      using arg_cong [OF xs, of "filter (\<lambda>x. x \<in> G)"] none Cons hd_dropWhile [of "\<lambda>x. x \<notin> G" xs] by simp
    ultimately show ?thesis using zs arg_cong [OF xs, of length] by simp
  qed
qed

lemma acyclic_walk_distinct:
  assumes "acyclic R" and "successively (\<lambda>x y. (x, y) \<in> R) xs"
  shows "distinct xs"
proof -
  have "sorted_wrt (\<lambda>x y. (x, y) \<in> R\<^sup>+) xs"
  proof (rule iffD1 [OF successively_conv_sorted_wrt])
    show "transp (\<lambda>x y. (x, y) \<in> R\<^sup>+)" by (auto intro: transpI trancl_trans)
  qed (rule successively_mono [OF assms(2)], auto)
  then show ?thesis using assms(1) by (induction xs) (auto simp: acyclic_def)
qed

lemma successively_factor: "successively P (ys @ zs @ ws) \<Longrightarrow> successively P zs"
  by (auto simp: successively_append_iff)

lemma count_filter_le: "count_list (filter P xs) x \<le> count_list xs x"
  by (induction xs) auto

lemma filter_length_counts:
  assumes "finite G" and "\<And>w. w \<in> G \<Longrightarrow> count_list xs w \<le> B"
  shows "length (filter (\<lambda>x. x \<in> G) xs) \<le> card G * B"
proof -
  have "length (filter (\<lambda>x. x \<in> G) xs) = sum (count_list (filter (\<lambda>x. x \<in> G) xs)) G"
    by (rule sum_count_set [symmetric]) (auto simp: assms(1))
  also have "\<dots> \<le> sum (\<lambda>_. B) G" by (rule sum_mono) (meson assms(2) count_filter_le order_trans)
  finally show ?thesis by simp
qed

subsection \<open>Routing and state\<close>

lemma forced_port_key: "pt \<noteq> [] \<Longrightarrow> forced_port x pt anc \<in> fst ` set pt"
proof -
  assume "pt \<noteq> []"
  then obtain p t rest where pt: "pt = (p, t) # rest" by (cases pt) auto
  have "q \<in> fst ` set pt" if "forward_port x pt anc = Some q" for q
    using preferred_in [OF that [unfolded forward_port_def Let_def]] by auto
  then show ?thesis unfolding forced_port_def or_text_def using pt by (auto split: option.splits)
qed

lemma router_in_next:
  assumes g: "compile_locus_graph b nodes links = Inr g" and n: "n \<in> set nodes"
    and es: "dict_get (out_links (map gn_id nodes) links) (gn_id n) [] \<noteq> []"
      "map_of (routing_nodes (out_links (map gn_id nodes) links)) (gn_id n) \<noteq> None"
  defines "pt \<equiv> port_targets_of (dict_get (out_links (map gn_id nodes) links) (gn_id n) [])"
  shows "\<exists>y \<in> set (next_nodes M anc (cg_calls g) (dict_get (gs_loop_counts s) (gn_id n) 0) (gn_id n)).
    map_of pt (router_for show_val (gn_id n) pt M anc s) = Some y"
proof -
  let ?p = "router_for show_val (gn_id n) pt M anc s" and ?c = "dict_get (gs_loop_counts s) (gn_id n) 0"
  have "pt \<noteq> []" using port_targets_keys [of "dict_get (out_links (map gn_id nodes) links) (gn_id n) []"] es(1)
    by (auto simp: pt_def)
  then have "?p \<in> fst ` set pt" unfolding router_for_def Let_def by (auto simp: forced_port_key)
  then obtain y where y: "map_of pt ?p = Some y" by (cases "map_of pt ?p") (auto simp: map_of_eq_None_iff)
  have "AddConditionalEdges (gn_id n) pt \<in> set (cg_calls g)"
    unfolding compile_InrD(2) [OF g] pt_def using n es by (force simp: node_calls_def Let_def)
  moreover have "y \<in> set (call_targets M anc ?c (gn_id n) (AddConditionalEdges (gn_id n) pt))"
    using y map_of_SomeD [OF y] by (force simp: call_targets_def router_for_def Let_def)
  ultimately have "y \<in> set (next_nodes M anc (cg_calls g) ?c (gn_id n))"
    unfolding next_nodes_def set_concat set_map by blast
  then show ?thesis using y by blast
qed

lemma merge_single [simp]: "merge_dicts d [(k, v)] = AList.update k v d"
  by (simp add: merge_dicts_def)

lemma apply_update_runner:
  assumes "apply_update s (node_runner deps n ports inl s0) = Inr s'"
  shows "gs_loop_counts s' = AList.update (gn_id n) (dict_get (gs_loop_counts s0) (gn_id n) 0 + 1) (gs_loop_counts s)"
    "gs_node_outputs s' = AList.update (gn_id n) (AList.delete ''artifacts'' (node_result deps n ports inl s0)) (gs_node_outputs s)"
  using assms by (auto simp: apply_update_def node_runner_def Let_def bindE_eq_Inr_iff)

lemma super_step_state:
  assumes "foldE apply_update s (map (\<lambda>n. node_runner deps n (ports n) inl s0) ns) = Inr s'" and "distinct (map gn_id ns)"
  shows "dict_get (gs_loop_counts s') k 0 =
      (if k \<in> set (map gn_id ns) then dict_get (gs_loop_counts s0) k 0 + 1 else dict_get (gs_loop_counts s) k 0) \<and>
    map_of (gs_node_outputs s') k = (case List.find (\<lambda>n. gn_id n = k) ns of
       Some n \<Rightarrow> Some (AList.delete ''artifacts'' (node_result deps n (ports n) inl s0)) | None \<Rightarrow> map_of (gs_node_outputs s) k)"
  using assms
proof (induction ns arbitrary: s)
  case (Cons n ns)
  obtain t where t: "apply_update s (node_runner deps n (ports n) inl s0) = Inr t"
    "foldE apply_update t (map (\<lambda>n. node_runner deps n (ports n) inl s0) ns) = Inr s'"
    using Cons.prems(1) by (auto simp: bindE_eq_Inr_iff)
  have d: "distinct (map gn_id ns)" "gn_id n \<notin> set (map gn_id ns)" using Cons.prems(2) by auto
  then have "List.find (\<lambda>m. gn_id m = gn_id n) ns = None" by (auto simp: find_None_iff image_iff)
  then show ?case using Cons.IH [OF t(2) d(1)] d(2) apply_update_runner [OF t(1)]
    by (cases "k = gn_id n") (auto simp: update_conv' split: option.splits)
qed simp

lemma extract_route_port: "extract_route text ports \<noteq> [] \<Longrightarrow> extract_route text ports \<in> set ports"
proof -
  have hd_in: "hd xs \<in> set ports" if "xs \<noteq> []" "set xs \<subseteq> set ports" for xs using that by (cases xs) auto
  assume "extract_route text ports \<noteq> []"
  then show ?thesis unfolding extract_route_def Let_def by (auto split: if_splits intro!: hd_in)
qed

fun walks_on :: "int \<Rightarrow> (string \<Rightarrow> string list) \<Rightarrow> builder_call list \<Rightarrow> string list \<Rightarrow> string \<Rightarrow> string list \<Rightarrow> bool" where
  "walks_on M anc calls seen x [] = True"
| "walks_on M anc calls seen x (y # ys) =
     (y \<in> set (next_nodes M anc calls (int (count_list (seen @ [x]) x)) x) \<and> walks_on M anc calls (seen @ [x]) y ys)"

lemma walks_on_walk:
  "graph_walk M anc g (seen @ [x]) \<Longrightarrow> walks_on M anc (cg_calls g) seen x ys \<Longrightarrow> graph_walk M anc g (seen @ x # ys)"
proof (induction ys arbitrary: seen x)
  case (Cons y ys)
  have "graph_walk M anc g (seen @ [x, y])" using graph_walk.step [OF Cons.prems(1) order_refl] Cons.prems(2) by simp
  with Cons.IH [of "seen @ [x]" y] Cons.prems(2) show ?case by simp
qed simp

lemma decision_group_Nil [simp]: "decision_group None [] = None"
  by code_simp

lemma review_compiled: "compile_locus_graph True review_nodes review_links = Inr review_graph"
  by (simp add: review_graph_def compile_locus_graph_def review_nodes_def Let_def)

section \<open>Properties\<close>



text \<open>
  C35: The compiler's answer whether the graph has a cycle (Kahn's algorithm over the links between
  known nodes) is right: it says so exactly when some node can be reached from itself.
\<close>

theorem has_cycle_exact:
  assumes "compile_locus_graph True nodes links = Inr g" and "distinct (map gn_id nodes)"
  shows "cg_has_cycle g \<longleftrightarrow> (\<exists>x. (x, x) \<in> (link_rel (map gn_id nodes) links)\<^sup>+)"
  unfolding compile_InrD(4) [OF assms(1)] by (rule has_cycle_correct [OF assms(2)])

theorem has_cycle_exact_witness: "\<exists>x. (x, x) \<in> (link_rel (map gn_id review_nodes) review_links)\<^sup>+"
proof -
  have "distinct (map gn_id review_nodes)" and "cg_has_cycle review_graph" by code_simp+
  then show ?thesis using has_cycle_exact [OF review_compiled] by simp
qed

text \<open>
  The forward port of a routing node is one whose target cannot lead back to the node, and there is
  none only if every port leads back.
\<close>

theorem forward_port_exact:
  assumes "forward_port x (port_targets_of es) (ancestors ids links) = f"
  shows "(f = None \<longleftrightarrow> (\<forall>(p, t) \<in> set (port_targets_of es). (t, x) \<in> (link_rel ids links)\<^sup>*)) \<and>
    (\<forall>p. f = Some p \<longrightarrow> (\<exists>t. map_of (port_targets_of es) p = Some t \<and> (t, x) \<notin> (link_rel ids links)\<^sup>*))"
  using assms forward_port_None [of x "port_targets_of es" ids links] forward_port_target [OF distinct_port_targets]
  by auto

theorem forward_port_exact_witness:
  "\<exists>t. map_of (port_targets_of (drop 1 review_links)) ''agreed'' = Some t \<and>
     (t, ''r'') \<notin> (link_rel (map gn_id review_nodes) review_links)\<^sup>*"
proof -
  have "forward_port ''r'' (port_targets_of (drop 1 review_links)) (ancestors (map gn_id review_nodes) review_links) = Some ''agreed''"
    by code_simp
  from forward_port_exact [OF this] show ?thesis by simp
qed

text \<open>
  Nodes run in parallel lose nothing: whatever their order, after the updates of a set of distinct
  nodes have been merged, each of them has been counted once more and its own result is recorded,
  and nothing else changed.
\<close>

theorem super_step_counts:
  assumes "foldE apply_update s (map (\<lambda>n. node_runner deps n (ports n) inl s) ns) = Inr s'" and "distinct (map gn_id ns)"
  shows "dict_get (gs_loop_counts s') k 0 = dict_get (gs_loop_counts s) k 0 + (if k \<in> set (map gn_id ns) then 1 else 0) \<and>
    (\<forall>n \<in> set ns. map_of (gs_node_outputs s') (gn_id n) = Some (AList.delete ''artifacts'' (node_result deps n (ports n) inl s))) \<and>
    (k \<notin> set (map gn_id ns) \<longrightarrow> map_of (gs_node_outputs s') k = map_of (gs_node_outputs s) k)"
proof -
  have find: "List.find (\<lambda>m. gn_id m = gn_id n) ns = Some n" if "n \<in> set ns" for n
    using that assms(2) by (induction ns) (auto simp: image_iff)
  have none: "k \<notin> set (map gn_id ns) \<Longrightarrow> List.find (\<lambda>m. gn_id m = k) ns = None"
    by (auto simp: find_None_iff)
  show ?thesis using super_step_state [OF assms] find none by auto
qed

theorem super_step_counts_witness:
  "\<exists>s. foldE apply_update (initial_state (\<lambda>_. []) JNull) (map (\<lambda>n. node_runner sample_deps n [] [] (initial_state (\<lambda>_. []) JNull)) (take 2 fan_nodes)) = Inr s \<and>
     dict_get (gs_loop_counts s) ''a'' 0 = 1 \<and> dict_get (gs_loop_counts s) ''o'' 0 = 0"
proof -
  let ?s = "initial_state (\<lambda>_. []) JNull" and ?f = "\<lambda>n. node_runner sample_deps n [] [] (initial_state (\<lambda>_. []) JNull)"
  have "\<not> isl (foldE apply_update ?s (map ?f (take 2 fan_nodes)))" by code_simp
  then obtain s where s: "foldE apply_update ?s (map ?f (take 2 fan_nodes)) = Inr s"
    by (cases "foldE apply_update ?s (map ?f (take 2 fan_nodes))") auto
  have d: "distinct (map gn_id (take 2 fan_nodes))" and m: "''a'' \<in> set (map gn_id (take 2 fan_nodes))"
    "''o'' \<notin> set (map gn_id (take 2 fan_nodes))" and c: "dict_get (gs_loop_counts ?s) k 0 = 0" for k
    by (code_simp, code_simp, code_simp, simp add: initial_state_def dict_get_def)
  from super_step_counts [OF s d, of "''a''"] super_step_counts [OF s d, of "''o''"] s m c show ?thesis by auto
qed

text \<open>
  An explicit decision line of an agent wins: if it names one of the ports, up to case, that port is
  the route.
\<close>

theorem extract_route_decision:
  assumes "p \<in> set ports" and "decision_group None (py_lower text) = Some (py_lower p)"
  shows "extract_route text ports \<in> set ports \<and> py_lower (extract_route text ports) = py_lower p"
proof -
  have "text \<noteq> []" using assms(2) by (auto simp: py_lower_def)
  let ?f = "filter (\<lambda>q. py_lower p = py_lower q) ports"
  have ne: "?f \<noteq> []" using assms(1) by (auto simp: filter_empty_conv)
  then have "extract_route text ports = hd ?f"
    using assms \<open>text \<noteq> []\<close> unfolding extract_route_def Let_def by (cases ?f) auto
  moreover have "hd ?f \<in> set ?f" using ne by (rule hd_in_set)
  ultimately show ?thesis by auto
qed

theorem extract_route_decision_witness: "extract_route ''Fine. DECISION: agreed'' [''agreed'', ''retry''] \<in> {''agreed'', ''retry''}"
proof -
  have "decision_group None (py_lower ''Fine. DECISION: agreed'') = Some (py_lower ''agreed'')" by code_simp
  from extract_route_decision [OF _ this, of "[''agreed'', ''retry'']"] show ?thesis by simp
qed

text \<open>
  A second target of the same port of a routing node is dropped: no edge given to LangGraph leads to
  it, although the graph has the link.
\<close>

theorem routing_drops_target:
  "(''r'', ''p'') \<in> link_rel (map gn_id fan_nodes) fan_links \<and>
   (\<exists>g. compile_locus_graph True fan_nodes fan_links = Inr g \<and> \<not> list_ex (call_reaches ''p'') (cg_calls g))"
proof -
  have "case compile_locus_graph True fan_nodes fan_links of Inl _ \<Rightarrow> False | Inr g \<Rightarrow> \<not> list_ex (call_reaches ''p'') (cg_calls g)"
    by code_simp
  then have "\<exists>g. compile_locus_graph True fan_nodes fan_links = Inr g \<and> \<not> list_ex (call_reaches ''p'') (cg_calls g)"
    by (auto split: sum.splits)
  moreover have "(''r'', ''p'') \<in> link_rel (map gn_id fan_nodes) fan_links" by code_simp
  ultimately show ?thesis by simp
qed

text \<open>
  The recursion limit handed to LangGraph can stop a run that the guard on loops still allows: with
  five reviewers that send back to the same start, and the default bound of four, a run of 67 nodes is
  possible and the limit is 53.
\<close>

theorem walk_exceeds_recursion_limit:
  "\<exists>g xs. compile_locus_graph True chain_nodes chain_links = Inr g \<and>
     graph_walk (cd_max_loop_iterations sample_deps) (ancestors (map gn_id chain_nodes) chain_links) g xs \<and>
     recursion_limit sample_deps g < int (length xs)"
proof -
  let ?anc = "ancestors (map gn_id chain_nodes) chain_links"
  have "case compile_locus_graph True chain_nodes chain_links of Inl _ \<Rightarrow> False
     | Inr g \<Rightarrow> [cg_entry g] = take 1 chain_walk \<and> walks_on 4 ?anc (cg_calls g) [] (cg_entry g) (drop 1 chain_walk) \<and>
         recursion_limit sample_deps g < int (length chain_walk)" by code_simp
  then obtain g where g: "compile_locus_graph True chain_nodes chain_links = Inr g" "[cg_entry g] = take 1 chain_walk"
    "walks_on 4 ?anc (cg_calls g) [] (cg_entry g) (drop 1 chain_walk)" "recursion_limit sample_deps g < int (length chain_walk)"
    by (auto split: sum.splits)
  have "graph_walk 4 ?anc g (take 1 chain_walk @ drop 1 chain_walk)"
    using walks_on_walk [OF _ g(3)] graph_walk.start [of 4 ?anc g] unfolding g(2) [symmetric] by simp
  then have "graph_walk (cd_max_loop_iterations sample_deps) ?anc g chain_walk" by (simp add: sample_deps_def)
  then show ?thesis using g(1,4) by blast
qed

text \<open>
  A result that replaces an earlier one of the same node keeps its place in the outputs: without a
  terminal node the last output is not the one written last.
\<close>

theorem last_output_not_latest:
  "last_output (review_graph\<lparr>cg_terminals := []\<rparr>)
     (merge_dicts [(''a'', [(''message'', JStr ''first'')]), (''r'', [(''message'', JStr ''second'')])] [(''a'', [(''message'', JStr ''third'')])]) =
   Some [(''message'', JStr ''second'')]"
  by code_simp

end
