(* ===== verification/Cron.thy ===== *)
theory Cron
  imports Py_Text
begin

text \<open>
  \<open>apps/backend/app/cron.py\<close>: the five-field cron matcher of the workflow scheduler.  A field is the
  list of the values it denotes.
\<close>

definition FIELD_BOUNDS :: "(int \<times> int) list" where
  "FIELD_BOUNDS = [(0, 59), (0, 23), (1, 31), (1, 12), (0, 6)]"

definition int_of_text :: "string \<Rightarrow> int res" where
  "int_of_text s = (case py_int s of None \<Rightarrow> raise ValueError ''invalid literal for int()'' | Some n \<Rightarrow> Inr n)"

definition py_range :: "int \<Rightarrow> int \<Rightarrow> int \<Rightarrow> int list" where
  \<comment> \<open>\<open>range(start, end + 1, step)\<close> for a positive step\<close>
  "py_range start stop step = filter (\<lambda>v. (v - start) mod step = 0) [start..stop]"

definition part_bounds :: "string \<Rightarrow> int \<Rightarrow> int \<Rightarrow> (int \<times> int) res" where
  "part_bounds base low high =
     (if base = ''*'' \<or> base = [] then Inr (low, high)
      else (case py_partition CHR ''-'' base of
          (a, True, b) \<Rightarrow> bindE (int_of_text a) (\<lambda>start. bindE (int_of_text b) (\<lambda>stop. Inr (start, stop)))
        | (_, False, _) \<Rightarrow> bindE (int_of_text base) (\<lambda>n. Inr (n, n))))"

definition parse_part :: "string \<Rightarrow> int \<Rightarrow> int \<Rightarrow> int list res" where
  "parse_part raw low high =
     (let part = py_strip raw in
      if part = [] then Inr []
      else bindE (case py_partition CHR ''/'' part of
            (base, True, step_str) \<Rightarrow> bindE (int_of_text step_str) (\<lambda>step.
              guardE (0 < step) ValueError ''cron step must be positive'' (Inr (base, step)))
          | (_, False, _) \<Rightarrow> Inr (part, 1)) (\<lambda>(base, step).
        bindE (part_bounds base low high) (\<lambda>(start, stop).
        guardE (\<not> (start < low \<or> high < stop \<or> stop < start)) ValueError (''cron field out of range: '' @ part)
          (Inr (py_range start stop step)))))"

definition parse_field :: "string \<Rightarrow> int \<Rightarrow> int \<Rightarrow> int list res" where
  "parse_field field low high =
     bindE (mapE (\<lambda>part. parse_part part low high) (py_split CHR '','' field)) (\<lambda>parts.
     let values = dict_fromkeys (concat parts) in
     guardE (values \<noteq> []) ValueError ''cron field produced no values'' (Inr values))"

definition parse_cron :: "string \<Rightarrow> int list list res" where
  "parse_cron expression =
     (let fs = py_words expression in
      guardE (length fs = 5) ValueError ''cron expression must have exactly 5 fields''
        (mapE (\<lambda>(field, low, high). parse_field field low high) (zip fs FIELD_BOUNDS)))"

definition is_valid_cron :: "string \<Rightarrow> bool" where
  "is_valid_cron expression = (case parse_cron expression of
     Inr _ \<Rightarrow> True
   | Inl _ \<Rightarrow> False)"

record moment =
  mo_minute :: int
  mo_hour :: int
  mo_day :: int
  mo_month :: int
  mo_weekday :: int   \<comment> \<open>Monday is 0\<close>

definition cron_matches :: "string \<Rightarrow> moment \<Rightarrow> bool res" where
  "cron_matches expression m =
     bindE (parse_cron expression) (\<lambda>fs. case fs of
       [minute_f, hour_f, dom_f, month_f, dow_f] \<Rightarrow> Inr
         (if mo_minute m \<notin> set minute_f \<or> mo_hour m \<notin> set hour_f then False
          else if mo_month m \<notin> set month_f then False
          else let cron_dow = (mo_weekday m + 1) mod 7;
                   dow_normalized = map (\<lambda>v. if v = 7 then 0 else v) dow_f;
                   dom_restricted = (set dom_f \<noteq> set (py_range 1 31 1));
                   dow_restricted = (set dow_normalized \<noteq> set (py_range 0 6 1));
                   dom_hit = (mo_day m \<in> set dom_f);
                   dow_hit = (cron_dow \<in> set dow_normalized) in
            if dom_restricted \<and> dow_restricted then dom_hit \<or> dow_hit else dom_hit \<and> dow_hit)
     | _ \<Rightarrow> raise ValueError ''not enough values to unpack'')"

definition cron_moment :: "moment \<Rightarrow> bool" where
  \<comment> \<open>the fields of a date and time are in their ranges\<close>
  "cron_moment m \<longleftrightarrow> mo_minute m \<in> {0..59} \<and> mo_hour m \<in> {0..23} \<and> mo_day m \<in> {1..31} \<and> mo_month m \<in> {1..12} \<and> mo_weekday m \<in> {0..6}"

definition at_text :: "moment \<Rightarrow> string" where
  \<comment> \<open>the expression for one minute of one day of the year\<close>
  "at_text m = py_join '' '' [py_str_int (mo_minute m), py_str_int (mo_hour m), py_str_int (mo_day m), py_str_int (mo_month m), ''*'']"

section \<open>Facts\<close>

lemma set_py_range: "set (py_range start stop step) = {v. start \<le> v \<and> v \<le> stop \<and> (v - start) mod step = 0}"
  by (auto simp: py_range_def)

lemma parse_part_bounds: "parse_part raw low high = Inr vs \<Longrightarrow> set vs \<subseteq> {low..high}"
  by (auto simp: parse_part_def Let_def resE set_py_range split: if_splits)

lemma parse_field_bounds:
  assumes "parse_field field low high = Inr vs"
  shows "vs \<noteq> [] \<and> set vs \<subseteq> {low..high}"
proof -
  from assms obtain parts where p: "mapE (\<lambda>part. parse_part part low high) (py_split CHR '','' field) = Inr parts"
    "vs = dict_fromkeys (concat parts)" "vs \<noteq> []" by (auto simp: parse_field_def Let_def resE)
  have "set vs \<subseteq> {low..high}"
  proof
    fix v assume "v \<in> set vs"
    then obtain part where "part \<in> set parts" "v \<in> set part" by (auto simp: p(2))
    then show "v \<in> {low..high}" using mapE_Inr_set [OF p(1)] parse_part_bounds by blast
  qed
  with p(3) show ?thesis by simp
qed

lemma split_runs_word:
  "list_all (\<lambda>c. \<not> p c) w \<Longrightarrow> split_runs p acc (w @ s) = split_runs p (rev w @ acc) s"
  by (induction w arbitrary: acc) auto

lemma py_words_join:
  assumes "\<forall>w \<in> set ws. w \<noteq> [] \<and> list_all (\<lambda>c. \<not> py_isspace c) w"
  shows "py_words (py_join '' '' ws) = ws"
  using assms
proof (induction ws rule: induct_list012)
  case (2 w)
  then show ?case using split_runs_word [of py_isspace w "[]" "[]"] by (simp add: py_words_def)
next
  case (3 w v ws)
  have sp: "py_isspace CHR '' ''" by code_simp
  have "split_runs py_isspace [] (w @ '' '' @ py_join '' '' (v # ws)) = w # split_runs py_isspace [] (py_join '' '' (v # ws))"
    using 3 split_runs_word [of py_isspace w "[]"] sp by simp
  with 3 show ?case by (simp add: py_words_def)
qed (simp add: py_words_def)

lemma str_int_chars:
  assumes "0 \<le> n"
  shows "py_str_int n \<noteq> []" "list_all is_digit (py_str_int n)"
  using nat_digits_digits [of "nat n"] assms by (auto simp: py_str_int_def)

lemma not_digits: "\<not> is_digit CHR '',''" "\<not> is_digit CHR ''/''" "\<not> is_digit CHR ''-''" "\<not> is_digit CHR ''*''"
  by code_simp+

lemma parse_field_number:
  assumes "0 \<le> low" and "low \<le> n" and "n \<le> high"
  shows "parse_field (py_str_int n) low high = Inr [n]"
proof -
  let ?t = "py_str_int n"
  have n: "0 \<le> n" using assms by simp
  have d: "\<forall>c \<in> set ?t. is_digit c" using str_int_chars(2) [OF n] by (simp add: list_all_iff)
  then have no: "c \<notin> set ?t" if "\<not> is_digit c" for c using that by blast
  have "py_strip ?t = ?t" using d is_digit_plain by (intro py_strip_no_space) (simp add: list_all_iff)
  note chars = no [OF not_digits(1)] no [OF not_digits(2)] no [OF not_digits(3)] no [OF not_digits(4)] this
  then have "?t \<noteq> ''*''" by auto
  then show ?thesis using chars assms str_int_chars(1) [OF n]
    by (simp add: parse_field_def parse_part_def part_bounds_def int_of_text_def py_int_str_int py_split_plain partition_none py_range_def dict_fromkeys_def append_unique_def)
qed

lemma parse_any_day: "parse_field ''*'' 0 6 = Inr [0..6]"
  by code_simp

lemma parse_at_text:
  assumes "cron_moment m"
  shows "parse_cron (at_text m) = Inr [[mo_minute m], [mo_hour m], [mo_day m], [mo_month m], [0..6]]"
proof -
  have r: "0 \<le> mo_minute m" "mo_minute m \<le> 59" "0 \<le> mo_hour m" "mo_hour m \<le> 23" "1 \<le> mo_day m" "mo_day m \<le> 31"
    "1 \<le> mo_month m" "mo_month m \<le> 12" using assms by (auto simp: cron_moment_def)
  have plain: "w \<noteq> [] \<and> list_all (\<lambda>c. \<not> py_isspace c) w" if "list_all is_digit w" "w \<noteq> []" for w
    using that is_digit_plain by (simp add: list_all_iff)
  have "py_words (at_text m) = [py_str_int (mo_minute m), py_str_int (mo_hour m), py_str_int (mo_day m), py_str_int (mo_month m), ''*'']"
    unfolding at_text_def
  proof (rule py_words_join)
    have "list_all (\<lambda>c. \<not> py_isspace c) ''*''" by code_simp
    then show "\<forall>w \<in> set [py_str_int (mo_minute m), py_str_int (mo_hour m), py_str_int (mo_day m), py_str_int (mo_month m), ''*''].
        w \<noteq> [] \<and> list_all (\<lambda>c. \<not> py_isspace c) w"
      using r plain [OF str_int_chars(2,1)] by simp
  qed
  then show ?thesis using r by (simp add: parse_cron_def FIELD_BOUNDS_def parse_field_number parse_any_day)
qed

section \<open>Properties\<close>

text \<open>
  Every field of an accepted expression denotes at least one value, and only values its field
  allows.
\<close>

theorem cron_fields_bounded:
  assumes "parse_cron expression = Inr fs"
  shows "length fs = 5 \<and> list_all2 (\<lambda>vs (low, high). vs \<noteq> [] \<and> set vs \<subseteq> {low..high}) fs FIELD_BOUNDS"
proof -
  from assms have f: "length (py_words expression) = 5"
    "mapE (\<lambda>(field, low, high). parse_field field low high) (zip (py_words expression) FIELD_BOUNDS) = Inr fs"
    by (auto simp: parse_cron_def Let_def resE)
  have len: "length FIELD_BOUNDS = 5" by (simp add: FIELD_BOUNDS_def)
  have "length fs = 5" using mapE_Inr_length [OF f(2)] f(1) len by simp
  moreover have "list_all2 (\<lambda>vs (low, high). vs \<noteq> [] \<and> set vs \<subseteq> {low..high}) fs FIELD_BOUNDS"
    using f parse_field_bounds len unfolding mapE_Inr_iff list_all2_conv_all_nth by (fastforce split: prod.splits)
  ultimately show ?thesis by simp
qed

theorem cron_fields_bounded_witness:
  "parse_cron ''*/15 9-17 1,15 * 1-5'' = Inr [[0, 15, 30, 45], [9..17], [1, 15], [1..12], [1..5]] \<and>
   list_all2 (\<lambda>vs (low, high). vs \<noteq> [] \<and> set vs \<subseteq> {low..high}) [[0, 15, 30, 45], [9..17], [1, 15], [1..12], [1..5]] FIELD_BOUNDS"
proof -
  have "parse_cron ''*/15 9-17 1,15 * 1-5'' = Inr [[0, 15, 30, 45], [9..17], [1, 15], [1..12], [1..5]]" by code_simp
  from cron_fields_bounded [OF this] this show ?thesis by simp
qed

text \<open>
  C36: The expression that names a minute, hour, day and month matches exactly the moments with that
  minute, hour, day and month.
\<close>

theorem cron_at_roundtrip:
  assumes "cron_moment m" and "cron_moment m'"
  shows "cron_matches (at_text m) m' = Inr (mo_minute m' = mo_minute m \<and> mo_hour m' = mo_hour m \<and>
    mo_day m' = mo_day m \<and> mo_month m' = mo_month m)"
proof -
  have "map (\<lambda>v. if v = 7 then 0 else v) [0..6::int] = [0..6]" "[0..6::int] = py_range 0 6 1" by code_simp+
  moreover have "(mo_weekday m' + 1) mod 7 \<in> set [0..6]" by simp
  ultimately show ?thesis unfolding cron_matches_def parse_at_text [OF assms(1)] by auto
qed

theorem cron_at_roundtrip_witness:
  "cron_matches (at_text \<lparr>mo_minute = 30, mo_hour = 4, mo_day = 1, mo_month = 12, mo_weekday = 0\<rparr>)
     \<lparr>mo_minute = 30, mo_hour = 4, mo_day = 2, mo_month = 12, mo_weekday = 1\<rparr> = Inr False"
  by (subst cron_at_roundtrip) (simp_all add: cron_moment_def)

text \<open>
  Sunday cannot be written as 7: the bound of the field is checked before 7 is read as 0.
\<close>

theorem sunday_seven_rejected: "\<not> is_valid_cron ''0 0 * * 7'' \<and> \<not> is_valid_cron ''0 0 * * 5-7'' \<and> is_valid_cron ''0 0 * * 0''"
  by code_simp

end
