(* ===== verification/Panic_Control.thy ===== *)
theory Panic_Control
  imports Py_Text
begin

text \<open>
  \<open>locus_runtime/computer_use/controller.py\<close>: the modes of computer use, cooperative cancellation and
  the panic latch.  A cancel token is an object the controller and the running action share: the
  controller holds all of them, by action id, and the ids in flight.  What is under the lock is one
  step; a panic first latches and then flags the tokens one by one, while other threads go on.
\<close>

section \<open>Controller\<close>

datatype cu_mode = Observe | Assist | Takeover

definition MODES :: "(string \<times> cu_mode) list" where
  "MODES = [(''observe'', Observe), (''assist'', Assist), (''takeover'', Takeover)]"

fun mode_text :: "cu_mode \<Rightarrow> string" where
  "mode_text Observe = ''observe''"
| "mode_text Assist = ''assist''"
| "mode_text Takeover = ''takeover''"

definition OBSERVE_KINDS :: "string list" where
  "OBSERVE_KINDS = [''ui_observe'', ''browser_read'']"

definition ACT_KINDS :: "string list" where
  "ACT_KINDS = [''ui_click'', ''ui_type'', ''ui_key'', ''browser_navigate'', ''browser_act'']"

record cancel_token =
  ct_kind :: string
  ct_cancelled :: bool
  ct_reason :: string

record controller =
  cc_mode :: cu_mode
  cc_tokens :: "(string, cancel_token) dict"   \<comment> \<open>every token handed out\<close>
  cc_inflight :: "string list"
  cc_panicked :: bool
  cc_panic_source :: string
  cc_listeners :: "string list"   \<comment> \<open>callbacks, by name\<close>

definition unknown_mode :: "string \<Rightarrow> string" where
  "unknown_mode mode = ''unknown computer-use mode '' @ py_repr mode"

definition new_controller :: "string \<Rightarrow> controller res" where
  "new_controller mode = (case map_of MODES mode of
     None \<Rightarrow> raise ValueError (unknown_mode mode)
   | Some m \<Rightarrow> Inr \<lparr>cc_mode = m, cc_tokens = [], cc_inflight = [], cc_panicked = False, cc_panic_source = [], cc_listeners = []\<rparr>)"

definition set_mode :: "string \<Rightarrow> controller \<Rightarrow> controller res" where
  "set_mode mode c = (case map_of MODES mode of
     None \<Rightarrow> raise ValueError (unknown_mode mode)
   | Some m \<Rightarrow> Inr (c\<lparr>cc_mode := m\<rparr>))"

definition permits :: "controller \<Rightarrow> string \<Rightarrow> bool \<times> string" where
  "permits c kind =
     (if kind \<in> set OBSERVE_KINDS then (True, [])
      else if kind \<notin> set ACT_KINDS then (False, ''unknown computer-use action kind '' @ py_repr kind)
      else if cc_mode c = Takeover then (True, [])
      else (False, ''mode is '' @ py_repr (mode_text (cc_mode c)) @ '': the agent does not drive input''))"

definition token_cancelled :: "controller \<Rightarrow> string \<Rightarrow> bool" where
  "token_cancelled c i = (case map_of (cc_tokens c) i of None \<Rightarrow> False | Some t \<Rightarrow> ct_cancelled t)"

definition token_cancel :: "string \<Rightarrow> string \<Rightarrow> controller \<Rightarrow> controller" where
  \<comment> \<open>\<open>CancelToken.cancel\<close>\<close>
  "token_cancel reason i c = c\<lparr>cc_tokens := map_ran (\<lambda>k t. if k = i then t\<lparr>ct_cancelled := True, ct_reason := reason\<rparr> else t) (cc_tokens c)\<rparr>"

definition token_check :: "controller \<Rightarrow> string \<Rightarrow> unit res" where
  \<comment> \<open>\<open>CancelToken.check\<close>\<close>
  "token_check c i = (case map_of (cc_tokens c) i of
     Some t \<Rightarrow> if ct_cancelled t
       then raise ComputerUseCancelled (''computer-use action cancelled ('' @ (if ct_reason t \<noteq> [] then ct_reason t else ''panic'') @ '')'')
       else Inr ()
   | None \<Rightarrow> Inr ())"

definition begin_action :: "string \<Rightarrow> string \<Rightarrow> controller \<Rightarrow> controller res" where
  \<comment> \<open>\<open>begin\<close>; the second argument is the fresh action id\<close>
  "begin_action kind i c = guardE (\<not> cc_panicked c) ComputerUseCancelled
     ''computer use is stopped (panic); a human must reset it before any further UI action''
     (Inr (c\<lparr>cc_tokens := AList.update i \<lparr>ct_kind = kind, ct_cancelled = False, ct_reason = []\<rparr> (cc_tokens c),
             cc_inflight := append_unique (cc_inflight c) i\<rparr>))"

definition end_action :: "string \<Rightarrow> controller \<Rightarrow> controller" where
  "end_action i c = c\<lparr>cc_inflight := filter (\<lambda>j. j \<noteq> i) (cc_inflight c)\<rparr>"

definition panic_latch :: "string \<Rightarrow> controller \<Rightarrow> controller" where
  \<comment> \<open>what \<open>panic\<close> does under the lock\<close>
  "panic_latch source c = c\<lparr>cc_panicked := True,
     cc_panic_source := (if cc_panicked c then cc_panic_source c else take 64 (if source \<noteq> [] then source else ''user''))\<rparr>"

record panic_report =
  pr_already_latched :: bool
  pr_cancelled_actions :: nat
  pr_source :: string

definition panic :: "string \<Rightarrow> controller \<Rightarrow> controller \<times> string list \<times> panic_report" where
  \<comment> \<open>uninterrupted; with the listeners called, whose exceptions are logged\<close>
  "panic source c =
     (let c' = panic_latch source c in
      (fold (token_cancel ''panic'') (cc_inflight c) c', cc_listeners c,
       \<lparr>pr_already_latched = cc_panicked c, pr_cancelled_actions = length (cc_inflight c), pr_source = cc_panic_source c'\<rparr>))"

definition on_panic :: "string \<Rightarrow> controller \<Rightarrow> controller" where
  "on_panic listener c = c\<lparr>cc_listeners := cc_listeners c @ [listener]\<rparr>"

definition remove_panic_listener :: "string \<Rightarrow> controller \<Rightarrow> controller" where
  "remove_panic_listener listener c = c\<lparr>cc_listeners := remove1 listener (cc_listeners c)\<rparr>"

definition cu_status :: "controller \<Rightarrow> cu_mode \<times> bool \<times> string \<times> nat" where
  "cu_status c = (cc_mode c, cc_panicked c, cc_panic_source c, length (cc_inflight c))"

definition reset :: "controller \<Rightarrow> controller" where
  "reset c = c\<lparr>cc_panicked := False, cc_panic_source := [], cc_mode := Observe\<rparr>"

text \<open>The controller of the process.\<close>

record cu_process =
  cp_default :: "controller option"
  cp_installed :: bool

definition get_controller :: "cu_process \<Rightarrow> cu_process \<times> controller res" where
  "get_controller p = (case cp_default p of
     Some c \<Rightarrow> (p, Inr c)
   | None \<Rightarrow> (case new_controller ''observe'' of Inl x \<Rightarrow> (p, Inl x) | Inr c \<Rightarrow> (p\<lparr>cp_default := Some c\<rparr>, Inr c)))"

definition install_controller :: "controller option \<Rightarrow> cu_process \<Rightarrow> cu_process" where
  "install_controller co p = (case co of
     None \<Rightarrow> p\<lparr>cp_installed := False\<rparr>
   | Some c \<Rightarrow> p\<lparr>cp_default := Some c, cp_installed := True\<rparr>)"

section \<open>Threads\<close>

text \<open>The controller, and for every panic that has latched the tokens it has still to flag.\<close>

record cu_system =
  sy_controller :: controller
  sy_pending :: "string list list"

inductive cu_step :: "cu_system \<Rightarrow> cu_system \<Rightarrow> bool" where
  begins: "begin_action kind i (sy_controller s) = Inr c \<Longrightarrow> map_of (cc_tokens (sy_controller s)) i = None \<Longrightarrow>
    cu_step s (s\<lparr>sy_controller := c\<rparr>)"
| ends: "cu_step s (s\<lparr>sy_controller := end_action i (sy_controller s)\<rparr>)"
| latches: "cu_step s (s\<lparr>sy_controller := panic_latch source (sy_controller s), sy_pending := cc_inflight (sy_controller s) # sy_pending s\<rparr>)"
| cancels: "sy_pending s = ps @ (i # is) # qs \<Longrightarrow>
    cu_step s (s\<lparr>sy_controller := token_cancel ''panic'' i (sy_controller s), sy_pending := ps @ is # qs\<rparr>)"
| resets: "cu_step s (s\<lparr>sy_controller := reset (sy_controller s)\<rparr>)"
| listens: "cu_step s (s\<lparr>sy_controller := on_panic l (sy_controller s)\<rparr>)"
| unlistens: "cu_step s (s\<lparr>sy_controller := remove_panic_listener l (sy_controller s)\<rparr>)"
| modes: "set_mode mode (sy_controller s) = Inr c \<Longrightarrow> cu_step s (s\<lparr>sy_controller := c\<rparr>)"

definition panics_done :: "cu_system \<Rightarrow> bool" where
  "panics_done s \<longleftrightarrow> list_all (\<lambda>p. p = []) (sy_pending s)"

definition stopping :: "cu_system \<Rightarrow> bool" where
  "stopping s \<longleftrightarrow> set (cc_inflight (sy_controller s)) \<subseteq> dom (map_of (cc_tokens (sy_controller s))) \<and>
     (cc_panicked (sy_controller s) \<longrightarrow>
       (\<forall>i \<in> set (cc_inflight (sy_controller s)). token_cancelled (sy_controller s) i \<or> i \<in> \<Union> (set ` set (sy_pending s))))"

section \<open>Facts\<close>

lemma token_fields [simp]:
  "cc_inflight (token_cancel r i c) = cc_inflight c" "cc_panicked (token_cancel r i c) = cc_panicked c"
  "cc_inflight (panic_latch source c) = cc_inflight c" "cc_tokens (panic_latch source c) = cc_tokens c" "cc_panicked (panic_latch source c)"
  "cc_inflight (reset c) = cc_inflight c" "cc_tokens (reset c) = cc_tokens c" "\<not> cc_panicked (reset c)" "cc_mode (reset c) = Observe"
  "set (cc_inflight (end_action i c)) = set (cc_inflight c) - {i}" "cc_tokens (end_action i c) = cc_tokens c"
  "cc_panicked (end_action i c) = cc_panicked c"
  "cc_inflight (on_panic l c) = cc_inflight c" "cc_tokens (on_panic l c) = cc_tokens c" "cc_panicked (on_panic l c) = cc_panicked c"
  "cc_inflight (remove_panic_listener l c) = cc_inflight c" "cc_tokens (remove_panic_listener l c) = cc_tokens c"
  "cc_panicked (remove_panic_listener l c) = cc_panicked c"
  by (auto simp: token_cancel_def panic_latch_def reset_def end_action_def on_panic_def remove_panic_listener_def)

lemma token_cancelled_cong: "cc_tokens c = cc_tokens c' \<Longrightarrow> token_cancelled c = token_cancelled c'"
  by (auto simp: token_cancelled_def fun_eq_iff)

lemma dom_token_cancel [simp]: "dom (map_of (cc_tokens (token_cancel r i c))) = dom (map_of (cc_tokens c))"
  by (auto simp: token_cancel_def map_ran_conv)

lemma token_cancelled_cancel [simp]:
  "token_cancelled (token_cancel r i c) j \<longleftrightarrow> token_cancelled c j \<or> j = i \<and> i \<in> dom (map_of (cc_tokens c))"
  by (auto simp: token_cancelled_def token_cancel_def map_ran_conv split: option.splits)

lemma token_check_iff: "token_check c i = Inr () \<longleftrightarrow> \<not> token_cancelled c i"
  by (auto simp: token_check_def token_cancelled_def split: option.splits)

lemma begin_InrD:
  assumes "begin_action kind i c = Inr c'"
  shows "\<not> cc_panicked c" "set (cc_inflight c') = insert i (set (cc_inflight c))" "cc_mode c' = cc_mode c" "\<not> cc_panicked c'"
    "token_cancelled c' = (token_cancelled c)(i := False)" "dom (map_of (cc_tokens c')) = insert i (dom (map_of (cc_tokens c)))"
  using assms by (auto simp: begin_action_def guardE_eq_Inr_iff token_cancelled_def update_conv' fun_eq_iff)

lemma set_mode_InrD:
  assumes "set_mode mode c = Inr c'"
  shows "cc_tokens c' = cc_tokens c" "cc_inflight c' = cc_inflight c" "cc_panicked c' = cc_panicked c"
  using assms by (auto simp: set_mode_def split: option.splits)

lemmas tokens_kept = token_cancelled_cong [OF token_fields(4)] token_cancelled_cong [OF token_fields(7)]
  token_cancelled_cong [OF token_fields(11)] token_cancelled_cong [OF token_fields(14)] token_cancelled_cong [OF token_fields(17)]

lemma stopping_step: "cu_step s t \<Longrightarrow> stopping s \<Longrightarrow> stopping t"
proof (induction rule: cu_step.induct)
  case (begins kind i s c)
  then show ?case using begin_InrD [OF begins(1)] by (auto simp: stopping_def)
next
  case (cancels s ps i "is" qs)
  then show ?case by (fastforce simp: stopping_def)
next
  case (modes mode s c)
  then show ?case using set_mode_InrD [OF modes(1)] token_cancelled_cong [OF set_mode_InrD(1) [OF modes(1)]] by (simp add: stopping_def)
qed (auto simp: stopping_def tokens_kept)

lemma cancelled_step:
  "cu_step s t \<Longrightarrow> token_cancelled (sy_controller s) i \<Longrightarrow> token_cancelled (sy_controller t) i"
proof (induction rule: cu_step.induct)
  case (begins kind j s c)
  then show ?case using begin_InrD(5) [OF begins(1)] by (auto simp: token_cancelled_def)
next
  case (modes mode s c)
  then show ?case using token_cancelled_cong [OF set_mode_InrD(1) [OF modes(1)]] by simp
qed (simp_all add: tokens_kept)

lemma stopping_reachable: "cu_step\<^sup>*\<^sup>* s t \<Longrightarrow> stopping s \<Longrightarrow> stopping t"
  by (induction rule: rtranclp_induct) (auto intro: stopping_step)

lemma stopping_start: "new_controller mode = Inr c \<Longrightarrow> stopping \<lparr>sy_controller = c, sy_pending = []\<rparr>"
  by (auto simp: new_controller_def stopping_def split: option.splits)

lemma cancelled_reachable: "cu_step\<^sup>*\<^sup>* s t \<Longrightarrow> token_cancelled (sy_controller s) i \<Longrightarrow> token_cancelled (sy_controller t) i"
  by (induction rule: rtranclp_induct) (auto intro: cancelled_step)

lemma cancels_run:
  "cu_step\<^sup>*\<^sup>* \<lparr>sy_controller = c, sy_pending = is # ps\<rparr> \<lparr>sy_controller = fold (token_cancel ''panic'') is c, sy_pending = [] # ps\<rparr>"
proof (induction "is" arbitrary: c)
  case (Cons i "is")
  have "cu_step \<lparr>sy_controller = c, sy_pending = (i # is) # ps\<rparr> \<lparr>sy_controller = token_cancel ''panic'' i c, sy_pending = is # ps\<rparr>"
    using cu_step.cancels [of "\<lparr>sy_controller = c, sy_pending = (i # is) # ps\<rparr>" "[]" i "is" ps] by simp
  then show ?case using Cons.IH [of "token_cancel ''panic'' i c"] by (simp add: converse_rtranclp_into_rtranclp)
qed simp

text \<open>An uninterrupted panic is a run of these steps, and it is done when it returns.\<close>

lemma panic_run:
  "cu_step\<^sup>*\<^sup>* \<lparr>sy_controller = c, sy_pending = ps\<rparr> \<lparr>sy_controller = fst (panic source c), sy_pending = [] # ps\<rparr>"
proof -
  have "cu_step \<lparr>sy_controller = c, sy_pending = ps\<rparr> \<lparr>sy_controller = panic_latch source c, sy_pending = cc_inflight c # ps\<rparr>"
    using cu_step.latches [of "\<lparr>sy_controller = c, sy_pending = ps\<rparr>" source] by simp
  then show ?thesis using cancels_run [of "panic_latch source c" "cc_inflight c" ps]
    by (simp add: panic_def Let_def converse_rtranclp_into_rtranclp)
qed

section \<open>Properties\<close>

text \<open>
  C33: Panic stops everything.  In every state the threads can reach, while the latch is set no action
  begins, and once every panic has returned the token of every action in flight is cancelled, so that
  its next check raises; what is cancelled stays cancelled, whatever happens later, a reset included.
\<close>

theorem panic_stops_all:
  assumes "new_controller mode = Inr c" and "cu_step\<^sup>*\<^sup>* \<lparr>sy_controller = c, sy_pending = []\<rparr> s"
    and "cc_panicked (sy_controller s)" and "panics_done s" and "cu_step\<^sup>*\<^sup>* s t"
  shows "(\<exists>m. begin_action kind j (sy_controller s) = raise ComputerUseCancelled m) \<and>
    (\<forall>i \<in> set (cc_inflight (sy_controller s)). \<exists>m. token_check (sy_controller t) i = raise ComputerUseCancelled m)"
proof -
  have "stopping s" using stopping_reachable [OF assms(2) stopping_start [OF assms(1)]] .
  then have "\<forall>i \<in> set (cc_inflight (sy_controller s)). token_cancelled (sy_controller s) i"
    using assms(3,4) by (fastforce simp: stopping_def panics_done_def list_all_iff)
  then have "\<forall>i \<in> set (cc_inflight (sy_controller s)). token_cancelled (sy_controller t) i"
    using cancelled_reachable [OF assms(5)] by blast
  then show ?thesis using assms(3)
    by (auto simp: begin_action_def guardE_def token_check_def token_cancelled_def split: option.splits)
qed

definition sample_panic :: cu_system where
  \<comment> \<open>an action begins, a panic latches and flags it\<close>
  "sample_panic = \<lparr>sy_controller = \<lparr>cc_mode = Takeover,
     cc_tokens = [(''cu-1'', \<lparr>ct_kind = ''ui_click'', ct_cancelled = True, ct_reason = ''panic''\<rparr>)],
     cc_inflight = [''cu-1''], cc_panicked = True, cc_panic_source = ''hotkey'', cc_listeners = []\<rparr>, sy_pending = [[]]\<rparr>"

theorem panic_stops_all_witness:
  "\<exists>m. token_check (reset (sy_controller sample_panic)) ''cu-1'' = raise ComputerUseCancelled m"
proof -
  let ?c = "\<lparr>cc_mode = Takeover, cc_tokens = [], cc_inflight = [], cc_panicked = False, cc_panic_source = [], cc_listeners = []\<rparr>"
  let ?t = "\<lparr>ct_kind = ''ui_click'', ct_cancelled = False, ct_reason = []\<rparr>"
  let ?d = "?c\<lparr>cc_tokens := [(''cu-1'', ?t)], cc_inflight := [''cu-1'']\<rparr>"
  let ?s = "\<lambda>c p. \<lparr>sy_controller = c, sy_pending = p\<rparr>"
  have n: "new_controller ''takeover'' = Inr ?c" by code_simp
  have "begin_action ''ui_click'' ''cu-1'' (sy_controller (?s ?c [])) = Inr ?d" by (simp add: begin_action_def append_unique_def)
  from cu_step.begins [OF this] have 1: "cu_step (?s ?c []) (?s ?d [])" by simp
  have 2: "cu_step (?s ?d []) (?s (panic_latch ''hotkey'' ?d) [[''cu-1'']])"
    using cu_step.latches [of "?s ?d []" "''hotkey''"] by simp
  have 3: "cu_step (?s (panic_latch ''hotkey'' ?d) [[''cu-1'']]) sample_panic"
    using cu_step.cancels [of "?s (panic_latch ''hotkey'' ?d) [[''cu-1'']]" "[]" "''cu-1''" "[]" "[]"]
    by (simp add: sample_panic_def panic_latch_def token_cancel_def)
  have r: "cu_step\<^sup>*\<^sup>* (?s ?c []) sample_panic" using 1 2 3 by (meson rtranclp.rtrancl_into_rtrancl rtranclp.rtrancl_refl)
  have p: "cc_panicked (sy_controller sample_panic)" "panics_done sample_panic" and
    f: "''cu-1'' \<in> set (cc_inflight (sy_controller sample_panic))" by code_simp+
  from panic_stops_all [OF n r p r_into_rtranclp [where r = cu_step, OF cu_step.resets]] f show ?thesis by simp
qed

end
