(* ===== verification/Json_Parse.thy ===== *)
theory Json_Parse
  imports Json Py_Text
begin

text \<open>
  \<open>json.loads\<close>, the scanner of Python's \<open>json\<close> module: \<open>None\<close> is a \<open>JSONDecodeError\<close>.  Objects keep the
  place of a repeated key and its last value, as \<open>dict\<close> does; a number keeps its text, and one with a
  fraction or exponent that overflows is infinite.  Texts are of eight-bit characters, so an escape
  for a later code point, which they cannot hold, is not read.

  The scanner recurses on fuel, and twice the length of the text is enough: more gives the same
  result.  What \<open>json.dumps\<close> prints is read back as it was.
\<close>

section \<open>Tokens\<close>

definition json_ws :: "char \<Rightarrow> bool" where
  "json_ws c \<longleftrightarrow> c \<in> {CHR '' '', CHR 0x09, CHR 0x0A, CHR 0x0D}"

definition skip_ws :: "string \<Rightarrow> string" where
  "skip_ws s = dropWhile json_ws s"

definition hex_value :: "char \<Rightarrow> nat option" where
  "hex_value c = (let n = ord_of c in
     if 48 \<le> n \<and> n \<le> 57 then Some (n - 48)
     else if 97 \<le> n \<and> n \<le> 102 then Some (n - 87)
     else if 65 \<le> n \<and> n \<le> 70 then Some (n - 55)
     else None)"

definition unicode_escape :: "char \<Rightarrow> char \<Rightarrow> char \<Rightarrow> char \<Rightarrow> char option" where
  "unicode_escape a b c d =
     (case (hex_value a, hex_value b, hex_value c, hex_value d) of
        (Some 0, Some 0, Some h, Some l) \<Rightarrow> Some (char_of (16 * h + l))
      | _ \<Rightarrow> None)"

definition simple_escape :: "char \<Rightarrow> char option" where
  "simple_escape c = map_of
     [(CHR 0x22, CHR 0x22), (CHR 0x5C, CHR 0x5C), (CHR ''/'', CHR ''/''), (CHR ''b'', CHR 0x08),
      (CHR ''f'', CHR 0x0C), (CHR ''n'', CHR 0x0A), (CHR ''r'', CHR 0x0D), (CHR ''t'', CHR 0x09)] c"

definition scan_u :: "string \<Rightarrow> (char \<times> string) option" where
  "scan_u s = (case s of
     a # b # c # d # s \<Rightarrow> map_option (\<lambda>ch. (ch, s)) (unicode_escape a b c d)
   | _ \<Rightarrow> None)"

definition scan_char :: "string \<Rightarrow> (char \<times> string) option" where
  \<comment> \<open>one character of a string, escaped or not\<close>
  "scan_char s = (case s of
     [] \<Rightarrow> None
   | c # s \<Rightarrow>
       if c = CHR 0x5C then
         (case s of [] \<Rightarrow> None
          | e # s \<Rightarrow> if e = CHR ''u'' then scan_u s else map_option (\<lambda>ch. (ch, s)) (simple_escape e))
       else if ord_of c < (32::nat) then None
       else Some (c, s))"

lemma scan_u_shorter: "scan_u s = Some (c, r) \<Longrightarrow> length r < length s"
  by (auto simp: scan_u_def split: list.splits)

lemma scan_char_shorter: "scan_char s = Some (c, r) \<Longrightarrow> length r < length s"
  by (auto simp: scan_char_def dest!: scan_u_shorter split: list.splits if_splits)

function scan_string :: "string \<Rightarrow> (string \<times> string) option" where
  \<comment> \<open>after the opening quote\<close>
  "scan_string s =
     (if s \<noteq> [] \<and> hd s = CHR 0x22 then Some ([], tl s)
      else (case scan_char s of
        None \<Rightarrow> None
      | Some (c, r) \<Rightarrow> map_option (\<lambda>(t, r). (c # t, r)) (scan_string r)))"
  by pat_completeness auto
termination by (relation "measure length") (auto dest: scan_char_shorter)

declare scan_string.simps [simp del]

definition span :: "(char \<Rightarrow> bool) \<Rightarrow> string \<Rightarrow> string \<times> string" where
  "span p s = (takeWhile p s, dropWhile p s)"

definition scan_int :: "string \<Rightarrow> (string \<times> string) option" where
  \<comment> \<open>\<open>-?(?:0|[1-9][0-9]*)\<close>\<close>
  "scan_int s =
     (let (sign, s) = (if s \<noteq> [] \<and> hd s = CHR ''-'' then (''-'', tl s) else ([], s)) in
      case s of [] \<Rightarrow> None
      | c # r \<Rightarrow>
          if c = CHR ''0'' then Some (sign @ ''0'', r)
          else if is_digit c then Some (sign @ takeWhile is_digit s, dropWhile is_digit s)
          else None)"

definition scan_frac :: "string \<Rightarrow> string \<times> string" where
  \<comment> \<open>\<open>(\.[0-9]+)?\<close>\<close>
  "scan_frac s = (case s of
     c # d # r \<Rightarrow> if c = CHR ''.'' \<and> is_digit d then (c # takeWhile is_digit (d # r), dropWhile is_digit (d # r)) else ([], s)
   | _ \<Rightarrow> ([], s))"

definition scan_exp :: "string \<Rightarrow> string \<times> string" where
  \<comment> \<open>\<open>([eE][-+]?[0-9]+)?\<close>\<close>
  "scan_exp s = (case s of
     [] \<Rightarrow> ([], s)
   | c # r \<Rightarrow>
       if c \<in> {CHR ''e'', CHR ''E''} then
         (let (sign, r) = (if r \<noteq> [] \<and> hd r \<in> {CHR ''-'', CHR ''+''} then ([hd r], tl r) else ([], r)) in
          if r \<noteq> [] \<and> is_digit (hd r) then (c # sign @ takeWhile is_digit r, dropWhile is_digit r) else ([], s))
       else ([], s))"

definition number_value :: "string \<Rightarrow> bool \<Rightarrow> jval" where
  "number_value t integral =
     (if integral then JNum t else case py_float t of Some (Fin _) \<Rightarrow> JNum t | _ \<Rightarrow> JNonFinite)"

definition scan_number :: "string \<Rightarrow> (jval \<times> string) option" where
  "scan_number s = (case scan_int s of
     None \<Rightarrow> None
   | Some (i, s) \<Rightarrow> (case scan_frac s of (f, s) \<Rightarrow> (case scan_exp s of (e, s) \<Rightarrow>
       Some (number_value (i @ f @ e) (f = [] \<and> e = []), s))))"

definition strip_prefix :: "string \<Rightarrow> string \<Rightarrow> string option" where
  "strip_prefix w s = (if take (length w) s = w then Some (drop (length w) s) else None)"

definition constants :: "(string \<times> jval) list" where
  "constants = [(''null'', JNull), (''true'', JBool True), (''false'', JBool False), (''NaN'', JNonFinite),
     (''Infinity'', JNonFinite), (''-Infinity'', JNonFinite)]"

definition scan_constant :: "string \<Rightarrow> (jval \<times> string) option" where
  "scan_constant s = (case List.find (\<lambda>(w, v). strip_prefix w s \<noteq> None) constants of
     None \<Rightarrow> None | Some (w, v) \<Rightarrow> map_option (Pair v) (strip_prefix w s))"

definition scan_atom :: "string \<Rightarrow> (jval \<times> string) option" where
  "scan_atom s = (case scan_constant s of Some r \<Rightarrow> Some r | None \<Rightarrow> scan_number s)"

section \<open>Values\<close>

fun json_value :: "nat \<Rightarrow> string \<Rightarrow> (jval \<times> string) option"
  and json_elems :: "nat \<Rightarrow> string \<Rightarrow> (jval list \<times> string) option"
  and json_members :: "nat \<Rightarrow> string \<Rightarrow> ((string \<times> jval) list \<times> string) option" where
  "json_value 0 s = None"
| "json_value (Suc n) [] = None"
| "json_value (Suc n) (c # s) =
     (if c = CHR 0x22 then map_option (\<lambda>(t, r). (JStr t, r)) (scan_string s)
      else if c = CHR ''['' then
        (let s = skip_ws s in
         if s \<noteq> [] \<and> hd s = CHR '']'' then Some (JList [], tl s)
         else map_option (\<lambda>(xs, r). (JList xs, r)) (json_elems n s))
      else if c = CHR ''{'' then
        (let s = skip_ws s in
         if s \<noteq> [] \<and> hd s = CHR ''}'' then Some (JDict [], tl s)
         else map_option (\<lambda>(kvs, r). (JDict (fold (\<lambda>(k, v). AList.update k v) kvs []), r)) (json_members n s))
      else scan_atom (c # s))"
| "json_elems 0 s = None"
| "json_elems (Suc n) s =
     (case json_value n s of
        None \<Rightarrow> None
      | Some (v, r) \<Rightarrow> (case skip_ws r of
          [] \<Rightarrow> None
        | c # r \<Rightarrow>
            if c = CHR '']'' then Some ([v], r)
            else if c = CHR '','' then map_option (\<lambda>(vs, r). (v # vs, r)) (json_elems n (skip_ws r))
            else None))"
| "json_members 0 s = None"
| "json_members (Suc n) s =
     (if s = [] \<or> hd s \<noteq> CHR 0x22 then None
      else case scan_string (tl s) of
        None \<Rightarrow> None
      | Some (k, r) \<Rightarrow> (case skip_ws r of
          [] \<Rightarrow> None
        | c # r \<Rightarrow>
            if c \<noteq> CHR '':'' then None
            else case json_value n (skip_ws r) of
              None \<Rightarrow> None
            | Some (v, r) \<Rightarrow> (case skip_ws r of
                [] \<Rightarrow> None
              | c # r \<Rightarrow>
                  if c = CHR ''}'' then Some ([(k, v)], r)
                  else if c = CHR '','' then map_option (\<lambda>(kvs, r). ((k, v) # kvs, r)) (json_members n (skip_ws r))
                  else None)))"

definition json_loads :: "string \<Rightarrow> jval option" where
  "json_loads s = (case json_value (2 * length s + 2) (skip_ws s) of
     Some (v, r) \<Rightarrow> if skip_ws r = [] then Some v else None
   | None \<Rightarrow> None)"

section \<open>Fuel\<close>

lemma json_value_code [code]:
  \<comment> \<open>the two equations on \<open>Suc\<close> in one, for evaluation\<close>
  "json_value 0 s = None"
  "json_value (Suc n) s = (case s of [] \<Rightarrow> None | c # s \<Rightarrow>
     (if c = CHR 0x22 then map_option (\<lambda>(t, r). (JStr t, r)) (scan_string s)
      else if c = CHR ''['' then
        (let s = skip_ws s in
         if s \<noteq> [] \<and> hd s = CHR '']'' then Some (JList [], tl s)
         else map_option (\<lambda>(xs, r). (JList xs, r)) (json_elems n s))
      else if c = CHR ''{'' then
        (let s = skip_ws s in
         if s \<noteq> [] \<and> hd s = CHR ''}'' then Some (JDict [], tl s)
         else map_option (\<lambda>(kvs, r). (JDict (fold (\<lambda>(k, v). AList.update k v) kvs []), r)) (json_members n s))
      else scan_atom (c # s)))"
  by (simp, cases s) simp_all

lemma skip_ws_le: "length (skip_ws s) \<le> length s"
  by (simp add: skip_ws_def length_dropWhile_le)

lemma skip_ws_Cons_le: "skip_ws s = c # r \<Longrightarrow> Suc (length r) \<le> length s"
  using skip_ws_le [of s] by simp

lemma scan_string_shorter: "scan_string s = Some (t, r) \<Longrightarrow> length r < length s"
proof (induction s arbitrary: t r rule: scan_string.induct)
  case (1 s)
  show ?case
  proof (cases "s \<noteq> [] \<and> hd s = CHR 0x22")
    case True
    then show ?thesis using 1(2) by (subst (asm) scan_string.simps) (cases s, auto)
  next
    case False
    then obtain c r' t' where "scan_char s = Some (c, r')" "scan_string r' = Some (t', r)"
      using 1(2) by (subst (asm) scan_string.simps) (auto split: option.splits)
    then show ?thesis using 1(1) [OF False _ refl] scan_char_shorter [of s c r'] by (meson order.strict_trans)
  qed
qed

lemma scan_int_shorter: "scan_int s = Some (t, r) \<Longrightarrow> length r < length s"
  by (auto simp: scan_int_def Let_def split: if_splits list.splits prod.splits)
    (metis dropWhile.simps(2) le_imp_less_Suc length_dropWhile_le length_Cons list.collapse not_less_eq less_SucI)+

lemma scan_frac_le: "scan_frac s = (t, r) \<Longrightarrow> length r \<le> length s"
  using length_dropWhile_le [of is_digit "tl (tl s)"] by (auto simp: scan_frac_def split: list.splits if_splits)

lemma scan_exp_le: "scan_exp s = (t, r) \<Longrightarrow> length r \<le> length s"
  using length_dropWhile_le [of is_digit "tl s"] length_dropWhile_le [of is_digit "tl (tl s)"]
  by (auto simp: scan_exp_def Let_def split: list.splits if_splits)

lemma scan_number_shorter: "scan_number s = Some (v, r) \<Longrightarrow> length r < length s"
  by (auto simp: scan_number_def split: option.splits prod.splits dest!: scan_int_shorter scan_frac_le scan_exp_le)

lemma strip_prefix_shorter: "strip_prefix w s = Some r \<Longrightarrow> w \<noteq> [] \<Longrightarrow> length r < length s"
  by (cases s) (auto simp: strip_prefix_def split: if_splits)

lemma scan_constant_shorter:
  assumes "scan_constant s = Some (v, r)"
  shows "length r < length s"
proof -
  obtain w where w: "List.find (\<lambda>(w, v). strip_prefix w s \<noteq> None) constants = Some (w, v)" "strip_prefix w s = Some r"
    using assms by (auto simp: scan_constant_def split: option.splits)
  then have "(w, v) \<in> set constants" by (metis (lifting) find_Some_iff nth_mem)
  then have "w \<noteq> []" by (auto simp: constants_def)
  then show ?thesis using strip_prefix_shorter [OF w(2)] by simp
qed

lemma scan_atom_shorter: "scan_atom s = Some (v, r) \<Longrightarrow> length r < length s"
  by (auto simp: scan_atom_def scan_constant_shorter scan_number_shorter split: option.splits)

lemma json_shorter:
  "json_value n s = Some (v, r) \<Longrightarrow> length r < length s"
  "json_elems n s = Some (vs, r) \<Longrightarrow> length r < length s"
  "json_members n s = Some (kvs, r) \<Longrightarrow> length r < length s"
proof (induction n s and n s and n s arbitrary: v r and vs r and kvs r rule: json_value_json_elems_json_members.induct)
  case (3 n c s)
  have ws: "length (tl (skip_ws s)) \<le> length s" using skip_ws_le [of s] by simp
  consider "c = CHR 0x22" | "c = CHR ''[''" | "c = CHR ''{''" | "c \<noteq> CHR 0x22" "c \<noteq> CHR ''[''" "c \<noteq> CHR ''{''" by blast
  then show ?case
  proof cases
    case 1
    then show ?thesis using 3(3) by (auto dest: scan_string_shorter)
  next
    case 2
    then show ?thesis using 3(1) [OF _ _ refl] 3(3) ws skip_ws_le [of s] by (fastforce simp: Let_def split: if_splits)
  next
    case 3
    then show ?thesis using "3.IH"(2) [OF _ _ _ refl] "3.prems" ws skip_ws_le [of s] by (fastforce simp: Let_def split: if_splits)
  next
    case 4
    then show ?thesis using 3(3) scan_atom_shorter [of "c # s"] by simp
  qed
next
  case (5 n s)
  from 5(3) obtain v r0 c r1 where v: "json_value n s = Some (v, r0)" "skip_ws r0 = c # r1"
    and c: "c = CHR '']'' \<and> r = r1 \<or> c \<noteq> CHR '']'' \<and> c = CHR '','' \<and> (\<exists>vs. json_elems n (skip_ws r1) = Some (vs, r))"
    by (auto split: option.splits list.splits if_splits)
  have "Suc (length r1) < length s" using 5(1) [OF v(1)] skip_ws_Cons_le [OF v(2)] by simp
  then show ?case using c 5(2) [OF v(1) refl v(2)] skip_ws_le [of r1] by fastforce
next
  case (7 n s)
  from 7(3) obtain k r0 c r1 v r2 d r3 where
    k: "s \<noteq> []" "hd s = CHR 0x22" "scan_string (tl s) = Some (k, r0)" "skip_ws r0 = c # r1" "c = CHR '':''"
    "json_value n (skip_ws r1) = Some (v, r2)" "skip_ws r2 = d # r3"
    and d: "d = CHR ''}'' \<and> r = r3 \<or> d \<noteq> CHR ''}'' \<and> d = CHR '','' \<and> (\<exists>kvs. json_members n (skip_ws r3) = Some (kvs, r))"
    by (auto split: option.splits list.splits if_splits)
  have neg: "\<not> (s = [] \<or> hd s \<noteq> CHR 0x22)" using k by simp
  have "length r0 < length s" using scan_string_shorter [OF k(3)] k(1) by (cases s) auto
  moreover have "length r2 < length (skip_ws r1)" using 7(1) [OF neg k(3) refl k(4) _ k(6)] k(5) by simp
  ultimately have "length r3 < length s" using skip_ws_Cons_le [OF k(4)] skip_ws_Cons_le [OF k(7)] skip_ws_le [of r1] by linarith
  then show ?case using d 7(2) [OF neg k(3) refl k(4) _ k(6) refl k(7)] k(5) skip_ws_le [of r3] by fastforce
qed auto

lemma json_fuel:
  "2 * length s < n \<Longrightarrow> json_value (Suc n) s = json_value n s"
  "2 * length s + 1 < n \<Longrightarrow> json_elems (Suc n) s = json_elems n s"
  "2 * length s + 1 < n \<Longrightarrow> json_members (Suc n) s = json_members n s"
proof (induction n arbitrary: s)
  case (Suc n)
  {
    case 1
    show ?case
    proof (cases s)
      case (Cons c r)
      have "2 * length (skip_ws r) + 1 < n" if "skip_ws r \<noteq> []" using 1 Cons skip_ws_le [of r] that by simp
      moreover have "json_elems n [] = None" "json_elems (Suc n) [] = None" "json_members n [] = None" "json_members (Suc n) [] = None"
        by (cases n; (cases "n - 1")?; simp)+
      ultimately have eqs: "json_elems (Suc n) (skip_ws r) = json_elems n (skip_ws r)" "json_members (Suc n) (skip_ws r) = json_members n (skip_ws r)"
        using Suc(2) [of "skip_ws r"] Suc(3) [of "skip_ws r"] by (cases "skip_ws r = []"; simp del: json_elems.simps json_members.simps)+
      show ?thesis by (simp only: Cons json_value.simps(3) Let_def eqs)
    qed simp
  next
    case 2
    have v: "json_value (Suc n) s = json_value n s" using Suc(1) [of s] 2 by simp
    have "json_elems (Suc n) (skip_ws r1) = json_elems n (skip_ws r1)" if "json_value n s = Some (x, r0)" "skip_ws r0 = c # r1" for x r0 c r1
      using Suc(2) [of "skip_ws r1"] json_shorter(1) [OF that(1)] skip_ws_Cons_le [OF that(2)] skip_ws_le [of r1] 2 by simp
    then show ?case unfolding json_elems.simps(2) [of "Suc n"] json_elems.simps(2) [of n] v
      by (simp del: json_elems.simps split: option.split list.split)
  next
    case 3
    have v: "json_value (Suc n) (skip_ws r1) = json_value n (skip_ws r1)" if "scan_string (tl s) = Some (k, r0)" "skip_ws r0 = c # r1" for k r0 c r1
      using Suc(1) [of "skip_ws r1"] scan_string_shorter [OF that(1)] skip_ws_Cons_le [OF that(2)] skip_ws_le [of r1] 3 by simp
    have "json_members (Suc n) (skip_ws r3) = json_members n (skip_ws r3)"
      if "scan_string (tl s) = Some (k, r0)" "skip_ws r0 = c # r1" "json_value n (skip_ws r1) = Some (x, r2)" "skip_ws r2 = d # r3" for k r0 c r1 x r2 d r3
      using Suc(3) [of "skip_ws r3"] scan_string_shorter [OF that(1)] skip_ws_Cons_le [OF that(2)] skip_ws_le [of r1]
        json_shorter(1) [OF that(3)] skip_ws_Cons_le [OF that(4)] skip_ws_le [of r3] 3 by simp
    with v show ?case unfolding json_members.simps(2) [of "Suc n"] json_members.simps(2) [of n]
      by (simp del: json_members.simps split: option.split list.split)
  }
qed simp_all

text \<open>Twice the length of the text is enough fuel: more changes nothing.\<close>

lemma json_value_fuel: "2 * length s < n \<Longrightarrow> json_value (n + k) s = json_value n s"
  by (induction k) (simp_all add: json_fuel(1))

section \<open>Printing\<close>

text \<open>\<open>json.dumps\<close> without \<open>sort_keys\<close>; the first argument escapes a character: with \<open>ensure_ascii\<close> or without.\<close>

fun json_print :: "(char \<Rightarrow> string) \<Rightarrow> jval \<Rightarrow> string option" where
  "json_print esc JNull = Some ''null''"
| "json_print esc (JBool b) = Some (if b then ''true'' else ''false'')"
| "json_print esc (JNum t) = Some t"
| "json_print esc (JStr s) = Some (CHR 0x22 # concat (map esc s) @ [CHR 0x22])"
| "json_print esc (JList xs) =
     map_option (\<lambda>ts. CHR ''['' # py_join '', '' ts @ '']'') (those (map (json_print esc) xs))"
| "json_print esc (JDict kvs) =
     map_option (\<lambda>ts. CHR ''{'' # py_join '', '' ts @ ''}'')
       (those (map (\<lambda>(k, v). map_option (\<lambda>t. CHR 0x22 # concat (map esc k) @ CHR 0x22 # '': '' @ t) (json_print esc v)) kvs))"
| "json_print esc JNonFinite = None"
| "json_print esc JOpaque = None"

definition raw_escape_char :: "char \<Rightarrow> string" where
  \<comment> \<open>\<open>ensure_ascii=False\<close>\<close>
  "raw_escape_char c = (if ord_of c < (127::nat) then json_escape_char c else [c])"

definition decodes :: "(char \<Rightarrow> string) \<Rightarrow> bool" where
  "decodes esc \<longleftrightarrow> (\<forall>c r. scan_char (esc c @ r) = Some (c, r) \<and> esc c \<noteq> [] \<and> hd (esc c) \<noteq> CHR 0x22)"

definition json_number :: "string \<Rightarrow> bool" where
  "json_number t \<longleftrightarrow> scan_number t = Some (JNum t, [])"

fun json_plain :: "jval \<Rightarrow> bool" where
  "json_plain (JNum t) = json_number t"
| "json_plain (JList xs) = (\<forall>x \<in> set xs. json_plain x)"
| "json_plain (JDict kvs) = (distinct (map fst kvs) \<and> (\<forall>kv \<in> set kvs. json_plain (snd kv)))"
| "json_plain JNonFinite = False"
| "json_plain JOpaque = False"
| "json_plain _ = True"

definition delimited :: "string \<Rightarrow> bool" where
  "delimited r \<longleftrightarrow> r = [] \<or> hd r \<in> {CHR '','', CHR '']'', CHR ''}''}"

lemma hex_value_digit: "n < 16 \<Longrightarrow> hex_value (hex_digit n) = Some n"
  by (auto simp: hex_value_def hex_digit_def Let_def)

lemma unicode_escape_hex:
  "n < 256 \<Longrightarrow> unicode_escape (CHR ''0'') (CHR ''0'') (hex_digit (n div 16)) (hex_digit (n mod 16)) = Some (char_of n)"
proof -
  assume "n < (256::nat)"
  then have "hex_value (hex_digit (n div 16)) = Some (n div 16)" "hex_value (hex_digit (n mod 16)) = Some (n mod 16)"
    by (simp_all add: hex_value_digit)
  then show ?thesis by (simp add: unicode_escape_def hex_value_def)
qed

lemma special_chars:
  "char_of (34::nat) = CHR 0x22" "char_of (92::nat) = CHR 0x5C" "char_of (10::nat) = CHR 0x0A" "char_of (13::nat) = CHR 0x0D"
  "char_of (9::nat) = CHR 0x09" "char_of (12::nat) = CHR 0x0C" "char_of (8::nat) = CHR 0x08"
  by code_simp+

lemma scan_escape: "scan_char (json_escape_char c @ r) = Some (c, r)"
proof -
  define n where "n = ord_of c"
  have n: "n < 256" and c: "c = char_of n" by (simp_all add: n_def)
  consider "n \<in> {34, 92, 10, 13, 9, 12, 8}" | "n \<notin> {34, 92, 10, 13, 9, 12, 8}" "32 \<le> n" "n \<le> 126"
    | "n \<notin> {34, 92, 10, 13, 9, 12, 8}" "\<not> (32 \<le> n \<and> n \<le> 126)" by blast
  then show ?thesis
  proof cases
    case 1
    then show ?thesis unfolding c json_escape_char_def Let_def using n
      by (auto simp: special_chars scan_char_def simple_escape_def)
  next
    case 2
    then have "json_escape_char c = [c]" by (simp add: json_escape_char_def Let_def n_def [symmetric])
    moreover have "c \<noteq> CHR 0x5C" using 2(1) by (auto simp: n_def)
    ultimately show ?thesis using 2(2) by (simp add: scan_char_def n_def [symmetric])
  next
    case 3
    then have "json_escape_char c = [CHR 0x5C, CHR ''u'', CHR ''0'', CHR ''0'', hex_digit (n div 16), hex_digit (n mod 16)]"
      unfolding json_escape_char_def Let_def n_def [symmetric] by auto
    then show ?thesis using unicode_escape_hex [OF n] by (simp add: scan_char_def scan_u_def c)
  qed
qed

lemma escape_head: "json_escape_char c \<noteq> [] \<and> hd (json_escape_char c) \<noteq> CHR 0x22"
  by (auto simp: json_escape_char_def Let_def)

lemma decodes_json [simp]: "decodes json_escape_char"
  by (simp add: decodes_def scan_escape escape_head)

lemma decodes_raw [simp]: "decodes raw_escape_char"
proof -
  have "scan_char (c # r) = Some (c, r)" "c \<noteq> CHR 0x22" if "\<not> ord_of c < 127" for c r
    using that by (auto simp: scan_char_def)
  then show ?thesis by (simp add: decodes_def raw_escape_char_def scan_escape escape_head)
qed

lemma scan_printed_string:
  assumes "decodes esc"
  shows "scan_string (concat (map esc s) @ CHR 0x22 # r) = Some (s, r)"
proof (induction s)
  case Nil
  then show ?case by (simp add: scan_string.simps)
next
  case (Cons c s)
  have "scan_char (esc c @ concat (map esc s) @ CHR 0x22 # r) = Some (c, concat (map esc s) @ CHR 0x22 # r)"
    "esc c \<noteq> []" "hd (esc c) \<noteq> CHR 0x22" using assms by (auto simp: decodes_def)
  then show ?case using Cons by (subst scan_string.simps) simp
qed

subsection \<open>Numbers\<close>

lemma span_delimited:
  assumes "r = [] \<or> \<not> p (hd r)"
  shows "takeWhile p (s @ r) = takeWhile p s" "dropWhile p (s @ r) = dropWhile p s @ r"
  using assms by (induction s) (cases r; simp)+

lemma delimitedD: "delimited r \<Longrightarrow> r = [] \<or> \<not> is_digit (hd r) \<and> hd r \<notin> {CHR ''.'', CHR ''e'', CHR ''E'', CHR ''+'', CHR ''-''}"
  by (auto simp: delimited_def is_digit_def in_range_def)

lemma digit_span:
  assumes "delimited d"
  shows "takeWhile is_digit (s @ d) = takeWhile is_digit s" "dropWhile is_digit (s @ d) = dropWhile is_digit s @ d"
  using span_delimited [of d is_digit] delimitedD [OF assms] by auto

lemma digit_none: "delimited d \<Longrightarrow> takeWhile is_digit d = []" "delimited d \<Longrightarrow> dropWhile is_digit d = d"
  using digit_span [of d "[]"] by auto

lemma scan_delimited:
  assumes "delimited d"
  shows "scan_frac d = ([], d)" "scan_exp d = ([], d)" "scan_frac (c # d) = ([], c # d)" "scan_exp (c # d) = ([], c # d)"
    "e \<in> {CHR ''-'', CHR ''+''} \<Longrightarrow> scan_exp (c # e # d) = ([], c # e # d)"
  using delimitedD [OF assms] is_digit_plain [of e]
  by (cases d; (cases "tl d")?; auto simp: scan_frac_def scan_exp_def Let_def)+

lemma scan_empty: "scan_frac [] = ([], [])" "scan_exp [] = ([], [])"
  by (simp_all add: scan_frac_def scan_exp_def)

lemma scan_int_append:
  assumes "scan_int s = Some (i, r)" "delimited d"
  shows "scan_int (s @ d) = Some (i, r @ d)"
  using assms(1) by (cases s; cases "tl s") (auto simp: scan_int_def Let_def digit_span [OF assms(2)] digit_none [OF assms(2)] split: if_splits)

lemma scan_frac_append:
  assumes "delimited d"
  shows "scan_frac (s @ d) = (fst (scan_frac s), snd (scan_frac s) @ d)"
proof (cases s)
  case (Cons c s')
  show ?thesis
  proof (cases s')
    case Nil
    then show ?thesis using Cons scan_delimited(3) [OF assms] by (simp add: scan_frac_def)
  qed (simp add: Cons scan_frac_def digit_span [OF assms])
qed (simp add: scan_delimited(1) [OF assms] scan_empty)

lemma scan_exp_append:
  assumes "delimited d"
  shows "scan_exp (s @ d) = (fst (scan_exp s), snd (scan_exp s) @ d)"
proof (cases s)
  case s: (Cons c s')
  show ?thesis
  proof (cases s')
    case Nil
    then show ?thesis using s scan_delimited(4) [OF assms] by (simp add: scan_exp_def)
  next
    case s': (Cons e s'')
    show ?thesis
    proof (cases "s'' = [] \<and> e \<in> {CHR ''-'', CHR ''+''}")
      case True
      then show ?thesis using s s' scan_delimited(5) [OF assms, of e c] by (auto simp: scan_exp_def Let_def)
    next
      case False
      then show ?thesis by (cases s'') (auto simp: s s' scan_exp_def Let_def digit_span [OF assms] digit_none [OF assms])
    qed
  qed
qed (simp add: scan_delimited(2) [OF assms] scan_empty)

lemma scan_number_append:
  assumes "scan_number s = Some (v, [])" "delimited d"
  shows "scan_number (s @ d) = Some (v, d)"
  using assms(1) by (auto simp: scan_number_def scan_int_append [OF _ assms(2)] scan_frac_append [OF assms(2)] scan_exp_append [OF assms(2)]
    split: option.splits prod.splits)

lemma scan_int_head: "scan_int s = Some (i, r) \<Longrightarrow> \<exists>c t. s = c # t \<and> (is_digit c \<or> c = CHR ''-'' \<and> t \<noteq> [] \<and> is_digit (hd t))"
  by (cases s; cases "tl s") (auto simp: scan_int_def Let_def is_digit_def in_range_def split: if_splits)

lemma json_number_head: "json_number t \<Longrightarrow> \<exists>c r. t = c # r \<and> (is_digit c \<or> c = CHR ''-'' \<and> r \<noteq> [] \<and> is_digit (hd r))"
  by (auto simp: json_number_def scan_number_def dest: scan_int_head split: option.splits prod.splits)

lemma strip_prefix_Cons [simp]: "strip_prefix [] s = Some s" "strip_prefix (a # w) (c # s) = (if a = c then strip_prefix w s else None)"
  by (auto simp: strip_prefix_def)

lemma number_atom:
  assumes "json_number t" "delimited d"
  shows "scan_atom (t @ d) = Some (JNum t, d)"
proof -
  obtain c r where t: "t = c # r" and c: "is_digit c \<or> c = CHR ''-'' \<and> r \<noteq> [] \<and> is_digit (hd r)" using json_number_head [OF assms(1)] by blast
  have l: "\<not> is_digit CHR ''n''" "\<not> is_digit CHR ''t''" "\<not> is_digit CHR ''f''" "\<not> is_digit CHR ''N''" "\<not> is_digit CHR ''I''" "\<not> is_digit CHR ''-''"
    by code_simp+
  have "scan_constant (t @ d) = None"
  proof (cases "is_digit c")
    case True
    with l have "c \<noteq> CHR ''n''" "c \<noteq> CHR ''t''" "c \<noteq> CHR ''f''" "c \<noteq> CHR ''N''" "c \<noteq> CHR ''I''" "c \<noteq> CHR ''-''" by metis+
    then show ?thesis by (simp add: t scan_constant_def constants_def)
  next
    case False
    with c obtain e r' where r: "r = e # r'" "is_digit e" "c = CHR ''-''" by (cases r) auto
    with l have "e \<noteq> CHR ''I''" by metis
    then show ?thesis by (simp add: t r scan_constant_def constants_def)
  qed
  then show ?thesis using scan_number_append [OF _ assms(2)] assms(1) by (simp add: scan_atom_def json_number_def)
qed

lemma nat_digits_head: "0 < n \<Longrightarrow> hd (nat_digits n) \<noteq> CHR ''0''"
proof (induction n rule: nat_digits.induct)
  case (1 n)
  show ?case
  proof (cases "n < 10")
    case True
    then have "nat_digits n = [char_of (48 + n)]" by (simp add: nat_digits.simps)
    moreover have "ord_of (char_of (48 + n)) \<noteq> ord_of CHR ''0''" using True 1(2) by (simp add: of_char_of)
    ultimately show ?thesis by (metis list.sel(1))
  next
    case False
    then show ?thesis using 1(1) nat_digits_digits [of "n div 10"] by (subst nat_digits.simps) simp
  qed
qed

lemma scan_int_digits:
  assumes "s = nat_digits n"
  shows "scan_int s = Some (s, [])" "scan_int (CHR ''-'' # s) = Some (CHR ''-'' # s, [])"
proof -
  have d: "s \<noteq> []" "list_all is_digit s" using nat_digits_digits [of n] assms by auto
  then obtain c r where s: "s = c # r" "is_digit c" by (cases s) auto
  have t: "takeWhile is_digit s = s" "dropWhile is_digit s = []" using d(2) by (auto simp: list_all_iff)
  have m: "c \<noteq> CHR ''-''" using s(2) is_digit_plain by blast
  have z: "r = []" if "c = CHR ''0''"
  proof -
    from that have "n = 0" using nat_digits_head [of n] s assms by (cases n) auto
    then show ?thesis using assms s by (simp add: nat_digits.simps)
  qed
  show "scan_int s = Some (s, [])" "scan_int (CHR ''-'' # s) = Some (CHR ''-'' # s, [])"
    using t m z s by (auto simp: scan_int_def Let_def)
qed

lemma json_number_int: "json_number (py_str_int i)"
  using scan_int_digits [OF refl, of "nat i"] scan_int_digits [OF refl, of "nat (- i)"]
  by (auto simp: json_number_def scan_number_def py_str_int_def scan_frac_def scan_exp_def number_value_def)

subsection \<open>Values\<close>

lemma atom_constant: "scan_atom (''null'' @ r) = Some (JNull, r)" "scan_atom (''true'' @ r) = Some (JBool True, r)" "scan_atom (''false'' @ r) = Some (JBool False, r)"
  by (simp_all add: scan_atom_def scan_constant_def constants_def)

lemma print_head:
  assumes "json_print esc v = Some t" "json_plain v"
  shows "\<exists>c r. t = c # r \<and> \<not> json_ws c \<and> c \<notin> {CHR '']'', CHR ''}'', CHR '',''}"
proof (cases v)
  case (JNum n)
  then have "json_number t" using assms by simp
  then obtain c r where "t = c # r" "is_digit c \<or> c = CHR ''-''" using json_number_head by blast
  moreover have "\<not> json_ws c \<and> c \<notin> {CHR '']'', CHR ''}'', CHR '',''}" if "is_digit c \<or> c = CHR ''-''" for c
    using that by (auto simp: is_digit_def in_range_def json_ws_def)
  ultimately show ?thesis by blast
qed (use assms in \<open>auto simp: json_ws_def\<close>)

lemma skip_ws_head: "\<not> json_ws c \<Longrightarrow> skip_ws (c # s) = c # s"
  by (simp add: skip_ws_def)

definition reads_back :: "(char \<Rightarrow> string) \<Rightarrow> jval \<Rightarrow> bool" where
  "reads_back esc v \<longleftrightarrow> (\<forall>t d n. json_print esc v = Some t \<longrightarrow> delimited d \<longrightarrow> 2 * length (t @ d) < n \<longrightarrow> json_value n (t @ d) = Some (v, d))"

lemma reads_backD: "reads_back esc v \<Longrightarrow> json_print esc v = Some t \<Longrightarrow> delimited d \<Longrightarrow> 2 * length (t @ d) < n \<Longrightarrow> json_value n (t @ d) = Some (v, d)"
  unfolding reads_back_def by blast

lemma skip_comma: "skip_ws ('', '' @ s) = '', '' @ s" "skip_ws (CHR '' '' # s) = skip_ws s"
  by (simp_all add: skip_ws_def json_ws_def)

lemma elems_read_back:
  assumes "those (map (json_print esc) xs) = Some ts" "xs \<noteq> []" "\<forall>x \<in> set xs. reads_back esc x \<and> json_plain x"
    "2 * length (py_join '', '' ts @ CHR '']'' # d) + 1 < n"
  shows "json_elems n (py_join '', '' ts @ CHR '']'' # d) = Some (xs, d)"
  using assms
proof (induction xs arbitrary: ts n)
  case (Cons x xs)
  from Cons.prems(1) obtain t us where ts: "ts = t # us" and t: "json_print esc x = Some t" and us: "those (map (json_print esc) xs) = Some us"
    by (auto split: option.splits)
  from Cons.prems(4) obtain m where n: "n = Suc m" by (cases n) auto
  have x: "reads_back esc x" using Cons.prems(3) by simp
  show ?case
  proof (cases xs)
    case Nil
    then have "us = []" using us by simp
    moreover have "json_value m (t @ CHR '']'' # d) = Some (x, CHR '']'' # d)"
      by (rule reads_backD [OF x t]) (use Cons.prems(4) n ts \<open>us = []\<close> in \<open>auto simp: delimited_def\<close>)
    ultimately show ?thesis using Nil by (simp add: n ts skip_ws_head json_ws_def)
  next
    case (Cons y ys)
    then obtain u us' where u: "us = u # us'" "json_print esc y = Some u" using us by (auto split: option.splits)
    let ?r = "py_join '', '' us @ CHR '']'' # d"
    have "json_value m (t @ '', '' @ ?r) = Some (x, '', '' @ ?r)"
      by (rule reads_backD [OF x t]) (use Cons.prems(4) n ts u in \<open>auto simp: delimited_def\<close>)
    moreover have "skip_ws (CHR '' '' # ?r) = ?r"
      using print_head [OF u(2)] Cons.prems(3) \<open>xs = y # ys\<close> unfolding u skip_comma(2)
      by (cases us') (auto simp: skip_ws_head)
    moreover have "json_elems m ?r = Some (xs, d)"
      by (rule Cons.IH [OF us]) (use Cons.prems \<open>xs = y # ys\<close> n ts u in auto)
    ultimately show ?thesis by (simp add: n ts u skip_ws_head json_ws_def del: json_elems.simps json_value.simps add: json_elems.simps(2))
  qed
qed simp

abbreviation print_member :: "(char \<Rightarrow> string) \<Rightarrow> string \<Rightarrow> string \<Rightarrow> string" where
  "print_member esc k t \<equiv> CHR 0x22 # concat (map esc k) @ CHR 0x22 # '': '' @ t"

lemma members_read_back:
  assumes "decodes esc" and "those (map (\<lambda>(k, v). map_option (print_member esc k) (json_print esc v)) kvs) = Some ts" "kvs \<noteq> []"
    "\<forall>kv \<in> set kvs. reads_back esc (snd kv) \<and> json_plain (snd kv)" "2 * length (py_join '', '' ts @ CHR ''}'' # d) + 1 < n"
  shows "json_members n (py_join '', '' ts @ CHR ''}'' # d) = Some (kvs, d)"
  using assms(2-)
proof (induction kvs arbitrary: ts n)
  case (Cons kv kvs)
  obtain k v where kv: "kv = (k, v)" by fastforce
  from Cons.prems(1) obtain t us where ts: "ts = print_member esc k t # us" and t: "json_print esc v = Some t"
    and us: "those (map (\<lambda>(k, v). map_option (print_member esc k) (json_print esc v)) kvs) = Some us"
    by (auto simp: kv split: option.splits)
  from Cons.prems(4) obtain m where n: "n = Suc m" by (cases n) auto
  have v: "reads_back esc v" and p: "json_plain v" using Cons.prems(3) by (auto simp: kv)
  have key: "scan_string (concat (map esc k) @ CHR 0x22 # '': '' @ r) = Some (k, '': '' @ r)" for r
    by (rule scan_printed_string [OF assms(1)])
  have colon: "skip_ws ('': '' @ r) = '': '' @ r" for r by (simp add: skip_ws_head json_ws_def)
  have val: "skip_ws (CHR '' '' # t @ r) = t @ r" for r using print_head [OF t p] by (auto simp: skip_comma skip_ws_head)
  show ?case
  proof (cases kvs)
    case Nil
    then have "us = []" using us by simp
    moreover have "json_value m (t @ CHR ''}'' # d) = Some (v, CHR ''}'' # d)"
      by (rule reads_backD [OF v t]) (use Cons.prems(4) n ts \<open>us = []\<close> in \<open>auto simp: delimited_def\<close>)
    ultimately show ?thesis using Nil key [of "t @ CHR ''}'' # d"] colon [of "t @ CHR ''}'' # d"] val [of "CHR ''}'' # d"]
      by (simp add: n ts kv skip_ws_head json_ws_def)
  next
    case (Cons kw kvs')
    then obtain u us' where u: "us = u # us'" "\<exists>w. u = CHR 0x22 # w" using us by (cases kw) (auto split: option.splits)
    let ?r = "py_join '', '' us @ CHR ''}'' # d"
    have r: "'', '' @ ?r = CHR '','' # CHR '' '' # ?r" by simp
    have "json_value m (t @ '', '' @ ?r) = Some (v, '', '' @ ?r)"
      by (rule reads_backD [OF v t]) (use Cons.prems(4) n ts u in \<open>auto simp: delimited_def\<close>)
    moreover have "skip_ws (CHR '' '' # ?r) = ?r"
      using u(2) unfolding u(1) skip_comma(2) by (cases us') (auto simp: skip_ws_head json_ws_def)
    moreover have "json_members m ?r = Some (kvs, d)"
      by (rule Cons.IH [OF us]) (use Cons.prems \<open>kvs = kw # kvs'\<close> n ts u in auto)
    moreover have "py_join '', '' ts @ CHR ''}'' # d = print_member esc k (t @ '', '' @ ?r)" using u(1) ts by simp
    ultimately show ?thesis using key [of "t @ '', '' @ ?r"] colon [of "t @ '', '' @ ?r"] val [of "'', '' @ ?r"]
      by (simp add: n kv skip_ws_head json_ws_def del: json_members.simps json_value.simps py_join.simps add: json_members.simps(2))
  qed
qed simp

lemma fold_update_distinct: "distinct (map fst kvs) \<Longrightarrow> fold (\<lambda>(k, v). AList.update k v) kvs acc = acc @ kvs"
  if "set (map fst kvs) \<inter> set (map fst acc) = {}" for acc :: "('a \<times> 'b) list"
  using that
proof (induction kvs arbitrary: acc)
  case (Cons kv kvs)
  then have "AList.update (fst kv) (snd kv) acc = acc @ [kv]" by (induction acc) (auto simp: image_iff)
  then show ?case using Cons by (auto simp: split_def)
qed simp

lemma json_value_atom: "0 < n \<Longrightarrow> c \<notin> {CHR 0x22, CHR ''['', CHR ''{''} \<Longrightarrow> json_value n (c # s) = scan_atom (c # s)"
  by (cases n) auto

lemma plain_reads_back: "decodes esc \<Longrightarrow> json_plain v \<Longrightarrow> reads_back esc v"
proof (induction v)
  case (JNum t)
  show ?case unfolding reads_back_def
  proof (intro allI impI)
    fix t' d and n :: nat
    assume a: "json_print esc (JNum t) = Some t'" "delimited d" "2 * length (t' @ d) < n"
    then have t: "t' = t" "json_number t" using JNum by auto
    obtain c r where c: "t = c # r" "is_digit c \<or> c = CHR ''-''" using json_number_head [OF t(2)] by blast
    then have "c \<noteq> CHR 0x22 \<and> c \<noteq> CHR ''['' \<and> c \<noteq> CHR ''{''" by (auto simp: is_digit_def in_range_def)
    then show "json_value n (t' @ d) = Some (JNum t, d)" using number_atom [OF t(2) a(2)] a(3) c(1) t(1) by (cases n) auto
  qed
next
  case (JList xs)
  show ?case unfolding reads_back_def
  proof (intro allI impI)
    fix t d and n :: nat
    assume a: "json_print esc (JList xs) = Some t" "delimited d" "2 * length (t @ d) < n"
    then obtain ts where ts: "those (map (json_print esc) xs) = Some ts" "t = CHR ''['' # py_join '', '' ts @ '']''" by auto
    obtain m where n: "n = Suc m" using a(3) by (cases n) auto
    show "json_value n (t @ d) = Some (JList xs, d)"
    proof (cases xs)
      case Nil
      then show ?thesis using ts by (simp add: n skip_ws_head json_ws_def)
    next
      case (Cons x xs')
      then obtain u us where u: "ts = u # us" "json_print esc x = Some u" using ts(1) by (auto split: option.splits)
      obtain c r where c: "py_join '', '' ts @ CHR '']'' # d = c # r" "\<not> json_ws c" "c \<noteq> CHR '']''"
        using print_head [OF u(2)] JList.prems(2) Cons u(1) by (cases us) auto
      have "json_elems m (py_join '', '' ts @ CHR '']'' # d) = Some (xs, d)"
        by (rule elems_read_back [OF ts(1)]) (use JList Cons a(3) n ts(2) in auto)
      then show ?thesis unfolding n ts(2) using c by (simp add: skip_ws_head del: json_elems.simps)
    qed
  qed
next
  case (JDict kvs)
  show ?case unfolding reads_back_def
  proof (intro allI impI)
    fix t d and n :: nat
    assume a: "json_print esc (JDict kvs) = Some t" "delimited d" "2 * length (t @ d) < n"
    then obtain ts where ts: "those (map (\<lambda>(k, v). map_option (print_member esc k) (json_print esc v)) kvs) = Some ts"
      "t = CHR ''{'' # py_join '', '' ts @ ''}''" by auto
    obtain m where n: "n = Suc m" using a(3) by (cases n) auto
    show "json_value n (t @ d) = Some (JDict kvs, d)"
    proof (cases kvs)
      case Nil
      then show ?thesis using ts by (simp add: n skip_ws_head json_ws_def)
    next
      case (Cons kv kvs')
      then obtain w us where u: "ts = (CHR 0x22 # w) # us" using ts(1) by (cases kv) (auto split: option.splits)
      then obtain r where c: "py_join '', '' ts @ CHR ''}'' # d = CHR 0x22 # r" by (cases us) auto
      have "\<forall>kv \<in> set kvs. reads_back esc (snd kv) \<and> json_plain (snd kv)"
        using JDict by (metis json_plain.simps(3) prod.collapse snds.intros)
      then have "json_members m (py_join '', '' ts @ CHR ''}'' # d) = Some (kvs, d)"
        by (intro members_read_back [OF JDict.prems(1) ts(1)]) (use Cons a(3) n ts(2) in auto)
      moreover have "fold (\<lambda>(k, v). AList.update k v) kvs [] = kvs" using fold_update_distinct [of kvs "[]"] JDict.prems(2) by simp
      ultimately show ?thesis unfolding n ts(2) using c by (simp add: skip_ws_head json_ws_def del: json_members.simps)
    qed
  qed
next
  case (JBool b)
  then show ?case by (cases b) (simp_all add: reads_back_def json_value_atom atom_constant [simplified])
next
  case JNull
  then show ?case by (simp add: reads_back_def json_value_atom atom_constant [simplified])
next
  case (JStr s)
  have "json_value n (CHR 0x22 # r) = map_option (\<lambda>(t, r). (JStr t, r)) (scan_string r)" if "0 < n" for n r
    using that by (cases n) auto
  then show ?case using JStr by (simp add: reads_back_def scan_printed_string)
qed auto

lemma json_loads_print:
  assumes "decodes esc" "json_plain v" "json_print esc v = Some t"
  shows "json_loads t = Some v"
proof -
  obtain c r where t: "t = c # r" "\<not> json_ws c" using print_head [OF assms(3,2)] by blast
  have "json_value (2 * length t + 2) (t @ []) = Some (v, [])"
    by (rule reads_backD [OF plain_reads_back [OF assms(1,2)] assms(3)]) (auto simp: delimited_def)
  then show ?thesis using t by (simp add: json_loads_def skip_ws_head skip_ws_def)
qed

end
