(* ===== verification/Run_Envelope.thy ===== *)
theory Run_Envelope
  imports Gateway Json_Parse
begin

text \<open>
  \<open>locus_runtime/harness/run_envelope.py\<close>: what a run must achieve and may spend.  Done criteria, the
  budget, the capability set and the envelope with their constructors, the dictionaries they are
  stored as, and the builder that takes criteria from the text of a task and the files of a
  repository.

  Numbers of a budget are rationals or infinite; how a number prints is an argument.  The files are
  read through an argument, whose exceptions the code swallows.
\<close>

section \<open>Done criteria\<close>

record command_check =
  ck_id :: string
  ck_command :: string
  ck_expected_exit_code :: int
  ck_timeout_seconds :: int
  ck_description :: string

record file_check =
  fk_id :: string
  fk_path :: string
  fk_must_exist :: bool
  fk_contains :: string
  fk_pattern :: string
  fk_description :: string

record acceptance_criterion =
  ac_id :: string
  ac_text :: string

datatype done_criterion = Command command_check | File file_check | Acceptance acceptance_criterion

fun criterion_id :: "done_criterion \<Rightarrow> string" where
  "criterion_id (Command c) = ck_id c"
| "criterion_id (File c) = fk_id c"
| "criterion_id (Acceptance c) = ac_id c"

fun criterion_kind :: "done_criterion \<Rightarrow> string" where
  "criterion_kind (Command c) = ''command''"
| "criterion_kind (File c) = ''file''"
| "criterion_kind (Acceptance c) = ''acceptance''"

definition command_label :: "command_check \<Rightarrow> string" where
  "command_label c = (if ck_description c \<noteq> [] then ck_description c
     else CHR 0x60 # ck_command c @ CHR 0x60 # '' exits '' @ py_str_int (ck_expected_exit_code c))"

definition file_label :: "file_check \<Rightarrow> string" where
  "file_label c =
     (if fk_description c \<noteq> [] then fk_description c
      else if \<not> fk_must_exist c then fk_path c @ '' does not exist''
      else if fk_contains c \<noteq> [] then fk_path c @ '' contains '' @ py_repr (fk_contains c)
      else if fk_pattern c \<noteq> [] then fk_path c @ '' matches /'' @ fk_pattern c @ ''/''
      else fk_path c @ '' exists'')"

fun criterion_label :: "done_criterion \<Rightarrow> string" where
  "criterion_label (Command c) = command_label c"
| "criterion_label (File c) = file_label c"
| "criterion_label (Acceptance c) = ac_text c"

definition default_command :: "string \<Rightarrow> string \<Rightarrow> string \<Rightarrow> command_check" where
  \<comment> \<open>\<open>CommandCheck(id=, command=, description=)\<close>\<close>
  "default_command i command description = \<lparr>ck_id = i, ck_command = command, ck_expected_exit_code = 0,
     ck_timeout_seconds = 600, ck_description = description\<rparr>"

definition item :: "(string, jval) dict \<Rightarrow> string \<Rightarrow> jval res" where
  \<comment> \<open>\<open>data[k]\<close>\<close>
  "item d k = (case map_of d k of None \<Rightarrow> raise KeyErrorC k | Some v \<Rightarrow> Inr v)"

text \<open>How containers print, and what an infinity read from JSON is, are arguments.\<close>

definition criterion_from_dict :: "(jval \<Rightarrow> string) \<Rightarrow> pyfloat \<Rightarrow> jval \<Rightarrow> done_criterion res" where
  "criterion_from_dict show nf data = (case data of
     JDict d \<Rightarrow>
       (let kind = jstr_or_empty show (dict_get d ''kind'' JNull);
            txt = (\<lambda>k. jstr_or_empty show (dict_get d k JNull)) in
        if kind = ''command'' then
          bindE (item d ''id'') (\<lambda>i. bindE (item d ''command'') (\<lambda>c.
          bindE (jint nf (dict_get d ''expected_exit_code'' (JNum ''0''))) (\<lambda>ex.
          bindE (jint nf (dict_get d ''timeout_seconds'' (JNum ''600''))) (\<lambda>tm.
            Inr (Command \<lparr>ck_id = jstr show i, ck_command = jstr show c, ck_expected_exit_code = ex,
              ck_timeout_seconds = tm, ck_description = txt ''description''\<rparr>)))))
        else if kind = ''file'' then
          bindE (item d ''id'') (\<lambda>i. bindE (item d ''path'') (\<lambda>p.
            Inr (File \<lparr>fk_id = jstr show i, fk_path = jstr show p, fk_must_exist = jtruthy (dict_get d ''must_exist'' (JBool True)),
              fk_contains = txt ''contains'', fk_pattern = txt ''pattern'', fk_description = txt ''description''\<rparr>)))
        else if kind = ''acceptance'' then
          bindE (item d ''id'') (\<lambda>i. bindE (item d ''text'') (\<lambda>t.
            Inr (Acceptance \<lparr>ac_id = jstr show i, ac_text = jstr show t\<rparr>)))
        else raise ValueError (''unknown done-criterion kind: '' @ py_repr kind))
   | _ \<Rightarrow> raise AttributeErrorC ''get'')"

fun criterion_to_dict :: "done_criterion \<Rightarrow> jval" where
  \<comment> \<open>\<open>asdict\<close>\<close>
  "criterion_to_dict (Command c) = JDict
     [(''id'', JStr (ck_id c)), (''command'', JStr (ck_command c)), (''expected_exit_code'', JNum (py_str_int (ck_expected_exit_code c))),
      (''timeout_seconds'', JNum (py_str_int (ck_timeout_seconds c))), (''description'', JStr (ck_description c)), (''kind'', JStr ''command'')]"
| "criterion_to_dict (File c) = JDict
     [(''id'', JStr (fk_id c)), (''path'', JStr (fk_path c)), (''must_exist'', JBool (fk_must_exist c)),
      (''contains'', JStr (fk_contains c)), (''pattern'', JStr (fk_pattern c)), (''description'', JStr (fk_description c)),
      (''kind'', JStr ''file'')]"
| "criterion_to_dict (Acceptance c) = JDict [(''id'', JStr (ac_id c)), (''text'', JStr (ac_text c)), (''kind'', JStr ''acceptance'')]"

section \<open>Budget\<close>

record run_budget =
  rb_max_steps :: pyfloat
  rb_max_seconds :: pyfloat
  rb_max_tokens :: pyfloat
  rb_max_cost_usd :: pyfloat
  rb_max_actions :: pyfloat
  rb_max_context_tokens :: pyfloat

definition BUDGET_DEFAULTS :: "(string, pyfloat) dict" where
  "BUDGET_DEFAULTS = [(''max_steps'', Fin 50), (''max_seconds'', Fin 3600), (''max_tokens'', Fin 2000000), (''max_cost_usd'', Fin 5),
     (''max_actions'', Fin 200), (''max_context_tokens'', Fin 0)]"

definition budget_field :: "(string, pyfloat) dict \<Rightarrow> string \<Rightarrow> pyfloat" where
  "budget_field values k = dict_get values k (dict_get BUDGET_DEFAULTS k (Fin 0))"

definition run_budget_create :: "(string, pyfloat) dict \<Rightarrow> run_budget res" where
  \<comment> \<open>\<open>RunBudget(**values)\<close> with \<open>__post_init__\<close>\<close>
  "run_budget_create values =
     (case List.find (\<lambda>k. k \<notin> fst ` set BUDGET_DEFAULTS) (map fst values) of
        Some k \<Rightarrow> raise TypeErrorC (''unexpected keyword argument '' @ py_repr k)
      | None \<Rightarrow> (case List.find (\<lambda>k. \<not> float_lt (Fin 0) (budget_field values k))
            [''max_steps'', ''max_seconds'', ''max_tokens'', ''max_cost_usd'', ''max_actions''] of
          Some k \<Rightarrow> raise ValueError (''budget '' @ k @ '' must be positive (budgets are hard stops)'')
        | None \<Rightarrow> Inr \<lparr>rb_max_steps = budget_field values ''max_steps'', rb_max_seconds = budget_field values ''max_seconds'',
            rb_max_tokens = budget_field values ''max_tokens'', rb_max_cost_usd = budget_field values ''max_cost_usd'',
            rb_max_actions = budget_field values ''max_actions'', rb_max_context_tokens = budget_field values ''max_context_tokens''\<rparr>))"

definition env_number :: "(string \<Rightarrow> string option) \<Rightarrow> string \<Rightarrow> pyfloat \<Rightarrow> pyfloat" where
  "env_number env name dflt =
     (let raw = py_strip (case env name of None \<Rightarrow> [] | Some s \<Rightarrow> s) in
      if raw = [] then dflt
      else case py_float raw of
        None \<Rightarrow> dflt
      | Some value \<Rightarrow> if float_lt (Fin 0) value then value else dflt)"

definition int_of_float :: "pyfloat \<Rightarrow> pyfloat res" where
  \<comment> \<open>\<open>int(x)\<close>\<close>
  "int_of_float x = (case x of
     Fin q \<Rightarrow> Inr (Fin (of_int (truncate_rat q)))
   | NaN \<Rightarrow> raise ValueError ''cannot convert float NaN to integer''
   | _ \<Rightarrow> raise OverflowErrorC ''cannot convert float infinity to integer'')"

definition budget_from_env :: "(string \<Rightarrow> string option) \<Rightarrow> (string, pyfloat option) dict \<Rightarrow> run_budget res" where
  "budget_from_env env overrides =
     (let number = (\<lambda>name k. env_number env name (budget_field [] k)) in
      bindE (int_of_float (number ''LOCUS_RUN_MAX_STEPS'' ''max_steps'')) (\<lambda>steps.
      bindE (int_of_float (number ''LOCUS_RUN_MAX_TOKENS'' ''max_tokens'')) (\<lambda>tokens.
      bindE (int_of_float (number ''LOCUS_RUN_MAX_ACTIONS'' ''max_actions'')) (\<lambda>actions.
        run_budget_create (fold (\<lambda>(k, v) d. case v of None \<Rightarrow> d | Some x \<Rightarrow> AList.update k x d) overrides
          [(''max_steps'', steps), (''max_seconds'', number ''LOCUS_RUN_MAX_SECONDS'' ''max_seconds''), (''max_tokens'', tokens),
           (''max_cost_usd'', number ''LOCUS_RUN_MAX_COST_USD'' ''max_cost_usd''), (''max_actions'', actions)])))))"

section \<open>Capabilities and envelope\<close>

definition DEFAULT_CODING_TOOLS :: "string list" where
  "DEFAULT_CODING_TOOLS = [''execute_bash'', ''search'', ''str_replace_editor'', ''run_tests'']"

definition GATEWAY_OPERATIONS :: "string list" where
  "GATEWAY_OPERATIONS = [''read_file'', ''write_file'', ''process_exec'']"

definition AUTONOMY_TIERS :: "(string \<times> autonomy_tier) list" where
  "AUTONOMY_TIERS = [(''tiered'', Tier_tiered), (''supervised'', Tier_supervised), (''envelope-autonomous'', Tier_envelope_autonomous)]"

record envelope_capabilities =
  ec_tools :: "string list"
  ec_read_roots :: "string list"
  ec_write_roots :: "string list"
  ec_executables :: "string list"
  ec_egress_hosts :: "string list"
  ec_apps :: "string list"

record run_envelope =
  en_goal :: string
  en_done_criteria :: "done_criterion list"
  en_capabilities :: envelope_capabilities
  en_budget :: run_budget
  en_autonomy_tier :: string

definition envelope_create :: "run_envelope \<Rightarrow> run_envelope res" where
  \<comment> \<open>\<open>__post_init__\<close>\<close>
  "envelope_create e =
     guardE (py_strip (en_goal e) \<noteq> []) ValueError ''an envelope needs a goal''
     (guardE (en_done_criteria e \<noteq> []) ValueError ''an envelope needs at least one done criterion (P2)''
     (guardE (distinct (map criterion_id (en_done_criteria e))) ValueError
        (''done-criterion ids must be unique: ['' @ py_join '', '' (map (\<lambda>c. py_repr (criterion_id c)) (en_done_criteria e)) @ '']'')
     (guardE (en_autonomy_tier e \<in> set (map fst AUTONOMY_TIERS)) ValueError (''unknown autonomy tier: '' @ py_repr (en_autonomy_tier e))
       (Inr e))))"

definition command_checks :: "run_envelope \<Rightarrow> command_check list" where
  "command_checks e = List.map_filter (\<lambda>c. case c of Command x \<Rightarrow> Some x | _ \<Rightarrow> None) (en_done_criteria e)"

definition file_checks :: "run_envelope \<Rightarrow> file_check list" where
  "file_checks e = List.map_filter (\<lambda>c. case c of File x \<Rightarrow> Some x | _ \<Rightarrow> None) (en_done_criteria e)"

definition acceptance_criteria :: "run_envelope \<Rightarrow> acceptance_criterion list" where
  "acceptance_criteria e = List.map_filter (\<lambda>c. case c of Acceptance x \<Rightarrow> Some x | _ \<Rightarrow> None) (en_done_criteria e)"

definition describe_criteria :: "run_envelope \<Rightarrow> string" where
  "describe_criteria e = py_join [CHR 0x0A] (map (\<lambda>c. ''- ['' @ criterion_id c @ ''] ('' @ criterion_kind c @ '') '' @ criterion_label c)
     (en_done_criteria e))"

definition COMPUTER_USE_TOOL_OPERATIONS :: "(string, string list) dict" where
  "COMPUTER_USE_TOOL_OPERATIONS = [(''browser_navigate'', [''browser_navigate'', ''network_egress'']),
     (''browser_read'', [''browser_read'', ''network_egress'']), (''browser_act'', [''browser_act'', ''network_egress'']),
     (''browser_screenshot'', [''browser_read'']), (''desktop_observe'', [''ui_observe'']), (''desktop_click'', [''ui_click'']),
     (''desktop_type'', [''ui_type'']), (''desktop_key'', [''ui_key''])]"

definition computer_use_operations :: "string list \<Rightarrow> string list" where
  "computer_use_operations tools = concat (map (\<lambda>n. dict_get COMPUTER_USE_TOOL_OPERATIONS n []) tools)"

definition floor_number :: "pyfloat \<Rightarrow> int" where
  "floor_number x = (case x of Fin q \<Rightarrow> floor q | _ \<Rightarrow> 0)"

definition budget_figures_of :: "run_budget \<Rightarrow> budget_figures" where
  "budget_figures_of b = \<lparr>bf_tokens_used = Fin 0, bf_max_tokens = rb_max_tokens b, bf_duration_used_seconds = Some (Fin 0),
     bf_max_duration_seconds = Some (rb_max_seconds b), bf_cost_used_usd = Some (Fin 0), bf_max_cost_usd = Some (rb_max_cost_usd b)\<rparr>"

definition gateway_capabilities :: "string option \<Rightarrow> run_envelope \<Rightarrow> budget_figures option \<Rightarrow> string \<Rightarrow> capabilities" where
  \<comment> \<open>the first argument is \<open>LOCUS_GATEWAY_ALLOWED_EXECUTABLES\<close>; the gateway keeps a whole number of tool calls\<close>
  "gateway_capabilities env e budget runtime_profile =
     (let c = en_capabilities e in
      default_capabilities\<lparr>
        cap_allowed_tools := sorted_set (GATEWAY_OPERATIONS @ ec_tools c @ computer_use_operations (ec_tools c)),
        cap_read_roots := (if ec_read_roots c \<noteq> [] then ec_read_roots c else ec_write_roots c),
        cap_write_roots := ec_write_roots c,
        cap_allowed_executables := (if ec_executables c \<noteq> [] then ec_executables c else default_allowed_executables env),
        cap_allowed_egress_hosts := ec_egress_hosts c,
        cap_allowed_apps := ec_apps c,
        cap_autonomy_tier := dict_get AUTONOMY_TIERS (en_autonomy_tier e) Tier_tiered,
        cap_max_tool_calls := floor_number (rb_max_actions (en_budget e)),
        cap_budget := Some (case budget of Some b \<Rightarrow> b | None \<Rightarrow> budget_figures_of (en_budget e)),
        cap_runtime_profile := runtime_profile\<rparr>)"

section \<open>Stored form\<close>

definition jtexts :: "string list \<Rightarrow> jval" where
  "jtexts xs = JList (map JStr xs)"

definition capabilities_to_dict :: "envelope_capabilities \<Rightarrow> jval" where
  "capabilities_to_dict c = JDict [(''tools'', jtexts (ec_tools c)), (''read_roots'', jtexts (ec_read_roots c)),
     (''write_roots'', jtexts (ec_write_roots c)), (''executables'', jtexts (ec_executables c)),
     (''egress_hosts'', jtexts (ec_egress_hosts c)), (''apps'', jtexts (ec_apps c))]"

definition budget_to_dict :: "(pyfloat \<Rightarrow> jval) \<Rightarrow> run_budget \<Rightarrow> jval" where
  "budget_to_dict num b = JDict [(''max_steps'', num (rb_max_steps b)), (''max_seconds'', num (rb_max_seconds b)),
     (''max_tokens'', num (rb_max_tokens b)), (''max_cost_usd'', num (rb_max_cost_usd b)), (''max_actions'', num (rb_max_actions b)),
     (''max_context_tokens'', num (rb_max_context_tokens b))]"

definition envelope_to_dict :: "(pyfloat \<Rightarrow> jval) \<Rightarrow> run_envelope \<Rightarrow> jval" where
  "envelope_to_dict num e = JDict [(''goal'', JStr (en_goal e)), (''done_criteria'', JList (map criterion_to_dict (en_done_criteria e))),
     (''capabilities'', capabilities_to_dict (en_capabilities e)), (''budget'', budget_to_dict num (en_budget e)),
     (''autonomy_tier'', JStr (en_autonomy_tier e))]"

definition text_items :: "jval \<Rightarrow> string list res" where
  \<comment> \<open>\<open>tuple(v)\<close>; the items stored are texts, and others are refused\<close>
  "text_items v = bindE (jitems v) (mapE (\<lambda>x. case x of JStr s \<Rightarrow> Inr s | _ \<Rightarrow> raise TypeErrorC ''not a text''))"

definition CAPABILITY_FIELDS :: "string list" where
  "CAPABILITY_FIELDS = [''tools'', ''read_roots'', ''write_roots'', ''executables'', ''egress_hosts'', ''apps'']"

definition capabilities_from_dict :: "(string, jval) dict \<Rightarrow> envelope_capabilities res" where
  "capabilities_from_dict d =
     bindE (mapE (\<lambda>(k, v). bindE (text_items v) (\<lambda>xs. Inr (k, xs))) d) (\<lambda>kvs.
       case List.find (\<lambda>k. k \<notin> set CAPABILITY_FIELDS) (map fst kvs) of
         Some k \<Rightarrow> raise TypeErrorC (''unexpected keyword argument '' @ py_repr k)
       | None \<Rightarrow> Inr \<lparr>ec_tools = dict_get kvs ''tools'' DEFAULT_CODING_TOOLS, ec_read_roots = dict_get kvs ''read_roots'' [],
           ec_write_roots = dict_get kvs ''write_roots'' [], ec_executables = dict_get kvs ''executables'' [],
           ec_egress_hosts = dict_get kvs ''egress_hosts'' [], ec_apps = dict_get kvs ''apps'' []\<rparr>)"

fun jnumber :: "pyfloat \<Rightarrow> jval \<Rightarrow> pyfloat res" where
  \<comment> \<open>a number, as it is compared with others\<close>
  "jnumber nf (JNum t) = (case py_float t of Some x \<Rightarrow> Inr x | None \<Rightarrow> raise TypeErrorC ''not a number'')"
| "jnumber nf (JBool b) = Inr (Fin (if b then 1 else 0))"
| "jnumber nf JNonFinite = Inr nf"
| "jnumber nf _ = raise TypeErrorC ''not supported between instances''"

definition or_empty_dict :: "exn_class \<Rightarrow> jval \<Rightarrow> (string, jval) dict res" where
  \<comment> \<open>\<open>v or {}\<close>, used as a dictionary\<close>
  "or_empty_dict cls v = (if jtruthy v then (case v of JDict d \<Rightarrow> Inr d | _ \<Rightarrow> raise cls ''not a mapping'') else Inr [])"

definition budget_from_dict :: "pyfloat \<Rightarrow> (string, jval) dict \<Rightarrow> run_budget res" where
  \<comment> \<open>a context limit that is not set is no limit\<close>
  "budget_from_dict nf d = bindE (mapE (\<lambda>(k, v).
     if k = ''max_context_tokens'' \<and> \<not> jtruthy v then Inr (k, Fin 0) else bindE (jnumber nf v) (\<lambda>x. Inr (k, x))) d) run_budget_create"

definition envelope_from_dict :: "(jval \<Rightarrow> string) \<Rightarrow> pyfloat \<Rightarrow> jval \<Rightarrow> run_envelope res" where
  "envelope_from_dict show nf data = (case data of
     JDict d \<Rightarrow>
       bindE (item d ''goal'') (\<lambda>goal.
       bindE (item d ''done_criteria'') (\<lambda>cs.
       bindE (bindE (jitems cs) (mapE (criterion_from_dict show nf))) (\<lambda>criteria.
       bindE (bindE (or_empty_dict AttributeErrorC (dict_get d ''capabilities'' JNull)) capabilities_from_dict) (\<lambda>capabilities.
       bindE (bindE (or_empty_dict TypeErrorC (dict_get d ''budget'' JNull)) (budget_from_dict nf)) (\<lambda>budget.
         case dict_get d ''autonomy_tier'' (JStr ''tiered'') of
           JStr tier \<Rightarrow> envelope_create \<lparr>en_goal = jstr show goal, en_done_criteria = criteria, en_capabilities = capabilities,
             en_budget = budget, en_autonomy_tier = tier\<rparr>
         | v \<Rightarrow> raise ValueError (''unknown autonomy tier: '' @ show v))))))
   | _ \<Rightarrow> raise AttributeErrorC ''get'')"

section \<open>Builder\<close>

record repo_reader =
  rr_read_file :: "string \<Rightarrow> string option res"
  rr_exists :: "string \<Rightarrow> bool res"

definition safe_read :: "repo_reader \<Rightarrow> string \<Rightarrow> string" where
  \<comment> \<open>\<open>_safe_read(reader, path) or ""\<close>\<close>
  "safe_read reader path = (case rr_read_file reader path of Inr (Some s) \<Rightarrow> s | _ \<Rightarrow> [])"

definition safe_exists :: "repo_reader \<Rightarrow> string \<Rightarrow> bool" where
  "safe_exists reader path = (case rr_exists reader path of Inr b \<Rightarrow> b | Inl _ \<Rightarrow> False)"

definition NPM_DEFAULT_TEST :: string where
  "NPM_DEFAULT_TEST = ''no test specified''"

definition npm_scripts :: "string \<Rightarrow> jval" where
  \<comment> \<open>\<open>scripts\<close>: an error of parsing or of \<open>get\<close> gives none\<close>
  "npm_scripts package_json = (case json_loads package_json of
     None \<Rightarrow> JDict []
   | Some v \<Rightarrow> (case (if jtruthy v then v else JDict []) of
       JDict d \<Rightarrow> or_value (dict_get d ''scripts'' JNull) (JDict [])
     | _ \<Rightarrow> JDict []))"

definition has_check :: "string \<Rightarrow> command_check list \<Rightarrow> bool" where
  "has_check i checks = list_ex (\<lambda>c. ck_id c = i) checks"

definition npm_checks :: "(jval \<Rightarrow> string) \<Rightarrow> (string, jval) dict \<Rightarrow> command_check list \<Rightarrow> command_check list" where
  "npm_checks show scripts checks =
     (let script = (\<lambda>k. dict_get scripts k JNull);
          test_script = jstr_or_empty show (script ''test'');
          checks = (if test_script \<noteq> [] \<and> \<not> py_contains NPM_DEFAULT_TEST test_script then
              checks @ [if \<not> has_check ''tests'' checks then default_command ''tests'' ''npm test'' ''tests pass''
                else default_command ''npm-tests'' ''npm test'' ''npm tests pass'']
            else checks);
          checks = (if jtruthy (script ''lint'') \<and> \<not> has_check ''lint'' checks
            then checks @ [default_command ''lint'' ''npm run lint'' ''lint is clean''] else checks) in
      if jtruthy (script ''typecheck'') \<and> \<not> has_check ''typecheck'' checks
      then checks @ [default_command ''typecheck'' ''npm run typecheck'' ''type check is clean''] else checks)"

definition python_checks :: "repo_reader \<Rightarrow> command_check list" where
  "python_checks reader =
     (let pyproject = safe_read reader ''pyproject.toml''; ex = safe_exists reader in
      (if py_contains ''[tool.pytest'' pyproject \<or> ex ''pytest.ini'' \<or> py_contains ''[tool:pytest]'' (safe_read reader ''setup.cfg'') \<or>
          py_contains ''[pytest]'' (safe_read reader ''tox.ini'') \<or> ex ''conftest.py''
       then [default_command ''tests'' ''python -m pytest -q'' ''tests pass''] else []) @
      (if py_contains ''[tool.ruff'' pyproject \<or> ex ''ruff.toml'' \<or> ex ''.ruff.toml''
       then [default_command ''lint'' ''ruff check .'' ''lint is clean''] else []) @
      (if py_contains ''[tool.mypy'' pyproject \<or> ex ''mypy.ini''
       then [default_command ''typecheck'' ''mypy .'' ''type check is clean''] else []))"

definition detect_repo_checks :: "(jval \<Rightarrow> string) \<Rightarrow> repo_reader \<Rightarrow> command_check list" where
  "detect_repo_checks show reader =
     (let checks = python_checks reader; package_json = safe_read reader ''package.json'' in
      if package_json = [] then checks
      else case npm_scripts package_json of JDict scripts \<Rightarrow> npm_checks show scripts checks | _ \<Rightarrow> checks)"

definition at_most :: "nat \<Rightarrow> rx \<Rightarrow> rx" where
  \<comment> \<open>\<open>r{0,n}\<close>\<close>
  "at_most n r = ((\<lambda>x. opt (Seq r x)) ^^ n) Eps"

definition CRITERIA_HEADING :: rx where
  "CRITERIA_HEADING = ci (cat [TextStart, Star space, opt (Alt (cat [many1 (chr (CHR ''#'')), Star space]) (lit ''**'')), Star space,
     words [''acceptance criteria'', ''done criteria'', ''definition of done'', ''done when''],
     Star space, opt (lit ''**''), Star space, opt (chr (CHR '':'')), Star space, opt (lit ''**''), Star space, TextEnd])"

definition ANY_HEADING :: rx where
  "ANY_HEADING = cat [TextStart, Star space, alts
     [cat [many1 (chr (CHR ''#'')), spaces, nonspace],
      cat [lit ''**'', many1 (none_of ''*''), lit ''**'', Star space, opt (chr (CHR '':'')), Star space, TextEnd],
      (let r = Ch (\<lambda>c. is_word c \<or> c \<in> set '' /-'') in
       cat [Ch is_upper, r, r, at_most 58 r, chr (CHR '':''), Star space, TextEnd])]]"

definition BULLET_PREFIX :: rx where
  "BULLET_PREFIX = cat [TextStart, Star space, Alt (one_of ''-*+'') (Seq (many1 (Ch is_digit)) (one_of ''.)'')), spaces,
     opt (cat [chr (CHR ''[''), one_of '' xX'', chr (CHR '']''), spaces])]"

definition bullet :: "string \<Rightarrow> string option" where
  \<comment> \<open>\<open>_BULLET.match(line)\<close>, its group\<close>
  "bullet = rx_group BULLET_PREFIX (Seq anychar (LazyStar anychar)) (Seq (Star space) TextEnd)"

definition command_criterion :: "string \<Rightarrow> string option" where
  \<comment> \<open>\<open>_COMMAND_CRITERION.match(text)\<close>, its group\<close>
  "command_criterion = rx_group (Seq TextStart (chr (CHR 0x60))) (many1 (none_of [CHR 0x60]))
     (ci (cat [chr (CHR 0x60), spaces, Alt (words [''passes'', ''pass'', ''succeeds'', ''is clean'', ''is green''])
        (cat [lit ''exits'', spaces, opt (Seq (lit ''with'') spaces), chr (CHR ''0'')]), WordB]))"

definition MAX_CRITERIA :: nat where "MAX_CRITERIA = 20"
definition MAX_GOAL_CHARS :: nat where "MAX_GOAL_CHARS = 400"

definition bullet_criterion :: "string \<Rightarrow> nat \<Rightarrow> nat \<Rightarrow> done_criterion \<times> nat \<times> nat" where
  \<comment> \<open>the criterion of a bullet and the counters after it\<close>
  "bullet_criterion text n_cmd n_ac = (case command_criterion text of
     Some command \<Rightarrow> (Command (default_command (''task-cmd-'' @ py_str_int (int (Suc n_cmd))) (py_strip command) text), Suc n_cmd, n_ac)
   | None \<Rightarrow> (Acceptance \<lparr>ac_id = ''ac-'' @ py_str_int (int (Suc n_ac)), ac_text = text\<rparr>, n_cmd, Suc n_ac))"

fun task_criteria_loop :: "bool \<Rightarrow> nat \<Rightarrow> nat \<Rightarrow> done_criterion list \<Rightarrow> string list \<Rightarrow> done_criterion list" where
  "task_criteria_loop in_section n_cmd n_ac criteria [] = criteria"
| "task_criteria_loop in_section n_cmd n_ac criteria (line # lines) =
     (if rx_match CRITERIA_HEADING line then task_criteria_loop True n_cmd n_ac criteria lines
      else if \<not> in_section then task_criteria_loop False n_cmd n_ac criteria lines
      else case bullet line of
        Some b \<Rightarrow> (case bullet_criterion (py_strip b) n_cmd n_ac of (c, n_cmd, n_ac) \<Rightarrow>
          if MAX_CRITERIA \<le> length (criteria @ [c]) then criteria @ [c]
          else task_criteria_loop True n_cmd n_ac (criteria @ [c]) lines)
      | None \<Rightarrow> task_criteria_loop (\<not> (py_strip line \<noteq> [] \<and> rx_match ANY_HEADING line)) n_cmd n_ac criteria lines)"

definition parse_task_criteria :: "string \<Rightarrow> done_criterion list" where
  "parse_task_criteria task_text = task_criteria_loop False 0 0 [] (splitlines task_text)"

definition goal_from_task :: "string \<Rightarrow> string" where
  "goal_from_task task_text =
     (case filter (\<lambda>t. t \<noteq> []) (map (\<lambda>line. py_strip (lstrip (\<lambda>c. c = CHR ''#'') (py_strip line))) (splitlines task_text)) of
        [] \<Rightarrow> [] | t # _ \<Rightarrow> take MAX_GOAL_CHARS t)"

definition same_command :: "done_criterion \<Rightarrow> done_criterion \<Rightarrow> bool" where
  "same_command c d = (case (c, d) of (Command x, Command y) \<Rightarrow> ck_command x = ck_command y | _ \<Rightarrow> False)"

definition add_criterion :: "done_criterion list \<Rightarrow> done_criterion \<Rightarrow> done_criterion list" where
  "add_criterion criteria c =
     (if list_ex (\<lambda>d. criterion_id d = criterion_id c) criteria \<or> list_ex (same_command c) criteria then criteria else criteria @ [c])"

record build_args =
  ba_repo :: "repo_reader option"
  ba_workspace_root :: string
  ba_extra_criteria :: "done_criterion list"
  ba_test_command :: string
  ba_budget :: "run_budget option"
  ba_autonomy_tier :: "string option"
  ba_tools :: "string list"
  ba_executables :: "string list"
  ba_egress_hosts :: "string list"

definition build_criteria :: "(jval \<Rightarrow> string) \<Rightarrow> string \<Rightarrow> build_args \<Rightarrow> done_criterion list" where
  "build_criteria show task_text a =
     (let base = (if py_strip (ba_test_command a) \<noteq> [] then [Command (default_command ''tests'' (py_strip (ba_test_command a)) ''tests pass'')]
            else case ba_repo a of None \<Rightarrow> [] | Some r \<Rightarrow> map Command (detect_repo_checks show r));
          criteria = foldl add_criterion base (parse_task_criteria task_text @ ba_extra_criteria a) in
      if criteria = [] then [Acceptance \<lparr>ac_id = ''ac-goal'', ac_text = ''The change accomplishes: '' @ goal_from_task task_text\<rparr>]
      else criteria)"

definition build_tier :: "(string \<Rightarrow> string option) \<Rightarrow> string option \<Rightarrow> string" where
  "build_tier env requested =
     (let configured = (case env ''LOCUS_AUTONOMY_TIER'' of Some s \<Rightarrow> (if s \<noteq> [] then s else ''tiered'') | None \<Rightarrow> ''tiered'');
          tier = (case requested of Some t \<Rightarrow> (if t \<noteq> [] then t else py_lower (py_strip configured))
            | None \<Rightarrow> py_lower (py_strip configured)) in
      if tier \<in> set (map fst AUTONOMY_TIERS) then tier else ''tiered'')"

definition build_envelope :: "(jval \<Rightarrow> string) \<Rightarrow> (string \<Rightarrow> string option) \<Rightarrow> string \<Rightarrow> build_args \<Rightarrow> run_envelope res" where
  "build_envelope show env task_text a =
     guardE (goal_from_task task_text \<noteq> []) ValueError ''task text is empty; a run needs a goal''
     (let roots = (if ba_workspace_root a \<noteq> [] then [ba_workspace_root a] else []) in
      bindE (case ba_budget a of Some b \<Rightarrow> Inr b | None \<Rightarrow> budget_from_env env []) (\<lambda>budget.
        envelope_create \<lparr>en_goal = goal_from_task task_text, en_done_criteria = build_criteria show task_text a,
          en_capabilities = \<lparr>ec_tools = ba_tools a, ec_read_roots = roots, ec_write_roots = roots, ec_executables = ba_executables a,
            ec_egress_hosts = ba_egress_hosts a, ec_apps = []\<rparr>,
          en_budget = budget, en_autonomy_tier = build_tier env (ba_autonomy_tier a)\<rparr>))"

section \<open>Sample values\<close>

definition sample_args :: build_args where
  "sample_args = \<lparr>ba_repo = None, ba_workspace_root = ''/w'', ba_extra_criteria = [File \<lparr>fk_id = ''changelog'', fk_path = ''CHANGES'',
       fk_must_exist = True, fk_contains = ''fix'', fk_pattern = [], fk_description = []\<rparr>],
     ba_test_command = ''make test'', ba_budget = None, ba_autonomy_tier = None, ba_tools = DEFAULT_CODING_TOOLS, ba_executables = [],
     ba_egress_hosts = []\<rparr>"

definition sample_run_budget :: run_budget where
  "sample_run_budget = \<lparr>rb_max_steps = Fin 50, rb_max_seconds = Fin 3600, rb_max_tokens = Fin 2000000, rb_max_cost_usd = Fin 5,
     rb_max_actions = Fin 200, rb_max_context_tokens = Fin 0\<rparr>"

definition sample_task :: string where
  "sample_task = py_join [CHR 0x0A] [''# Fix the parser'', ''Done when:'', [CHR ''-'', CHR '' '', CHR 0x60] @ ''make test'' @ [CHR 0x60] @ '' passes'', ''- it reads tabs'']"

definition sample_envelope :: run_envelope where
  "sample_envelope = \<lparr>en_goal = ''Fix the parser'',
     en_done_criteria = [Command (default_command ''tests'' ''make test'' ''tests pass''),
       Acceptance \<lparr>ac_id = ''ac-1'', ac_text = ''it reads tabs''\<rparr>,
       File \<lparr>fk_id = ''changelog'', fk_path = ''CHANGES'', fk_must_exist = True, fk_contains = ''fix'', fk_pattern = [], fk_description = []\<rparr>],
     en_capabilities = \<lparr>ec_tools = DEFAULT_CODING_TOOLS, ec_read_roots = [''/w''], ec_write_roots = [''/w''], ec_executables = [],
       ec_egress_hosts = [], ec_apps = []\<rparr>,
     en_budget = sample_run_budget, en_autonomy_tier = ''tiered''\<rparr>"

definition whole_number :: "pyfloat \<Rightarrow> jval" where
  "whole_number x = JNum (py_str_int (floor_number x))"

section \<open>Facts\<close>

definition envelope_ok :: "run_envelope \<Rightarrow> bool" where
  "envelope_ok e \<longleftrightarrow> py_strip (en_goal e) \<noteq> [] \<and> en_done_criteria e \<noteq> [] \<and> distinct (map criterion_id (en_done_criteria e)) \<and>
     en_autonomy_tier e \<in> set (map fst AUTONOMY_TIERS)"

lemma envelope_create_iff: "envelope_create e = Inr e' \<longleftrightarrow> envelope_ok e \<and> e' = e"
  by (auto simp: envelope_create_def envelope_ok_def guardE_eq_Inr_iff)

definition budget_ok :: "run_budget \<Rightarrow> bool" where
  "budget_ok b \<longleftrightarrow> float_lt (Fin 0) (rb_max_steps b) \<and> float_lt (Fin 0) (rb_max_seconds b) \<and> float_lt (Fin 0) (rb_max_tokens b) \<and>
     float_lt (Fin 0) (rb_max_cost_usd b) \<and> float_lt (Fin 0) (rb_max_actions b)"

lemma run_budget_create_ok: "run_budget_create values = Inr b \<Longrightarrow> budget_ok b"
  by (auto simp: run_budget_create_def budget_ok_def split: option.splits if_splits)

lemma has_check_iff: "has_check i cs \<longleftrightarrow> i \<in> ck_id ` set cs"
  by (auto simp: has_check_def list_ex_iff)

lemma default_command_id [simp]: "ck_id (default_command i c d) = i"
  by (simp add: default_command_def)

lemma python_checks_ids: "distinct (map ck_id (python_checks r))" "ck_id ` set (python_checks r) \<subseteq> {''tests'', ''lint'', ''typecheck''}"
  by (auto simp: python_checks_def Let_def)

lemma npm_checks_ids:
  assumes "distinct (map ck_id cs)" "ck_id ` set cs \<subseteq> {''tests'', ''lint'', ''typecheck''}"
  shows "distinct (map ck_id (npm_checks show scripts cs))"
  using assms by (auto simp: npm_checks_def Let_def has_check_iff)

lemma detect_ids: "distinct (map ck_id (detect_repo_checks show r))"
  using python_checks_ids npm_checks_ids by (auto simp: detect_repo_checks_def Let_def split: jval.splits)

lemma add_criterion_distinct:
  "distinct (map criterion_id cs) \<Longrightarrow> distinct (map criterion_id (add_criterion cs c))"
  by (auto simp: add_criterion_def list_ex_iff)

lemma add_criteria:
  "distinct (map criterion_id cs) \<Longrightarrow> distinct (map criterion_id (foldl add_criterion cs xs))"
  "set cs \<subseteq> set (foldl add_criterion cs xs)"
  "x \<in> set xs \<Longrightarrow> \<exists>c \<in> set (foldl add_criterion cs xs). criterion_id c = criterion_id x \<or> same_command x c"
proof (induction xs arbitrary: cs)
  case (Cons y xs)
  {
    case 1
    then show ?case using Cons(1) add_criterion_distinct by simp
  next
    case 2
    show ?case using Cons(2) [of "add_criterion cs y"] by (auto simp: add_criterion_def split: if_splits)
  next
    case 3
    then show ?case
    proof (cases "x = y")
      case True
      have "\<exists>c \<in> set (add_criterion cs y). criterion_id c = criterion_id y \<or> same_command y c"
        by (auto simp: add_criterion_def list_ex_iff)
      then show ?thesis using Cons(2) [of "add_criterion cs y"] True by auto
    qed (use Cons(3) 3 in auto)
  }
qed auto

lemma build_criteria_ok: "distinct (map criterion_id (build_criteria show t a))" "build_criteria show t a \<noteq> []"
proof -
  have "distinct (map criterion_id (map Command (detect_repo_checks show r)))" for r using detect_ids [of "show" r] by (simp add: comp_def)
  then show "distinct (map criterion_id (build_criteria show t a))"
    unfolding build_criteria_def Let_def by (auto intro!: add_criteria(1) split: option.splits)
  show "build_criteria show t a \<noteq> []" by (simp add: build_criteria_def Let_def)
qed

lemma strip_Nil_iff: "py_strip s = [] \<longleftrightarrow> (\<forall>c \<in> set s. py_isspace c)"
proof -
  have "py_strip s = [] \<longleftrightarrow> (\<forall>c \<in> set (dropWhile py_isspace s). py_isspace c)" by (simp add: py_strip_def rstrip_def lstrip_def)
  also have "\<dots> \<longleftrightarrow> (\<forall>c \<in> set s. py_isspace c)" by (induction s) auto
  finally show ?thesis .
qed

lemma strip_head:
  assumes "py_strip s \<noteq> []"
  shows "\<not> py_isspace (hd (py_strip s))"
proof
  let ?g = "py_strip s"
  assume sp: "py_isspace (hd ?g)"
  obtain c u where g: "?g = c # u" using assms by (cases ?g) auto
  have "length (py_strip ?g) \<le> length (dropWhile py_isspace ?g)" unfolding py_strip_def [of ?g] rstrip_def lstrip_def
    by (metis length_dropWhile_le length_rev)
  also have "\<dots> < length ?g" using sp g length_dropWhile_le [of py_isspace u] by (simp add: le_imp_less_Suc)
  finally show False by simp
qed

lemma goal_nonblank:
  assumes "goal_from_task t \<noteq> []"
  shows "py_strip (goal_from_task t) \<noteq> []"
proof -
  let ?ts = "filter (\<lambda>t. t \<noteq> []) (map (\<lambda>line. py_strip (lstrip (\<lambda>c. c = CHR ''#'') (py_strip line))) (splitlines t))"
  obtain g gs where g: "?ts = g # gs" "goal_from_task t = take MAX_GOAL_CHARS g"
    using assms by (auto simp: goal_from_task_def split: list.splits)
  then have "g \<in> set ?ts" by simp
  then obtain s where "g = py_strip s" "g \<noteq> []" by auto
  then have "\<not> py_isspace (hd g)" using strip_head by blast
  moreover have "hd g \<in> set (goal_from_task t)" using g(2) \<open>g \<noteq> []\<close> by (cases g) (auto simp: MAX_GOAL_CHARS_def)
  ultimately show ?thesis by (auto simp: strip_Nil_iff)
qed

lemma build_tier_known: "build_tier env r \<in> set (map fst AUTONOMY_TIERS)"
  by (simp add: build_tier_def Let_def AUTONOMY_TIERS_def)

subsection \<open>Stored form\<close>

lemma jint_text: "jint nf (JNum (py_str_int i)) = Inr i"
  by (simp add: py_int_str_int)

lemma jstr_or_empty_text: "jstr_or_empty show (JStr s) = s"
  by (simp add: jstr_or_empty_def)

lemma criterion_roundtrip: "criterion_from_dict show nf (criterion_to_dict c) = Inr c"
  by (cases c) (simp_all add: criterion_from_dict_def item_def dict_get_def jstr_or_empty_text py_int_str_int)

lemma criteria_roundtrip: "mapE (criterion_from_dict show nf) (map criterion_to_dict cs) = Inr cs"
  by (induction cs) (simp_all add: criterion_roundtrip)

lemma text_items_jtexts: "text_items (jtexts xs) = Inr xs"
proof -
  have "mapE (\<lambda>x. case x of JStr s \<Rightarrow> Inr s | _ \<Rightarrow> raise TypeErrorC ''not a text'') (map JStr xs) = Inr xs"
    by (induction xs) simp_all
  then show ?thesis by (simp add: text_items_def jtexts_def)
qed

lemma capabilities_roundtrip: "bindE (or_empty_dict AttributeErrorC (capabilities_to_dict c)) capabilities_from_dict = Inr c"
  by (simp add: or_empty_dict_def capabilities_to_dict_def capabilities_from_dict_def text_items_jtexts CAPABILITY_FIELDS_def dict_get_def)

definition prints_number :: "(pyfloat \<Rightarrow> jval) \<Rightarrow> pyfloat \<Rightarrow> pyfloat \<Rightarrow> bool" where
  \<comment> \<open>a printed number is read back, and is printed as zero only if it is\<close>
  "prints_number num nf x \<longleftrightarrow> jnumber nf (num x) = Inr x \<and> (jtruthy (num x) \<longleftrightarrow> x \<noteq> Fin 0)"

definition budget_numbers :: "run_budget \<Rightarrow> pyfloat list" where
  "budget_numbers b = [rb_max_steps b, rb_max_seconds b, rb_max_tokens b, rb_max_cost_usd b, rb_max_actions b, rb_max_context_tokens b]"

lemma budget_roundtrip:
  assumes "budget_ok b" "list_all (prints_number num nf) (budget_numbers b)"
  shows "bindE (or_empty_dict TypeErrorC (budget_to_dict num b)) (budget_from_dict nf) = Inr b"
  using assms
  by (simp add: or_empty_dict_def budget_to_dict_def budget_from_dict_def prints_number_def budget_numbers_def run_budget_create_def
    budget_ok_def BUDGET_DEFAULTS_def budget_field_def dict_get_def)

lemma whole_number_prints: "abs i \<le> 2 ^ 970 \<Longrightarrow> prints_number whole_number nf (Fin (of_int i))"
  by (simp add: prints_number_def whole_number_def floor_number_def py_float_int num_text_nonzero_int)

section \<open>Properties\<close>



text \<open>
  C38: A valid envelope survives being stored: reading back the dictionary it is written as gives the same
  envelope, if the numbers of its budget are printed so that they read back.
\<close>

theorem envelope_roundtrip:
  assumes "envelope_ok e" and "budget_ok (en_budget e)" and "list_all (prints_number num nf) (budget_numbers (en_budget e))"
  shows "envelope_from_dict show nf (envelope_to_dict num e) = Inr e"
  using assms budget_roundtrip [OF assms(2,3)] capabilities_roundtrip [of "en_capabilities e"] criteria_roundtrip [of "show" nf "en_done_criteria e"]
  by (simp add: envelope_from_dict_def envelope_to_dict_def item_def dict_get_def envelope_create_iff envelope_ok_def)

theorem envelope_roundtrip_witness:
  "envelope_from_dict (\<lambda>_. []) NaN (envelope_to_dict whole_number sample_envelope) = Inr sample_envelope"
proof -
  have "envelope_ok sample_envelope" "budget_ok (en_budget sample_envelope)" by code_simp+
  moreover have "list_all (prints_number whole_number NaN) (budget_numbers (en_budget sample_envelope))"
    using whole_number_prints [of 50] whole_number_prints [of 3600] whole_number_prints [of 2000000] whole_number_prints [of 5]
      whole_number_prints [of 200] whole_number_prints [of 0]
    by (simp add: sample_envelope_def sample_run_budget_def budget_numbers_def)
  ultimately show ?thesis by (rule envelope_roundtrip)
qed

text \<open>
  A limit between zero and one in the environment passes the test for a positive number, is cut to zero
  and makes the budget, and with it the builder, raise.
\<close>

theorem fractional_limit_raises:
  "budget_from_env (\<lambda>n. if n = ''LOCUS_RUN_MAX_STEPS'' then Some ''0.5'' else None) [] =
     raise ValueError ''budget max_steps must be positive (budgets are hard stops)''"
proof -
  let ?env = "\<lambda>n. if n = ''LOCUS_RUN_MAX_STEPS'' then Some ''0.5'' else None"
  have half: "py_float ''0.5'' = Some (Fin (1 / 2))"
    by (rule py_float_small [of _ "''0.5''"]) (code_simp, code_simp, code_simp, simp)
  have strip: "py_strip ''0.5'' = ''0.5''" by code_simp
  have "env_number ?env ''LOCUS_RUN_MAX_STEPS'' x = Fin (1 / 2)" for x by (simp add: env_number_def strip half)
  moreover have "env_number ?env n x = x" if "n \<noteq> ''LOCUS_RUN_MAX_STEPS''" for n x using that by (simp add: env_number_def)
  ultimately show ?thesis
    by (simp add: budget_from_env_def Let_def int_of_float_def truncate_rat_def budget_field_def BUDGET_DEFAULTS_def dict_get_def run_budget_create_def)
qed

text \<open>
  A bullet with nothing but spaces after it becomes a criterion without a text.
\<close>

theorem blank_bullet_criterion:
  "parse_task_criteria (''Done when:'' @ [CHR 0x0A] @ ''-   '') = [Acceptance \<lparr>ac_id = ''ac-1'', ac_text = []\<rparr>]"
  by code_simp

end
