(* ===== verification/Coding_Tools.thy ===== *)
theory Coding_Tools
  imports Verification
begin

text \<open>
  \<open>locus_runtime/harness/tools.py\<close> and \<open>harness/workspace.py\<close>: the coding tools and the workspace they
  act on.

  The state of a toolset holds the world behind its executors.  The actions of an executor are
  arguments: they act on the world, labelled with the tool that causes them, and \<open>Ended\<close> stands for
  the \<open>GatewayBlocked\<close> they may raise, which \<open>dispatch\<close> turns into a message.
\<close>

section \<open>Strings\<close>

fun count_from :: "string \<Rightarrow> string \<Rightarrow> nat" where
  "count_from sub [] = 0"
| "count_from sub (c # s) = (if prefix sub (c # s) then Suc (count_from sub (drop (length sub - 1) s)) else count_from sub s)"

definition py_count :: "string \<Rightarrow> string \<Rightarrow> nat" where
  \<comment> \<open>\<open>s.count(sub)\<close>: occurrences that do not overlap\<close>
  "py_count sub s = (if sub = [] then Suc (length s) else count_from sub s)"

fun replace_first :: "string \<Rightarrow> string \<Rightarrow> string \<Rightarrow> string" where
  \<comment> \<open>\<open>s.replace(old, new, 1)\<close>\<close>
  "replace_first old new [] = (if old = [] then new else [])"
| "replace_first old new (c # s) = (if prefix old (c # s) then new @ drop (length old) (c # s) else c # replace_first old new s)"

definition shell_safe :: "char \<Rightarrow> bool" where
  \<comment> \<open>ASCII\<close>
  "shell_safe c \<longleftrightarrow> ord_of c < (128::nat) \<and> (is_word c \<or> c \<in> set ''@%+=:,./-'')"

definition shlex_quote :: "string \<Rightarrow> string" where
  "shlex_quote s =
     (let q = CHR 0x27; d = CHR 0x22 in
      if s = [] then [q, q]
      else if list_all shell_safe s then s
      else q # concat (map (\<lambda>c. if c = q then [q, d, q, d, q] else [c]) s) @ [q])"

definition utf8_char :: "char \<Rightarrow> string" where
  \<comment> \<open>bytes as characters\<close>
  "utf8_char c = (let n = ord_of c in if n < 128 then [c] else [char_of (192 + n div 64), char_of (128 + n mod 64 :: nat)])"

definition utf8 :: "string \<Rightarrow> string" where
  "utf8 s = concat (map utf8_char s)"

fun utf8_ignore :: "string \<Rightarrow> string" where
  \<comment> \<open>\<open>decode("utf-8", "ignore")\<close> of bytes encoded from such text, cut anywhere\<close>
  "utf8_ignore [] = []"
| "utf8_ignore [b] = (if ord_of b < (128::nat) then [b] else [])"
| "utf8_ignore (b # c # s) =
     (if ord_of b < (128::nat) then b # utf8_ignore (c # s)
      else if (194::nat) \<le> ord_of b \<and> ord_of b \<le> (195::nat) \<and> (128::nat) \<le> ord_of c \<and> ord_of c < (192::nat)
      then char_of ((ord_of b - 192) * 64 + (ord_of c - 128) :: nat) # utf8_ignore s
      else utf8_ignore (c # s))"

definition TOOL_OUTPUT_MAX_BYTES :: nat where "TOOL_OUTPUT_MAX_BYTES = 50000"
definition TOOL_OUTPUT_MAX_LINES :: nat where "TOOL_OUTPUT_MAX_LINES = 2000"
definition BASH_TIMEOUT_CEILING :: int where "BASH_TIMEOUT_CEILING = 600"

definition elide_lines :: "string \<Rightarrow> string" where
  "elide_lines text =
     (let rows = splitlines text; head = TOOL_OUTPUT_MAX_LINES * 3 div 5; tail_n = TOOL_OUTPUT_MAX_LINES - head in
      if TOOL_OUTPUT_MAX_LINES < length rows then
        py_join nl (take head rows @ [''[... '' @ nat_digits (length rows - TOOL_OUTPUT_MAX_LINES) @ '' lines elided ...]''] @
          drop (length rows - tail_n) rows)
      else text)"

definition elide_bytes :: "string \<Rightarrow> string" where
  "elide_bytes text =
     (let encoded = utf8 text; head = TOOL_OUTPUT_MAX_BYTES * 3 div 5; tail_n = TOOL_OUTPUT_MAX_BYTES - head in
      if TOOL_OUTPUT_MAX_BYTES < length encoded then
        utf8_ignore (take head encoded) @ nl @ ''[... '' @ nat_digits (length encoded - TOOL_OUTPUT_MAX_BYTES) @ '' bytes elided ...]'' @ nl @
          utf8_ignore (drop (length encoded - tail_n) encoded)
      else text)"

definition truncate_output :: "string \<Rightarrow> string \<times> bool" where
  "truncate_output text =
     (elide_bytes (elide_lines text),
      TOOL_OUTPUT_MAX_LINES < length (splitlines text) \<or> TOOL_OUTPUT_MAX_BYTES < length (utf8 (elide_lines text)))"

section \<open>State\<close>

record coding_telemetry =
  tm_tool_calls_total :: nat
  tm_tool_calls_malformed :: nat
  tm_edits_attempted :: nat
  tm_edits_well_formed :: nat
  tm_edits_applied :: nat
  tm_reasks :: nat
  tm_edit_format_downgrades :: nat
  tm_bash_calls :: nat
  tm_test_runs :: nat
  tm_gateway_denied :: nat
  tm_gateway_asked :: nat

record 'w executor =
  ex_run_shell :: "string \<Rightarrow> string \<Rightarrow> int \<Rightarrow> ('w, gateway_decision, exec_result) act"   \<comment> \<open>the tool, the script, the timeout\<close>
  ex_read_file :: "string \<Rightarrow> string \<Rightarrow> ('w, gateway_decision, string option) act"
  ex_write_file :: "string \<Rightarrow> string \<Rightarrow> string \<Rightarrow> ('w, gateway_decision, unit) act"
  ex_allows :: "(string \<Rightarrow> 'w \<Rightarrow> bool) option"
  ex_workdir :: string

record 'w workspace =
  wk_executor :: "'w executor"
  wk_test_command :: string
  wk_base_ref :: string
  wk_git_executor :: "'w executor option"

record 'w coding_toolset =
  ct_workspace :: "'w workspace"
  ct_bash_timeout :: int
  ct_test_timeout :: int
  ct_downgrade_after :: nat
  ct_max_empty_submit_retries :: nat
  ct_out_of_bounds :: string
  ct_on_escalation :: "(jval \<Rightarrow> ('w, gateway_decision, unit) act) option"
  ct_allow_edits :: bool
  ct_skills :: "(string \<Rightarrow> (string, jval) dict \<Rightarrow> ('w, gateway_decision, string) act) option"
  ct_hmac :: "string \<Rightarrow> string"
  ct_seconds :: "pyfloat \<Rightarrow> string"
  ct_show :: "jval \<Rightarrow> string"
  ct_nonfinite :: pyfloat

record 'w toolset_state =
  ts_world :: 'w
  ts_edit_format :: string
  ts_telemetry :: coding_telemetry
  ts_submitted :: bool
  ts_submission :: "(string, jval) dict option"
  ts_escalations :: "jval list"
  ts_gateway_blocks :: "(string, jval) dict list"
  ts_consecutive_edit_failures :: nat
  ts_failed_submits :: nat

type_synonym ('w, 'a) tool_act = "('w toolset_state, gateway_decision, 'a) act"

definition modS :: "('s \<Rightarrow> 's) \<Rightarrow> ('s, 'e, unit) act" where
  "modS f s = (f s, Ok ())"

definition getS :: "('s \<Rightarrow> 'a) \<Rightarrow> ('s, 'e, 'a) act" where
  "getS f s = (s, Ok (f s))"

definition thenA :: "('s, 'e, 'a) act \<Rightarrow> ('s, 'e, 'b) act \<Rightarrow> ('s, 'e, 'b) act" where
  "thenA m n = bindA m (\<lambda>_. n)"

definition on_world :: "('w, gateway_decision, 'a) act \<Rightarrow> ('w, 'a) tool_act" where
  "on_world m s = (case m (ts_world s) of (w, r) \<Rightarrow> (s\<lparr>ts_world := w\<rparr>, r))"

definition telemetry :: "(coding_telemetry \<Rightarrow> coding_telemetry) \<Rightarrow> ('w, unit) tool_act" where
  "telemetry f = modS (\<lambda>s. s\<lparr>ts_telemetry := f (ts_telemetry s)\<rparr>)"

section \<open>The workspace\<close>

definition git_exec :: "'w workspace \<Rightarrow> 'w executor" where
  "git_exec wk = (case wk_git_executor wk of Some ex \<Rightarrow> ex | None \<Rightarrow> wk_executor wk)"

definition DIFF_EXCLUDES :: "string list" where
  "DIFF_EXCLUDES = map (\<lambda>t. CHR 0x27 # '':(exclude)'' @ t @ [CHR 0x27]) [''**/__pycache__/**'', ''*.pyc'', ''**/*.pyc'', ''.pytest_cache/**'',
     ''**/.pytest_cache/**'', ''**/*.egg-info/**'', ''.mypy_cache/**'']"

definition first_output :: "'w executor \<Rightarrow> string \<Rightarrow> string list \<Rightarrow> ('w, gateway_decision, string) act" where
  \<comment> \<open>of the first command that prints anything\<close>
  "first_output ex tool cmds = foldr (\<lambda>cmd m. bindA (ex_run_shell ex tool cmd 60) (\<lambda>res.
     if py_strip (er_stdout res) \<noteq> [] then ret (er_stdout res) else m)) cmds (ret [])"

definition workspace_diff :: "'w workspace \<Rightarrow> string \<Rightarrow> ('w, gateway_decision, string) act" where
  "workspace_diff wk tool =
     (let ex = git_exec wk; excludes = py_join '' '' DIFF_EXCLUDES; base = (if wk_base_ref wk \<noteq> [] then wk_base_ref wk else ''HEAD'') in
      thenA (ex_run_shell ex tool ''git update-index -q --really-refresh >/dev/null 2>&1 || true'' 60)
        (thenA (ex_run_shell ex tool (''git add -A -- . '' @ excludes) 60)
          (first_output ex tool [''git diff --no-color --cached '' @ base @ '' -- . '' @ excludes,
             ''git diff --no-color --cached -- . '' @ excludes, ''git diff --no-color '' @ base @ '' -- . '' @ excludes,
             ''git diff --no-color -- . '' @ excludes])))"

definition has_uncommitted_changes :: "'w workspace \<Rightarrow> string \<Rightarrow> ('w, gateway_decision, bool) act" where
  "has_uncommitted_changes wk tool =
     bindA (ex_run_shell (git_exec wk) tool ''git status --porcelain --untracked-files=no'' 30) (\<lambda>res. ret (py_strip (er_stdout res) \<noteq> []))"

definition workspace_run_tests :: "'w workspace \<Rightarrow> string \<Rightarrow> string \<Rightarrow> int \<Rightarrow> ('w, gateway_decision, exec_result option) act" where
  "workspace_run_tests wk tool command timeout =
     (let cmd = (if command \<noteq> [] then command else wk_test_command wk) in
      if cmd = [] then ret None else bindA (ex_run_shell (wk_executor wk) tool cmd timeout) (\<lambda>res. ret (Some res)))"

section \<open>Tools\<close>

abbreviation exec_of :: "'w coding_toolset \<Rightarrow> 'w executor" where
  "exec_of t \<equiv> wk_executor (ct_workspace t)"

definition block_record :: "gateway_decision \<Rightarrow> string \<Rightarrow> (string, jval) dict" where
  "block_record d tool = [(''tool'', JStr tool), (''outcome'', JStr (outcome_text (gd_outcome d))), (''action_kind'', JStr (gd_action_kind d)),
     (''target'', JStr (gd_target d)), (''risk'', JStr (risk_label (gd_risk d))), (''reasons'', jtexts (gd_reasons d)),
     (''audit_id'', JStr (gd_audit_id d))]"

definition record_block :: "gateway_decision \<Rightarrow> string \<Rightarrow> 'w toolset_state \<Rightarrow> 'w toolset_state" where
  "record_block d tool s =
     (let m = ts_telemetry s in
      s\<lparr>ts_telemetry := (if gd_outcome d = Ask then m\<lparr>tm_gateway_asked := Suc (tm_gateway_asked m)\<rparr> else m\<lparr>tm_gateway_denied := Suc (tm_gateway_denied m)\<rparr>),
        ts_gateway_blocks := ts_gateway_blocks s @ [block_record d tool]\<rparr>)"

definition blocked_message :: "gateway_decision \<Rightarrow> string \<Rightarrow> ('w, string) tool_act" where
  \<comment> \<open>\<open>_blocked\<close>\<close>
  "blocked_message d tool = thenA (modS (record_block d tool)) (ret (gateway_message d tool))"

definition exec_output :: "'w coding_toolset \<Rightarrow> exec_result \<Rightarrow> string \<Rightarrow> ('w, string option) tool_act" where
  "exec_output t res tool = (case er_gateway res of
     Some d \<Rightarrow> if \<not> allowed (ct_hmac t) d then bindA (blocked_message d tool) (\<lambda>m. ret (Some m)) else ret None
   | None \<Rightarrow> ret None)"

definition unless_blocked :: "'w coding_toolset \<Rightarrow> exec_result \<Rightarrow> string \<Rightarrow> ('w, string) tool_act \<Rightarrow> ('w, string) tool_act" where
  "unless_blocked t res tool m = bindA (exec_output t res tool) (\<lambda>b. case b of Some msg \<Rightarrow> ret msg | None \<Rightarrow> m)"

abbreviation arg :: "(string, jval) dict \<Rightarrow> string \<Rightarrow> jval" where
  "arg args k \<equiv> dict_get args k JNull"

definition arg_int :: "'w coding_toolset \<Rightarrow> (string, jval) dict \<Rightarrow> string \<Rightarrow> int \<Rightarrow> int res" where
  \<comment> \<open>\<open>int(args.get(k) or d)\<close>\<close>
  "arg_int t args k d = (if jtruthy (arg args k) then jint (ct_nonfinite t) (arg args k) else Inr d)"

definition tool_bash :: "'w coding_toolset \<Rightarrow> (string, jval) dict \<Rightarrow> ('w, string) tool_act" where
  "tool_bash t args =
     (let cmd = py_strip (jstr_or_empty (ct_show t) (arg args ''command'')) in
      if cmd = [] then ret (''[error] execute_bash requires a '' @ [CHR 0x27] @ ''command'' @ [CHR 0x27] @ ''.'')
      else thenA (telemetry (\<lambda>m. m\<lparr>tm_bash_calls := Suc (tm_bash_calls m)\<rparr>))
        (bindA (liftE (arg_int t args ''timeout'' (ct_bash_timeout t))) (\<lambda>requested.
         bindA (on_world (ex_run_shell (exec_of t) ''execute_bash'' cmd (max 1 (min requested BASH_TIMEOUT_CEILING)))) (\<lambda>res.
           unless_blocked t res ''execute_bash'' (ret (fst (truncate_output (combined (ct_seconds t) res))))))))"

definition search_command :: "bool \<Rightarrow> int \<Rightarrow> string \<Rightarrow> string \<Rightarrow> string" where
  "search_command rg max_results query path =
     (if rg then ''rg --line-number --no-heading --color=never --max-count='' @ py_str_int max_results @ '' -- '' @ shlex_quote query @ '' '' @ shlex_quote path
      else ''grep -rn --max-count='' @ py_str_int max_results @ '' -- '' @ shlex_quote query @ '' '' @ shlex_quote path @ '' 2>/dev/null || true'')"

definition tool_search :: "'w coding_toolset \<Rightarrow> (string, jval) dict \<Rightarrow> ('w, string) tool_act" where
  "tool_search t args =
     (let query = jstr_or_empty (ct_show t) (arg args ''query'');
          path = (if jtruthy (arg args ''path'') then jstr (ct_show t) (arg args ''path'') else ''.'') in
      if query = [] then ret (''[error] search requires a '' @ [CHR 0x27] @ ''query'' @ [CHR 0x27] @ ''.'')
      else bindA (liftE (arg_int t args ''max_results'' 50)) (\<lambda>max_results.
        bindA (on_world (ex_run_shell (exec_of t) ''search'' ''command -v rg >/dev/null 2>&1 && echo yes || echo no'' 15)) (\<lambda>probe.
          unless_blocked t probe ''search''
            (bindA (on_world (ex_run_shell (exec_of t) ''search''
               (search_command (endswith (py_strip (er_stdout probe)) ''yes'') max_results query path) 60)) (\<lambda>res.
             unless_blocked t res ''search'' (ret (fst (truncate_output (if er_stdout res \<noteq> [] then er_stdout res else ''(no matches)'')))))))))"

definition tool_run_tests :: "'w coding_toolset \<Rightarrow> (string, jval) dict \<Rightarrow> ('w, string) tool_act" where
  "tool_run_tests t args =
     thenA (telemetry (\<lambda>m. m\<lparr>tm_test_runs := Suc (tm_test_runs m)\<rparr>))
       (bindA (on_world (workspace_run_tests (ct_workspace t) ''run_tests'' (jstr_or_empty (ct_show t) (arg args ''test_command'')) (ct_test_timeout t))) (\<lambda>r.
          case r of
            None \<Rightarrow> ret ''[error] no test command configured for this workspace.''
          | Some res \<Rightarrow> unless_blocked t res ''run_tests'' (ret (fst (truncate_output (combined (ct_seconds t) res))))))"

definition empty_diff :: "string \<Rightarrow> ('w, bool) tool_act" where
  \<comment> \<open>no diff although edits were applied\<close>
  "empty_diff diff = getS (\<lambda>s. py_strip diff = [] \<and> 0 < tm_edits_applied (ts_telemetry s))"

definition diff_again :: "'w coding_toolset \<Rightarrow> string \<Rightarrow> ('w, string) tool_act" where
  \<comment> \<open>an exception of either call keeps the first diff\<close>
  "diff_again t diff s =
     (case on_world (bindA (has_uncommitted_changes (ct_workspace t) ''submit'') (\<lambda>changed.
              if changed then workspace_diff (ct_workspace t) ''submit'' else ret diff)) s of
        (s, Ok d) \<Rightarrow> (s, Ok d)
      | (s, _) \<Rightarrow> (s, Ok diff))"

definition reject_empty :: "'w coding_toolset \<Rightarrow> string \<Rightarrow> ('w, bool) tool_act" where
  "reject_empty t diff = bindA (empty_diff diff) (\<lambda>e.
     if e then thenA (modS (\<lambda>s. s\<lparr>ts_failed_submits := Suc (ts_failed_submits s)\<rparr>))
       (getS (\<lambda>s. ts_failed_submits s \<le> ct_max_empty_submit_retries t))
     else ret False)"

definition empty_diff_message :: "'w toolset_state \<Rightarrow> string" where
  "empty_diff_message s = (let q = [CHR 0x27] in ''Submit rejected: the workspace diff is EMPTY despite '' @
     nat_digits (tm_edits_applied (ts_telemetry s)) @ '' applied edit(s). Your changes may not have '' @
     ''persisted. Run execute_bash '' @ q @ ''git --no-pager diff'' @ q @ '' to check, re-apply the edit '' @
     ''with str_replace_editor if it is missing, then call submit again.'')"

definition tool_submit :: "'w coding_toolset \<Rightarrow> (string, jval) dict \<Rightarrow> ('w, string) tool_act" where
  "tool_submit t args =
     bindA (on_world (workspace_diff (ct_workspace t) ''submit'')) (\<lambda>diff.
     bindA (bindA (empty_diff diff) (\<lambda>e. if e then diff_again t diff else ret diff)) (\<lambda>diff.
     bindA (reject_empty t diff) (\<lambda>rejected.
       if rejected then getS empty_diff_message
       else thenA (modS (\<lambda>s. s\<lparr>ts_submitted := True, ts_submission := Some [(''answer'', JStr (jstr_or_empty (ct_show t) (arg args ''answer''))),
              (''patch'', JStr diff), (''regression_tests'', or_value (arg args ''regression_tests'') (JList []))]\<rparr>))
         (ret (''Submission recorded. Workspace diff:'' @ nl @ fst (truncate_output (if diff \<noteq> [] then diff else ''(no changes)'')))))))"

section \<open>The editor\<close>

abbreviation has_arg :: "(string, jval) dict \<Rightarrow> string \<Rightarrow> bool" where
  "has_arg args k \<equiv> map_of args k \<noteq> None"

definition with_view_range :: "(string, jval) dict \<Rightarrow> (string, jval) dict" where
  "with_view_range args =
     (if \<not> has_arg args ''view_range'' \<and> (has_arg args ''line_start'' \<or> has_arg args ''line_end'') then
        (let start = dict_get args ''line_start'' (JNum ''1'') in
         AList.update ''view_range'' (JList [start, dict_get args ''line_end'' start]) args)
      else args)"

definition with_file_text :: "(string, jval) dict \<Rightarrow> (string, jval) dict" where
  "with_file_text args =
     (if has_arg args ''file_text'' then args
      else case List.find (has_arg args) [''content'', ''text'', ''new_file_text''] of
        Some k \<Rightarrow> AList.update ''file_text'' (arg args k) args
      | None \<Rightarrow> args)"

definition with_command :: "(jval \<Rightarrow> string) \<Rightarrow> (string, jval) dict \<Rightarrow> (string, jval) dict" where
  "with_command show args =
     (if py_strip (jstr_or_empty show (arg args ''command'')) = [] then
        AList.update ''command'' (JStr (
          if arg args ''old_str'' \<noteq> JNull then ''str_replace''
          else if arg args ''file_text'' \<noteq> JNull then ''create''
          else if arg args ''insert_line'' \<noteq> JNull \<and> arg args ''new_str'' \<noteq> JNull then ''insert''
          else ''view'')) args
      else args)"

definition normalize_editor_args :: "(jval \<Rightarrow> string) \<Rightarrow> (string, jval) dict \<Rightarrow> (string, jval) dict" where
  "normalize_editor_args show args = with_command show (with_file_text (with_view_range args))"

definition apostrophed :: "string \<Rightarrow> string" where
  "apostrophed s = CHR 0x27 # s @ [CHR 0x27]"

definition bounds_message :: "'w coding_toolset \<Rightarrow> string \<Rightarrow> string" where
  "bounds_message t path =
     (let where_text = apostrophed path @ '' is outside your bound workspace ('' @ ex_workdir (exec_of t) @ ''). '' in
      if ct_out_of_bounds t = ''deny'' then ''[denied] '' @ where_text @ ''Work only within the workspace you were assigned.''
      else ''[permission required] '' @ where_text @
        ''You may only work in the assigned workspace. To touch this path, the change must be '' @
        ''approved by the human and the path granted to the workspace. Proceed within bounds, '' @ ''or stop and request access.'')"

definition check_bounds :: "'w coding_toolset \<Rightarrow> string \<Rightarrow> ('w, string option) tool_act" where
  "check_bounds t path = bindA (getS ts_world) (\<lambda>w.
     case ex_allows (exec_of t) of
       None \<Rightarrow> ret None
     | Some allows \<Rightarrow>
         if ct_out_of_bounds t = ''allow'' \<or> allows path w then ret None
         else
           (let request = JDict [(''path'', JStr path), (''workspace_root'', JStr (ex_workdir (exec_of t))), (''policy'', JStr (ct_out_of_bounds t))] in
            thenA (modS (\<lambda>s. s\<lparr>ts_escalations := ts_escalations s @ [request]\<rparr>))
              (thenA (case ct_on_escalation t of None \<Rightarrow> ret () | Some f \<Rightarrow> on_world (f request)) (ret (Some (bounds_message t path))))))"

definition read_path :: "'w coding_toolset \<Rightarrow> string \<Rightarrow> ('w, string option) tool_act" where
  "read_path t path = on_world (ex_read_file (exec_of t) ''str_replace_editor'' path)"

definition write_path :: "'w coding_toolset \<Rightarrow> string \<Rightarrow> string \<Rightarrow> ('w, unit) tool_act" where
  "write_path t path text = on_world (ex_write_file (exec_of t) ''str_replace_editor'' path text)"

definition edit_attempted :: "('w, unit) tool_act" where
  "edit_attempted = telemetry (\<lambda>m. m\<lparr>tm_edits_attempted := Suc (tm_edits_attempted m)\<rparr>)"

definition edit_applied :: "('w, unit) tool_act" where
  "edit_applied = thenA (telemetry (\<lambda>m. m\<lparr>tm_edits_well_formed := Suc (tm_edits_well_formed m), tm_edits_applied := Suc (tm_edits_applied m)\<rparr>))
     (modS (\<lambda>s. s\<lparr>ts_consecutive_edit_failures := 0\<rparr>))"

definition note_edit_failure :: "'w coding_toolset \<Rightarrow> ('w, unit) tool_act" where
  "note_edit_failure t = modS (\<lambda>s.
     (let n = Suc (ts_consecutive_edit_failures s); s = s\<lparr>ts_consecutive_edit_failures := n\<rparr>; m = ts_telemetry s in
      if ts_edit_format s = ''search-replace'' \<and> ct_downgrade_after t \<le> n
      then s\<lparr>ts_edit_format := ''whole-file'', ts_telemetry := m\<lparr>tm_edit_format_downgrades := Suc (tm_edit_format_downgrades m)\<rparr>\<rparr>
      else s))"

text \<open>Characters are 8 bits wide; the dash in the two hints below is written as its UTF-8 bytes.\<close>

definition downgrade_hint :: "string \<Rightarrow> string" where
  "downgrade_hint edit_format = (if edit_format = ''whole-file''
     then '' Edits are failing repeatedly '' @ [CHR 0xE2, CHR 0x80, CHR 0x94] @ '' use str_replace_editor with command '' @ apostrophed ''create'' @
       '' to rewrite the whole file instead.''
     else [])"

definition nearest_hint :: "string \<Rightarrow> string \<Rightarrow> string" where
  "nearest_hint content old_str =
     (let first = (if py_strip old_str \<noteq> [] then hd (splitlines (py_strip old_str)) else []) in
      if first \<noteq> [] \<and> py_contains first content
      then ''A line containing '' @ apostrophed (take 60 first) @ '' exists '' @ [CHR 0xE2, CHR 0x80, CHR 0x94] @ '' re-check exact whitespace.''
      else ''No close match found; view the file first.'')"

definition edit_failed :: "'w coding_toolset \<Rightarrow> (string \<Rightarrow> string) \<Rightarrow> ('w, string) tool_act" where
  \<comment> \<open>the message may use the edit format after the failure\<close>
  "edit_failed t msg = thenA (note_edit_failure t) (getS (\<lambda>s. msg (ts_edit_format s)))"

definition number_lines :: "string list \<Rightarrow> int \<Rightarrow> int \<Rightarrow> string" where
  "number_lines rows start end_n = py_join nl (map (\<lambda>i. (let d = py_str_int i in replicate (6 - length d) (CHR '' '') @ d) @ [CHR 0x09] @ rows ! nat (i - 1))
     [start..end_n])"

definition view_bounds :: "'w coding_toolset \<Rightarrow> jval \<Rightarrow> int \<Rightarrow> (int \<times> int) res" where
  "view_bounds t view_range n = (case view_range of
     JList [a, b] \<Rightarrow> bindE (jint (ct_nonfinite t) a) (\<lambda>a. bindE (jint (ct_nonfinite t) b) (\<lambda>b. Inr (max 1 a, min n b)))
   | _ \<Rightarrow> Inr (1, n))"

definition editor_view :: "'w coding_toolset \<Rightarrow> (string, jval) dict \<Rightarrow> string \<Rightarrow> ('w, string) tool_act" where
  "editor_view t args path = bindA (read_path t path) (\<lambda>content.
     case content of
       None \<Rightarrow> ret (''[error] file not found: '' @ path)
     | Some text \<Rightarrow>
         (let rows = splitlines text in
          bindA (liftE (view_bounds t (arg args ''view_range'') (int (length rows)))) (\<lambda>(start, end_n).
            ret (fst (truncate_output (number_lines rows start end_n))))))"

definition editor_create :: "'w coding_toolset \<Rightarrow> (string, jval) dict \<Rightarrow> string \<Rightarrow> ('w, string) tool_act" where
  "editor_create t args path =
     (let file_text = arg args ''file_text''; text = jstr (ct_show t) file_text in
      if file_text = JNull then ret (''[error] '' @ apostrophed ''create'' @ '' requires '' @ apostrophed ''file_text'' @ ''.'')
      else thenA edit_attempted (thenA (write_path t path text) (thenA edit_applied
        (ret (''File written: '' @ path @ '' ('' @ nat_digits (length (splitlines text)) @ '' lines).'')))))"

definition replace_once :: "'w coding_toolset \<Rightarrow> (string, jval) dict \<Rightarrow> string \<Rightarrow> string \<Rightarrow> string \<Rightarrow> ('w, string) tool_act" where
  \<comment> \<open>in the text of the file\<close>
  "replace_once t args path old_str content =
     (let n = py_count old_str content in
      if n = 0 then edit_failed t (\<lambda>fmt. ''[error] old_str not found in '' @ path @ ''. '' @ nearest_hint content old_str @ downgrade_hint fmt)
      else if 1 < n then edit_failed t (\<lambda>fmt. ''[error] old_str is ambiguous ('' @ nat_digits n @ '' occurrences) in '' @ path @
          ''; include more surrounding context so it matches exactly once.'' @ downgrade_hint fmt)
      else thenA (write_path t path (replace_first old_str (jstr (ct_show t) (dict_get args ''new_str'' (JStr []))) content))
        (thenA edit_applied (ret (''Edit applied to '' @ path @ ''.''))))"

definition str_replace :: "'w coding_toolset \<Rightarrow> (string, jval) dict \<Rightarrow> string \<Rightarrow> ('w, string) tool_act" where
  "str_replace t args path = thenA edit_attempted
     (case arg args ''old_str'' of
        JNull \<Rightarrow> edit_failed t (\<lambda>_. ''[error] '' @ apostrophed ''str_replace'' @ '' requires '' @ apostrophed ''old_str'' @ ''.'')
      | old \<Rightarrow> bindA (read_path t path) (\<lambda>content. case content of
          None \<Rightarrow> edit_failed t (\<lambda>_. ''[error] file not found: '' @ path)
        | Some body \<Rightarrow> (case old of
            JStr old_str \<Rightarrow> replace_once t args path old_str body
          | _ \<Rightarrow> liftE (raise TypeErrorC ''must be str''))))"

definition insert_lines :: "string \<Rightarrow> int \<Rightarrow> string \<Rightarrow> string" where
  "insert_lines text insert_line new_text =
     (let rows = splitlines text; idx = nat (max 0 (min (int (length rows)) insert_line)) in
      py_join nl (take idx rows @ splitlines new_text @ drop idx rows) @ nl)"

definition editor_insert :: "'w coding_toolset \<Rightarrow> (string, jval) dict \<Rightarrow> string \<Rightarrow> ('w, string) tool_act" where
  "editor_insert t args path = thenA edit_attempted
     (if arg args ''new_str'' = JNull \<or> arg args ''insert_line'' = JNull
      then edit_failed t (\<lambda>_. ''[error] '' @ apostrophed ''insert'' @ '' requires '' @ apostrophed ''new_str'' @ '' and '' @ apostrophed ''insert_line'' @ ''.'')
      else bindA (read_path t path) (\<lambda>content. case content of
          None \<Rightarrow> edit_failed t (\<lambda>_. ''[error] file not found: '' @ path)
        | Some text \<Rightarrow>
            (let new_text = jstr (ct_show t) (arg args ''new_str'') in
             bindA (liftE (jint (ct_nonfinite t) (arg args ''insert_line''))) (\<lambda>insert_line.
               thenA (write_path t path (insert_lines text insert_line new_text))
                 (thenA edit_applied (ret (''Inserted '' @ nat_digits (length (splitlines new_text)) @ '' line(s) into '' @ path @ ''.'')))))))"

definition editor_command :: "'w coding_toolset \<Rightarrow> (string, jval) dict \<Rightarrow> string \<Rightarrow> string \<Rightarrow> ('w, string) tool_act" where
  "editor_command t args command path =
     (if command = ''view'' then editor_view t args path
      else if command = ''create'' then editor_create t args path
      else if command = ''str_replace'' then str_replace t args path
      else if command = ''insert'' then editor_insert t args path
      else ret (''[error] unknown editor command: '' @ command))"

definition editor :: "'w coding_toolset \<Rightarrow> (string, jval) dict \<Rightarrow> ('w, string) tool_act" where
  "editor t args0 =
     (let args = normalize_editor_args (ct_show t) args0;
          command = jstr_or_empty (ct_show t) (arg args ''command''); path = jstr_or_empty (ct_show t) (arg args ''path'') in
      if path = [] then ret (''[error] str_replace_editor requires '' @ apostrophed ''path'' @ ''.'')
      else if \<not> ct_allow_edits t \<and> command \<noteq> ''view'' then
        ret (''[denied] this agent is read-only (analysis mode): only '' @ ''str_replace_editor '' @ apostrophed ''view'' @
          '' is allowed. Report findings via submit; '' @ ''do not modify files.'')
      else bindA (check_bounds t path) (\<lambda>b. case b of Some msg \<Rightarrow> ret msg | None \<Rightarrow> editor_command t args command path))"

section \<open>Dispatch\<close>

definition SKILL_TOOL_NAMES :: "string list" where
  "SKILL_TOOL_NAMES = [''use_skill'', ''run_skill_script'']"

definition skill_tool :: "(string \<Rightarrow> (string, jval) dict \<Rightarrow> ('w, gateway_decision, string) act) \<Rightarrow> string \<Rightarrow> (string, jval) dict \<Rightarrow> ('w, string) tool_act" where
  "skill_tool skills name args = bindA (on_world (skills name args)) (\<lambda>out.
     thenA (telemetry (\<lambda>m. if startswith out ''[permission required]'' then m\<lparr>tm_gateway_asked := Suc (tm_gateway_asked m)\<rparr>
         else if startswith out ''[denied by policy]'' then m\<lparr>tm_gateway_denied := Suc (tm_gateway_denied m)\<rparr> else m)) (ret out))"

definition dispatch_tool :: "'w coding_toolset \<Rightarrow> string \<Rightarrow> (string, jval) dict \<Rightarrow> ('w, string) tool_act" where
  \<comment> \<open>\<open>_dispatch\<close>\<close>
  "dispatch_tool t name args =
     (if name = ''submit'' then tool_submit t args
      else if name = ''execute_bash'' then tool_bash t args
      else if name = ''search'' then tool_search t args
      else if name = ''str_replace_editor'' then editor t args
      else if name = ''run_tests'' then tool_run_tests t args
      else case ct_skills t of
        Some skills \<Rightarrow> if name \<in> set SKILL_TOOL_NAMES then skill_tool skills name args else ret (''[error] unknown tool: '' @ name)
      | None \<Rightarrow> ret (''[error] unknown tool: '' @ name))"

definition dispatch :: "'w coding_toolset \<Rightarrow> string \<Rightarrow> (string, jval) dict \<Rightarrow> 'w toolset_state \<Rightarrow> 'w toolset_state \<times> string res" where
  "dispatch t name args s =
     (case dispatch_tool t name args s of
        (s, Ok out) \<Rightarrow> (s, Inr out)
      | (s, Raised x) \<Rightarrow> (s, Inl x)
      | (s, Ended d) \<Rightarrow> (record_block d name s, Inr (gateway_message d name)))"

section \<open>Reasoning about actions\<close>

definition hoareA :: "('s \<Rightarrow> bool) \<Rightarrow> ('s, 'e, 'a) act \<Rightarrow> ('a \<Rightarrow> 's \<Rightarrow> bool) \<Rightarrow> ('s \<Rightarrow> bool) \<Rightarrow> bool" where
  \<comment> \<open>a return establishes the third argument, an exception or an end the last\<close>
  "hoareA P m Q E \<longleftrightarrow> (\<forall>s. P s \<longrightarrow> (case m s of (s', Ok x) \<Rightarrow> Q x s' | (s', _) \<Rightarrow> E s'))"

abbreviation keeps :: "('s \<Rightarrow> bool) \<Rightarrow> ('s, 'e, 'a) act \<Rightarrow> bool" where
  "keeps P m \<equiv> hoareA P m (\<lambda>_. P) P"

named_theorems hoare \<open>rules for actions\<close>

lemma hoare_bind: "hoareA P m R E \<Longrightarrow> (\<And>x. hoareA (R x) (f x) Q E) \<Longrightarrow> hoareA P (bindA m f) Q E"
  unfolding hoareA_def bindA_def by (fastforce split: prod.splits flow.splits)

lemma hoare_then: "hoareA P m (\<lambda>_. R) E \<Longrightarrow> hoareA R n Q E \<Longrightarrow> hoareA P (thenA m n) Q E"
  unfolding thenA_def by (rule hoare_bind)

lemma keeps_bind [hoare]: "keeps P m \<Longrightarrow> (\<And>x. keeps P (f x)) \<Longrightarrow> keeps P (bindA m f)"
  by (rule hoare_bind)

lemma keeps_then [hoare]: "keeps P m \<Longrightarrow> keeps P n \<Longrightarrow> keeps P (thenA m n)"
  by (rule hoare_then)

lemma hoare_ret: "(\<And>s. P s \<Longrightarrow> Q x s) \<Longrightarrow> hoareA P (ret x) Q E"
  by (simp add: hoareA_def ret_def)

lemma hoare_mod: "(\<And>s. P s \<Longrightarrow> Q () (f s)) \<Longrightarrow> hoareA P (modS f) Q E"
  by (simp add: hoareA_def modS_def)

lemma hoare_get: "(\<And>s. P s \<Longrightarrow> Q (f s) s) \<Longrightarrow> hoareA P (getS f) Q E"
  by (simp add: hoareA_def getS_def)

lemma hoare_lift: "(\<And>s x. P s \<Longrightarrow> Q x s) \<Longrightarrow> (\<And>s. P s \<Longrightarrow> E s) \<Longrightarrow> hoareA P (liftE r) Q E"
  by (simp add: hoareA_def liftE_def split: sum.splits)

lemma hoare_pre: "hoareA P' m Q E \<Longrightarrow> (\<And>s. P s \<Longrightarrow> P' s) \<Longrightarrow> hoareA P m Q E"
  by (simp add: hoareA_def)

lemma hoare_conseq: "hoareA P' m Q' E' \<Longrightarrow> (\<And>s. P s \<Longrightarrow> P' s) \<Longrightarrow> (\<And>x s. Q' x s \<Longrightarrow> Q x s) \<Longrightarrow> (\<And>s. E' s \<Longrightarrow> E s) \<Longrightarrow> hoareA P m Q E"
  unfolding hoareA_def by (fastforce split: prod.splits flow.splits)

lemma hoare_world: "(\<And>s w. P s \<Longrightarrow> P (s\<lparr>ts_world := w\<rparr>)) \<Longrightarrow> keeps P (on_world m)"
  by (auto simp: hoareA_def on_world_def split: prod.splits flow.splits)

lemma hoareD: "hoareA P m Q E \<Longrightarrow> P s \<Longrightarrow> m s = (s', r) \<Longrightarrow> (case r of Ok x \<Rightarrow> Q x s' | _ \<Rightarrow> E s')"
  unfolding hoareA_def by (drule spec [of _ s]) (simp split: flow.splits)

section \<open>The state of a toolset\<close>

definition blocks_ok :: "'w toolset_state \<Rightarrow> bool" where
  "blocks_ok s \<longleftrightarrow> length (ts_gateway_blocks s) \<le> tm_gateway_asked (ts_telemetry s) + tm_gateway_denied (ts_telemetry s)"

definition submission_ok :: "'w toolset_state \<Rightarrow> bool" where
  "submission_ok s \<longleftrightarrow> (ts_submitted s \<longrightarrow> (\<exists>d answer patch. ts_submission s = Some d \<and> map_of d ''answer'' = Some (JStr answer) \<and> map_of d ''patch'' = Some (JStr patch)))"

definition format_ok :: "'w coding_toolset \<Rightarrow> 'w toolset_state \<Rightarrow> bool" where
  "format_ok t s \<longleftrightarrow> tm_edit_format_downgrades (ts_telemetry s) \<le> 1 \<and>
     (ts_edit_format s = ''search-replace'' \<longrightarrow> tm_edit_format_downgrades (ts_telemetry s) = 0 \<and> ts_consecutive_edit_failures s < max 1 (ct_downgrade_after t))"

definition edits_ok :: "nat \<Rightarrow> 'w toolset_state \<Rightarrow> bool" where
  \<comment> \<open>with a number of edits under way\<close>
  "edits_ok n s \<longleftrightarrow> tm_edits_applied (ts_telemetry s) = tm_edits_well_formed (ts_telemetry s) \<and>
     tm_edits_applied (ts_telemetry s) + n \<le> tm_edits_attempted (ts_telemetry s)"

definition toolset_ok :: "'w coding_toolset \<Rightarrow> nat \<Rightarrow> 'w toolset_state \<Rightarrow> bool" where
  "toolset_ok t n s \<longleftrightarrow> blocks_ok s \<and> submission_ok s \<and> format_ok t s \<and> edits_ok n s"

lemmas toolset_ok_defs = toolset_ok_def blocks_ok_def submission_ok_def format_ok_def edits_ok_def

lemma toolset_ok_under_way: "toolset_ok t (Suc n) s \<Longrightarrow> toolset_ok t n s"
  by (simp add: toolset_ok_defs)

lemma world_keeps [hoare]: "keeps (toolset_ok t n) (on_world m)"
  by (rule hoare_world) (simp add: toolset_ok_defs)

lemma ret_keeps [hoare]: "keeps P (ret x)" "keeps P (getS f)" "keeps P (liftE r)" "keeps P (empty_diff d)"
  unfolding empty_diff_def by (simp_all add: hoare_ret hoare_get hoare_lift)

lemma counters_keep [hoare]:
  "keeps (toolset_ok t n) (telemetry (\<lambda>m. m\<lparr>tm_bash_calls := f m\<rparr>))"
  "keeps (toolset_ok t n) (telemetry (\<lambda>m. m\<lparr>tm_test_runs := f m\<rparr>))"
  "keeps (toolset_ok t n) (modS (\<lambda>s. s\<lparr>ts_failed_submits := g s\<rparr>))"
  "keeps (toolset_ok t n) (modS (\<lambda>s. s\<lparr>ts_escalations := e s\<rparr>))"
  "keeps (toolset_ok t n) (modS (record_block d tool))"
  unfolding telemetry_def by (auto intro!: hoare_mod simp: toolset_ok_defs record_block_def Let_def)

lemma note_failure_keeps [hoare]: "keeps (toolset_ok t n) (note_edit_failure t)"
  unfolding note_edit_failure_def by (rule hoare_mod) (auto simp: toolset_ok_defs Let_def)

lemma attempted_hoare: "hoareA (toolset_ok t n) edit_attempted (\<lambda>_. toolset_ok t (Suc n)) (toolset_ok t n)"
  unfolding edit_attempted_def telemetry_def by (rule hoare_mod) (auto simp: toolset_ok_defs)

lemma applied_hoare: "hoareA (toolset_ok t (Suc n)) edit_applied (\<lambda>_. toolset_ok t n) (toolset_ok t n)"
  unfolding edit_applied_def telemetry_def thenA_def by (rule hoare_bind [OF hoare_mod hoare_mod]) (auto simp: toolset_ok_defs)

lemma blocked_keeps [hoare]: "keeps (toolset_ok t n) (blocked_message d tool)"
  unfolding blocked_message_def by (intro hoare)

lemma exec_output_keeps [hoare]: "keeps (toolset_ok t n) (exec_output t' res tool)"
  unfolding exec_output_def by (auto intro!: hoare split: option.split)

lemma unless_blocked_keeps [hoare]: "keeps (toolset_ok t n) m \<Longrightarrow> keeps (toolset_ok t n) (unless_blocked t' res tool m)"
  unfolding unless_blocked_def by (intro hoare) (auto intro!: hoare split: option.split)

lemma tool_bash_keeps: "keeps (toolset_ok t 0) (tool_bash t args)"
  unfolding tool_bash_def Let_def by (auto intro!: hoare)

lemma tool_search_keeps: "keeps (toolset_ok t 0) (tool_search t args)"
  unfolding tool_search_def Let_def by (auto intro!: hoare)

lemma tool_run_tests_keeps: "keeps (toolset_ok t 0) (tool_run_tests t args)"
  unfolding tool_run_tests_def by (auto intro!: hoare split: option.split)

lemma diff_again_keeps [hoare]: "keeps (toolset_ok t n) (diff_again t' d)"
  using world_keeps [of t n] unfolding hoareA_def diff_again_def by (fastforce split: prod.splits flow.splits)

lemma reject_empty_keeps [hoare]: "keeps (toolset_ok t n) (reject_empty t' d)"
  unfolding reject_empty_def by (auto intro!: hoare)

lemma submit_keeps [hoare]:
  "keeps (toolset_ok t n) (modS (\<lambda>s. s\<lparr>ts_submitted := True, ts_submission := Some [(''answer'', JStr a), (''patch'', JStr p), r]\<rparr>))"
  by (rule hoare_mod) (auto simp: toolset_ok_defs)

lemma tool_submit_keeps: "keeps (toolset_ok t 0) (tool_submit t args)"
  unfolding tool_submit_def by (auto intro!: hoare)

lemma edit_failed_hoare: "hoareA (toolset_ok t (Suc n)) (edit_failed t msg) (\<lambda>_. toolset_ok t n) (toolset_ok t n)"
proof -
  have "keeps (toolset_ok t (Suc n)) (edit_failed t msg)" unfolding edit_failed_def by (intro hoare)
  then show ?thesis by (rule hoare_conseq) (simp_all add: toolset_ok_under_way)
qed

lemma world_under_way: "hoareA (toolset_ok t (Suc n)) (on_world m) (\<lambda>_. toolset_ok t (Suc n)) (toolset_ok t n)"
  by (rule hoare_conseq [OF world_keeps [of t "Suc n"]]) (simp_all add: toolset_ok_under_way)

lemma write_under_way:
  "hoareA (toolset_ok t (Suc n)) (thenA (write_path t' path text) (thenA edit_applied (ret msg))) (\<lambda>_. toolset_ok t n) (toolset_ok t n)"
  unfolding write_path_def by (intro hoare_then [OF world_under_way] hoare_then [OF applied_hoare] ret_keeps)

lemma raise_under_way: "hoareA (toolset_ok t (Suc n)) (liftE r) (\<lambda>_. toolset_ok t (Suc n)) (toolset_ok t n)"
  by (rule hoare_lift) (simp_all add: toolset_ok_under_way)

lemma raise_under_way': "hoareA (toolset_ok t (Suc n)) (liftE r) (\<lambda>_. toolset_ok t n) (toolset_ok t n)"
  by (rule hoare_lift) (simp_all add: toolset_ok_under_way)

lemmas under_way = edit_failed_hoare write_under_way raise_under_way'

lemma editor_create_keeps: "keeps (toolset_ok t 0) (editor_create t args path)"
  unfolding editor_create_def Let_def
  by (auto intro!: ret_keeps hoare_then [OF attempted_hoare] write_under_way)

lemma str_replace_keeps: "keeps (toolset_ok t 0) (str_replace t args path)"
  unfolding str_replace_def replace_once_def read_path_def Let_def
  by (rule hoare_then [OF attempted_hoare])
    (auto intro!: under_way hoare_bind [OF world_under_way] split: jval.split option.split)

lemma editor_insert_keeps: "keeps (toolset_ok t 0) (editor_insert t args path)"
  unfolding editor_insert_def read_path_def Let_def
  by (rule hoare_then [OF attempted_hoare])
    (auto intro!: under_way hoare_bind [OF world_under_way] hoare_bind [OF raise_under_way] split: option.split)

lemma editor_view_keeps: "keeps (toolset_ok t 0) (editor_view t args path)"
  unfolding editor_view_def read_path_def Let_def by (auto intro!: hoare split: option.split)

lemma check_bounds_keeps: "keeps (toolset_ok t 0) (check_bounds t path)"
  unfolding check_bounds_def Let_def by (auto intro!: hoare split: option.split)

lemma editor_keeps: "keeps (toolset_ok t 0) (editor t args)"
  unfolding editor_def editor_command_def Let_def
  by (auto intro!: hoare_bind [OF check_bounds_keeps] editor_view_keeps editor_create_keeps str_replace_keeps editor_insert_keeps ret_keeps
      split: option.split)

lemma skill_tool_keeps: "keeps (toolset_ok t 0) (skill_tool skills name args)"
  unfolding skill_tool_def telemetry_def by (rule keeps_bind [OF world_keeps keeps_then [OF hoare_mod ret_keeps(1)]]) (auto simp: toolset_ok_defs)

lemma dispatch_tool_keeps: "keeps (toolset_ok t 0) (dispatch_tool t name args)"
  unfolding dispatch_tool_def
  by (auto intro!: tool_submit_keeps tool_bash_keeps tool_search_keeps editor_keeps tool_run_tests_keeps skill_tool_keeps ret_keeps split: option.split)

lemma dispatch_toolset_ok:
  assumes "toolset_ok t 0 s"
  shows "toolset_ok t 0 (fst (dispatch t name args s))"
proof (cases "dispatch_tool t name args s")
  case (Pair s' r)
  have "toolset_ok t 0 s'" using hoareD [OF dispatch_tool_keeps assms Pair] by (simp split: flow.splits)
  then show ?thesis using Pair by (auto simp: dispatch_def toolset_ok_defs record_block_def Let_def split: flow.splits)
qed

section \<open>Exact edits\<close>

lemma count_from_zero: "old \<noteq> [] \<Longrightarrow> count_from old s = 0 \<Longrightarrow> \<not> py_contains old s"
  by (induction old s rule: count_from.induct) (auto split: if_splits)

lemma count_one_replaces:
  assumes "old \<noteq> []" "count_from old body = 1"
  shows "\<exists>before_t after_t. body = before_t @ old @ after_t \<and> \<not> py_contains old after_t \<and>
    (\<forall>i < length before_t. \<not> prefix old (drop i body)) \<and> (\<forall>new. replace_first old new body = before_t @ new @ after_t)"
  using assms
proof (induction old body rule: count_from.induct)
  case (2 old c s)
  show ?case
  proof (cases "prefix old (c # s)")
    case True
    then obtain after_t where a: "c # s = old @ after_t" by (auto simp: prefix_def)
    then have d: "drop (length old - 1) s = after_t" using "2.prems"(1) by (cases old) auto
    have "\<not> py_contains old after_t" using "2.prems" True count_from_zero [of old after_t] by (simp add: d [simplified])
    moreover have "drop (length old) (c # s) = after_t" using a by simp
    then have "replace_first old new (c # s) = new @ after_t" for new using True by simp
    ultimately show ?thesis using a by (intro exI [of _ "[]"] exI [of _ after_t]) simp
  next
    case False
    then have "count_from old s = 1" using "2.prems" by simp
    from "2.IH"(2) [OF False "2.prems"(1) this] obtain b a where IH: "s = b @ old @ a" "\<not> py_contains old a"
      "\<forall>i < length b. \<not> prefix old (drop i s)" "\<forall>new. replace_first old new s = b @ new @ a" by blast
    have "\<forall>i < length (c # b). \<not> prefix old (drop i (c # s))"
    proof (intro allI impI)
      fix i assume "i < length (c # b)"
      then show "\<not> prefix old (drop i (c # s))" using False IH(3) by (cases i) auto
    qed
    moreover have "\<forall>new. replace_first old new (c # s) = (c # b) @ new @ a" using False IH(4) by simp
    ultimately show ?thesis using IH(1,2) by (intro exI [of _ "c # b"] exI [of _ a]) simp
  qed
qed simp

definition with_file_access :: "(string \<Rightarrow> string \<Rightarrow> ('w, gateway_decision, string option) act) \<Rightarrow> (string \<Rightarrow> string \<Rightarrow> string \<Rightarrow> ('w, gateway_decision, unit) act)
    \<Rightarrow> 'w coding_toolset \<Rightarrow> 'w coding_toolset" where
  \<comment> \<open>the same toolset over an executor that reads and writes files in another way\<close>
  "with_file_access rd wr t = t\<lparr>ct_workspace := (ct_workspace t)\<lparr>wk_executor := (exec_of t)\<lparr>ex_read_file := rd, ex_write_file := wr\<rparr>,
     wk_git_executor := Some (git_exec (ct_workspace t))\<rparr>\<rparr>"

lemma with_file_access_simps [simp]:
  "ex_run_shell (exec_of (with_file_access rd wr t)) = ex_run_shell (exec_of t)"
  "git_exec (ct_workspace (with_file_access rd wr t)) = git_exec (ct_workspace t)"
  "ct_allow_edits (with_file_access rd wr t) = ct_allow_edits t" "ct_show (with_file_access rd wr t) = ct_show t"
  "ct_hmac (with_file_access rd wr t) = ct_hmac t" "ct_seconds (with_file_access rd wr t) = ct_seconds t"
  "ct_skills (with_file_access rd wr t) = ct_skills t" "ct_nonfinite (with_file_access rd wr t) = ct_nonfinite t"
  "ct_bash_timeout (with_file_access rd wr t) = ct_bash_timeout t" "ct_test_timeout (with_file_access rd wr t) = ct_test_timeout t"
  "ct_out_of_bounds (with_file_access rd wr t) = ct_out_of_bounds t" "ct_on_escalation (with_file_access rd wr t) = ct_on_escalation t"
  "ct_max_empty_submit_retries (with_file_access rd wr t) = ct_max_empty_submit_retries t"
  "wk_test_command (ct_workspace (with_file_access rd wr t)) = wk_test_command (ct_workspace t)"
  "wk_base_ref (ct_workspace (with_file_access rd wr t)) = wk_base_ref (ct_workspace t)"
  "ex_allows (exec_of (with_file_access rd wr t)) = ex_allows (exec_of t)" "ex_workdir (exec_of (with_file_access rd wr t)) = ex_workdir (exec_of t)"
  "ex_read_file (exec_of (with_file_access rd wr t)) = rd"
  by (simp_all add: with_file_access_def git_exec_def)

lemma workspace_same [simp]:
  "workspace_diff (ct_workspace (with_file_access rd wr t)) = workspace_diff (ct_workspace t)"
  "has_uncommitted_changes (ct_workspace (with_file_access rd wr t)) = has_uncommitted_changes (ct_workspace t)"
  "workspace_run_tests (ct_workspace (with_file_access rd wr t)) = workspace_run_tests (ct_workspace t)"
  unfolding fun_eq_iff workspace_diff_def has_uncommitted_changes_def workspace_run_tests_def with_file_access_simps by simp_all

lemma blocked_same [simp]: "unless_blocked (with_file_access rd wr t) = unless_blocked t"
  unfolding fun_eq_iff unless_blocked_def exec_output_def with_file_access_simps by simp

lemma bounds_same [simp]: "check_bounds (with_file_access rd wr t) = check_bounds t"
  unfolding fun_eq_iff check_bounds_def bounds_message_def with_file_access_simps by simp

lemma tools_same:
  "tool_bash (with_file_access rd wr t) = tool_bash t" "tool_search (with_file_access rd wr t) = tool_search t"
  "tool_run_tests (with_file_access rd wr t) = tool_run_tests t" "tool_submit (with_file_access rd wr t) = tool_submit t"
  unfolding fun_eq_iff tool_bash_def tool_search_def tool_run_tests_def tool_submit_def diff_again_def reject_empty_def arg_int_def
    with_file_access_simps workspace_same blocked_same by simp_all

lemma view_same: "editor_view (with_file_access (ex_read_file (exec_of t)) wr t) = editor_view t"
  unfolding fun_eq_iff editor_view_def read_path_def view_bounds_def with_file_access_simps by simp

lemma on_world_telemetry: "on_world m s = (s', r) \<Longrightarrow> ts_telemetry s' = ts_telemetry s"
  by (auto simp: on_world_def split: prod.splits)

lemma edit_failed_telemetry: "edit_failed t msg s = (s', Ok out) \<Longrightarrow> tm_edits_applied (ts_telemetry s') = tm_edits_applied (ts_telemetry s)"
  by (auto simp: edit_failed_def thenA_def bindA_Ok_iff note_edit_failure_def modS_def getS_def Let_def)

lemma attempted_telemetry: "tm_edits_applied (ts_telemetry (fst (edit_attempted s))) = tm_edits_applied (ts_telemetry s)"
  by (simp add: edit_attempted_def telemetry_def modS_def)

lemma after_attempt: "thenA edit_attempted m s = m (fst (edit_attempted s))"
  by (simp add: thenA_def bindA_def edit_attempted_def telemetry_def modS_def)

lemma str_replace_cases:
  assumes "str_replace t args path s = (s', Ok msg)" "arg args ''old_str'' = JStr old"
    and "tm_edits_applied (ts_telemetry s') \<noteq> tm_edits_applied (ts_telemetry s)"
  obtains s1 s2 body where "read_path t path (fst (edit_attempted s)) = (s1, Ok (Some body))" "py_count old body = 1"
    "write_path t path (replace_first old (jstr (ct_show t) (dict_get args ''new_str'' (JStr []))) body) s1 = (s2, Ok ())"
proof -
  from assms(1) obtain s1 content where r: "read_path t path (fst (edit_attempted s)) = (s1, Ok content)"
    and c: "(case content of None \<Rightarrow> edit_failed t (\<lambda>_. ''[error] file not found: '' @ path)
        | Some body \<Rightarrow> replace_once t args path old body) s1 = (s', Ok msg)"
    unfolding str_replace_def after_attempt assms(2) jval.case bindA_Ok_iff by blast
  have same: "tm_edits_applied (ts_telemetry s1) = tm_edits_applied (ts_telemetry s)"
    using on_world_telemetry [OF r [unfolded read_path_def]] by (simp add: attempted_telemetry)
  have no: "edit_failed t f s1 \<noteq> (s', Ok msg)" for f using edit_failed_telemetry [of t f s1 s' msg] same assms(3) by auto
  obtain body where b: "content = Some body" using c no by (cases content) auto
  have n: "py_count old body = 1" using c no unfolding b replace_once_def by (auto simp: Let_def split: if_splits)
  moreover obtain s2 where "write_path t path (replace_first old (jstr (ct_show t) (dict_get args ''new_str'' (JStr []))) body) s1 = (s2, Ok ())"
    using c n unfolding b replace_once_def by (auto simp: Let_def thenA_def bindA_Ok_iff)
  ultimately show thesis using r b that by blast
qed

section \<open>Sample values\<close>

definition sample_executor :: "string executor" where
  \<comment> \<open>the world is the text of the one file\<close>
  "sample_executor = \<lparr>ex_run_shell = (\<lambda>_ _ _ w. (w, Ok (sample_exec 0))), ex_read_file = (\<lambda>_ _ w. (w, Ok (Some w))),
     ex_write_file = (\<lambda>_ _ text _. (text, Ok ())), ex_allows = Some (\<lambda>path _. path = ''a.py''), ex_workdir = ''/w''\<rparr>"

definition sample_toolset :: "string coding_toolset" where
  "sample_toolset = \<lparr>ct_workspace = \<lparr>wk_executor = sample_executor, wk_test_command = [], wk_base_ref = [], wk_git_executor = None\<rparr>,
     ct_bash_timeout = 60, ct_test_timeout = 600, ct_downgrade_after = 2, ct_max_empty_submit_retries = 2, ct_out_of_bounds = ''ask'',
     ct_on_escalation = None, ct_allow_edits = True, ct_skills = None, ct_hmac = (\<lambda>x. x), ct_seconds = (\<lambda>_. ''1''), ct_show = (\<lambda>_. []), ct_nonfinite = NaN\<rparr>"

definition new_telemetry :: coding_telemetry where
  "new_telemetry = \<lparr>tm_tool_calls_total = 0, tm_tool_calls_malformed = 0, tm_edits_attempted = 0, tm_edits_well_formed = 0, tm_edits_applied = 0,
     tm_reasks = 0, tm_edit_format_downgrades = 0, tm_bash_calls = 0, tm_test_runs = 0, tm_gateway_denied = 0, tm_gateway_asked = 0\<rparr>"

definition new_toolset_state :: "'w \<Rightarrow> 'w toolset_state" where
  "new_toolset_state w = \<lparr>ts_world = w, ts_edit_format = ''search-replace'', ts_telemetry = new_telemetry, ts_submitted = False, ts_submission = None,
     ts_escalations = [], ts_gateway_blocks = [], ts_consecutive_edit_failures = 0, ts_failed_submits = 0\<rparr>"

definition replace_args :: "string \<Rightarrow> jval \<Rightarrow> (string, jval) dict" where
  "replace_args old new = [(''command'', JStr ''str_replace''), (''path'', JStr ''a.py''), (''old_str'', JStr old), (''new_str'', new)]"

section \<open>Properties\<close>





text \<open>
  C19: An exact edit.  A \<open>str_replace\<close> that counts as applied read the file and wrote it back with one
  occurrence of the old text replaced: the first one, after which the old text does not occur again.
  Everything before and after it is as it was.
\<close>

theorem str_replace_exact:
  assumes "str_replace t args path s = (s', Ok msg)" "arg args ''old_str'' = JStr old" "old \<noteq> []"
    and "tm_edits_applied (ts_telemetry s') \<noteq> tm_edits_applied (ts_telemetry s)"
  shows "\<exists>s1 s2 before_t after_t. read_path t path (fst (edit_attempted s)) = (s1, Ok (Some (before_t @ old @ after_t))) \<and>
    (\<forall>i < length before_t. \<not> prefix old (drop i (before_t @ old @ after_t))) \<and> \<not> py_contains old after_t \<and>
    write_path t path (before_t @ jstr (ct_show t) (dict_get args ''new_str'' (JStr [])) @ after_t) s1 = (s2, Ok ())"
proof -
  from str_replace_cases [OF assms(1,2,4)] obtain s1 s2 body where r: "read_path t path (fst (edit_attempted s)) = (s1, Ok (Some body))"
    and n: "py_count old body = 1"
    and w: "write_path t path (replace_first old (jstr (ct_show t) (dict_get args ''new_str'' (JStr []))) body) s1 = (s2, Ok ())" .
  from n assms(3) have "count_from old body = 1" by (simp add: py_count_def)
  from count_one_replaces [OF assms(3) this] r w show ?thesis by metis
qed

theorem str_replace_exact_witness:
  "\<exists>s1 s2 before_t after_t. read_path sample_toolset ''a.py'' (fst (edit_attempted (new_toolset_state ''abc''))) = (s1, Ok (Some (before_t @ ''b'' @ after_t))) \<and>
    list_all (\<lambda>i. \<not> prefix ''b'' (drop i (before_t @ ''b'' @ after_t))) [0..<length before_t] \<and> \<not> py_contains ''b'' after_t \<and>
    write_path sample_toolset ''a.py'' (before_t @ ''xy'' @ after_t) s1 = (s2, Ok ())"
proof -
  let ?r = "str_replace sample_toolset (replace_args ''b'' (JStr ''xy'')) ''a.py'' (new_toolset_state ''abc'')"
  have "\<exists>s' msg. ?r = (s', Ok msg) \<and> tm_edits_applied (ts_telemetry s') = 1"
    by (simp add: str_replace_def replace_once_def replace_args_def sample_toolset_def sample_executor_def new_toolset_state_def new_telemetry_def thenA_def bindA_def
        edit_attempted_def telemetry_def modS_def dict_get_def read_path_def write_path_def on_world_def py_count_def edit_applied_def ret_def)
  then obtain s' msg where "?r = (s', Ok msg)" "tm_edits_applied (ts_telemetry s') = 1" by blast
  from str_replace_exact [OF this(1), of "''b''"] this(2) show ?thesis
    by (simp add: replace_args_def dict_get_def new_toolset_state_def new_telemetry_def list_all_iff Ball_def)
qed

text \<open>
  The count does not see occurrences that overlap, so an old text that matches in two places is taken for
  unique and the first is replaced; and a replacement of \<open>null\<close>, which passes validation, writes the word None.
\<close>

theorem overlapping_match_is_edited:
  "prefix ''aa'' ''aaa'' \<and> prefix ''aa'' (drop 1 ''aaa'') \<and>
   ts_world (fst (dispatch sample_toolset ''str_replace_editor'' (replace_args ''aa'' (JStr ''b'')) (new_toolset_state ''aaa''))) = ''ba''"
  by code_simp

theorem null_replacement_writes_None:
  "ts_world (fst (dispatch sample_toolset ''str_replace_editor'' (replace_args ''b'' JNull) (new_toolset_state ''abc''))) = ''aNonec''"
  by code_simp

end
