(* ===== verification/Enforcement.thy ===== *)
theory Enforcement
  imports Coding_Tools
begin

text \<open>
  \<open>locus_runtime/harness/enforcement.py\<close>, the names and schemas of the tools in \<open>harness/tools.py\<close> and
  \<open>harness/verified_loop.py\<close>, and the renaming of tool calls in \<open>harness/loop.py\<close>: what happens to a
  tool call of the model before it is executed.

  The messages of the JSON decoder are an argument.
\<close>

section \<open>Schemas\<close>

definition json_type :: "string \<Rightarrow> (string \<times> jval) list \<Rightarrow> jval" where
  "json_type t extra = JDict ((''type'', JStr t) # extra)"

definition described_as :: "string \<Rightarrow> (string \<times> jval) list" where
  "described_as d = [(''description'', JStr d)]"

definition tool_schema :: "string \<Rightarrow> string \<Rightarrow> (string \<times> jval) list \<Rightarrow> (string \<times> jval) list \<Rightarrow> jval" where
  "tool_schema name description properties extra = JDict [(''type'', JStr ''function''), (''function'', JDict [(''name'', JStr name),
     (''description'', JStr description), (''parameters'', json_type ''object'' ((''properties'', JDict properties) # extra))])]"

definition editor_description :: "string \<Rightarrow> string" where
  "editor_description edit_format =
     ''View, create, or edit a file. Commands: '' @ apostrophed ''view'' @ '' (show file with line numbers; '' @
     ''optional view_range [start,end]); '' @ apostrophed ''create'' @ '' (write file_text to a new file); '' @
     apostrophed ''str_replace'' @ '' (replace the UNIQUE occurrence of old_str with new_str '' @ [CHR 0xE2, CHR 0x80, CHR 0x94] @ '' old_str '' @
     ''must match exactly once including whitespace); '' @ apostrophed ''insert'' @ '' (insert new_str after '' @ ''insert_line).'' @
     (if edit_format = ''whole-file'' then '' NOTE: prefer '' @ apostrophed ''create'' @ '' to rewrite the entire file when edits are difficult.'' else [])"

definition tool_schemas :: "string \<Rightarrow> jval list" where
  "tool_schemas edit_format =
     [tool_schema ''execute_bash'' ''Run a shell command in the repository working directory.''
        [(''command'', json_type ''string'' (described_as ''Shell command to run.'')), (''timeout'', json_type ''integer'' (described_as ''Seconds (default 60).''))]
        [(''required'', jtexts [''command''])],
      tool_schema ''search'' ''Search file contents for a query string (ripgrep semantics).''
        [(''query'', json_type ''string'' []), (''path'', json_type ''string'' (described_as (''Dir or file (default '' @ apostrophed ''.'' @ '').''))),
         (''max_results'', json_type ''integer'' [])]
        [(''required'', jtexts [''query''])],
      tool_schema ''str_replace_editor'' (editor_description edit_format)
        [(''command'', json_type ''string'' [(''enum'', jtexts [''view'', ''create'', ''str_replace'', ''insert''])]), (''path'', json_type ''string'' []),
         (''old_str'', json_type ''string'' []), (''new_str'', json_type ''string'' []), (''file_text'', json_type ''string'' []),
         (''insert_line'', json_type ''integer'' []), (''view_range'', json_type ''array'' [(''items'', json_type ''integer'' [])])]
        [(''required'', jtexts [''path''])],
      tool_schema ''run_tests'' ''Run the repository test command and return verbatim output.''
        [(''test_command'', json_type ''string'' (described_as ''Override command.''))] [],
      tool_schema ''submit'' (''Submit your final answer once the work is complete and tests pass. '' @ ''Call exactly once.'')
        [(''answer'', json_type ''string'' []), (''regression_tests'', json_type ''array'' ((''items'', json_type ''string'' []) #
           described_as ''Optional test commands that verify the fix.''))] []]"

definition PLAN_TOOL :: string where "PLAN_TOOL = ''update_plan''"
definition BLOCKER_TOOL :: string where "BLOCKER_TOOL = ''report_blocker''"
definition SUBMIT_TOOL :: string where "SUBMIT_TOOL = ''submit''"

definition loop_tool_schemas :: "jval list" where
  "loop_tool_schemas =
     [tool_schema PLAN_TOOL (''Record or revise your plan: the steps you will take and, for '' @
        ''each done criterion id, how you will verify it. Call this first, and again '' @ ''whenever the plan changes.'')
        [(''steps'', json_type ''array'' [(''items'', json_type ''string'' [])]),
         (''verification'', json_type ''array'' (described_as ''One entry per done criterion.'' @ [(''items'', json_type ''object'' [(''properties'',
            JDict [(''criterion_id'', json_type ''string'' []), (''method'', json_type ''string'' [])])])])),
         (''note'', json_type ''string'' (described_as ''Why the plan changed.''))]
        [(''required'', jtexts [''steps''])],
      tool_schema BLOCKER_TOOL (''Stop and report that the run cannot be completed: a done '' @
        ''criterion is ambiguous or contradictory, a required tool or access is '' @
        ''missing, or the gateway denied something essential. Say exactly what would '' @ ''unblock it.'')
        [(''kind'', json_type ''string'' [(''enum'', jtexts [''ambiguous_criteria'', ''missing_tool'', ''missing_access'', ''other''])]),
         (''blocker'', json_type ''string'' []), (''unblock'', json_type ''string'' [])]
        [(''required'', jtexts [''blocker'', ''unblock''])]]"

definition schema_name :: "jval \<Rightarrow> jval" where
  \<comment> \<open>\<open>(tool.get("function") or {}).get("name")\<close>\<close>
  "schema_name tool = jget (jget tool ''function'') ''name''"

definition add_schema :: "jval \<Rightarrow> (string, jval) dict \<Rightarrow> (string, jval) dict" where
  \<comment> \<open>the tools are named by texts\<close>
  "add_schema tool out = (case schema_name tool of
     JStr name \<Rightarrow> if name \<noteq> [] then AList.update name (or_value (jget (jget tool ''function'') ''parameters'') (JDict [])) out else out
   | _ \<Rightarrow> out)"

definition schema_by_name :: "jval list \<Rightarrow> (string, jval) dict" where
  "schema_by_name tools = fold add_schema tools []"

section \<open>Validation\<close>

definition is_int_text :: "string \<Rightarrow> bool" where
  \<comment> \<open>a number that JSON reads as an integer\<close>
  "is_int_text t = (py_int t \<noteq> None)"

definition has_type :: "string \<Rightarrow> jval \<Rightarrow> bool" where
  \<comment> \<open>\<open>isinstance(value, _PY_TYPES[expected])\<close>; a truth value is an integer\<close>
  "has_type expected v \<longleftrightarrow>
     (if expected = ''string'' then case v of JStr _ \<Rightarrow> True | _ \<Rightarrow> False
      else if expected = ''integer'' then case v of JNum t \<Rightarrow> is_int_text t | JBool _ \<Rightarrow> True | _ \<Rightarrow> False
      else if expected = ''number'' then case v of JNum _ \<Rightarrow> True | JNonFinite \<Rightarrow> True | JBool _ \<Rightarrow> True | _ \<Rightarrow> False
      else if expected = ''boolean'' then case v of JBool _ \<Rightarrow> True | _ \<Rightarrow> False
      else if expected = ''array'' then case v of JList _ \<Rightarrow> True | _ \<Rightarrow> False
      else if expected = ''object'' then case v of JDict _ \<Rightarrow> True | _ \<Rightarrow> False
      else True)"

fun type_name :: "jval \<Rightarrow> string" where
  "type_name JNull = ''NoneType''"
| "type_name (JBool _) = ''bool''"
| "type_name (JNum t) = (if is_int_text t then ''int'' else ''float'')"
| "type_name JNonFinite = ''float''"
| "type_name (JStr _) = ''str''"
| "type_name (JList _) = ''list''"
| "type_name (JDict _) = ''dict''"
| "type_name JOpaque = ''object''"

definition isdigit_char :: "char \<Rightarrow> bool" where
  \<comment> \<open>\<open>str.isdigit\<close> counts superscripts\<close>
  "isdigit_char c \<longleftrightarrow> is_digit c \<or> ord_of c \<in> {178, 179, 185 :: nat}"

definition looks_integer :: "string \<Rightarrow> bool" where
  \<comment> \<open>\<open>value.lstrip("-").isdigit()\<close>\<close>
  "looks_integer s = (let d = lstrip (\<lambda>c. c = CHR ''-'') s in d \<noteq> [] \<and> list_all isdigit_char d)"

type_synonym checked_args = "string + (string, jval) dict"   \<comment> \<open>\<open>Inl\<close> the reason why the call is refused\<close>

definition mistyped :: "(string, jval) dict \<Rightarrow> string \<Rightarrow> string \<Rightarrow> jval \<Rightarrow> checked_args res" where
  \<comment> \<open>an argument that is not of the type expected\<close>
  "mistyped args key expected value =
     (let refused = (\<lambda>suffix. Inr (Inl (''argument '' @ apostrophed key @ '' should be '' @ expected @ suffix))) in
      case value of
        JStr s \<Rightarrow>
          if expected = ''integer'' \<and> looks_integer s then
            (case py_int s of Some n \<Rightarrow> Inr (Inr (AList.update key (JNum (py_str_int n)) args)) | None \<Rightarrow> raise ValueError ''invalid literal for int()'')
          else refused '', got str''
      | JBool b \<Rightarrow> if expected = ''number'' then refused [] else refused '', got bool''
      | _ \<Rightarrow> refused ('', got '' @ type_name value))"

definition check_argument :: "(string, jval) dict \<Rightarrow> checked_args \<Rightarrow> string \<times> jval \<Rightarrow> checked_args res" where
  "check_argument props acc kv = (case (acc, kv) of
     (Inl reason, _) \<Rightarrow> Inr (Inl reason)
   | (Inr args, (key, value)) \<Rightarrow>
       (let spec = dict_get props key JNull in
        if \<not> jtruthy spec then Inr (Inr args)
        else case jget spec ''type'' of
          JStr expected \<Rightarrow> if value = JNull \<or> has_type expected value then Inr (Inr args) else mistyped args key expected value
        | _ \<Rightarrow> Inr (Inr args)))"

definition missing_argument :: "(string, jval) dict \<Rightarrow> jval \<Rightarrow> string option" where
  \<comment> \<open>the first required argument that is not there or is empty\<close>
  "missing_argument args schema = List.find (\<lambda>k. arg args k \<in> {JNull, JStr []})
     (case jget schema ''required'' of JList ks \<Rightarrow> List.map_filter (\<lambda>k. case k of JStr t \<Rightarrow> Some t | _ \<Rightarrow> None) ks | _ \<Rightarrow> [])"

definition parse_arguments :: "(jval \<Rightarrow> string) \<Rightarrow> jval \<Rightarrow> checked_args" where
  "parse_arguments json_error raw = (case raw of
     JDict d \<Rightarrow> Inr d
   | JNull \<Rightarrow> Inr []
   | JStr t \<Rightarrow>
       if t = [] then Inr []
       else (case json_loads t of
           Some (JDict d) \<Rightarrow> Inr d
         | Some _ \<Rightarrow> Inl ''arguments must be a JSON object''
         | None \<Rightarrow> Inl (''arguments are not valid JSON: '' @ json_error raw))
   | _ \<Rightarrow> Inl (''arguments are not valid JSON: '' @ json_error raw))"

definition validate_tool_call :: "(jval \<Rightarrow> string) \<Rightarrow> string \<Rightarrow> jval \<Rightarrow> (string, jval) dict \<Rightarrow> checked_args res" where
  "validate_tool_call json_error name raw schemas = (case map_of schemas name of
     None \<Rightarrow> Inr (Inl (''unknown tool '' @ apostrophed name))
   | Some schema \<Rightarrow> (case parse_arguments json_error raw of
       Inl reason \<Rightarrow> Inr (Inl reason)
     | Inr args \<Rightarrow> (case missing_argument args schema of
         Some key \<Rightarrow> Inr (Inl (''missing required argument '' @ apostrophed key))
       | None \<Rightarrow> foldE (check_argument (case jget schema ''properties'' of JDict d \<Rightarrow> d | _ \<Rightarrow> [])) (Inr args) args)))"

definition reask_tool_message :: "string \<Rightarrow> string \<Rightarrow> string \<Rightarrow> jval" where
  "reask_tool_message tool_call_id name reason = JDict [(''role'', JStr ''tool''), (''tool_call_id'', JStr tool_call_id),
     (''content'', JStr (''[invalid tool call to '' @ apostrophed name @ '': '' @ reason @ ''] Re-issue the call with corrected arguments.''))]"

definition constraint_kwargs :: "string \<Rightarrow> jval list \<Rightarrow> (string, jval) dict" where
  \<comment> \<open>the first argument is \<open>profile.structured_output\<close>\<close>
  "constraint_kwargs mode tools =
     (if tools = [] \<or> mode = ''none'' then []
      else if mode = ''xgrammar'' then [(''extra_body'', JDict [(''guided_decoding_backend'', JStr ''xgrammar'')])]
      else if mode = ''gbnf'' then [(''extra_body'', JDict [(''guided_decoding_backend'', JStr ''outlines'')])]
      else [])"

section \<open>Names\<close>

definition EDITOR_SUBCOMMANDS :: "string list" where
  "EDITOR_SUBCOMMANDS = [''view'', ''create'', ''str_replace'', ''insert'']"

definition TOOL_NAME_ALIASES :: "(string, string) dict" where
  "TOOL_NAME_ALIASES = [(''bash'', ''execute_bash''), (''shell'', ''execute_bash''), (''run_bash'', ''execute_bash''), (''run_command'', ''execute_bash''),
     (''grep'', ''search''), (''find'', ''search''), (''edit'', ''str_replace_editor''), (''edit_file'', ''str_replace_editor''),
     (''view_file'', ''str_replace_editor''), (''open_file'', ''str_replace_editor''), (''finish'', ''submit''), (''done'', ''submit'')]"

definition fold_subcommand :: "string \<Rightarrow> jval \<Rightarrow> jval" where
  "fold_subcommand name args = (case args of
     JDict d \<Rightarrow> if has_arg d ''command'' then args else JDict (d @ [(''command'', JStr name)])
   | _ \<Rightarrow> args)"

definition normalize_tool_name :: "string \<Rightarrow> jval \<Rightarrow> string \<times> jval" where
  "normalize_tool_name name raw =
     (if name \<in> set EDITOR_SUBCOMMANDS then
        (case raw of
           JStr t \<Rightarrow>
             if py_strip t = [] then (''str_replace_editor'', fold_subcommand name (JDict []))
             else (case json_loads t of None \<Rightarrow> (name, raw) | Some v \<Rightarrow> (''str_replace_editor'', fold_subcommand name v))
         | _ \<Rightarrow> (''str_replace_editor'', fold_subcommand name raw))
      else (dict_get TOOL_NAME_ALIASES name name, raw))"

definition to_json :: "(jval \<Rightarrow> string) \<Rightarrow> jval \<Rightarrow> string" where
  \<comment> \<open>a value with a number that is not finite prints as the argument says\<close>
  "to_json show v = (case json_text v of Some t \<Rightarrow> t | None \<Rightarrow> show v)"

section \<open>What a valid call is\<close>

definition schema_type :: "jval \<Rightarrow> string \<Rightarrow> string option" where
  "schema_type schema key = (case jget (jget (jget schema ''properties'') key) ''type'' of JStr t \<Rightarrow> Some t | _ \<Rightarrow> None)"

definition typed :: "jval \<Rightarrow> (string, jval) dict \<Rightarrow> string \<Rightarrow> bool" where
  "typed schema args k \<longleftrightarrow> (\<forall>v t. map_of args k = Some v \<longrightarrow> schema_type schema k = Some t \<longrightarrow> v = JNull \<or> has_type t v)"

definition args_ok :: "jval \<Rightarrow> (string, jval) dict \<Rightarrow> bool" where
  "args_ok schema args \<longleftrightarrow> missing_argument args schema = None \<and> (\<forall>k. typed schema args k)"

abbreviation schema_props :: "jval \<Rightarrow> (string, jval) dict" where
  "schema_props schema \<equiv> (case jget schema ''properties'' of JDict d \<Rightarrow> d | _ \<Rightarrow> [])"

lemma schema_type_props: "schema_type schema k = (case jget (dict_get (schema_props schema) k JNull) ''type'' of JStr t \<Rightarrow> Some t | _ \<Rightarrow> None)"
  by (cases "jget schema ''properties''") (auto simp: schema_type_def dict_get_def split: option.splits)

lemma untruthy_no_type: "\<not> jtruthy spec \<Longrightarrow> jget spec k = JNull"
  by (cases spec) auto

lemma int_text_digits: "is_int_text (py_str_int n)"
  by (simp add: is_int_text_def py_int_str_int)

lemma mistyped_converts:
  assumes "mistyped args k expected v = Inr (Inr args')"
  shows "expected = ''integer'' \<and> (\<exists>n. args' = AList.update k (JNum (py_str_int n)) args)"
proof (cases v)
  case (JStr s)
  show ?thesis
  proof (cases "expected = ''integer'' \<and> looks_integer s")
    case True
    then show ?thesis using assms unfolding mistyped_def JStr Let_def by (auto simp: raise_def split: option.splits)
  next
    case False
    then have "mistyped args k expected v \<noteq> Inr (Inr args')" unfolding mistyped_def JStr Let_def jval.case if_not_P [OF False] by simp
    then show ?thesis using assms by simp
  qed
qed (use assms in \<open>unfold mistyped_def Let_def, simp_all split: if_splits\<close>)

lemma check_argument_cases:
  assumes "check_argument (schema_props schema) (Inr args) (k, v) = Inr (Inr args')"
  obtains "args' = args" "\<And>t. schema_type schema k = Some t \<Longrightarrow> v = JNull \<or> has_type t v"
  | n where "args' = AList.update k (JNum (py_str_int n)) args" "schema_type schema k = Some ''integer''"
proof -
  let ?spec = "dict_get (schema_props schema) k JNull"
  show thesis
  proof (cases "jtruthy ?spec \<and> (\<exists>t. jget ?spec ''type'' = JStr t)")
    case False
    then have "schema_type schema k = None" by (auto simp: schema_type_props untruthy_no_type split: jval.splits)
    moreover have "args' = args" using assms False by (auto simp: check_argument_def Let_def split: jval.splits if_splits)
    ultimately show thesis using that(1) by simp
  next
    case True
    then obtain t where t: "jtruthy ?spec" "jget ?spec ''type'' = JStr t" by blast
    then have st: "schema_type schema k = Some t" by (simp add: schema_type_props)
    show thesis
    proof (cases "v = JNull \<or> has_type t v")
      case True
      then have "args' = args" using assms t by (auto simp: check_argument_def)
      then show thesis using that(1) True st by simp
    next
      case False
      then have "mistyped args k t v = Inr (Inr args')" using assms t by (simp add: check_argument_def)
      then show thesis using that(2) st mistyped_converts by blast
    qed
  qed
qed

lemma check_arguments_refused: "foldE (check_argument props) (Inl reason) items = Inr r \<Longrightarrow> r = Inl reason"
  by (induction items) (auto simp: check_argument_def)

lemma typed_update_int: "schema_type schema k = Some ''integer'' \<Longrightarrow> typed schema (AList.update k (JNum (py_str_int n)) args) k"
  by (simp add: typed_def update_conv' int_text_digits has_type_def)

lemma check_arguments_typed:
  assumes "foldE (check_argument (schema_props schema)) (Inr args) items = Inr (Inr args')"
    and "\<forall>k. k \<notin> D \<longrightarrow> map_of args k = map_of items k" and "\<forall>k \<in> D. typed schema args k"
  shows "(\<forall>k. typed schema args' k) \<and> (\<forall>k. arg args' k \<in> {JNull, JStr []} \<longrightarrow> arg args k \<in> {JNull, JStr []})"
  using assms
proof (induction items arbitrary: args D)
  case Nil
  have "typed schema args k" for k using Nil.prems(2,3) by (cases "k \<in> D") (auto simp: typed_def)
  then show ?case using Nil.prems(1) by simp
next
  case (Cons kv items)
  obtain k v where kv: "kv = (k, v)" by (cases kv)
  from Cons.prems(1) obtain r where r: "check_argument (schema_props schema) (Inr args) (k, v) = Inr r"
    "foldE (check_argument (schema_props schema)) r items = Inr (Inr args')" by (auto simp: bindE_eq_Inr_iff kv)
  obtain args1 where r1: "r = Inr args1" using check_arguments_refused r(2) by (cases r) fastforce+
  have d: "\<forall>j. j \<notin> insert k D \<longrightarrow> map_of args j = map_of items j"
    by (intro allI impI, rule trans [OF spec [OF Cons.prems(2), THEN mp]]) (simp_all add: kv)
  have kval: "k \<notin> D \<Longrightarrow> map_of args k = Some v"
    by (rule trans [OF spec [OF Cons.prems(2), of k, THEN mp]]) (simp_all add: kv)
  from r(1)[unfolded r1] show ?case
  proof (cases rule: check_argument_cases)
    case 1
    have "typed schema args k" if "k \<notin> D" using 1(2) kval [OF that] by (simp add: typed_def)
    then have "\<forall>j \<in> insert k D. typed schema args j" using Cons.prems(3) by blast
    then show ?thesis using Cons.IH [of args "insert k D"] r(2) d 1(1) r1 by simp
  next
    case (2 n)
    have "\<forall>j. j \<notin> insert k D \<longrightarrow> map_of args1 j = map_of items j" using d 2(1) by (simp add: update_conv')
    moreover have "\<forall>j \<in> insert k D. typed schema args1 j"
      using Cons.prems(3) typed_update_int [OF 2(2)] unfolding 2(1) by (auto simp: typed_def update_conv')
    ultimately have "(\<forall>k. typed schema args' k) \<and> (\<forall>k. arg args' k \<in> {JNull, JStr []} \<longrightarrow> arg args1 k \<in> {JNull, JStr []})"
      using Cons.IH [of args1 "insert k D"] r(2) r1 by simp
    moreover have "arg args1 j \<in> {JNull, JStr []} \<longrightarrow> arg args j \<in> {JNull, JStr []}" for j
      unfolding 2(1) by (auto simp: dict_get_def update_conv' split: if_splits)
    ultimately show ?thesis by blast
  qed
qed

lemma missing_argument_none: "missing_argument args schema = None \<Longrightarrow> (\<And>k. arg args' k \<in> {JNull, JStr []} \<Longrightarrow> arg args k \<in> {JNull, JStr []}) \<Longrightarrow>
  missing_argument args' schema = None"
  unfolding missing_argument_def find_None_iff by blast

lemma schema_by_name_from: "map_of (schema_by_name tools) k \<noteq> None \<Longrightarrow> \<exists>t \<in> set tools. schema_name t = JStr k"
proof -
  have "map_of (fold add_schema tools acc) k \<noteq> None \<Longrightarrow> map_of acc k \<noteq> None \<or> (\<exists>t \<in> set tools. schema_name t = JStr k)" for acc
  proof (induction tools arbitrary: acc)
    case (Cons t tools)
    have "map_of (add_schema t acc) k \<noteq> None \<Longrightarrow> map_of acc k \<noteq> None \<or> schema_name t = JStr k"
      by (cases "schema_name t") (auto simp: add_schema_def update_conv' split: if_splits)
    then show ?case using Cons.IH [of "add_schema t acc"] Cons.prems by auto
  qed simp
  from this [of "[]"] show "map_of (schema_by_name tools) k \<noteq> None \<Longrightarrow> ?thesis" unfolding schema_by_name_def by simp
qed

lemma validate_dict: "validate_tool_call f name (JDict d) schemas = validate_tool_call g name (JDict d) schemas"
  unfolding validate_tool_call_def parse_arguments_def jval.case by (rule refl)

section \<open>Properties\<close>



text \<open>
  An integer given as text with two signs passes the test for digits and then fails to convert: validation
  raises where it should give a reason.  A truth value is taken for a number.
\<close>

lemma doubled_sign_value:
  "validate_tool_call (\<lambda>_. []) ''execute_bash'' (JDict [(''command'', JStr ''ls''), (''timeout'', JStr ''--5'')]) (schema_by_name (tool_schemas ''search-replace'')) =
     Inl (Exn ValueError ''invalid literal for int()'')"
  by code_simp

theorem doubled_sign_raises:
  "validate_tool_call f ''execute_bash'' (JDict [(''command'', JStr ''ls''), (''timeout'', JStr ''--5'')]) (schema_by_name (tool_schemas ''search-replace'')) =
     Inl (Exn ValueError ''invalid literal for int()'')"
  unfolding validate_dict [of f _ _ _ "\<lambda>_. []"] by (rule doubled_sign_value)

theorem truth_value_as_number:
  "validate_tool_call (\<lambda>_. []) ''execute_bash'' (JDict [(''command'', JStr ''ls''), (''timeout'', JBool True)]) (schema_by_name (tool_schemas ''search-replace'')) =
     Inr (Inr [(''command'', JStr ''ls''), (''timeout'', JBool True)])"
  by code_simp

end
