(* ===== verification/Verified_Loop.thy ===== *)
theory Verified_Loop
  imports Enforcement
begin

text \<open>
  \<open>locus_runtime/harness/verified_loop.py\<close>: the loop of a verified run.  It calls the model, runs the
  tool calls of the reply, and ends as done, blocked or stopped.

  The state holds the world, the toolset, the \<open>LoopState\<close> of the run and a log of what goes out: the
  trajectory, the events and the checkpoints, in order.  The model, the clock, the sink of the budget
  and the user's wish to stop are arguments.  \<open>Ended\<close> is the \<open>_RunEnded\<close> of the code with the result,
  which only \<open>run\<close> catches.
\<close>

section \<open>Budget accounting\<close>

fun pf_add :: "pyfloat \<Rightarrow> pyfloat \<Rightarrow> pyfloat" where
  "pf_add (Fin a) (Fin b) = Fin (a + b)"
| "pf_add NaN b = NaN"
| "pf_add a NaN = NaN"
| "pf_add PosInf NegInf = NaN"
| "pf_add NegInf PosInf = NaN"
| "pf_add (Fin a) b = b"
| "pf_add a b = a"

definition pf_times :: "int \<Rightarrow> pyfloat \<Rightarrow> pyfloat" where
  "pf_times n x = (case x of
     Fin q \<Rightarrow> Fin (of_int n * q)
   | NaN \<Rightarrow> NaN
   | PosInf \<Rightarrow> if n = 0 then NaN else if 0 < n then PosInf else NegInf
   | NegInf \<Rightarrow> if n = 0 then NaN else if 0 < n then NegInf else PosInf)"

definition pf_div :: "pyfloat \<Rightarrow> pyfloat \<Rightarrow> pyfloat" where
  \<comment> \<open>by a positive number\<close>
  "pf_div x y = (case (x, y) of
     (Fin a, Fin b) \<Rightarrow> Fin (a / b)
   | (Fin a, PosInf) \<Rightarrow> Fin 0
   | (PosInf, Fin b) \<Rightarrow> PosInf
   | (NegInf, Fin b) \<Rightarrow> NegInf
   | _ \<Rightarrow> NaN)"

record model_pricing =
  mp_prompt_per_1k_usd :: pyfloat
  mp_completion_per_1k_usd :: pyfloat

definition pricing_cost :: "model_pricing \<Rightarrow> int \<Rightarrow> int \<Rightarrow> pyfloat" where
  "pricing_cost p prompt completion =
     pf_div (pf_add (pf_times prompt (mp_prompt_per_1k_usd p)) (pf_times completion (mp_completion_per_1k_usd p))) (Fin 1000)"

definition estimate_tokens :: "string \<Rightarrow> int" where
  \<comment> \<open>\<open>int(round(len(words) / 0.75))\<close>\<close>
  "estimate_tokens s = int ((8 * length (py_words s) + 3) div 6)"

definition message_tokens :: "(jval \<Rightarrow> string) \<Rightarrow> jval \<Rightarrow> int" where
  "message_tokens show m = estimate_tokens (jstr_or_empty show (jget m ''content'')) +
     (case jget m ''tool_calls'' of
        JList tcs \<Rightarrow> sum_list (map (\<lambda>tc. estimate_tokens (jstr_or_empty show (jget (jget tc ''function'') ''arguments''))) tcs)
      | _ \<Rightarrow> 0)"

definition messages_tokens :: "(jval \<Rightarrow> string) \<Rightarrow> jval list \<Rightarrow> int" where
  "messages_tokens show ms = sum_list (map (message_tokens show) ms)"

record budget_usage =
  bu_steps :: nat
  bu_actions :: nat
  bu_prompt_tokens :: int
  bu_completion_tokens :: int
  bu_cost_usd :: pyfloat
  bu_elapsed_seconds :: pyfloat
  bu_model_calls :: nat
  bu_judge_calls :: nat
  bu_verifier_runs :: nat
  bu_tokens_estimated :: bool

definition usage_tokens :: "budget_usage \<Rightarrow> int" where
  "usage_tokens u = bu_prompt_tokens u + bu_completion_tokens u"

definition usage_figures :: "(nat \<Rightarrow> pyfloat \<Rightarrow> pyfloat) \<Rightarrow> budget_usage \<Rightarrow> run_budget \<Rightarrow> budget_figures" where
  "usage_figures rnd u b = \<lparr>bf_tokens_used = Fin (of_int (usage_tokens u)), bf_max_tokens = rb_max_tokens b,
     bf_duration_used_seconds = Some (rnd 3 (bu_elapsed_seconds u)), bf_max_duration_seconds = Some (rb_max_seconds b),
     bf_cost_used_usd = Some (rnd 6 (bu_cost_usd u)), bf_max_cost_usd = Some (rb_max_cost_usd b)\<rparr>"

definition usage_fractions :: "budget_usage \<Rightarrow> run_budget \<Rightarrow> (string \<times> pyfloat) list" where
  "usage_fractions u b = [(''steps'', pf_div (Fin (of_nat (bu_steps u))) (rb_max_steps b)), (''seconds'', pf_div (bu_elapsed_seconds u) (rb_max_seconds b)),
     (''tokens'', pf_div (Fin (of_int (usage_tokens u))) (rb_max_tokens b)), (''cost_usd'', pf_div (bu_cost_usd u) (rb_max_cost_usd b)),
     (''actions'', pf_div (Fin (of_nat (bu_actions u))) (rb_max_actions b))]"

abbreviation jint_of :: "int \<Rightarrow> jval" where
  "jint_of n \<equiv> JNum (py_str_int n)"

abbreviation jnat :: "nat \<Rightarrow> jval" where
  "jnat n \<equiv> JNum (py_str_int (int n))"

definition usage_to_dict :: "(pyfloat \<Rightarrow> jval) \<Rightarrow> budget_usage \<Rightarrow> jval" where
  "usage_to_dict num u = JDict [(''steps'', jnat (bu_steps u)), (''actions'', jnat (bu_actions u)), (''prompt_tokens'', jint_of (bu_prompt_tokens u)),
     (''completion_tokens'', jint_of (bu_completion_tokens u)), (''cost_usd'', num (bu_cost_usd u)), (''elapsed_seconds'', num (bu_elapsed_seconds u)),
     (''model_calls'', jnat (bu_model_calls u)), (''judge_calls'', jnat (bu_judge_calls u)), (''verifier_runs'', jnat (bu_verifier_runs u)),
     (''tokens_estimated'', JBool (bu_tokens_estimated u)), (''tokens'', jint_of (usage_tokens u))]"

definition telemetry_rate :: "nat \<Rightarrow> nat \<Rightarrow> pyfloat" where
  "telemetry_rate good n = (if n = 0 then Fin 1 else Fin (of_nat good / of_nat n))"

definition telemetry_to_dict :: "coding_telemetry \<Rightarrow> (string, jval) dict" where
  \<comment> \<open>\<open>asdict\<close>\<close>
  "telemetry_to_dict m = [(''tool_calls_total'', jnat (tm_tool_calls_total m)), (''tool_calls_malformed'', jnat (tm_tool_calls_malformed m)),
     (''edits_attempted'', jnat (tm_edits_attempted m)), (''edits_well_formed'', jnat (tm_edits_well_formed m)),
     (''edits_applied'', jnat (tm_edits_applied m)), (''reasks'', jnat (tm_reasks m)), (''edit_format_downgrades'', jnat (tm_edit_format_downgrades m)),
     (''bash_calls'', jnat (tm_bash_calls m)), (''test_runs'', jnat (tm_test_runs m)), (''gateway_denied'', jnat (tm_gateway_denied m)),
     (''gateway_asked'', jnat (tm_gateway_asked m))]"

definition telemetry_snapshot :: "(nat \<Rightarrow> pyfloat \<Rightarrow> jval) \<Rightarrow> coding_telemetry \<Rightarrow> (string, jval) dict" where
  "telemetry_snapshot rnd m = telemetry_to_dict m @
     [(''well_formed_edit_rate'', rnd 4 (telemetry_rate (tm_edits_well_formed m) (tm_edits_attempted m))),
      (''well_formed_call_rate'', rnd 4 (telemetry_rate (tm_tool_calls_total m) (tm_tool_calls_total m + tm_tool_calls_malformed m)))]"

section \<open>Plans\<close>

definition strip_bullet :: "string \<Rightarrow> string" where
  \<comment> \<open>\<open>re.sub(r"^\s*(?:[-*+]|\d+[.)])\s*", "", s)\<close>\<close>
  "strip_bullet s = (case ends (cat [TextStart, Star space, Alt (one_of ''-*+'') (Seq (many1 (Ch is_digit)) (one_of ''.)'')), Star space]) (None, s) of
     [] \<Rightarrow> s | q # _ \<Rightarrow> snd q)"

definition plan_step :: "(jval \<Rightarrow> string) \<Rightarrow> jval \<Rightarrow> string" where
  "plan_step show it =
     (let v = (case it of
          JDict d \<Rightarrow> or_value (arg d ''description'') (or_value (arg d ''step'') (or_value (arg d ''text'') (JStr [])))
        | _ \<Rightarrow> it) in
      take 500 (py_strip (strip_bullet (jstr show v))))"

definition plan_steps :: "(jval \<Rightarrow> string) \<Rightarrow> jval \<Rightarrow> string list" where
  "plan_steps show raw =
     (let items = (case raw of
          JStr t \<Rightarrow> map JStr (filter (\<lambda>l. py_strip l \<noteq> []) (splitlines t))
        | JList xs \<Rightarrow> xs
        | _ \<Rightarrow> []) in
      take 50 (filter (\<lambda>t. t \<noteq> []) (map (plan_step show) items)))"

definition first_truthy :: "(string, jval) dict \<Rightarrow> string list \<Rightarrow> jval" where
  "first_truthy d ks = fold (\<lambda>k v. or_value v (arg d k)) ks (JStr [])"

definition plan_verification :: "(jval \<Rightarrow> string) \<Rightarrow> jval \<Rightarrow> (string, string) dict" where
  "plan_verification show raw = (case raw of
     JDict d \<Rightarrow> map (\<lambda>(k, v). (k, take 500 (jstr show v))) d
   | JList xs \<Rightarrow> fold (\<lambda>it out. case it of
         JDict d \<Rightarrow>
           (let cid = jstr_or_empty show (first_truthy d [''criterion_id'', ''criterion'', ''id'']);
                how = jstr_or_empty show (first_truthy d [''method'', ''how'', ''check'']) in
            if cid \<noteq> [] then AList.update cid (take 500 how) out else out)
       | _ \<Rightarrow> out) xs []
   | _ \<Rightarrow> [])"

definition plan_from_text :: "string \<Rightarrow> (string, jval) dict" where
  "plan_from_text t =
     (let raw = py_strip t;
          bullets = filter (\<lambda>l. rx_match (cat [TextStart, Star space, Alt (one_of ''-*+'') (Seq (many1 (Ch is_digit)) (one_of ''.)'')), spaces, nonspace]) l)
            (splitlines raw);
          by_lines = [(''steps'', jtexts bullets), (''verification'', JNull), (''note'', JStr [])] in
      case Option.bind (braced raw) json_loads of
        Some (JDict d) \<Rightarrow>
          if jtruthy (arg d ''steps'')
          then [(''steps'', arg d ''steps''), (''verification'', arg d ''verification''), (''note'', or_value (arg d ''note'') (JStr []))]
          else by_lines
      | _ \<Rightarrow> by_lines)"

section \<open>State and result\<close>

datatype end_state = Done | Blocked_run | Stopped

fun end_text :: "end_state \<Rightarrow> string" where
  "end_text Done = ''done''"
| "end_text Blocked_run = ''blocked''"
| "end_text Stopped = ''stopped''"

record blocker =
  bl_kind :: string
  bl_detail :: string
  bl_unblock :: string
  bl_evidence :: "(string, jval) dict"

datatype stop_kind = Stop_budget | Stop_user | Stop_policy

fun stop_text :: "stop_kind \<Rightarrow> string" where
  "stop_text Stop_budget = ''budget''"
| "stop_text Stop_user = ''user''"
| "stop_text Stop_policy = ''policy''"

record stop_reason =
  sr_kind :: stop_kind
  sr_detail :: string
  sr_dimension :: string

record run_result =
  rr_end_state :: end_state
  rr_plan :: "jval option"
  rr_plan_history :: "jval list"
  rr_verification :: "jval list"
  rr_usage :: budget_usage
  rr_evidence :: "jval option"
  rr_blocker :: "blocker option"
  rr_stop :: "stop_reason option"
  rr_submission :: "(string, jval) dict option"
  rr_messages :: "jval list"
  rr_telemetry :: "(string, jval) dict"

datatype log_note =
    Annotation string nat "(string, jval) dict"       \<comment> \<open>\<open>rec.annotation(kind, step=, ...)\<close>\<close>
  | Recorded jval nat jval                            \<comment> \<open>\<open>rec.message(msg, step=, tool=)\<close>\<close>
  | Header string
  | Outcome string "(string, jval) dict option" nat jval
  | Emitted string "(string, jval) dict"              \<comment> \<open>\<open>on_event(kind, data)\<close>\<close>
  | Checkpoint "(string, jval) dict"

record 'w loop =
  lp_tools :: "'w toolset_state"
  lp_messages :: "jval list"
  lp_plan :: "jval option"
  lp_plan_history :: "jval list"
  lp_usage :: budget_usage
  lp_verification :: "jval list"
  lp_failure_fingerprints :: "string list"
  lp_reasks_used :: nat
  lp_budget_warnings :: "string list"
  lp_started :: bool
  lp_final :: "run_result option"       \<comment> \<open>the summary of the result, kept as the result\<close>
  lp_t0 :: pyfloat
  lp_pending_calls :: "string list"
  lp_log :: "log_note list"

type_synonym ('w, 'a) loop_act = "('w loop, run_result, 'a) act"

record tool_call =
  tc_id :: string
  tc_name :: string
  tc_arguments :: jval

record chat_response =
  ch_text :: string
  ch_tool_calls :: "tool_call list"
  ch_usage :: "(string, jval) dict"

record 'w loop_env =
  le_run_id :: string
  le_envelope :: run_envelope
  le_toolset :: "'w coding_toolset"
  le_skill_schemas :: "jval list"
  le_discovery_block :: "(string \<Rightarrow> string) option"
  le_client :: "(jval list \<Rightarrow> jval list \<Rightarrow> (string, jval) dict \<Rightarrow> 'w \<Rightarrow> 'w \<times> chat_response res) option"   \<comment> \<open>messages, tools, extra\<close>
  le_judge_client :: "(jval list \<Rightarrow> jval list \<Rightarrow> (string, jval) dict \<Rightarrow> 'w \<Rightarrow> 'w \<times> chat_response res) option"
  le_pricing :: model_pricing
  le_judge_pricing :: "model_pricing option"
  le_plan_required :: bool
  le_bash_only :: bool
  le_structured_output :: string
  le_system_prompt :: string
  le_user_prompt :: string
  le_checkpoint_path :: "string option"
  le_budget_sink :: "(budget_figures \<Rightarrow> 'w \<Rightarrow> 'w \<times> unit res) option"
  le_stop_requested :: "'w \<Rightarrow> string option"         \<comment> \<open>\<open>request_stop\<close>, from another thread\<close>
  le_should_stop :: "('w \<Rightarrow> 'w \<times> bool res) option"
  le_max_reasks_per_run :: nat
  le_max_identical_failures :: nat
  le_provider_max_retries :: nat
  le_sleep :: "nat \<Rightarrow> 'w \<Rightarrow> 'w"                        \<comment> \<open>the back-off after an attempt\<close>
  le_now :: "'w \<Rightarrow> pyfloat"
  le_num :: "pyfloat \<Rightarrow> jval"
  le_round :: "nat \<Rightarrow> pyfloat \<Rightarrow> pyfloat"
  le_money :: "pyfloat \<Rightarrow> string"                    \<comment> \<open>the format \<open>.2f\<close>\<close>
  le_json_error :: "jval \<Rightarrow> string"
  le_sha :: "string \<Rightarrow> string"
  le_search :: "string \<Rightarrow> string \<Rightarrow> bool res"

abbreviation le_show :: "'w loop_env \<Rightarrow> jval \<Rightarrow> string" where
  "le_show e \<equiv> ct_show (le_toolset e)"

abbreviation budget_of :: "'w loop_env \<Rightarrow> run_budget" where
  "budget_of e \<equiv> en_budget (le_envelope e)"

abbreviation lp_world :: "'w loop \<Rightarrow> 'w" where
  "lp_world s \<equiv> ts_world (lp_tools s)"

definition set_world :: "'w \<Rightarrow> 'w loop \<Rightarrow> 'w loop" where
  "set_world w s = s\<lparr>lp_tools := (lp_tools s)\<lparr>ts_world := w\<rparr>\<rparr>"

definition update_usage :: "(budget_usage \<Rightarrow> budget_usage) \<Rightarrow> 'w loop \<Rightarrow> 'w loop" where
  "update_usage f s = s\<lparr>lp_usage := f (lp_usage s)\<rparr>"

definition add_note :: "log_note \<Rightarrow> 'w loop \<Rightarrow> 'w loop" where
  "add_note n s = s\<lparr>lp_log := lp_log s @ [n]\<rparr>"

definition note_that :: "('w loop \<Rightarrow> log_note) \<Rightarrow> ('w, unit) loop_act" where
  "note_that f = modS (\<lambda>s. add_note (f s) s)"

definition blocker_to_dict :: "blocker \<Rightarrow> jval" where
  "blocker_to_dict b = JDict [(''kind'', JStr (bl_kind b)), (''detail'', JStr (bl_detail b)), (''unblock'', JStr (bl_unblock b)),
     (''evidence'', JDict (bl_evidence b))]"

definition stop_to_dict :: "stop_reason \<Rightarrow> jval" where
  "stop_to_dict r = JDict [(''kind'', JStr (stop_text (sr_kind r))), (''detail'', JStr (sr_detail r)), (''dimension'', JStr (sr_dimension r))]"

abbreviation opt_value :: "('a \<Rightarrow> jval) \<Rightarrow> 'a option \<Rightarrow> jval" where
  "opt_value f x \<equiv> (case x of None \<Rightarrow> JNull | Some y \<Rightarrow> f y)"

definition plan_version :: "jval option \<Rightarrow> jval" where
  "plan_version p = (case p of Some (JDict d) \<Rightarrow> dict_get d ''version'' (JNum ''0'') | _ \<Rightarrow> JNum ''0'')"

definition result_summary :: "'w loop_env \<Rightarrow> run_result \<Rightarrow> (string, jval) dict" where
  "result_summary e r = [(''run_id'', JStr (le_run_id e)), (''end_state'', JStr (end_text (rr_end_state r))), (''evidence'', opt_value (\<lambda>v. v) (rr_evidence r)),
     (''blocker'', opt_value blocker_to_dict (rr_blocker r)), (''stop'', opt_value stop_to_dict (rr_stop r)), (''submission'', opt_value JDict (rr_submission r)),
     (''usage'', usage_to_dict (le_num e) (rr_usage r)), (''plan_version'', plan_version (rr_plan r)),
     (''verification_attempts'', jnat (length (rr_verification r))), (''telemetry'', JDict (rr_telemetry r))]"

datatype loop_outcome = Submitted | Budget_exhausted | Provider_unavailable | Loop_error

definition legacy_outcome :: "run_result \<Rightarrow> loop_outcome" where
  "legacy_outcome r =
     (if rr_end_state r = Done then Submitted
      else if rr_end_state r = Stopped \<and> (case rr_stop r of Some s \<Rightarrow> sr_kind s = Stop_budget | None \<Rightarrow> False) then Budget_exhausted
      else if rr_end_state r = Blocked_run \<and> (case rr_blocker r of Some b \<Rightarrow> bl_kind b = ''provider'' | None \<Rightarrow> False) then Provider_unavailable
      else Loop_error)"

definition state_to_dict :: "'w loop_env \<Rightarrow> 'w loop \<Rightarrow> jval" where
  "state_to_dict e s = JDict [(''run_id'', JStr (le_run_id e)), (''messages'', JList (lp_messages s)), (''plan'', opt_value (\<lambda>v. v) (lp_plan s)),
     (''plan_history'', JList (lp_plan_history s)), (''usage'', usage_to_dict (le_num e) (lp_usage s)), (''verification'', JList (lp_verification s)),
     (''failure_fingerprints'', jtexts (lp_failure_fingerprints s)), (''reasks_used'', jnat (lp_reasks_used s)),
     (''budget_warnings'', jtexts (lp_budget_warnings s)), (''started'', JBool (lp_started s)),
     (''final'', opt_value (\<lambda>r. JDict (result_summary e r)) (lp_final s))]"

definition checkpoint_payload :: "'w loop_env \<Rightarrow> 'w loop \<Rightarrow> (string, jval) dict" where
  \<comment> \<open>without the task and the path of the trajectory\<close>
  "checkpoint_payload e s = [(''kind'', JStr ''locus.run_checkpoint''), (''version'', JNum ''1''), (''harness_version'', JStr ''0.2.0''),
     (''saved_at'', le_num e (le_now e (lp_world s))), (''plan_mode'', JStr (if le_plan_required e then ''required'' else ''optional'')),
     (''status'', JStr (case lp_final s of None \<Rightarrow> ''running'' | Some r \<Rightarrow> end_text (rr_end_state r))),
     (''envelope'', envelope_to_dict (le_num e) (le_envelope e)), (''state'', state_to_dict e s),
     (''toolset'', JDict [(''telemetry'', JDict (telemetry_to_dict (ts_telemetry (lp_tools s)))), (''edit_format'', JStr (ts_edit_format (lp_tools s)))])]"

definition save_checkpoint :: "'w loop_env \<Rightarrow> 'w loop \<Rightarrow> 'w loop" where
  "save_checkpoint e s =
     (if le_checkpoint_path e = None then s
      else
        (let s = (if lp_t0 s \<noteq> Fin 0 then update_usage (\<lambda>u. u\<lparr>bu_elapsed_seconds := elapsed_since (lp_t0 s) (le_now e (lp_world s))\<rparr>) s else s) in
         add_note (Checkpoint (checkpoint_payload e s)) s))"

section \<open>End states\<close>

definition tool_message :: "string \<Rightarrow> string \<Rightarrow> jval" where
  "tool_message call_id content = JDict [(''role'', JStr ''tool''), (''tool_call_id'', JStr call_id), (''content'', JStr content)]"

definition replied :: "jval list \<Rightarrow> jval list" where
  "replied ms = map (\<lambda>m. jget m ''tool_call_id'') (filter (\<lambda>m. jget m ''role'' = JStr ''tool'') ms)"

definition close_pending_calls :: "'w loop \<Rightarrow> 'w loop" where
  "close_pending_calls s =
     (let missing = filter (\<lambda>i. JStr i \<notin> set (replied (lp_messages s))) (lp_pending_calls s);
          msgs = map (\<lambda>i. tool_message i ''[not executed: run ended]'') missing;
          meta = JDict [(''name'', JStr []), (''skipped'', JBool True)] in
      s\<lparr>lp_messages := lp_messages s @ msgs, lp_log := lp_log s @ map (\<lambda>m. Recorded m (bu_steps (lp_usage s)) meta) msgs, lp_pending_calls := []\<rparr>)"

definition set_elapsed :: "'w loop_env \<Rightarrow> 'w loop \<Rightarrow> 'w loop" where
  "set_elapsed e s = update_usage (\<lambda>u. u\<lparr>bu_elapsed_seconds := elapsed_since (lp_t0 s) (le_now e (lp_world s))\<rparr>) s"

definition end_result :: "'w loop_env \<Rightarrow> end_state \<Rightarrow> jval option \<Rightarrow> blocker option \<Rightarrow> stop_reason option \<Rightarrow> (string, jval) dict option \<Rightarrow> 'w loop \<Rightarrow> run_result" where
  "end_result e st evidence bl stop submission s =
     \<lparr>rr_end_state = st, rr_plan = lp_plan s, rr_plan_history = lp_plan_history s, rr_verification = lp_verification s, rr_usage = lp_usage s,
      rr_evidence = evidence, rr_blocker = bl, rr_stop = stop, rr_submission = submission, rr_messages = lp_messages s,
      rr_telemetry = telemetry_snapshot (\<lambda>n x. le_num e (le_round e n x)) (ts_telemetry (lp_tools s))\<rparr>"

definition close_run :: "'w loop_env \<Rightarrow> run_result \<Rightarrow> 'w loop \<Rightarrow> 'w loop" where
  "close_run e r s =
     (let text = end_text (rr_end_state r); steps = bu_steps (rr_usage r) in
      save_checkpoint e
        (add_note (Emitted ''end'' [(''end_state'', JStr text), (''steps'', jnat steps)])
        (add_note (Outcome text (rr_submission r) steps (usage_to_dict (le_num e) (rr_usage r)))
        (add_note (Annotation ''end_state'' steps [(''end_state'', JStr text), (''blocker'', opt_value blocker_to_dict (rr_blocker r)),
           (''stop'', opt_value stop_to_dict (rr_stop r))])
        (s\<lparr>lp_final := Some r\<rparr>)))))"

definition finish :: "'w loop_env \<Rightarrow> end_state \<Rightarrow> jval option \<Rightarrow> blocker option \<Rightarrow> stop_reason option \<Rightarrow> (string, jval) dict option \<Rightarrow> ('w, 'a) loop_act" where
  \<comment> \<open>the result shares the usage with the state, which the last checkpoint updates\<close>
  "finish e st evidence bl stop submission s =
     (let s = close_pending_calls (if lp_t0 s \<noteq> Fin 0 then set_elapsed e s else s);
          r = end_result e st evidence bl stop submission s;
          s = close_run e r s in
      (s, Ended (r\<lparr>rr_usage := lp_usage s\<rparr>)))"

definition block :: "'w loop_env \<Rightarrow> blocker \<Rightarrow> ('w, 'a) loop_act" where
  "block e b = finish e Blocked_run None (Some b) None None"

definition stop_run :: "'w loop_env \<Rightarrow> stop_kind \<Rightarrow> string \<Rightarrow> string \<Rightarrow> ('w, 'a) loop_act" where
  \<comment> \<open>the kind, the dimension and the detail\<close>
  "stop_run e k dimension detail = finish e Stopped None None (Some \<lparr>sr_kind = k, sr_detail = detail, sr_dimension = dimension\<rparr>) None"

section \<open>Guards\<close>

definition warn_budget :: "'w loop_env \<Rightarrow> string \<times> pyfloat \<Rightarrow> 'w loop \<Rightarrow> 'w loop" where
  "warn_budget e = (\<lambda>(dim, fraction) s.
     if float_ge fraction (Fin (4 / 5)) \<and> dim \<notin> set (lp_budget_warnings s) then
       (let data = [(''dimension'', JStr dim), (''fraction'', le_num e (le_round e 3 fraction))];
            s = s\<lparr>lp_budget_warnings := lp_budget_warnings s @ [dim]\<rparr> in
        add_note (Emitted ''budget_warning'' data) (add_note (Annotation ''budget_warning'' (bu_steps (lp_usage s)) data) s))
     else s)"

definition tick :: "'w loop_env \<Rightarrow> 'w loop \<Rightarrow> 'w loop" where
  "tick e s = (let s = set_elapsed e s in fold (warn_budget e) (usage_fractions (lp_usage s) (budget_of e)) s)"

definition guard_budget :: "'w loop_env \<Rightarrow> ('w, unit) loop_act" where
  "guard_budget e = thenA (modS (tick e)) (bindA (getS lp_usage) (\<lambda>u.
     if float_ge (bu_elapsed_seconds u) (rb_max_seconds (budget_of e)) then stop_run e Stop_budget ''seconds'' ''seconds budget exhausted''
     else if float_ge (Fin (of_int (usage_tokens u))) (rb_max_tokens (budget_of e)) then stop_run e Stop_budget ''tokens'' ''tokens budget exhausted''
     else if float_ge (bu_cost_usd u) (rb_max_cost_usd (budget_of e)) then stop_run e Stop_budget ''cost_usd'' ''cost_usd budget exhausted''
     else ret ()))"

definition guard_user :: "'w loop_env \<Rightarrow> ('w, unit) loop_act" where
  "guard_user e s = (case le_stop_requested e (lp_world s) of
     Some detail \<Rightarrow> stop_run e Stop_user [] (if detail \<noteq> [] then detail else ''stopped by user'') s
   | None \<Rightarrow> (case le_should_stop e of
       None \<Rightarrow> (s, Ok ())
     | Some f \<Rightarrow> (case f (lp_world s) of
         (w, Inl x) \<Rightarrow> (set_world w s, Raised x)
       | (w, Inr b) \<Rightarrow> if b then stop_run e Stop_user [] ''stopped by user'' (set_world w s) else (set_world w s, Ok ()))))"

definition guard_before_model_call :: "'w loop_env \<Rightarrow> ('w, unit) loop_act" where
  "guard_before_model_call e = thenA (guard_user e) (thenA (guard_budget e) (bindA (getS (\<lambda>s. s)) (\<lambda>s.
     if float_ge (Fin (of_nat (bu_steps (lp_usage s)))) (rb_max_steps (budget_of e)) then stop_run e Stop_budget ''steps'' ''step budget exhausted''
     else if rb_max_context_tokens (budget_of e) \<noteq> Fin 0 \<and>
       float_ge (Fin (of_int (messages_tokens (le_show e) (lp_messages s)))) (rb_max_context_tokens (budget_of e))
     then stop_run e Stop_budget ''context_tokens'' ''context budget exhausted''
     else ret ())))"

definition report_budget :: "'w loop_env \<Rightarrow> ('w, unit) loop_act" where
  "report_budget e s = (case le_budget_sink e of
     None \<Rightarrow> (s, Ok ())
   | Some sink \<Rightarrow> (case sink (usage_figures (le_round e) (lp_usage s) (budget_of e)) (lp_world s) of
       (w, Inr _) \<Rightarrow> (set_world w s, Ok ())
     | (w, Inl x) \<Rightarrow> stop_run e Stop_policy ''budget_report'' (''could not report budget to the gateway: '' @ exn_msg x) (set_world w s)))"

definition guard_before_action :: "'w loop_env \<Rightarrow> ('w, unit) loop_act" where
  "guard_before_action e = thenA (guard_user e) (thenA (guard_budget e) (thenA (bindA (getS (\<lambda>s. bu_actions (lp_usage s))) (\<lambda>n.
     if float_ge (Fin (of_nat n)) (rb_max_actions (budget_of e)) then stop_run e Stop_budget ''actions'' ''action budget exhausted'' else ret ()))
     (report_budget e)))"

section \<open>Model calls\<close>

definition account :: "'w loop_env \<Rightarrow> jval list \<Rightarrow> chat_response \<Rightarrow> model_pricing \<Rightarrow> ('w, unit) loop_act" where
  "account e ms resp pricing =
     (let prompt = arg (ch_usage resp) ''prompt_tokens''; completion = arg (ch_usage resp) ''completion_tokens''; cost = arg (ch_usage resp) ''cost_usd'';
          nf = ct_nonfinite (le_toolset e); show = le_show e;
          prompt_n = (if prompt = JNull then Inr (messages_tokens show ms) else jint nf prompt);
          completion_n = (if completion = JNull
            then Inr (estimate_tokens (ch_text resp) + sum_list (map (\<lambda>tc. estimate_tokens (to_json show (tc_arguments tc))) (ch_tool_calls resp)))
            else jint nf completion) in
      thenA (modS (update_usage (\<lambda>u. u\<lparr>bu_model_calls := Suc (bu_model_calls u), bu_tokens_estimated := bu_tokens_estimated u \<or> prompt = JNull \<or> completion = JNull\<rparr>)))
        (bindA (liftE prompt_n) (\<lambda>p. thenA (modS (update_usage (\<lambda>u. u\<lparr>bu_prompt_tokens := bu_prompt_tokens u + p\<rparr>)))
          (bindA (liftE completion_n) (\<lambda>c. thenA (modS (update_usage (\<lambda>u. u\<lparr>bu_completion_tokens := bu_completion_tokens u + c\<rparr>)))
            (bindA (liftE (if cost = JNull then Inr (pricing_cost pricing p c) else jfloat nf cost)) (\<lambda>d.
              thenA (modS (update_usage (\<lambda>u. u\<lparr>bu_cost_usd := pf_add (bu_cost_usd u) d\<rparr>))) (modS (tick e)))))))))"

definition complete_chat ::
  "(jval list \<Rightarrow> jval list \<Rightarrow> (string, jval) dict \<Rightarrow> 'w \<Rightarrow> 'w \<times> chat_response res) option \<Rightarrow> jval list \<Rightarrow> jval list \<Rightarrow> (string, jval) dict
     \<Rightarrow> ('w, chat_response) loop_act" where
  "complete_chat client ms tools extra s = (case client of
     None \<Rightarrow> (s, Raised (Exn AttributeErrorC ''NoneType has no attribute complete''))
   | Some f \<Rightarrow> (case f ms tools extra (lp_world s) of
       (w, Inl x) \<Rightarrow> (set_world w s, Raised x)
     | (w, Inr resp) \<Rightarrow> (set_world w s, Ok resp)))"

definition provider_blocker :: "nat \<Rightarrow> string \<Rightarrow> blocker" where
  "provider_blocker attempts last_error = \<lparr>bl_kind = ''provider'', bl_detail = ''model provider unavailable after '' @ nat_digits attempts @ '' attempts: '' @ last_error,
     bl_unblock = ''restore the model endpoint or credentials, then resume the run'', bl_evidence = []\<rparr>"

fun call_attempts :: "'w loop_env \<Rightarrow> jval list \<Rightarrow> jval list \<Rightarrow> (string, jval) dict \<Rightarrow> nat \<Rightarrow> nat \<Rightarrow> string \<Rightarrow> ('w, chat_response) loop_act" where
  \<comment> \<open>the attempts left and made\<close>
  "call_attempts e ms tools extra 0 attempt last_error s = block e (provider_blocker attempt last_error) s"
| "call_attempts e ms tools extra (Suc n) attempt last_error s =
     (case complete_chat (le_client e) ms tools extra s of
       (s, Ok resp) \<Rightarrow> thenA (account e ms resp (le_pricing e)) (ret resp) s
     | (s, Ended r) \<Rightarrow> (s, Ended r)
     | (s, Raised x) \<Rightarrow>
         (let err = take 300 (exn_msg x); data = [(''attempt'', jnat attempt), (''error'', JStr err)];
              s = add_note (Emitted ''provider_error'' data) (add_note (Annotation ''provider_error'' (bu_steps (lp_usage s)) data) s);
              s = (if 0 < n then set_world (le_sleep e attempt (lp_world s)) s else s) in
          call_attempts e ms tools extra n (Suc attempt) err s))"

definition call_model :: "'w loop_env \<Rightarrow> jval list \<Rightarrow> ('w, chat_response) loop_act" where
  "call_model e tools s =
     (let extra = constraint_kwargs (le_structured_output e) tools;
          extra = (if lp_plan s = None \<and> le_plan_required e \<and> tools \<noteq> []
            then AList.update ''tool_choice'' (JDict [(''type'', JStr ''function''), (''function'', JDict [(''name'', JStr PLAN_TOOL)])]) extra else extra) in
      call_attempts e (lp_messages s) tools extra (Suc (le_provider_max_retries e)) 0 [] s)"

definition judge_client_of :: "'w loop_env \<Rightarrow> (jval list \<Rightarrow> jval list \<Rightarrow> (string, jval) dict \<Rightarrow> 'w \<Rightarrow> 'w \<times> chat_response res) option" where
  "judge_client_of e = (case le_judge_client e of Some f \<Rightarrow> Some f | None \<Rightarrow> le_client e)"

definition judge_complete :: "'w loop_env \<Rightarrow> (string \<times> string) list \<Rightarrow> ('w, string) loop_act" where
  "judge_complete e messages =
     (let ms = map (\<lambda>(role, content). JDict [(''role'', JStr role), (''content'', JStr content)]) messages;
          pricing = (case le_judge_pricing e of Some p \<Rightarrow> p | None \<Rightarrow> le_pricing e) in
      thenA (guard_budget e) (bindA (complete_chat (judge_client_of e) ms [] []) (\<lambda>resp.
        thenA (account e ms resp pricing) (thenA (modS (update_usage (\<lambda>u. u\<lparr>bu_judge_calls := Suc (bu_judge_calls u)\<rparr>))) (ret (ch_text resp))))))"

definition loop_judge :: "'w loop_env \<Rightarrow> ((string \<times> string) list \<Rightarrow> ('w, string) loop_act) option" where
  "loop_judge e = map_option (\<lambda>_. judge_complete e) (judge_client_of e)"

section \<open>Replies\<close>

definition tool_reply :: "jval \<Rightarrow> nat \<Rightarrow> string \<Rightarrow> (string, jval) dict \<Rightarrow> ('w, unit) loop_act" where
  \<comment> \<open>the last argument is what the record of the message says besides the name\<close>
  "tool_reply msg step tool meta = modS (\<lambda>s. add_note (Recorded msg step (JDict ((''name'', JStr tool) # meta))) (s\<lparr>lp_messages := lp_messages s @ [msg]\<rparr>))"

definition observe :: "string \<Rightarrow> nat \<Rightarrow> string \<Rightarrow> ('w, unit) loop_act" where
  "observe content step tool =
     (let msg = JDict [(''role'', JStr ''user''), (''content'', JStr content)];
          meta = (if tool \<noteq> [] then JDict [(''name'', JStr tool), (''bash_only'', JBool True)] else JNull) in
      modS (\<lambda>s. add_note (Recorded msg step meta) (s\<lparr>lp_messages := lp_messages s @ [msg]\<rparr>)))"

definition reply_or_observe :: "string \<Rightarrow> nat \<Rightarrow> string \<Rightarrow> bool \<Rightarrow> ('w, unit) loop_act" where
  "reply_or_observe content step call_id as_observation =
     (if as_observation then observe content step [] else tool_reply (tool_message call_id content) step SUBMIT_TOOL [])"

definition on_tools :: "('w toolset_state \<Rightarrow> 'w toolset_state) \<Rightarrow> ('w, unit) loop_act" where
  "on_tools f = modS (\<lambda>s. s\<lparr>lp_tools := f (lp_tools s)\<rparr>)"

definition run_dispatch :: "'w loop_env \<Rightarrow> string \<Rightarrow> (string, jval) dict \<Rightarrow> ('w, string) loop_act" where
  \<comment> \<open>\<open>self.toolset.dispatch\<close>\<close>
  "run_dispatch e name args s = (case dispatch (le_toolset e) name args (lp_tools s) of
     (ts, Inr out) \<Rightarrow> (s\<lparr>lp_tools := ts\<rparr>, Ok out)
   | (ts, Inl x) \<Rightarrow> (s\<lparr>lp_tools := ts\<rparr>, Raised x))"

fun check_budget_policy :: "'w loop_env \<Rightarrow> (string, jval) dict list \<Rightarrow> ('w, unit) loop_act" where
  "check_budget_policy e [] = ret ()"
| "check_budget_policy e (b # bs) =
     (if budget_policy_denied (case arg b ''reasons'' of JList xs \<Rightarrow> map (jstr (le_show e)) xs | _ \<Rightarrow> [])
      then stop_run e Stop_policy ''budget_policy'' (''gateway budget_policy denied '' @ jstr (le_show e) (arg b ''action_kind'') @
        '' (audit '' @ jstr (le_show e) (or_value (arg b ''audit_id'') (JStr ''n/a'')) @ '')'')
      else check_budget_policy e bs)"

definition new_blocks :: "nat \<Rightarrow> 'w loop \<Rightarrow> (string, jval) dict list" where
  "new_blocks n s = drop n (ts_gateway_blocks (lp_tools s))"

section \<open>Plans of the run\<close>

definition max_version :: "pyfloat \<Rightarrow> jval list \<Rightarrow> int res" where
  \<comment> \<open>the largest version in the history, or 0\<close>
  "max_version nf history = bindE (mapE (\<lambda>p. let v = jget p ''version'' in if jtruthy v then jint nf v else Inr 0) history) (\<lambda>vs.
     Inr (case vs of [] \<Rightarrow> 0 | _ \<Rightarrow> Max (set vs)))"

definition record_plan :: "'w loop_env \<Rightarrow> (string, jval) dict \<Rightarrow> nat \<Rightarrow> string \<Rightarrow> ('w, string) loop_act" where
  "record_plan e args step source =
     (let show = le_show e; steps = plan_steps show (arg args ''steps''); verification = plan_verification show (arg args ''verification'');
          missing = filter (\<lambda>c. map_of verification c = None) (map criterion_id (en_done_criteria (le_envelope e))) in
      bindA (getS lp_plan_history) (\<lambda>history. bindA (liftE (max_version (ct_nonfinite (le_toolset e)) history)) (\<lambda>m.
        (let plan = JDict [(''version'', jint_of (1 + m)), (''steps'', jtexts steps), (''verification'', JDict (map (\<lambda>(k, v). (k, JStr v)) verification)),
               (''unplanned_criteria'', jtexts missing), (''note'', JStr (take 500 (jstr_or_empty show (arg args ''note'')))), (''source'', JStr source),
               (''step'', jnat step)] in
         thenA (modS (\<lambda>s. s\<lparr>lp_plan := Some plan, lp_plan_history := lp_plan_history s @ [plan]\<rparr>))
           (thenA (note_that (\<lambda>_. Annotation ''plan'' step [(''plan'', plan)]))
             (thenA (note_that (\<lambda>_. Emitted ''plan'' [(''version'', jint_of (1 + m)), (''steps'', jnat (length steps))]))
               (ret (''Plan v'' @ py_str_int (1 + m) @ '' recorded ('' @ nat_digits (length steps) @ '' steps).'' @
                 (if missing \<noteq> [] then '' No verification method given for: '' @ py_join '', '' missing @ ''. Every done criterion is checked when you submit.''
                  else [])))))))))"

section \<open>The verify gate of the run\<close>

definition loop_verify_env :: "'w loop_env \<Rightarrow> ('w loop, run_result) verify_env" where
  "loop_verify_env e =
     (let t = le_toolset e; ex = exec_of t in
      \<lparr>ve_run_shell = (\<lambda>cmd timeout s. case ex_run_shell ex ''harness.internal'' cmd timeout (lp_world s) of
           (w, Ok r) \<Rightarrow> (set_world w s, Inr r)
         | (w, Raised x) \<Rightarrow> (set_world w s, Inl x)
         | (w, Ended d) \<Rightarrow> (set_world w s, Inl (Exn PermissionErrorC (''gateway '' @ describe d)))),
       ve_read_file = (\<lambda>path s. case ex_read_file ex ''harness.internal'' path (lp_world s) of
           (w, Ok c) \<Rightarrow> (set_world w s, Content c)
         | (w, Ended d) \<Rightarrow> (set_world w s, Gateway_blocked d)
         | (w, Raised x) \<Rightarrow> (set_world w s, if exn_cls x = PermissionErrorC then Outside (exn_msg x) else Unreadable x)),
       ve_hmac = ct_hmac t, ve_search = le_search e, ve_sha = le_sha e, ve_now = (\<lambda>s. le_now e (lp_world s)),
       ve_round = (\<lambda>n x. le_num e (le_round e n x)), ve_seconds = ct_seconds t, ve_show = ct_show t, ve_judge = loop_judge e\<rparr>)"

definition blocker_kind :: "check_result \<Rightarrow> string" where
  "blocker_kind c =
     (if jtruthy (arg (cr_evidence c) ''gateway'') then ''gateway''
      else if cr_kind c = ''acceptance'' then (if py_contains ''judge'' (cr_detail c) then ''judge'' else ''configuration'')
      else if py_contains ''exit 127'' (cr_detail c) \<or> py_contains ''missing'' (cr_blocker c) then ''missing_tool''
      else ''verification'')"

definition evidence_of :: "'w loop_env \<Rightarrow> verification_report \<Rightarrow> 'w loop \<Rightarrow> jval" where
  "evidence_of e rp s =
     (let of_kind = (\<lambda>k f. JList (map f (filter (\<lambda>r. cr_kind r = k) (vr_results rp)))); ev = (\<lambda>r k. arg (cr_evidence r) k) in
      JDict [(''verified_at'', le_num e (vr_created_at rp)), (''attempt'', jnat (vr_attempt rp)),
        (''commands'', of_kind ''command'' (\<lambda>r. JDict [(''id'', JStr (cr_id r)), (''command'', ev r ''command''), (''exit_code'', ev r ''exit_code''),
          (''expected_exit_code'', ev r ''expected_exit_code''), (''duration_seconds'', ev r ''duration_seconds''), (''output_tail'', ev r ''output_tail'')])),
        (''files'', of_kind ''file'' (\<lambda>r. JDict [(''id'', JStr (cr_id r)), (''label'', JStr (cr_label r)), (''status'', JStr (status_text (cr_status r)))])),
        (''judge'', JList (map (\<lambda>r. JDict [(''id'', JStr (cr_id r)), (''criterion'', JStr (cr_label r)), (''pass'', JBool (cr_passed r)), (''reason'', JStr (cr_detail r))])
          (filter (\<lambda>r. cr_kind r \<noteq> ''command'' \<and> cr_kind r \<noteq> ''file'') (vr_results rp)))),
        (''diff'', JStr (vr_diff rp)), (''answer'', JStr (vr_answer rp)), (''plan_version'', plan_version (lp_plan s)),
        (''verification_attempts'', jnat (length (lp_verification s)))])"

definition report_blocker_of :: "verification_report \<Rightarrow> blocker" where
  "report_blocker_of rp =
     (let c = hd (vr_blocked rp) in
      \<lparr>bl_kind = blocker_kind c, bl_detail = (if cr_blocker c \<noteq> [] then cr_blocker c else cr_detail c),
       bl_unblock = (if cr_unblock c \<noteq> [] then cr_unblock c else ''resolve the blocked done criterion''),
       bl_evidence = [(''check'', result_to_dict c), (''attempt'', jnat (vr_attempt rp))]\<rparr>)"

definition no_progress_blocker :: "nat \<Rightarrow> string \<Rightarrow> verification_report \<Rightarrow> blocker" where
  "no_progress_blocker repeats fp rp = \<lparr>bl_kind = ''no_progress'',
     bl_detail = ''verification failed identically '' @ nat_digits repeats @ '' times: '' @
       py_join ''; '' (map (\<lambda>r. cr_id r @ '': '' @ cr_detail r) (filter (\<lambda>r. \<not> cr_passed r) (vr_results rp))),
     bl_unblock = ''a human should review the failing criteria (they may be wrong or '' @ ''need access the run does not have) and edit the envelope or plan'',
     bl_evidence = [(''attempt'', jnat (vr_attempt rp)), (''fingerprint'', JStr fp)]\<rparr>"

definition record_report :: "'w loop_env \<Rightarrow> nat \<Rightarrow> verification_report \<Rightarrow> ('w, unit) loop_act" where
  "record_report e step rp =
     (let attempt = jnat (vr_attempt rp) in
      thenA (modS (\<lambda>s. s\<lparr>lp_verification := lp_verification s @ [report_to_dict (le_num e) rp]\<rparr>))
        (thenA (note_that (\<lambda>_. Annotation ''verification'' step [(''attempt'', attempt), (''passed'', JBool (vr_passed rp)),
             (''results'', JList (map result_to_dict (vr_results rp)))]))
          (note_that (\<lambda>_. Emitted ''verification'' [(''attempt'', attempt), (''passed'', JBool (vr_passed rp)),
             (''failed'', jtexts (map cr_id (filter (\<lambda>r. \<not> cr_passed r) (vr_results rp))))]))))"

definition report_rejected :: "'w loop_env \<Rightarrow> nat \<Rightarrow> string \<Rightarrow> bool \<Rightarrow> verification_report \<Rightarrow> ('w, unit) loop_act" where
  \<comment> \<open>after a report that did not pass\<close>
  "report_rejected e step call_id as_observation rp =
     (let reply = reply_or_observe (feedback (le_show e) rp) step call_id as_observation; fp = failure_fingerprint (le_sha e) rp in
      thenA (on_tools (\<lambda>t. t\<lparr>ts_submitted := False, ts_submission := None\<rparr>))
        (if vr_blocked rp \<noteq> [] then thenA reply (block e (report_blocker_of rp))
         else thenA (modS (\<lambda>s. s\<lparr>lp_failure_fingerprints := lp_failure_fingerprints s @ [fp]\<rparr>)) (thenA reply
           (bindA (getS (\<lambda>s. length (filter (\<lambda>f. f = fp) (lp_failure_fingerprints s)))) (\<lambda>repeats.
              if le_max_identical_failures e \<le> repeats then block e (no_progress_blocker repeats fp rp) else ret ())))))"

definition verify_submission :: "'w loop_env \<Rightarrow> nat \<Rightarrow> string \<Rightarrow> bool \<Rightarrow> (string, jval) dict \<Rightarrow> ('w, unit) loop_act" where
  "verify_submission e step call_id as_observation submission =
     bindA (getS (\<lambda>s. (Suc (length (lp_verification s)), length (ts_gateway_blocks (lp_tools s))))) (\<lambda>(attempt, blocks_before).
     thenA (report_budget e) (thenA (modS (update_usage (\<lambda>u. u\<lparr>bu_verifier_runs := Suc (bu_verifier_runs u)\<rparr>)))
       (bindA (verify (loop_verify_env e) (le_envelope e) (jstr_or_empty (le_show e) (arg submission ''patch''))
            (jstr_or_empty (le_show e) (arg submission ''answer'')) attempt) (\<lambda>rp.
         thenA (record_report e step rp)
           (thenA (bindA (getS (new_blocks blocks_before)) (check_budget_policy e))
             (thenA (check_budget_policy e (map (\<lambda>r. case arg (cr_evidence r) ''gateway'' of JDict d \<Rightarrow> d | _ \<Rightarrow> []) (vr_blocked rp)))
               (if vr_passed rp then
                  thenA (reply_or_observe (''Verified: all '' @ nat_digits (length (vr_results rp)) @ '' done criteria passed. The run is done.'') step call_id as_observation)
                    (bindA (getS (evidence_of e rp)) (\<lambda>ev. finish e Done (Some ev) None None (Some submission)))
                else report_rejected e step call_id as_observation rp)))))))"

definition submit :: "'w loop_env \<Rightarrow> string \<Rightarrow> (string, jval) dict \<Rightarrow> nat \<Rightarrow> bool \<Rightarrow> ('w, unit) loop_act" where
  "submit e call_id args step as_observation =
     thenA (guard_before_action e) (bindA (run_dispatch e SUBMIT_TOOL args) (\<lambda>out.
       bindA (getS lp_tools) (\<lambda>t.
         if \<not> ts_submitted t then reply_or_observe out step call_id as_observation
         else verify_submission e step call_id as_observation (case ts_submission t of Some d \<Rightarrow> d | None \<Rightarrow> []))))"

section \<open>Dispatch of the calls\<close>

definition wall_ms :: "pyfloat \<Rightarrow> jval" where
  "wall_ms x = (case x of Fin q \<Rightarrow> jint_of (truncate_rat (q * 1000)) | _ \<Rightarrow> JNull)"

definition caught :: "('w, string) loop_act \<Rightarrow> ('w, string) loop_act" where
  \<comment> \<open>an exception of a tool is what the model observes\<close>
  "caught m s = (case m s of (s, Raised x) \<Rightarrow> (s, Ok (''[tool error] '' @ exn_msg x)) | r \<Rightarrow> r)"

definition run_tool :: "'w loop_env \<Rightarrow> string \<Rightarrow> string \<Rightarrow> (string, jval) dict \<Rightarrow> nat \<Rightarrow> ('w, unit) loop_act" where
  "run_tool e call_id name args step =
     thenA (on_tools (\<lambda>t. t\<lparr>ts_telemetry := (ts_telemetry t)\<lparr>tm_tool_calls_total := Suc (tm_tool_calls_total (ts_telemetry t))\<rparr>\<rparr>))
       (thenA (modS (update_usage (\<lambda>u. u\<lparr>bu_actions := Suc (bu_actions u)\<rparr>)))
         (bindA (getS (\<lambda>s. (length (ts_gateway_blocks (lp_tools s)), le_now e (lp_world s)))) (\<lambda>(blocks_before, t0).
           bindA (caught (run_dispatch e name args)) (\<lambda>result. bindA (getS (\<lambda>s. le_now e (lp_world s))) (\<lambda>t1.
             thenA (tool_reply (tool_message call_id result) step name [(''wall_ms'', wall_ms (elapsed_since t0 t1))])
               (thenA (note_that (\<lambda>_. Emitted ''tool'' [(''name'', JStr name), (''args'', JDict args)]))
                 (bindA (getS (new_blocks blocks_before)) (check_budget_policy e))))))))"

definition agent_blocker :: "(jval \<Rightarrow> string) \<Rightarrow> (string, jval) dict \<Rightarrow> nat \<Rightarrow> blocker" where
  "agent_blocker show args step = \<lparr>bl_kind = (if arg args ''kind'' \<noteq> JStr ''other'' \<and> jtruthy (arg args ''kind'') then jstr show (arg args ''kind'') else ''agent''),
     bl_detail = take 1000 (jstr_or_empty show (arg args ''blocker'')), bl_unblock = take 1000 (jstr_or_empty show (arg args ''unblock'')),
     bl_evidence = [(''reported_by'', JStr ''agent''), (''step'', jnat step)]\<rparr>"

definition PLAN_FIRST :: string where
  "PLAN_FIRST = ''[not executed] Record your plan first: call '' @ PLAN_TOOL @ '' with your steps and how '' @ ''each done criterion will be verified.''"

definition note_plan_skipped :: "string \<Rightarrow> nat \<Rightarrow> ('w, unit) loop_act" where
  "note_plan_skipped name step = bindA (getS (\<lambda>s. lp_plan s = None \<and> lp_plan_history s = [])) (\<lambda>skipped.
     if skipped then thenA (note_that (\<lambda>_. Annotation ''plan_skipped'' step [(''first_tool'', JStr name)]))
       (modS (\<lambda>s. s\<lparr>lp_plan_history := [JDict [(''version'', JNum ''0''), (''skipped'', JBool True), (''step'', jnat step)]]\<rparr>))
     else ret ())"

definition dispatch_one :: "'w loop_env \<Rightarrow> string \<Rightarrow> string \<Rightarrow> (string, jval) dict \<Rightarrow> nat \<Rightarrow> ('w, unit) loop_act" where
  \<comment> \<open>the id of the call, its name and arguments\<close>
  "dispatch_one e call_id name args step =
     (let reply = (\<lambda>content. tool_reply (tool_message call_id content) step name []) in
      if name = PLAN_TOOL then bindA (record_plan e args step ''tool'') reply
      else if name = BLOCKER_TOOL then
        thenA (reply ''Blocker recorded; the run ends as blocked.'') (block e (agent_blocker (le_show e) args step))
      else bindA (getS lp_plan) (\<lambda>plan.
        if plan = None \<and> le_plan_required e then reply PLAN_FIRST
        else thenA (note_plan_skipped name step)
          (if name = SUBMIT_TOOL then submit e call_id args step False
           else thenA (guard_before_action e) (run_tool e call_id name args step))))"

definition count_telemetry :: "(coding_telemetry \<Rightarrow> coding_telemetry) \<Rightarrow> ('w, unit) loop_act" where
  "count_telemetry f = on_tools (\<lambda>t. t\<lparr>ts_telemetry := f (ts_telemetry t)\<rparr>)"

definition refuse_call :: "'w loop_env \<Rightarrow> tool_call \<Rightarrow> string \<Rightarrow> nat \<Rightarrow> ('w, unit) loop_act" where
  "refuse_call e tc reason step =
     thenA (count_telemetry (\<lambda>m. m\<lparr>tm_tool_calls_malformed := Suc (tm_tool_calls_malformed m)\<rparr>)) (bindA (getS lp_reasks_used) (\<lambda>used.
       if used < le_max_reasks_per_run e then
         thenA (modS (\<lambda>s. s\<lparr>lp_reasks_used := Suc used\<rparr>)) (thenA (count_telemetry (\<lambda>m. m\<lparr>tm_reasks := Suc (tm_reasks m)\<rparr>))
           (thenA (tool_reply (reask_tool_message (tc_id tc) (tc_name tc) reason) step (tc_name tc) [(''reask'', JBool True)])
             (note_that (\<lambda>_. Annotation ''reask'' step [(''tool'', JStr (tc_name tc)), (''reason'', JStr reason)]))))
       else tool_reply (tool_message (tc_id tc) (''[dropped invalid call: '' @ reason @ '']'')) step (tc_name tc) [(''dropped'', JBool True)]))"

definition dispatch_call :: "'w loop_env \<Rightarrow> (string, jval) dict \<Rightarrow> nat \<Rightarrow> tool_call \<Rightarrow> ('w, unit) loop_act" where
  "dispatch_call e schemas step tc =
     (case normalize_tool_name (tc_name tc) (tc_arguments tc) of (name, raw) \<Rightarrow>
        bindA (liftE (validate_tool_call (le_json_error e) name raw schemas)) (\<lambda>checked. case checked of
          Inl reason \<Rightarrow> refuse_call e tc reason step
        | Inr args \<Rightarrow> dispatch_one e (tc_id tc) name args step))"

fun dispatch_calls :: "'w loop_env \<Rightarrow> (string, jval) dict \<Rightarrow> nat \<Rightarrow> tool_call list \<Rightarrow> ('w, unit) loop_act" where
  "dispatch_calls e schemas step [] = ret ()"
| "dispatch_calls e schemas step (tc # tcs) = thenA (dispatch_call e schemas step tc) (dispatch_calls e schemas step tcs)"

definition dispatch_all :: "'w loop_env \<Rightarrow> (string, jval) dict \<Rightarrow> nat \<Rightarrow> tool_call list \<Rightarrow> ('w, unit) loop_act" where
  \<comment> \<open>\<open>_dispatch\<close>\<close>
  "dispatch_all e schemas step tcs = thenA (modS (\<lambda>s. s\<lparr>lp_pending_calls := map tc_id tcs\<rparr>))
     (thenA (dispatch_calls e schemas step tcs) (modS (\<lambda>s. s\<lparr>lp_pending_calls := []\<rparr>)))"

section \<open>Replies in plain text\<close>

definition says_submit :: "string \<Rightarrow> bool" where
  "says_submit t = rx_search (ci (cat [LineStart, Star space, lit ''submit'', Star space, LineEnd])) t"

definition fenced_command :: "string \<Rightarrow> string option" where
  "fenced_command t = (let fence = lit (replicate 3 (CHR 0x60)) in
     rx_search_group (cat [fence, opt (Alt (lit ''bash'') (lit ''sh'')), Star space, chr newline]) (LazyStar (Ch (\<lambda>_. True))) fence t)"

definition bash_step :: "'w loop_env \<Rightarrow> string \<Rightarrow> nat \<Rightarrow> ('w, unit) loop_act" where
  "bash_step e command step =
     thenA (bindA (getS (\<lambda>s. lp_plan s = None \<and> lp_plan_history s = [])) (\<lambda>first.
         if first then thenA (record_plan e [(''steps'', JList []), (''note'', JStr ''bash-only protocol'')] step ''text'') (ret ()) else ret ()))
       (thenA (guard_before_action e) (thenA (modS (update_usage (\<lambda>u. u\<lparr>bu_actions := Suc (bu_actions u)\<rparr>)))
         (bindA (getS (\<lambda>s. length (ts_gateway_blocks (lp_tools s)))) (\<lambda>blocks_before.
           bindA (run_dispatch e ''execute_bash'' [(''command'', JStr (py_strip command))]) (\<lambda>result.
             thenA (observe (''Observation:'' @ nl @ result) step ''execute_bash'')
               (bindA (getS (new_blocks blocks_before)) (check_budget_policy e)))))))"

definition nudge :: "'w loop_env \<Rightarrow> 'w loop \<Rightarrow> string" where
  "nudge e s = (if lp_plan s = None \<and> le_plan_required e then ''Record your plan with '' @ PLAN_TOOL @ '' first.''
     else ''Continue working using the tools. When every done criterion is met, call '' @
       quoted ''submit'' @ ''; it runs the verifiers. If you cannot proceed, call report_blocker.'')"

definition plan_or_nudge :: "'w loop_env \<Rightarrow> string \<Rightarrow> nat \<Rightarrow> ('w, unit) loop_act" where
  "plan_or_nudge e t step = bindA (getS (\<lambda>s. s)) (\<lambda>s.
     if lp_plan s = None \<and> py_strip t \<noteq> [] \<and> jtruthy (arg (plan_from_text t) ''steps'')
     then bindA (record_plan e (plan_from_text t) step ''text'') (\<lambda>n. observe (n @ '' Now carry out the plan using the tools.'') step [])
     else observe (nudge e s) step [])"

definition handle_text :: "'w loop_env \<Rightarrow> string \<Rightarrow> nat \<Rightarrow> ('w, unit) loop_act" where
  "handle_text e t step =
     (if le_bash_only e \<and> says_submit t then submit e [] [(''answer'', JStr t)] step True
      else case (if le_bash_only e then fenced_command t else None) of
        Some command \<Rightarrow> bash_step e command step
      | None \<Rightarrow> plan_or_nudge e t step)"

section \<open>The run\<close>

definition loop_tools :: "'w loop_env \<Rightarrow> 'w loop \<Rightarrow> jval list" where
  \<comment> \<open>\<open>_tool_schemas\<close>\<close>
  "loop_tools e s =
     (if le_bash_only e then []
      else filter (\<lambda>t. case schema_name t of JStr n \<Rightarrow> n \<in> set (ec_tools (en_capabilities (le_envelope e))) \<or> n = SUBMIT_TOOL | _ \<Rightarrow> False)
          (tool_schemas (ts_edit_format (lp_tools s)) @ (case ct_skills (le_toolset e) of None \<Rightarrow> [] | Some _ \<Rightarrow> le_skill_schemas e)) @ loop_tool_schemas)"

definition system_prompt :: "'w loop_env \<Rightarrow> string" where
  "system_prompt e = (case le_discovery_block e of
     Some f \<Rightarrow>
       if ''use_skill'' \<in> set (ec_tools (en_capabilities (le_envelope e))) then
         (let found = f (en_goal (le_envelope e) @ nl @ le_user_prompt e) in
          if found \<noteq> [] then rstrip py_isspace (le_system_prompt e) @ nl @ nl @ found else le_system_prompt e)
       else le_system_prompt e
   | None \<Rightarrow> le_system_prompt e)"

definition initial_user_message :: "'w loop_env \<Rightarrow> string" where
  "initial_user_message e =
     (let env = le_envelope e; b = en_budget env; print = (\<lambda>x. jstr (le_show e) (le_num e x));
          plan_line = (if \<not> le_bash_only e
            then ''Before acting, call '' @ quoted PLAN_TOOL @ '' with your steps and, for each done criterion '' @
              ''id, how you will verify it. Revise it with the same tool when the plan changes.''
            else ''Start by stating your plan (numbered steps) in plain text.'') in
      py_strip (le_user_prompt e) @ nl @ nl @ ''<envelope>'' @ nl @ ''Goal: '' @ en_goal env @ nl @
      ''Done criteria (all are verified when you submit):'' @ nl @ describe_criteria env @ nl @
      ''Budget: '' @ print (rb_max_steps b) @ '' steps, '' @ print (rb_max_actions b) @ '' actions, '' @ py_str_int (floor_number (rb_max_seconds b)) @ ''s, '' @
      print (rb_max_tokens b) @ '' tokens, $'' @ le_money e (rb_max_cost_usd b) @ ''. Autonomy tier: '' @ en_autonomy_tier env @ ''.'' @ nl @
      ''</envelope>'' @ nl @ nl @ plan_line @ '' When every criterion is met, call '' @ quoted ''submit'' @ '': it runs the verifiers and '' @
      ''a failing check rejects the submit with its findings. If a criterion is ambiguous '' @
      ''or you cannot proceed (missing tool or access, denied action), call '' @ quoted BLOCKER_TOOL @ '' with the blocker and what would unblock it.'')"

definition assistant_message :: "'w loop_env \<Rightarrow> chat_response \<Rightarrow> jval" where
  "assistant_message e resp = JDict ([(''role'', JStr ''assistant''), (''content'', if ch_text resp \<noteq> [] then JStr (ch_text resp) else JNull)] @
     (if ch_tool_calls resp \<noteq> [] then [(''tool_calls'', JList (map (\<lambda>tc. JDict [(''id'', JStr (tc_id tc)), (''type'', JStr ''function''),
        (''function'', JDict [(''name'', JStr (tc_name tc)), (''arguments'', case tc_arguments tc of JStr t \<Rightarrow> JStr t | v \<Rightarrow> JStr (to_json (le_show e) v))])])
        (ch_tool_calls resp)))] else []))"

definition take_step :: "'w loop_env \<Rightarrow> chat_response \<Rightarrow> 'w loop \<Rightarrow> 'w loop" where
  "take_step e resp s =
     (let s = update_usage (\<lambda>u. u\<lparr>bu_steps := Suc (bu_steps u)\<rparr>) s; step = bu_steps (lp_usage s); msg = assistant_message e resp in
      add_note (Emitted ''model_step'' [(''step'', jnat step), (''has_tools'', JBool (ch_tool_calls resp \<noteq> [])), (''text'', JStr (take 200 (ch_text resp)))])
        (add_note (Recorded msg step (JDict (ch_usage resp))) (s\<lparr>lp_messages := lp_messages s @ [msg]\<rparr>)))"

definition handle_response :: "'w loop_env \<Rightarrow> jval list \<Rightarrow> chat_response \<Rightarrow> nat \<Rightarrow> ('w, unit) loop_act" where
  "handle_response e tools resp step =
     (if ch_tool_calls resp \<noteq> [] then dispatch_all e (schema_by_name tools) step (ch_tool_calls resp) else handle_text e (ch_text resp) step)"

definition loop_step :: "'w loop_env \<Rightarrow> jval list \<Rightarrow> ('w, unit) loop_act" where
  \<comment> \<open>one turn of the loop\<close>
  "loop_step e tools =
     thenA (guard_before_model_call e) (bindA (call_model e tools) (\<lambda>resp. thenA (modS (take_step e resp))
       (bindA (getS (\<lambda>s. bu_steps (lp_usage s))) (\<lambda>step. thenA (handle_response e tools resp step) (modS (save_checkpoint e))))))"

partial_function (option) run_loop :: "'w loop_env \<Rightarrow> jval list \<Rightarrow> 'w loop \<Rightarrow> ('w loop \<times> run_result res) option" where
  "run_loop e tools s = (case loop_step e tools s of
     (s', Ok _) \<Rightarrow> run_loop e tools s'
   | (s', Raised x) \<Rightarrow> Some (s', Inl x)
   | (s', Ended r) \<Rightarrow> Some (s', Inr r))"

declare run_loop.simps [code]

definition start_run :: "'w loop_env \<Rightarrow> 'w loop \<Rightarrow> 'w loop" where
  "start_run e s =
     (let system = JDict [(''role'', JStr ''system''), (''content'', JStr (system_prompt e))];
          user = JDict [(''role'', JStr ''user''), (''content'', JStr (initial_user_message e))] in
      save_checkpoint e (s\<lparr>lp_messages := [system, user], lp_started := True,
        lp_log := lp_log s @ [Header (system_prompt e), Recorded system 0 JNull, Recorded user 0 JNull]\<rparr>))"

definition resume_run :: "'w loop_env \<Rightarrow> 'w loop \<Rightarrow> 'w loop" where
  "resume_run e s =
     (let step = bu_steps (lp_usage s) in
      add_note (Emitted ''resumed'' [(''step'', jnat step)])
        (add_note (Annotation ''resumed'' step [(''from_checkpoint'', JStr (case le_checkpoint_path e of Some p \<Rightarrow> p | None \<Rightarrow> ''None''))]) s))"

definition result_from_final :: "'w loop \<Rightarrow> run_result \<Rightarrow> run_result" where
  "result_from_final s r = r\<lparr>rr_plan := lp_plan s, rr_plan_history := lp_plan_history s, rr_verification := lp_verification s, rr_usage := lp_usage s,
     rr_messages := lp_messages s\<rparr>"

definition NO_JUDGE :: blocker where
  "NO_JUDGE = \<lparr>bl_kind = ''configuration'', bl_detail = ''the envelope has free-text criteria but no acceptance judge'',
     bl_unblock = ''configure a judge model for the run'', bl_evidence = []\<rparr>"

definition run :: "'w loop_env \<Rightarrow> 'w loop \<Rightarrow> ('w loop \<times> run_result res) option" where
  "run e s = (case lp_final s of
     Some r \<Rightarrow> Some (s, Inr (result_from_final s r))
   | None \<Rightarrow>
       (let s = s\<lparr>lp_t0 := elapsed_since (bu_elapsed_seconds (lp_usage s)) (le_now e (lp_world s))\<rparr>;
            tools = loop_tools e s;
            s = (if \<not> lp_started s then start_run e s else resume_run e s) in
        if acceptance_criteria (le_envelope e) \<noteq> [] \<and> (case loop_judge e of None \<Rightarrow> True | Some _ \<Rightarrow> False) then
          (case block e NO_JUDGE s of
             (s, Ended r) \<Rightarrow> Some (s, Inr r)
           | (s, Raised x) \<Rightarrow> Some (s, Inl x)
           | (s, Ok ()) \<Rightarrow> run_loop e tools s)
        else run_loop e tools s))"

end
