(* ===== verification/Loop_Sound.thy ===== *)
theory Loop_Sound
  imports Verified_Loop
begin

text \<open>
  What a verified run guarantees.  Rules for actions that may return, raise or end the run are proved
  once in a locale over an invariant and what holds of a result; the loop interprets it.
\<close>

section \<open>Rules\<close>

definition hoareR :: "('s \<Rightarrow> bool) \<Rightarrow> ('s, 'e, 'a) act \<Rightarrow> ('a \<Rightarrow> 's \<Rightarrow> bool) \<Rightarrow> ('s \<Rightarrow> bool) \<Rightarrow> ('e \<Rightarrow> 's \<Rightarrow> bool) \<Rightarrow> bool" where
  "hoareR P m Q X R \<longleftrightarrow> (\<forall>s. P s \<longrightarrow> (case m s of (s', Ok x) \<Rightarrow> Q x s' | (s', Raised _) \<Rightarrow> X s' | (s', Ended r) \<Rightarrow> R r s'))"

lemma hoareRI: "(\<And>s. P s \<Longrightarrow> case m s of (s', Ok x) \<Rightarrow> Q x s' | (s', Raised _) \<Rightarrow> X s' | (s', Ended r) \<Rightarrow> R r s') \<Longrightarrow> hoareR P m Q X R"
  by (simp add: hoareR_def)

lemma hoareRD: "hoareR P m Q X R \<Longrightarrow> P s \<Longrightarrow> m s = (s', r) \<Longrightarrow> case r of Ok x \<Rightarrow> Q x s' | Raised _ \<Rightarrow> X s' | Ended e \<Rightarrow> R e s'"
  unfolding hoareR_def by (drule spec [of _ s]) (simp split: flow.splits)

lemma hoareR_bind: "hoareR P m M X R \<Longrightarrow> (\<And>x. hoareR (M x) (f x) Q X R) \<Longrightarrow> hoareR P (bindA m f) Q X R"
  unfolding hoareR_def bindA_def by (fastforce split: prod.splits flow.splits)

lemma hoareR_then: "hoareR P m (\<lambda>_. M) X R \<Longrightarrow> hoareR M n Q X R \<Longrightarrow> hoareR P (thenA m n) Q X R"
  unfolding thenA_def by (rule hoareR_bind)

lemma hoareR_mod: "(\<And>s. P s \<Longrightarrow> Q () (f s)) \<Longrightarrow> hoareR P (modS f) Q X R"
  by (simp add: hoareR_def modS_def)

lemma hoareR_ret: "(\<And>s. P s \<Longrightarrow> Q x s) \<Longrightarrow> hoareR P (ret x) Q X R"
  by (simp add: hoareR_def ret_def)

lemma hoareR_get: "(\<And>s. P s \<Longrightarrow> Q (f s) s) \<Longrightarrow> hoareR P (getS f) Q X R"
  by (simp add: hoareR_def getS_def)

lemma hoareR_conseq:
  "hoareR P' m Q' X' R' \<Longrightarrow> (\<And>s. P s \<Longrightarrow> P' s) \<Longrightarrow> (\<And>x s. Q' x s \<Longrightarrow> Q x s) \<Longrightarrow> (\<And>s. X' s \<Longrightarrow> X s) \<Longrightarrow> (\<And>r s. R' r s \<Longrightarrow> R r s) \<Longrightarrow> hoareR P m Q X R"
  unfolding hoareR_def by (fastforce split: prod.splits flow.splits)

lemma hoareR_if: "(c \<Longrightarrow> hoareR P m Q X R) \<Longrightarrow> (\<not> c \<Longrightarrow> hoareR P n Q X R) \<Longrightarrow> hoareR P (if c then m else n) Q X R"
  by simp

lemma hoareR_fact: "hoareR P m (\<lambda>_. Q) X R \<Longrightarrow> (\<And>s s' x. m s = (s', Ok x) \<Longrightarrow> F x) \<Longrightarrow> hoareR P m (\<lambda>x s. Q s \<and> F x) X R"
  unfolding hoareR_def by (fastforce split: prod.splits flow.splits)

lemma hoareR_pure: "(F \<Longrightarrow> hoareR P m Q X R) \<Longrightarrow> hoareR (\<lambda>s. P s \<and> F) m Q X R"
  by (simp add: hoareR_def)

locale kept_state =
  fixes inv :: "'s \<Rightarrow> bool" and fin :: "'e \<Rightarrow> 's \<Rightarrow> bool"
begin

definition kept :: "('s, 'e, 'a) act \<Rightarrow> bool" where
  "kept m \<longleftrightarrow> hoareR inv m (\<lambda>_. inv) inv fin"

lemma bind: "kept m \<Longrightarrow> (\<And>x. kept (f x)) \<Longrightarrow> kept (bindA m f)"
  unfolding kept_def by (rule hoareR_bind)

lemma then_: "kept m \<Longrightarrow> kept n \<Longrightarrow> kept (thenA m n)"
  unfolding kept_def by (rule hoareR_then)

lemma return: "kept (ret x)" and getting: "kept (getS f)" and lifted: "kept (liftE r)"
  by (simp_all add: kept_def hoareR_def ret_def getS_def liftE_def split: sum.splits)

lemma mod: "(\<And>s. inv s \<Longrightarrow> inv (f s)) \<Longrightarrow> kept (modS f)"
  unfolding kept_def by (rule hoareR_mod)

lemma mapped: "(\<And>x. kept (f x)) \<Longrightarrow> kept (mapA f xs)"
  by (induction xs) (auto intro!: bind return)

lemmas rules = bind then_ return getting lifted mapped

end

context kept_state
begin

definition checks_kept :: "('s, 'e) verify_env \<Rightarrow> bool" where
  \<comment> \<open>the executor and the judge keep the invariant\<close>
  "checks_kept env \<longleftrightarrow> (\<forall>cmd n s. inv s \<longrightarrow> inv (fst (ve_run_shell env cmd n s))) \<and> (\<forall>path s. inv s \<longrightarrow> inv (fst (ve_read_file env path s))) \<and>
     (\<forall>ask ms. ve_judge env = Some ask \<longrightarrow> kept (ask ms))"

lemma command_kept: "checks_kept env \<Longrightarrow> kept (run_command_check env c)"
  unfolding kept_def run_command_check_def checks_kept_def
  by (rule hoareRI) (auto split: prod.splits sum.splits dest: spec [of _ "ck_command c"], (metis fst_conv)+)

lemma file_kept: "checks_kept env \<Longrightarrow> kept (run_file_check env c)"
  unfolding kept_def run_file_check_def checks_kept_def
  by (rule hoareRI) (auto split: prod.splits read_outcome.splits, (metis fst_conv)+)

lemma run_check_kept: "checks_kept env \<Longrightarrow> kept (run_check env c)"
  by (cases c) (auto intro!: rules command_kept file_kept)

lemma judge_kept:
  assumes "kept (ask [(''system'', JUDGE_SYSTEM_PROMPT), (''user'', judge_prompt goal criteria diff answer det)])"
  shows "kept (judge env ask goal criteria diff answer det)"
  unfolding kept_def
proof (rule hoareRI)
  fix s assume s: "inv s"
  let ?m = "ask [(''system'', JUDGE_SYSTEM_PROMPT), (''user'', judge_prompt goal criteria diff answer det)]"
  obtain s' r where m: "?m s = (s', r)" by fastforce
  show "case judge env ask goal criteria diff answer det s of (s', Ok x) \<Rightarrow> inv s' | (s', Raised _) \<Rightarrow> inv s' | (s', Ended r) \<Rightarrow> fin r s'"
    using hoareRD [OF assms [unfolded kept_def] s m] s m
    by (cases r) (auto simp: judge_def liftE_def split: sum.splits)
qed

lemma run_judge_kept: "checks_kept env \<Longrightarrow> kept (run_judge env e diff answer det)"
  unfolding run_judge_def by (auto intro!: rules judge_kept simp: checks_kept_def split: option.splits)

lemma verify_kept:
  assumes "checks_kept env"
  shows "kept (verify env e diff answer n)"
proof -
  have "kept (\<lambda>s. (s, Ok (f s)))" for f :: "'s \<Rightarrow> verification_report" using getting [of f] by (simp add: getS_def [abs_def])
  then show ?thesis unfolding verify_def using assms by (auto intro!: rules run_check_kept run_judge_kept split: prod.split)
qed

end

section \<open>The invariant of a run\<close>

definition actions_within :: "'w loop_env \<Rightarrow> nat \<Rightarrow> bool" where
  "actions_within e n \<longleftrightarrow> (\<forall>k. rb_max_actions (budget_of e) = Fin (of_nat k) \<longrightarrow> n \<le> k)"

definition steps_within :: "'w loop_env \<Rightarrow> nat \<Rightarrow> bool" where
  "steps_within e n \<longleftrightarrow> (\<forall>k. rb_max_steps (budget_of e) = Fin (of_nat k) \<longrightarrow> n \<le> k)"

definition run_inv :: "'w loop_env \<Rightarrow> nat \<Rightarrow> 'w loop \<Rightarrow> bool" where
  "run_inv e n s \<longleftrightarrow> bu_steps (lp_usage s) = n \<and> steps_within e n \<and> actions_within e (bu_actions (lp_usage s)) \<and> toolset_ok (le_toolset e) 0 (lp_tools s)"

definition one_end :: "run_result \<Rightarrow> bool" where
  \<comment> \<open>exactly what belongs to the end state is there\<close>
  "one_end r \<longleftrightarrow> (rr_end_state r = Done \<longleftrightarrow> rr_evidence r \<noteq> None) \<and> (rr_end_state r = Done \<longleftrightarrow> rr_submission r \<noteq> None) \<and>
     (rr_end_state r = Blocked_run \<longleftrightarrow> rr_blocker r \<noteq> None) \<and> (rr_end_state r = Stopped \<longleftrightarrow> rr_stop r \<noteq> None)"

definition all_verified :: "'w loop_env \<Rightarrow> bool" where
  "all_verified e \<longleftrightarrow> (\<forall>c \<in> set (en_done_criteria (le_envelope e)). verified (loop_verify_env e) c)"

definition result_ok :: "'w loop_env \<Rightarrow> run_result \<Rightarrow> 'w loop \<Rightarrow> bool" where
  "result_ok e r s \<longleftrightarrow> one_end r \<and> (rr_end_state r = Done \<longrightarrow> all_verified e) \<and> steps_within e (bu_steps (rr_usage r)) \<and>
     actions_within e (bu_actions (rr_usage r)) \<and> toolset_ok (le_toolset e) 0 (lp_tools s) \<and>
     (\<exists>f. lp_final s = Some f \<and> result_from_final s f = r)"

interpretation step: kept_state "run_inv e n" "result_ok e"
  for e :: "'w loop_env" and n :: nat .

named_theorems kept \<open>actions that keep the invariant of the run\<close>

lemmas step_rules [kept] = step.rules

lemma inv_simps [simp]:
  "run_inv e n (set_elapsed e' s) = run_inv e n s" "run_inv e n (add_note m s) = run_inv e n s" "run_inv e n (set_world w s) = run_inv e n s"
  "run_inv e n (s\<lparr>lp_messages := ms\<rparr>) = run_inv e n s" "run_inv e n (s\<lparr>lp_budget_warnings := ws\<rparr>) = run_inv e n s"
  "run_inv e n (s\<lparr>lp_pending_calls := ps\<rparr>) = run_inv e n s" "run_inv e n (s\<lparr>lp_plan := p, lp_plan_history := h\<rparr>) = run_inv e n s"
  "run_inv e n (s\<lparr>lp_plan_history := h\<rparr>) = run_inv e n s" "run_inv e n (s\<lparr>lp_plan := p\<rparr>) = run_inv e n s" "run_inv e n (s\<lparr>lp_verification := v\<rparr>) = run_inv e n s"
  "run_inv e n (s\<lparr>lp_failure_fingerprints := f\<rparr>) = run_inv e n s" "run_inv e n (s\<lparr>lp_reasks_used := k\<rparr>) = run_inv e n s"
  by (simp_all add: run_inv_def set_elapsed_def add_note_def set_world_def update_usage_def toolset_ok_defs)

lemma inv_save [simp]: "run_inv e n (save_checkpoint e' s) = run_inv e n s"
  by (simp add: run_inv_def save_checkpoint_def add_note_def update_usage_def Let_def)

lemma inv_usage: "(\<And>u. bu_steps (f u) = bu_steps u) \<Longrightarrow> (\<And>u. bu_actions (f u) = bu_actions u) \<Longrightarrow> run_inv e n (update_usage f s) = run_inv e n s"
  by (simp add: run_inv_def update_usage_def)

lemma inv_tick [simp]: "run_inv e n (tick e' s) = run_inv e n s"
proof -
  have "run_inv e n (fold (warn_budget e') fs s) = run_inv e n s" for fs and s :: "'a loop"
    by (induction fs arbitrary: s) (auto simp: warn_budget_def Let_def split: prod.split)
  then show ?thesis by (simp add: tick_def Let_def)
qed

lemma tick_kept [kept]: "step.kept e n (modS (tick e'))"
  by (rule step.mod) simp

lemma save_fields: "lp_tools (save_checkpoint e s) = lp_tools s" "lp_plan (save_checkpoint e s) = lp_plan s"
  "lp_plan_history (save_checkpoint e s) = lp_plan_history s" "lp_verification (save_checkpoint e s) = lp_verification s"
  "lp_messages (save_checkpoint e s) = lp_messages s" "lp_final (save_checkpoint e s) = lp_final s"
  "bu_steps (lp_usage (save_checkpoint e s)) = bu_steps (lp_usage s)" "bu_actions (lp_usage (save_checkpoint e s)) = bu_actions (lp_usage s)"
  by (simp_all add: save_checkpoint_def add_note_def update_usage_def Let_def)

lemma close_fields: "lp_tools (close_run e r s) = lp_tools s" "lp_plan (close_run e r s) = lp_plan s"
  "lp_plan_history (close_run e r s) = lp_plan_history s" "lp_verification (close_run e r s) = lp_verification s"
  "lp_messages (close_run e r s) = lp_messages s" "lp_final (close_run e r s) = Some r"
  "bu_steps (lp_usage (close_run e r s)) = bu_steps (lp_usage s)" "bu_actions (lp_usage (close_run e r s)) = bu_actions (lp_usage s)"
  by (simp_all add: close_run_def Let_def save_fields add_note_def)

lemma inv_close_run [simp]: "run_inv e n (close_pending_calls s) = run_inv e n s"
  by (simp add: run_inv_def close_pending_calls_def Let_def)

lemma close_result_ok:
  assumes "run_inv e n s" "r = end_result e st ev bl stop_r subm s" "s' = close_run e r s"
    and "(st = Done \<longleftrightarrow> ev \<noteq> None) \<and> (st = Done \<longleftrightarrow> subm \<noteq> None) \<and> (st = Blocked_run \<longleftrightarrow> bl \<noteq> None) \<and> (st = Stopped \<longleftrightarrow> stop_r \<noteq> None)"
    and "st = Done \<longrightarrow> all_verified e"
  shows "result_ok e (r\<lparr>rr_usage := lp_usage s'\<rparr>) s'"
proof -
  have "one_end (r\<lparr>rr_usage := lp_usage s'\<rparr>)" using assms(4) unfolding assms(2) end_result_def one_end_def by auto
  moreover have "result_from_final s' r = r\<lparr>rr_usage := lp_usage s'\<rparr>" unfolding assms(3) assms(2) by (simp add: result_from_final_def close_fields end_result_def)
  ultimately show ?thesis using assms(1,5) unfolding result_ok_def by (auto simp: close_fields run_inv_def assms(3)) (simp add: assms(2) end_result_def)
qed

lemma finish_result_ok:
  assumes "run_inv e n s"
    and "(st = Done \<longleftrightarrow> ev \<noteq> None) \<and> (st = Done \<longleftrightarrow> subm \<noteq> None) \<and> (st = Blocked_run \<longleftrightarrow> bl \<noteq> None) \<and> (st = Stopped \<longleftrightarrow> stop_r \<noteq> None)"
    and "st = Done \<longrightarrow> all_verified e"
  shows "\<exists>s' r. finish e st ev bl stop_r subm s = (s', Ended r) \<and> result_ok e r s'"
proof -
  have "run_inv e n (close_pending_calls (if lp_t0 s \<noteq> Fin 0 then set_elapsed e s else s))" using assms(1) by simp
  from close_result_ok [OF this refl refl assms(2,3)] show ?thesis unfolding finish_def Let_def by blast
qed

lemma finish_hoare:
  assumes "(st = Done \<longleftrightarrow> ev \<noteq> None) \<and> (st = Done \<longleftrightarrow> subm \<noteq> None) \<and> (st = Blocked_run \<longleftrightarrow> bl \<noteq> None) \<and> (st = Stopped \<longleftrightarrow> stop_r \<noteq> None)"
    and "st = Done \<longrightarrow> all_verified e"
  shows "hoareR (run_inv e n) (finish e st ev bl stop_r subm) Q X (result_ok e)"
proof (rule hoareRI)
  fix s assume "run_inv e n s"
  from finish_result_ok [OF this assms] obtain s' r where "finish e st ev bl stop_r subm s = (s', Ended r :: (run_result, 'b) flow)" "result_ok e r s'" by blast
  then show "case finish e st ev bl stop_r subm s of (s', Ok x) \<Rightarrow> Q x s' | (s', Raised _) \<Rightarrow> X s' | (s', Ended r) \<Rightarrow> result_ok e r s'" by simp
qed

lemma stop_hoare: "hoareR (run_inv e n) (stop_run e k d d') Q X (result_ok e)"
  unfolding stop_run_def by (rule finish_hoare) simp_all

lemma block_kept [kept]: "step.kept e n (block e b)"
  unfolding step.kept_def block_def by (rule finish_hoare) simp_all

lemma stop_kept [kept]: "step.kept e n (stop_run e k d d')"
  unfolding step.kept_def by (rule stop_hoare)

lemma done_kept: "all_verified e \<Longrightarrow> step.kept e n (finish e Done (Some ev) None None (Some subm))"
  unfolding step.kept_def by (rule finish_hoare) simp_all

definition ended_ok :: "'w loop_env \<Rightarrow> nat \<Rightarrow> 'w loop \<times> (run_result, 'a) flow \<Rightarrow> bool" where
  "ended_ok e n x \<longleftrightarrow> (case x of (s, Ok _) \<Rightarrow> run_inv e n s | (s, Raised _) \<Rightarrow> run_inv e n s | (s, Ended r) \<Rightarrow> result_ok e r s)"

lemma ended_ok_simps [simp]: "ended_ok e n (s, Ok x) = run_inv e n s" "ended_ok e n (s, Raised y) = run_inv e n s" "ended_ok e n (s, Ended r) = result_ok e r s"
  by (simp_all add: ended_ok_def)

lemma kept_iff: "step.kept e n m \<longleftrightarrow> (\<forall>s. run_inv e n s \<longrightarrow> ended_ok e n (m s))"
  by (simp add: step.kept_def hoareR_def ended_ok_def)

lemma keptD: "step.kept e n m \<Longrightarrow> run_inv e n s \<Longrightarrow> ended_ok e n (m s)"
  by (simp add: kept_iff)

lemma kept_cases: "step.kept e n m \<Longrightarrow> run_inv e n s \<Longrightarrow> m s = (s', r) \<Longrightarrow> ended_ok e n (s', r)"
  by (metis keptD)

lemma usage_kept [kept]:
  "step.kept e n (modS (update_usage (\<lambda>u. u\<lparr>bu_model_calls := a u, bu_tokens_estimated := b u\<rparr>)))"
  "step.kept e n (modS (update_usage (\<lambda>u. u\<lparr>bu_prompt_tokens := c u\<rparr>)))" "step.kept e n (modS (update_usage (\<lambda>u. u\<lparr>bu_completion_tokens := c u\<rparr>)))"
  "step.kept e n (modS (update_usage (\<lambda>u. u\<lparr>bu_cost_usd := d u\<rparr>)))" "step.kept e n (modS (update_usage (\<lambda>u. u\<lparr>bu_judge_calls := a u\<rparr>)))"
  "step.kept e n (modS (update_usage (\<lambda>u. u\<lparr>bu_verifier_runs := a u\<rparr>)))"
  by (rule step.mod, simp add: inv_usage)+

lemma guard_budget_kept [kept]: "step.kept e n (guard_budget e)"
  unfolding guard_budget_def by (auto intro!: kept)

lemma guard_user_kept [kept]: "step.kept e n (guard_user e)"
  unfolding kept_iff guard_user_def by (auto intro!: keptD [OF stop_kept] split: option.split prod.split sum.split)

lemma report_budget_kept [kept]: "step.kept e n (report_budget e)"
  unfolding kept_iff report_budget_def by (auto intro!: keptD [OF stop_kept] split: option.split prod.split sum.split)

lemma account_kept [kept]: "step.kept e n (account e ms resp p)"
  unfolding account_def Let_def by (intro kept)

lemma complete_chat_kept [kept]: "step.kept e n (complete_chat client ms tools extra)"
  unfolding kept_iff complete_chat_def by (auto split: option.split prod.split sum.split)

lemma call_attempts_kept: "step.kept e n (call_attempts e ms tools extra k a err)"
proof (induction k arbitrary: a err)
  case 0
  then show ?case using block_kept by (simp add: kept_iff)
next
  case (Suc k)
  show ?case unfolding kept_iff
  proof (intro allI impI)
    fix s assume s: "run_inv e n s"
    obtain s1 r where c: "complete_chat (le_client e) ms tools extra s = (s1, r)" by fastforce
    have ok: "step.kept e n (thenA (account e ms resp (le_pricing e)) (ret resp))" for resp by (intro kept)
    from kept_cases [OF complete_chat_kept s c] show "ended_ok e n (call_attempts e ms tools extra (Suc k) a err s)"
      using c keptD [OF ok] keptD [OF Suc.IH] by (cases r) (simp_all add: Let_def)
  qed
qed

lemma call_model_kept [kept]: "step.kept e n (call_model e tools)"
  unfolding kept_iff call_model_def Let_def using keptD [OF call_attempts_kept] by blast

lemma reply_kept [kept]: "step.kept e n (tool_reply msg st tool meta)" "step.kept e n (observe c st tool)" "step.kept e n (reply_or_observe c st i b)"
  "step.kept e n (note_that f)"
  unfolding reply_or_observe_def tool_reply_def observe_def note_that_def Let_def by (auto intro!: step.mod)

lemma check_budget_policy_kept [kept]: "step.kept e n (check_budget_policy e bs)"
  by (induction bs) (auto intro!: kept)

lemma run_dispatch_kept [kept]: "step.kept e n (run_dispatch e name args)"
  unfolding kept_iff
proof (intro allI impI)
  fix s assume s: "run_inv e n s"
  obtain ts r where d: "dispatch (le_toolset e) name args (lp_tools s) = (ts, r)" by fastforce
  have "toolset_ok (le_toolset e) 0 ts" using dispatch_toolset_ok [of "le_toolset e" "lp_tools s" name args] s d by (simp add: run_inv_def)
  then show "ended_ok e n (run_dispatch e name args s)" using s d by (cases r) (simp_all add: run_dispatch_def run_inv_def)
qed

lemma caught_kept [kept]: "step.kept e n m \<Longrightarrow> step.kept e n (caught m)"
  unfolding kept_iff caught_def by (fastforce split: prod.splits flow.splits)

lemma max_version_plan_kept [kept]: "step.kept e n (record_plan e args st src)"
  unfolding record_plan_def Let_def by (auto intro!: kept step.mod)

lemma tools_kept [kept]:
  "step.kept e n (on_tools (\<lambda>t. t\<lparr>ts_submitted := False, ts_submission := None\<rparr>))"
  "step.kept e n (on_tools (\<lambda>t. t\<lparr>ts_telemetry := (ts_telemetry t)\<lparr>tm_tool_calls_total := a t\<rparr>\<rparr>))"
  "step.kept e n (count_telemetry (\<lambda>m. m\<lparr>tm_tool_calls_malformed := b m\<rparr>))" "step.kept e n (count_telemetry (\<lambda>m. m\<lparr>tm_reasks := b m\<rparr>))"
  unfolding on_tools_def count_telemetry_def by (rule step.mod, simp add: run_inv_def toolset_ok_defs)+

lemma judge_complete_kept: "step.kept e n (judge_complete e ms)"
  unfolding judge_complete_def Let_def by (auto intro!: kept)

lemma verify_env_kept: "step.checks_kept e n (loop_verify_env e)"
  unfolding step.checks_kept_def loop_verify_env_def Let_def
  by (auto simp: loop_judge_def judge_complete_kept split: prod.split flow.split)

section \<open>Actions and submissions\<close>

definition act_ready :: "'w loop_env \<Rightarrow> nat \<Rightarrow> 'w loop \<Rightarrow> bool" where
  \<comment> \<open>one more action is within the budget\<close>
  "act_ready e n s \<longleftrightarrow> run_inv e n s \<and> actions_within e (Suc (bu_actions (lp_usage s)))"

lemma kept_hoareR: "step.kept e n m \<Longrightarrow> hoareR (run_inv e n) m (\<lambda>_. run_inv e n) (run_inv e n) (result_ok e)"
  by (simp add: step.kept_def)

lemma keptI: "hoareR (run_inv e n) m (\<lambda>_. run_inv e n) (run_inv e n) (result_ok e) \<Longrightarrow> step.kept e n m"
  by (simp add: step.kept_def)

lemma not_exhausted: "\<not> float_ge (Fin (of_nat a)) (rb_max_actions (budget_of e)) \<Longrightarrow> actions_within e (Suc a)"
  by (auto simp: actions_within_def)

lemma report_budget_ready: "hoareR (act_ready e n) (report_budget e) (\<lambda>_. act_ready e n) (run_inv e n) (result_ok e)"
proof (rule hoareRI)
  fix s assume s: "act_ready e n s"
  have w: "act_ready e n (set_world w s)" for w using s by (simp add: act_ready_def set_world_def run_inv_def toolset_ok_defs)
  show "case report_budget e s of (s', Ok x) \<Rightarrow> act_ready e n s' | (s', Raised _) \<Rightarrow> run_inv e n s' | (s', Ended r) \<Rightarrow> result_ok e r s'"
  proof (cases "le_budget_sink e")
    case (Some sink)
    obtain w r where r: "sink (usage_figures (le_round e) (lp_usage s) (budget_of e)) (lp_world s) = (w, r)" by fastforce
    have i: "run_inv e n (set_world w s)" using w by (simp add: act_ready_def)
    show ?thesis
    proof (cases r)
      case (Inl x)
      then show ?thesis using Some r hoareR_def [THEN iffD1, OF stop_hoare, rule_format, OF i] by (simp add: report_budget_def)
    qed (use Some r w in \<open>simp add: report_budget_def\<close>)
  qed (use s in \<open>simp add: report_budget_def\<close>)
qed

lemma guard_before_action_ready: "hoareR (run_inv e n) (guard_before_action e) (\<lambda>_. act_ready e n) (run_inv e n) (result_ok e)"
  unfolding guard_before_action_def
proof (intro hoareR_then [OF kept_hoareR [OF guard_user_kept]] hoareR_then [OF kept_hoareR [OF guard_budget_kept]] hoareR_then [OF _ report_budget_ready]
    hoareR_bind)
  show "hoareR (run_inv e n) (getS (\<lambda>s. bu_actions (lp_usage s))) (\<lambda>a s. run_inv e n s \<and> a = bu_actions (lp_usage s)) (run_inv e n) (result_ok e)"
    by (rule hoareR_get) simp
next
  fix a
  show "hoareR (\<lambda>s. run_inv e n s \<and> a = bu_actions (lp_usage s))
      (if float_ge (Fin (of_nat a)) (rb_max_actions (budget_of e)) then stop_run e Stop_budget ''actions'' ''action budget exhausted'' else ret ())
      (\<lambda>_. act_ready e n) (run_inv e n) (result_ok e)"
    by (cases "float_ge (Fin (of_nat a)) (rb_max_actions (budget_of e))")
      (auto intro: hoareR_conseq [OF stop_hoare] intro!: hoareR_ret simp: act_ready_def dest: not_exhausted)
qed

lemma guard_before_action_kept [kept]: "step.kept e n (guard_before_action e)"
  by (rule keptI, rule hoareR_conseq [OF guard_before_action_ready]) (simp_all add: act_ready_def)

lemma count_action: "hoareR (act_ready e n) (modS (update_usage (\<lambda>u. u\<lparr>bu_actions := Suc (bu_actions u)\<rparr>))) (\<lambda>_. run_inv e n) (run_inv e n) (result_ok e)"
  by (rule hoareR_mod) (simp add: act_ready_def run_inv_def update_usage_def)

lemma count_call: "hoareR (act_ready e n) (on_tools (\<lambda>t. t\<lparr>ts_telemetry := (ts_telemetry t)\<lparr>tm_tool_calls_total := a t\<rparr>\<rparr>)) (\<lambda>_. act_ready e n) (run_inv e n) (result_ok e)"
  unfolding on_tools_def by (rule hoareR_mod) (simp add: act_ready_def run_inv_def toolset_ok_defs)

lemma run_tool_kept: "step.kept e n (thenA (guard_before_action e) (run_tool e i name args st))"
  unfolding run_tool_def
  by (rule keptI, rule hoareR_then [OF guard_before_action_ready], rule hoareR_then [OF count_call], rule hoareR_then [OF count_action], rule kept_hoareR)
    (auto intro!: kept split: prod.split)

lemma record_report_kept [kept]: "step.kept e n (record_report e st rp)"
  unfolding record_report_def Let_def by (auto intro!: kept step.mod)

lemma report_rejected_kept [kept]: "step.kept e n (report_rejected e st i b rp)"
  unfolding report_rejected_def Let_def by (auto intro!: kept step.mod)

lemma verify_report_sound:
  assumes "envelope_ok (le_envelope e)"
  shows "hoareR (run_inv e n) (verify (loop_verify_env e) (le_envelope e) diff answer k) (\<lambda>rp s. run_inv e n s \<and> (vr_passed rp \<longrightarrow> all_verified e)) (run_inv e n) (result_ok e)"
proof (rule hoareR_fact [OF kept_hoareR [OF step.verify_kept [OF verify_env_kept]]])
  fix s s' rp assume v: "verify (loop_verify_env e) (le_envelope e) diff answer k s = (s', Ok rp)"
  have "distinct (map criterion_id (en_done_criteria (le_envelope e)))" using assms by (simp add: envelope_ok_def)
  from results_for_passed [OF verify_for [OF this v]] show "vr_passed rp \<longrightarrow> all_verified e" by (simp add: vr_passed_def all_verified_def)
qed

lemma after_report_kept:
  assumes "vr_passed rp \<longrightarrow> all_verified e"
  shows "step.kept e n (if vr_passed rp then
      thenA (reply_or_observe c st i b) (bindA (getS (evidence_of e rp)) (\<lambda>ev. finish e Done (Some ev) None None (Some subm)))
    else report_rejected e st i b rp)"
  using assms by (auto intro!: kept done_kept)

lemma verify_submission_kept:
  assumes "envelope_ok (le_envelope e)"
  shows "step.kept e n (verify_submission e st i b subm)"
  unfolding verify_submission_def
  apply (rule step.bind [OF step.getting], simp only: split_paired_all prod.case)
  apply (intro step.then_ report_budget_kept usage_kept)
  apply (rule keptI, rule hoareR_bind [OF verify_report_sound [OF assms]])
  apply (rule hoareR_pure, rule kept_hoareR, intro step.then_ step.bind record_report_kept check_budget_policy_kept step.getting)
  apply (rule after_report_kept, assumption)
  done

section \<open>Steps\<close>

lemma submit_kept [kept]: "envelope_ok (le_envelope e) \<Longrightarrow> step.kept e n (submit e i args st b)"
  unfolding submit_def by (auto intro!: kept verify_submission_kept)

lemma note_plan_skipped_kept [kept]: "step.kept e n (note_plan_skipped name st)"
  unfolding note_plan_skipped_def by (auto intro!: kept step.mod)

lemma dispatch_one_kept: "envelope_ok (le_envelope e) \<Longrightarrow> step.kept e n (dispatch_one e i name args st)"
  unfolding dispatch_one_def Let_def by (auto intro!: kept run_tool_kept)

lemma refuse_call_kept: "step.kept e n (refuse_call e tc reason st)"
  unfolding refuse_call_def by (auto intro!: kept step.mod)

lemma dispatch_call_kept: "envelope_ok (le_envelope e) \<Longrightarrow> step.kept e n (dispatch_call e schemas st tc)"
  unfolding dispatch_call_def by (auto intro!: kept refuse_call_kept dispatch_one_kept split: prod.split sum.split)

lemma dispatch_all_kept: "envelope_ok (le_envelope e) \<Longrightarrow> step.kept e n (dispatch_all e schemas st tcs)"
proof -
  assume "envelope_ok (le_envelope e)"
  then have "step.kept e n (dispatch_calls e schemas st tcs)" by (induction tcs) (auto intro!: kept dispatch_call_kept)
  then show ?thesis unfolding dispatch_all_def by (auto intro!: kept step.mod)
qed

lemma bash_step_kept: "step.kept e n (bash_step e command st)"
  unfolding bash_step_def
proof (rule step.then_)
  show "step.kept e n (bindA (getS (\<lambda>s. lp_plan s = None \<and> lp_plan_history s = [])) (\<lambda>first.
      if first then thenA (record_plan e [(''steps'', JList []), (''note'', JStr ''bash-only protocol'')] st ''text'') (ret ()) else ret ()))"
    by (auto intro!: kept)
  show "step.kept e n (thenA (guard_before_action e) (thenA (modS (update_usage (\<lambda>u. u\<lparr>bu_actions := Suc (bu_actions u)\<rparr>)))
      (bindA (getS (\<lambda>s. length (ts_gateway_blocks (lp_tools s)))) (\<lambda>blocks_before.
        bindA (run_dispatch e ''execute_bash'' [(''command'', JStr (py_strip command))]) (\<lambda>result.
          thenA (observe (''Observation:'' @ nl @ result) st ''execute_bash'') (bindA (getS (new_blocks blocks_before)) (check_budget_policy e)))))))"
    by (rule keptI, rule hoareR_then [OF guard_before_action_ready], rule hoareR_then [OF count_action], rule kept_hoareR) (intro kept)
qed

lemma handle_text_kept: "envelope_ok (le_envelope e) \<Longrightarrow> step.kept e n (handle_text e t st)"
  unfolding handle_text_def plan_or_nudge_def by (auto intro!: kept bash_step_kept split: option.split)

lemma guard_model_call_hoare:
  "hoareR (run_inv e n) (guard_before_model_call e) (\<lambda>_ s. run_inv e n s \<and> \<not> float_ge (Fin (of_nat n)) (rb_max_steps (budget_of e))) (run_inv e n) (result_ok e)"
  unfolding guard_before_model_call_def
proof (intro hoareR_then [OF kept_hoareR [OF guard_user_kept]] hoareR_then [OF kept_hoareR [OF guard_budget_kept]] hoareR_bind)
  show "hoareR (run_inv e n) (getS (\<lambda>s. s)) (\<lambda>t s. run_inv e n s \<and> t = s) (run_inv e n) (result_ok e)" by (rule hoareR_get) simp
next
  fix t
  show "hoareR (\<lambda>s. run_inv e n s \<and> t = s)
     (if float_ge (Fin (of_nat (bu_steps (lp_usage t)))) (rb_max_steps (budget_of e)) then stop_run e Stop_budget ''steps'' ''step budget exhausted''
      else if rb_max_context_tokens (budget_of e) \<noteq> Fin 0 \<and>
        float_ge (Fin (of_int (messages_tokens (le_show e) (lp_messages t)))) (rb_max_context_tokens (budget_of e))
      then stop_run e Stop_budget ''context_tokens'' ''context budget exhausted'' else ret ())
     (\<lambda>_ s. run_inv e n s \<and> \<not> float_ge (Fin (of_nat n)) (rb_max_steps (budget_of e))) (run_inv e n) (result_ok e)"
  proof (intro hoareR_if)
    assume "\<not> float_ge (Fin (of_nat (bu_steps (lp_usage t)))) (rb_max_steps (budget_of e))"
    then show "hoareR (\<lambda>s. run_inv e n s \<and> t = s) (ret ())
        (\<lambda>_ s. run_inv e n s \<and> \<not> float_ge (Fin (of_nat n)) (rb_max_steps (budget_of e))) (run_inv e n) (result_ok e)"
      by (intro hoareR_ret) (auto simp: run_inv_def)
  qed (rule hoareR_conseq [OF stop_hoare [of e n]], simp_all)+
qed

lemma guard_model_call_any:
  "hoareR (run_inv e n) (guard_before_model_call e) (\<lambda>_ s. run_inv e n s \<and> \<not> float_ge (Fin (of_nat n)) (rb_max_steps (budget_of e))) (\<lambda>_. True) (result_ok e)"
  by (rule hoareR_conseq [OF guard_model_call_hoare]) simp_all

lemma count_step:
  "hoareR (\<lambda>s. run_inv e n s \<and> \<not> float_ge (Fin (of_nat n)) (rb_max_steps (budget_of e))) (modS (take_step e resp))
     (\<lambda>_. run_inv e (Suc n)) (\<lambda>_. True) (result_ok e)"
  by (rule hoareR_mod) (auto simp: run_inv_def take_step_def add_note_def update_usage_def steps_within_def Let_def)

lemma kept_any: "step.kept e n m \<Longrightarrow> hoareR (run_inv e n) m (\<lambda>_. run_inv e n) (\<lambda>_. True) (result_ok e)"
  by (rule hoareR_conseq [OF kept_hoareR]) simp_all

lemma loop_step_hoare:
  assumes "envelope_ok (le_envelope e)"
  shows "hoareR (run_inv e n) (loop_step e tools) (\<lambda>_ s. run_inv e (Suc n) s \<and> \<not> float_ge (Fin (of_nat n)) (rb_max_steps (budget_of e))) (\<lambda>_. True) (result_ok e)"
  unfolding loop_step_def
proof (rule hoareR_then [OF guard_model_call_any])
  let ?lt = "\<not> float_ge (Fin (of_nat n)) (rb_max_steps (budget_of e))"
  let ?rest = "\<lambda>resp. bindA (getS (\<lambda>s. bu_steps (lp_usage s))) (\<lambda>step. thenA (handle_response e tools resp step) (modS (save_checkpoint e)))"
  have call: "hoareR (run_inv e n) (call_model e tools) (\<lambda>_. run_inv e n) (\<lambda>_. True) (result_ok e)" by (rule kept_any [OF call_model_kept])
  have rest: "hoareR (run_inv e (Suc n)) (?rest resp) (\<lambda>_. run_inv e (Suc n)) (\<lambda>_. True) (result_ok e)" for resp
    unfolding handle_response_def
    by (rule kept_any, intro step.bind step.getting step.then_ step.mod) (auto intro!: dispatch_all_kept handle_text_kept assms)
  show "hoareR (\<lambda>s. run_inv e n s \<and> ?lt) (bindA (call_model e tools) (\<lambda>resp. thenA (modS (take_step e resp)) (?rest resp)))
      (\<lambda>_ s. run_inv e (Suc n) s \<and> ?lt) (\<lambda>_. True) (result_ok e)"
  proof (rule hoareR_pure)
    assume lt: ?lt
    have step: "hoareR (run_inv e n) (modS (take_step e resp)) (\<lambda>_. run_inv e (Suc n)) (\<lambda>_. True) (result_ok e)" for resp
      by (rule hoareR_conseq [OF count_step]) (use lt in simp_all)
    show "hoareR (run_inv e n) (bindA (call_model e tools) (\<lambda>resp. thenA (modS (take_step e resp)) (?rest resp)))
        (\<lambda>_ s. run_inv e (Suc n) s \<and> ?lt) (\<lambda>_. True) (result_ok e)"
      by (rule hoareR_conseq [OF hoareR_bind [OF call hoareR_then [OF step rest]]]) (use lt in simp_all)
  qed
qed

section \<open>Runs\<close>

lemma run_loop_sound:
  assumes "run_loop e tools s = Some (s', x)" "envelope_ok (le_envelope e)" "run_inv e n s"
  shows "\<forall>r. x = Inr r \<longrightarrow> result_ok e r s'"
proof -
  let ?P = "\<lambda>e tools s (y :: 'a loop \<times> run_result res). envelope_ok (le_envelope e) \<longrightarrow> (\<forall>n. run_inv e n s \<longrightarrow> (\<forall>r. snd y = Inr r \<longrightarrow> result_ok e r (fst y)))"
  have "?P e tools s (s', x)"
  proof (rule run_loop.raw_induct [where P = ?P, OF _ assms(1)])
    fix f :: "'a loop_env \<Rightarrow> jval list \<Rightarrow> 'a loop \<Rightarrow> ('a loop \<times> run_result res) option" and e tools s y
    assume IH: "\<And>e tools s y. f e tools s = Some y \<Longrightarrow> ?P e tools s y"
      and y: "(case loop_step e tools s of (s', Ok _) \<Rightarrow> f e tools s' | (s', Raised x) \<Rightarrow> Some (s', Inl x) | (s', Ended r) \<Rightarrow> Some (s', Inr r)) = Some y"
    show "?P e tools s y"
    proof (intro impI allI)
      fix n r assume ok: "envelope_ok (le_envelope e)" and i: "run_inv e n s" and r: "snd y = Inr r"
      obtain s1 v where v: "loop_step e tools s = (s1, v)" by fastforce
      note h = hoareRD [OF loop_step_hoare [OF ok] i v]
      show "result_ok e r (fst y)"
      proof (cases v)
        case (Ok u)
        then have "f e tools s1 = Some y" "run_inv e (Suc n) s1" using y v h by simp_all
        then show ?thesis using IH ok r by blast
      qed (use y v h r in auto)
    qed
  qed
  then show ?thesis using assms(2,3) by auto
qed

lemma run_loop_ends:
  assumes ok: "envelope_ok (le_envelope e)" and q: "rb_max_steps (budget_of e) = Fin q" and i: "run_inv e n s"
  shows "\<exists>y. run_loop e tools s = Some y"
  using i
proof (induction "nat \<lceil>q\<rceil> - n" arbitrary: n s rule: less_induct)
  case less
  obtain s1 v where v: "loop_step e tools s = (s1, v)" by fastforce
  note h = hoareRD [OF loop_step_hoare [OF ok] less.prems v]
  show ?case
  proof (cases v)
    case (Ok u)
    then have "run_inv e (Suc n) s1" "of_nat n < q" using h q by auto
    moreover have "int n < \<lceil>q\<rceil>" using \<open>of_nat n < q\<close> by (simp add: less_ceiling_iff)
    then have "nat \<lceil>q\<rceil> - Suc n < nat \<lceil>q\<rceil> - n" by linarith
    ultimately obtain y where "run_loop e tools s1 = Some y" using less.hyps by blast
    then show ?thesis using v Ok by (simp add: run_loop.simps)
  qed (use v in \<open>simp_all add: run_loop.simps\<close>)
qed

definition run_ready :: "'w loop_env \<Rightarrow> 'w loop \<Rightarrow> bool" where
  \<comment> \<open>a run that has not ended, within its budget of steps and actions\<close>
  "run_ready e s \<longleftrightarrow> envelope_ok (le_envelope e) \<and> lp_final s = None \<and> run_inv e (bu_steps (lp_usage s)) s"

lemma started_inv: "run_inv e n s \<Longrightarrow> run_inv e n (if \<not> lp_started t then start_run e' s else resume_run e' s)"
  by (simp add: start_run_def resume_run_def Let_def) (simp add: run_inv_def)

lemma run_cases:
  assumes "run_ready e s"
  obtains s1 r where "run e s = Some (s1, Inr r)" "result_ok e r s1"
  | s1 n tools where "run e s = run_loop e tools s1" "run_inv e n s1"
proof -
  let ?s = "s\<lparr>lp_t0 := elapsed_since (bu_elapsed_seconds (lp_usage s)) (le_now e (lp_world s))\<rparr>"
  let ?s1 = "if \<not> lp_started ?s then start_run e ?s else resume_run e ?s"
  have "run_inv e (bu_steps (lp_usage s)) ?s" using assms by (simp add: run_ready_def run_inv_def)
  then have i: "run_inv e (bu_steps (lp_usage s)) ?s1" by (rule started_inv)
  have "\<exists>s' r. (block e NO_JUDGE ?s1 :: 'a loop \<times> (run_result, unit) flow) = (s', Ended r) \<and> result_ok e r s'"
    unfolding block_def by (rule finish_result_ok [OF i]) simp_all
  then obtain s' r where b: "(block e NO_JUDGE ?s1 :: 'a loop \<times> (run_result, unit) flow) = (s', Ended r)" "result_ok e r s'" by blast
  show thesis
  proof (cases "acceptance_criteria (le_envelope e) \<noteq> [] \<and> (case loop_judge e of None \<Rightarrow> True | Some _ \<Rightarrow> False)")
    case True
    then have "run e s = Some (s', Inr r)" using assms b(1) by (simp add: run_def run_ready_def Let_def del: lp_t0_update_def)
    then show thesis using that(1) b(2) by blast
  next
    case False
    then have "run e s = run_loop e (loop_tools e ?s) ?s1" using assms by (auto simp: run_def run_ready_def Let_def)
    then show thesis using that(2) i by blast
  qed
qed

lemma run_result_ok:
  assumes "run_ready e s" "run e s = Some (s', Inr r)"
  shows "result_ok e r s'"
  using assms(1)
proof (cases rule: run_cases)
  case (2 s1 n tools)
  have "envelope_ok (le_envelope e)" using assms(1) by (simp add: run_ready_def)
  moreover have "run_loop e tools s1 = Some (s', Inr r)" using 2(1) assms(2) by simp
  ultimately show ?thesis using run_loop_sound 2(2) by blast
qed (use assms(2) in simp)

section \<open>Sample values\<close>

definition file_envelope :: run_envelope where
  \<comment> \<open>one criterion: the file has the fix; no tool but the loop's own\<close>
  "file_envelope = \<lparr>en_goal = ''fix'', en_done_criteria = [File \<lparr>fk_id = ''f'', fk_path = ''a.py'', fk_must_exist = True, fk_contains = ''fix'', fk_pattern = [], fk_description = []\<rparr>],
     en_capabilities = (en_capabilities sample_envelope)\<lparr>ec_tools := []\<rparr>, en_budget = sample_run_budget, en_autonomy_tier = ''tiered''\<rparr>"

definition sample_loop_env :: "(nat \<Rightarrow> chat_response) \<Rightarrow> string loop_env" where
  \<comment> \<open>the model replies by the number of messages, in plain text\<close>
  "sample_loop_env reply = \<lparr>le_run_id = ''r1'', le_envelope = file_envelope, le_toolset = sample_toolset, le_skill_schemas = [], le_discovery_block = None,
     le_client = Some (\<lambda>ms _ _ w. (w, Inr (reply (length ms)))), le_judge_client = None,
     le_pricing = \<lparr>mp_prompt_per_1k_usd = Fin 0, mp_completion_per_1k_usd = Fin 0\<rparr>, le_judge_pricing = None, le_plan_required = True, le_bash_only = True,
     le_structured_output = ''none'', le_system_prompt = [], le_user_prompt = [], le_checkpoint_path = None, le_budget_sink = None,
     le_stop_requested = (\<lambda>_. None), le_should_stop = None, le_max_reasks_per_run = 8, le_max_identical_failures = 3, le_provider_max_retries = 3,
     le_sleep = (\<lambda>_ w. w), le_now = (\<lambda>_. Fin 1), le_num = whole_number, le_round = (\<lambda>_ x. x), le_money = (\<lambda>_. ''5.00''), le_json_error = (\<lambda>_. []),
     le_sha = (\<lambda>x. x), le_search = (\<lambda>_ _. Inr False)\<rparr>"

definition sample_text :: "string \<Rightarrow> chat_response" where
  "sample_text t = \<lparr>ch_text = t, ch_tool_calls = [], ch_usage = [(''prompt_tokens'', JNum ''10''), (''completion_tokens'', JNum ''5'')]\<rparr>"

definition new_loop :: "'w \<Rightarrow> 'w loop" where
  "new_loop w = \<lparr>lp_tools = new_toolset_state w, lp_messages = [], lp_plan = None, lp_plan_history = [],
     lp_usage = \<lparr>bu_steps = 0, bu_actions = 0, bu_prompt_tokens = 0, bu_completion_tokens = 0, bu_cost_usd = Fin 0, bu_elapsed_seconds = Fin 0,
       bu_model_calls = 0, bu_judge_calls = 0, bu_verifier_runs = 0, bu_tokens_estimated = False\<rparr>,
     lp_verification = [], lp_failure_fingerprints = [], lp_reasks_used = 0, lp_budget_warnings = [], lp_started = False, lp_final = None, lp_t0 = Fin 0,
     lp_pending_calls = [], lp_log = []\<rparr>"

definition end_of :: "('w loop \<times> run_result res) option \<Rightarrow> end_state option" where
  "end_of x = (case x of Some (_, Inr r) \<Rightarrow> Some (rr_end_state r) | _ \<Rightarrow> None)"

lemma end_of_Some: "end_of x = Some st \<Longrightarrow> \<exists>s r. x = Some (s, Inr r) \<and> rr_end_state r = st"
  by (auto simp: end_of_def split: option.splits prod.splits sum.splits)

lemma sample_ready: "run_ready (sample_loop_env reply) (new_loop w)"
proof -
  have "envelope_ok file_envelope" by code_simp
  then show ?thesis
    by (simp add: run_ready_def sample_loop_env_def new_loop_def run_inv_def steps_within_def actions_within_def toolset_ok_defs new_toolset_state_def new_telemetry_def)
qed

lemma loop_step_ends:
  assumes "snd (guard_before_model_call e s) = Ok ()" "snd (call_model e tools (fst (guard_before_model_call e s))) = Ok resp"
    and "handle_response e tools resp (Suc n) (take_step e resp (fst (call_model e tools (fst (guard_before_model_call e s))))) = (s', Ended r)"
    and "bu_steps (lp_usage (fst (call_model e tools (fst (guard_before_model_call e s))))) = n"
  shows "run_loop e tools s = Some (s', Inr r)"
proof -
  have steps: "bu_steps (lp_usage (take_step e resp t)) = Suc (bu_steps (lp_usage t))" for t :: "'a loop"
    by (simp add: take_step_def update_usage_def add_note_def Let_def)
  have "loop_step e tools s = (s', Ended r)" using assms
    by (cases "guard_before_model_call e s"; cases "call_model e tools (fst (guard_before_model_call e s))")
      (simp add: loop_step_def thenA_def bindA_def modS_def getS_def steps)
  then show ?thesis by (simp add: run_loop.simps)
qed

abbreviation submits :: "string loop_env" where
  "submits \<equiv> sample_loop_env (\<lambda>_. sample_text ''submit'')"

definition sample_started :: "string loop" where
  "sample_started = start_run submits ((new_loop ''a fix'')\<lparr>lp_t0 := Fin 1\<rparr>)"

definition sample_called :: "string loop" where
  "sample_called = fst (call_model submits [] (fst (guard_before_model_call submits sample_started)))"

lemma sample_done: "end_of (run submits (new_loop ''a fix'')) = Some Done"
proof -
  have g: "snd (guard_before_model_call submits sample_started) = Ok ()" by code_simp
  have c: "snd (call_model submits [] (fst (guard_before_model_call submits sample_started))) = Ok (sample_text ''submit'')" by code_simp
  have n: "bu_steps (lp_usage sample_called) = 0" by code_simp
  have "(case handle_response submits [] (sample_text ''submit'') 1 (take_step submits (sample_text ''submit'') sample_called) of
      (_, Ended r) \<Rightarrow> rr_end_state r = Done | _ \<Rightarrow> False)" by code_simp
  then obtain s' r where h: "handle_response submits [] (sample_text ''submit'') (Suc 0) (take_step submits (sample_text ''submit'') sample_called) = (s', Ended r)"
    "rr_end_state r = Done" by (auto split: prod.splits flow.splits)
  have "run_loop submits [] sample_started = Some (s', Inr r)"
    by (rule loop_step_ends [OF g c h(1) [unfolded sample_called_def] n [unfolded sample_called_def]])
  moreover have "run submits (new_loop ''a fix'') = run_loop submits [] sample_started"
    by (simp add: run_def sample_started_def new_loop_def sample_loop_env_def elapsed_since_def loop_tools_def acceptance_criteria_def file_envelope_def List.map_filter_simps)
  ultimately show ?thesis using h(2) by (simp add: end_of_def)
qed

lemma loop_tool_names: "t \<in> set (loop_tools e s) \<Longrightarrow> schema_name t = JStr k \<Longrightarrow>
  k \<in> set (ec_tools (en_capabilities (le_envelope e))) \<or> k = SUBMIT_TOOL \<or> k = PLAN_TOOL \<or> k = BLOCKER_TOOL"
  by (auto simp: loop_tools_def loop_tool_schemas_def tool_schema_def schema_name_def split: if_splits)

lemma not_offered: "k \<notin> set (ec_tools (en_capabilities (le_envelope e))) \<Longrightarrow> k \<notin> {SUBMIT_TOOL, PLAN_TOOL, BLOCKER_TOOL} \<Longrightarrow>
  map_of (schema_by_name (loop_tools e s)) k = None"
  using schema_by_name_from [of "loop_tools e s" k] loop_tool_names [of _ e s k] by blast

lemma refuse_call_tools:
  "\<exists>s'. refuse_call e tc reason st s = (s', Ok ()) \<and> lp_usage s' = lp_usage s \<and> (lp_tools s')\<lparr>ts_telemetry := ts_telemetry (lp_tools s)\<rparr> = lp_tools s"
  by (simp add: refuse_call_def thenA_def bindA_def getS_def modS_def count_telemetry_def on_tools_def tool_reply_def note_that_def add_note_def)

section \<open>Properties\<close>



text \<open>
  C6: A run ends.  With a finite limit on its steps it returns or raises after finitely many turns, whatever
  the model, the tools and the checks do, and a result is exactly one of done with evidence and a
  submission, blocked with a blocker, and stopped with a reason.
\<close>

theorem run_ends:
  assumes "run_ready e s" "rb_max_steps (budget_of e) = Fin q"
  shows "\<exists>s' x. run e s = Some (s', x) \<and> (\<forall>r. x = Inr r \<longrightarrow>
    (rr_end_state r = Done \<longleftrightarrow> rr_evidence r \<noteq> None) \<and> (rr_end_state r = Done \<longleftrightarrow> rr_submission r \<noteq> None) \<and>
    (rr_end_state r = Blocked_run \<longleftrightarrow> rr_blocker r \<noteq> None) \<and> (rr_end_state r = Stopped \<longleftrightarrow> rr_stop r \<noteq> None))"
proof -
  have "\<exists>y. run e s = Some y"
    using assms(1)
  proof (cases rule: run_cases)
    case (2 s1 n tools)
    then show ?thesis using run_loop_ends assms by (metis run_ready_def)
  qed blast
  then obtain s' x where y: "run e s = Some (s', x)" by auto
  have "one_end r" if "x = Inr r" for r using run_result_ok [OF assms(1)] y that by (simp add: result_ok_def)
  then show ?thesis using y unfolding one_end_def by blast
qed

theorem run_ends_witness: "\<exists>s' x. run (sample_loop_env (\<lambda>_. sample_text [])) (new_loop []) = Some (s', x)"
proof -
  have "rb_max_steps (budget_of (sample_loop_env (\<lambda>_. sample_text []))) = Fin 50"
    by (simp add: sample_loop_env_def file_envelope_def sample_run_budget_def)
  from run_ends [OF sample_ready this] show ?thesis by blast
qed





text \<open>
  C12: Only what the envelope offers is executed.  A tool call, after its name is normalised, that names neither a
  tool of the envelope nor one of the loop's own is refused, and before a required plan is recorded
  every call but the plan and the report of a blocker is answered with a request for it; neither
  touches the toolset's world, its submission or the budget.
\<close>

theorem call_outside_envelope_refused:
  "(fst (normalize_tool_name (tc_name tc) (tc_arguments tc)) \<notin> set (ec_tools (en_capabilities (le_envelope e))) \<union> {SUBMIT_TOOL, PLAN_TOOL, BLOCKER_TOOL} \<longrightarrow>
    (\<exists>s'. dispatch_call e (schema_by_name (loop_tools e s0)) st tc s = (s', Ok ()) \<and> lp_usage s' = lp_usage s \<and>
      (lp_tools s')\<lparr>ts_telemetry := ts_telemetry (lp_tools s)\<rparr> = lp_tools s)) \<and>
   (le_plan_required e \<and> lp_plan s = None \<and> name \<notin> {PLAN_TOOL, BLOCKER_TOOL} \<longrightarrow>
    (\<exists>s'. dispatch_one e i name args st s = (s', Ok ()) \<and> lp_tools s' = lp_tools s \<and> lp_usage s' = lp_usage s \<and>
      lp_messages s' = lp_messages s @ [tool_message i PLAN_FIRST]))"
proof (intro conjI impI)
  obtain nm raw where n: "normalize_tool_name (tc_name tc) (tc_arguments tc) = (nm, raw)" by fastforce
  assume "fst (normalize_tool_name (tc_name tc) (tc_arguments tc)) \<notin> set (ec_tools (en_capabilities (le_envelope e))) \<union> {SUBMIT_TOOL, PLAN_TOOL, BLOCKER_TOOL}"
  then have "map_of (schema_by_name (loop_tools e s0)) nm = None" by (intro not_offered) (simp_all add: n)
  then have "dispatch_call e (schema_by_name (loop_tools e s0)) st tc s = refuse_call e tc (''unknown tool '' @ apostrophed nm) st s"
    by (simp add: dispatch_call_def n validate_tool_call_def liftE_def bindA_def)
  then show "\<exists>s'. dispatch_call e (schema_by_name (loop_tools e s0)) st tc s = (s', Ok ()) \<and> lp_usage s' = lp_usage s \<and>
      (lp_tools s')\<lparr>ts_telemetry := ts_telemetry (lp_tools s)\<rparr> = lp_tools s" using refuse_call_tools by metis
next
  assume "le_plan_required e \<and> lp_plan s = None \<and> name \<notin> {PLAN_TOOL, BLOCKER_TOOL}"
  then show "\<exists>s'. dispatch_one e i name args st s = (s', Ok ()) \<and> lp_tools s' = lp_tools s \<and> lp_usage s' = lp_usage s \<and>
      lp_messages s' = lp_messages s @ [tool_message i PLAN_FIRST]"
    by (simp add: dispatch_one_def bindA_def getS_def tool_reply_def modS_def add_note_def)
qed

theorem call_outside_envelope_refused_witness:
  "\<exists>s'. dispatch_one (sample_loop_env (\<lambda>_. sample_text ''submit'')) ''c1'' ''execute_bash'' [(''command'', JStr ''ls'')] 1 (new_loop []) = (s', Ok ()) \<and>
     lp_tools s' = new_toolset_state [] \<and> lp_messages s' = [tool_message ''c1'' PLAN_FIRST]"
  using call_outside_envelope_refused [where e = "sample_loop_env (\<lambda>_. sample_text ''submit'')" and s = "new_loop []" and i = "''c1''" and name = "''execute_bash''"
      and args = "[(''command'', JStr ''ls'')]" and st = 1]
  by (auto simp: sample_loop_env_def new_loop_def PLAN_TOOL_def BLOCKER_TOOL_def)

text \<open>
  A model that gives an integer argument as text with two signs makes the call raise, whatever the state: the
  exception of validation is caught nowhere in the loop, so the run has no end state and its last
  step is not saved.
\<close>

theorem call_raises_on_doubled_sign:
  "dispatch_call e (schema_by_name (tool_schemas ''search-replace'')) st
     \<lparr>tc_id = i, tc_name = ''execute_bash'', tc_arguments = JDict [(''command'', JStr ''ls''), (''timeout'', JStr ''--5'')]\<rparr> s =
   (s, Raised (Exn ValueError ''invalid literal for int()''))"
  by (simp add: dispatch_call_def normalize_tool_name_def EDITOR_SUBCOMMANDS_def TOOL_NAME_ALIASES_def dict_get_def doubled_sign_raises liftE_def bindA_def)

text \<open>
  In the plain-text protocol a fenced command is executed as \<open>execute_bash\<close> although the envelope has no tools.
\<close>

theorem fenced_command_outside_envelope:
  "ec_tools (en_capabilities (le_envelope submits)) = [] \<and>
   tm_bash_calls (ts_telemetry (lp_tools (fst (handle_text submits (replicate 3 (CHR 0x60) @ nl @ ''ls'' @ replicate 3 (CHR 0x60)) 1 (new_loop ''a fix''))))) = 1"
  by code_simp

text \<open>
  A pending call with the id of a call that was answered in an earlier step is not closed: the transcript ends with
  a call that has no reply.
\<close>

theorem reused_call_id_unanswered:
  "lp_messages (close_pending_calls ((new_loop w)\<lparr>lp_messages := [tool_message i ''ok'', JDict [(''role'', JStr ''assistant'')]], lp_pending_calls := [i]\<rparr>)) =
     [tool_message i ''ok'', JDict [(''role'', JStr ''assistant'')]]"
  by (simp add: close_pending_calls_def replied_def tool_message_def Let_def)

end
