(* ===== verification/Spec2Isabelle.thy ===== *)
theory Spec2Isabelle
  imports Assembly_Runner Grants_Sound Loop_State Merge_Guard Graph_Runs Cron Desktop_Tool Loop_Sound
begin

text \<open>
  Verification of the Lattix Locus runtime (\<open>src/locus_runtime\<close>) and of the graph compiler of its backend
  (\<open>src/apps/backend/app\<close>).

  \<^bold>\<open>The program.\<close>  Locus runs language-model agents under control.  An agent's action (a tool call, a
  shell command, a file write, a click) goes to the gateway, the policy enforcement point: it
  authenticates the run, classifies the risk of the action, asks the policy decision point (an OPA
  sidecar on the loopback interface), looks for a human approval or a capability grant (a Biscuit token)
  where the action needs one, and writes an audit record.  Beside it, cognitive assemblies let columns
  (perception, evidence, evaluation, action) vote on a decision and commit it through a gate; and the
  loop runner lets agents work on tickets, where the merge guard decides whether their pull request
  merges without a human.  A coding agent runs in the harness: an envelope states its goal, done criteria,
  tools and budget; the loop asks the model, checks and carries out its tool calls, and ends a run as done
  only after the verify gate has passed every criterion.  The computer-use tools click and type on the
  user's desktop under a panic switch, and workflows drawn as graphs are compiled to LangGraph and
  scheduled by cron expressions.

  \<^bold>\<open>Theories and sources.\<close>

  \<^item> \<open>Prelude\<close>, \<open>Json\<close>, \<open>Py_Regex\<close>, \<open>Py_Url\<close>, \<open>Py_Text\<close>: the parts of Python and its standard library
    the sources use: exceptions as the left of a sum, floats with their non-finite values, string
    methods, insertion-ordered dictionaries as association lists, JSON values and \<open>json.dumps\<close>, regular
    expressions (with a declarative match relation the matcher is proved against), \<open>urlparse\<close> and IP
    literals, reading and printing of numbers.
  \<^item> \<open>Interfaces\<close>: the contracts \<open>write_once_registry\<close> and \<open>bounded_table\<close> as locales.
  \<^item> \<open>Cognition\<close> (\<open>cognition.py\<close>): belief records, columns and capabilities, assembly definitions, the
    registry (interpreted as \<open>write_once_registry\<close>), votes, commitments and the commitment gate.
  \<^item> \<open>Assembly_Runner\<close> (\<open>assembly_runner.py\<close>): the runtime gate of a step and the run of an assembly, in
    a state-and-exception monad, as the code threads its run state.
  \<^item> \<open>Policy_Engine\<close> (\<open>policy_engine.py\<close>): bundle hashes, the sidecar's configuration, start and stop, and
    decisions; it provides the locale \<open>policy_decision_point\<close>.
  \<^item> \<open>Redaction\<close> (\<open>persistence.py\<close>, \<open>gateway.py\<close>): redaction of payloads and texts, argument summaries.
  \<^item> \<open>Gateway_Risk\<close>, \<open>Gateway\<close> (\<open>gateway.py\<close>): risk classes; sessions, approvals, budgets, seals and
    \<open>authorize\<close> with its six steps.  \<open>Gateway_Decisions\<close> holds their correctness: clients of a policy
    decision point and of a grant provider are verified in the locales, once for every provider.
  \<^item> \<open>Grant_Keys\<close>, \<open>Grants\<close>, \<open>Grants_Sound\<close> (\<open>grants.py\<close>): key decoding, patterns, records, the store, minting,
    attenuation, revocation, the verifier; interpreted as a \<open>grant_provider\<close> of the gateway.
  \<^item> \<open>Merge_Guard\<close> (\<open>loop_runner/merge_guard.py\<close>) and \<open>Loop_State\<close> (\<open>loop_runner/state.py\<close>): the merge decision;
    configuration, lock, ledger and history of the loop.  The lock is modelled twice: as the function
    \<open>acquire\<close>, and as interleaved file operations of several processes.
  \<^item> \<open>Json_Parse\<close>: \<open>json.loads\<close>, a scanner with fuel and its correctness against the printer.
  \<^item> \<open>Run_Envelope\<close> (\<open>harness/run_envelope.py\<close>): done criteria, budgets, capabilities, envelopes and their
    dictionaries, the checks found in a repository and the criteria found in a task, the builder.
  \<^item> \<open>Verification\<close> (\<open>harness/verification.py\<close>): command and file checks, the acceptance judge, reports.
  \<^item> \<open>Coding_Tools\<close> (\<open>harness/tools.py\<close>, \<open>workspace.py\<close>): the shell, search, test, editor and submit tools with
    the telemetry they keep.  An operation is a function from the toolset's state to a state and a value
    or an exception; a Hoare triple with a condition for each ending (\<open>hoareA\<close>) carries the proofs.
  \<^item> \<open>Enforcement\<close> (\<open>harness/enforcement.py\<close>, parts of \<open>loop.py\<close>, \<open>tools.py\<close>): schemas and validation of tool calls.
  \<^item> \<open>Verified_Loop\<close> (\<open>harness/verified_loop.py\<close>): the run of a coding agent, from the plan to its end state.
    \<open>Loop_Sound\<close> holds its correctness: the locale \<open>kept_state\<close> lifts a condition kept by one turn to the run.
  \<^item> \<open>Graph_Compiler\<close>, \<open>Graph_Runs\<close> (\<open>apps/backend/app/graph_compiler.py\<close>): channels and reducers, compilation,
    routing, the loop guard; the walks of a compiled graph.
  \<^item> \<open>Cron\<close> (\<open>apps/backend/app/cron.py\<close>): cron expressions and the moments they match.
  \<^item> \<open>Panic_Control\<close> (\<open>computer_use/controller.py\<close>): modes, tokens and the panic latch, as a step relation over
    interleaved threads.  \<open>Desktop_Tool\<close> (\<open>computer_use/desktop.py\<close>, \<open>common.py\<close>): observing, clicking, typing.
  \<^item> This theory composes them: the gateway with the Biscuit verifier and with the OPA sidecar.

  \<^bold>\<open>What is shown.\<close>  An allow of the gateway implies authentication, a policy that allowed, an audit
  record that was accepted, and a human or a covering grant where one is needed; a policy decision
  allows in exactly one case and every failure denies; a grant found is live and covers the action, and
  revocation is permanent; the gateway's tables stay bounded and well formed in every reachable state;
  approvals are used once; secrets do not flow through redaction; a ready commitment went through its
  gate and a run through its trail; the merge guard merges exactly under its rules and never a baseline
  path; the lock excludes until its time to live has passed and then recovers; round trips of keys,
  records, envelopes and URLs.  A run of the harness ends, in exactly one of three states, within its
  budget, and one that ends as done had every criterion verified; calls outside the envelope are
  refused; edits are exact and stay within what the executor allows.  A click or key reaches the desktop
  only in takeover mode, with an allow of the gateway and an uncancelled token, and a panic cancels every
  action in flight.  The compiler's cycle flag is exact, and the loop guard bounds every path.  Theorems without a claim number state further behaviour, among it the deviations
  found: a blank veto, an assembly committing without context, an approval reaching an R4 action through
  the intent gate, approved tool calls that are not counted, a posture probe that raises, irreversible
  commands that are missed, a renamed Makefile, a hidden skip marker, a race of the lock, links and
  outputs of a graph that are lost, a Sunday that is rejected, a budget below one, a criterion without a
  text, replies and arguments that raise out of a run, an ambiguous match that is edited, a null that
  is written as text, a fenced command outside the envelope, and a call left without a reply.

  \<^bold>\<open>Parameters and hypotheses.\<close>  Code outside the repository is an argument of the definitions that use
  it: the HTTP transport and processes of OPA, SHA-256 and HMAC, Ed25519, the Biscuit library, Unicode
  normalization, the TOML parser, the clock, the audit writer, LangGraph with the executors of its nodes,
  the platform's input backend, the model and the judge, the file system behind a repository reader, and
  the processes behind an executor (the record \<open>executor\<close>).  The hypotheses on them are named:
  \<open>biscuit_laws\<close> (authorization needs every check of every block, an appended block keeps the earlier
  ones, revocation identifiers) and injectivity of the hash where an identity rests on it; each is
  shown satisfiable on a concrete instance.

  \<^bold>\<open>Totality.\<close>  Loops are structural recursion or carry a termination measure.  The JSON scanner takes
  fuel, twice the length of the text and two, proved enough.  The loop of a run is a
  \<open>partial_function\<close> to an option, since a budget may be infinite; with a finite step limit it is proved to return.  The regular-expression matcher unrolls an iteration at most as often as there
  are characters left, which loses no match (\<open>Py_Regex\<close>).

  \<^bold>\<open>Bounds of the model.\<close>  A character is a code point below 256, so Unicode beyond Latin-1 is outside;
  floats are rationals with infinities and NaN, so rounding is outside; locks of a single process are the
  atomicity of one operation; object identity appears only where a claim rests on it (the lock file).

  \<^bold>\<open>Not modelled.\<close>  The FastAPI application and its services (\<open>apps/backend\<close> except the graph compiler and
  cron), the model clients, skills, the installer, front ends and benchmark drivers: HTTP, database and
  operating-system glue.  In the harness, the processes and containers of the executors, agent teams,
  the older loop of \<open>loop.py\<close>, trajectories, and the reading of a checkpoint file (a resumed state is an
  argument).  The browser and platform backends of computer use, cognitive messages and events, the
  causal state of \<open>persistence.py\<close>, and the modules of the loop runner that drive git and the tracker.
\<close>

section \<open>Sample values\<close>

definition granting_env :: gateway_env where
  "granting_env = sample_env\<lparr>ge_grants := biscuit_grants (sample_verifier sample_store)\<rparr>"

definition sample_sidecar :: "string \<Rightarrow> string \<Rightarrow> opa_reply" where
  "sample_sidecar url body = OpaResponse 200 (Some (JDict [(''result'', JDict [(''allow'', JBool True)])]))"

definition sample_opa :: opa_engine where
  "sample_opa = sample_engine\<lparr>oe_external := True, oe_base_url := Some ''http://127.0.0.1:8181''\<rparr>"

definition opa_env :: gateway_env where
  "opa_env = sample_env\<lparr>ge_engine := (\<lambda>p i. Inr (decide (\<lambda>_. True) sample_sidecar sample_opa p i))\<rparr>"

section \<open>Properties of the composed system\<close>

text \<open>
  C3: The gateway with the Biscuit verifier: if an action that needs a human is allowed without an
  approval having been taken, then it is not tainted, it is below R4, and a live grant of the
  principal covers it.
\<close>

theorem grant_allows_only_covered:
  assumes laws: "biscuit_laws (vf_lib v) content"
    and store: "(store_step (vf_lib v) au pr)\<^sup>*\<^sup>* empty_store (vf_store v)"
    and env: "ge_grants env = biscuit_grants v"
    and run: "authorize env audit_id action g = (g', d)" "gd_outcome d = Allow"
    and r: "authenticate env (ga_caller action) g = Some r"
      "needs_ask (se_capabilities r) (raise_risk env (se_capabilities r) action)"
    and human: "\<not> approved env action g g'"
  shows "\<not> is_tainted action \<and> ga_risk (raise_risk env (se_capabilities r) action) < R4 \<and>
    (\<exists>grant. live_grant v action grant)"
  using biscuit.allow_by_grant [OF env run r human] laws store_steps_ok [OF laws store] by auto

theorem grant_allows_only_covered_witness:
  "\<exists>grant. live_grant (sample_verifier sample_store) sample_write grant"
proof -
  let ?g = "sample_gateway ''x''"
  let ?r = "\<lparr>se_caller = sample_caller, se_capabilities = default_capabilities\<lparr>cap_budget := Some (sample_budget 7)\<rparr>,
      se_listener = True, se_tool_calls_used = 0\<rparr>"
  have v: "vf_lib (sample_verifier sample_store) = sample_biscuit" "vf_store (sample_verifier sample_store) = sample_store"
    by (simp_all add: sample_verifier_def)
  have e: "ge_grants granting_env = biscuit_grants (sample_verifier sample_store)" by (simp add: granting_env_def)
  have a: "gd_outcome (snd (authorize granting_env ''a1'' sample_write ?g)) = Allow" by code_simp
  have r: "authenticate granting_env (ga_caller sample_write) ?g = Some ?r" by code_simp
  have n: "needs_ask (se_capabilities ?r) (raise_risk granting_env (se_capabilities ?r) sample_write)" by code_simp
  have h: "\<not> approved granting_env sample_write ?g (fst (authorize granting_env ''a1'' sample_write ?g))" by code_simp
  from grant_allows_only_covered [OF _ _ e prod.collapse [symmetric] a r n h, of sample_content sample_authority sample_printing]
  show ?thesis using sample_laws sample_reach unfolding v by blast
qed

text \<open>
  C4: The gateway with the OPA sidecar: an action is allowed only if its caller has a session and,
  for every policy of the plan made for it, the running sidecar answered status 200 with
  \<open>result.allow\<close> equal to \<open>true\<close> for exactly the planned input.
\<close>

theorem opa_allow_end_to_end:
  assumes "ge_engine env = (\<lambda>p i. Inr (decide alive transport e p i))"
    and "authorize env audit_id action g = (g', d)" and "gd_outcome d = Allow"
  shows "\<exists>r. authenticate env (ga_caller action) g = Some r \<and>
    (\<forall>(policy, inp) \<in> set (policy_inputs env (raise_risk env (se_capabilities r) action) (se_capabilities r)
       (calls_used r action)). sidecar_permits alive transport e policy inp)"
  using assms by (rule opa.allow_plan_permitted)

theorem opa_allow_end_to_end_witness:
  "\<exists>r. authenticate opa_env sample_caller (sample_gateway ''x'') = Some r \<and>
     sidecar_permits (\<lambda>_. True) sample_sidecar sample_opa ''agent_policy'' (JDict (agent_policy_input opa_env
       (raise_risk opa_env (se_capabilities r) (sample_action ''search'' R1)) (se_capabilities r)
       (calls_used r (sample_action ''search'' R1))))"
proof -
  have e: "ge_engine opa_env = (\<lambda>p i. Inr (decide (\<lambda>_. True) sample_sidecar sample_opa p i))" by (simp add: opa_env_def)
  have a: "gd_outcome (snd (authorize opa_env ''a1'' (sample_action ''search'' R1) (sample_gateway ''x''))) = Allow"
    by code_simp
  have c: "ga_caller (sample_action ''search'' R1) = sample_caller" by (simp add: sample_action_def)
  have mem: "(''agent_policy'', JDict (agent_policy_input env act caps n)) \<in> set (policy_inputs env act caps n)"
    for env act caps n by (simp add: policy_inputs_def Let_def)
  from opa_allow_end_to_end [OF e prod.collapse [symmetric] a] mem show ?thesis unfolding c by blast
qed

end
